(* ===== verification/Prelude.thy ===== *)
theory Prelude
  imports Complex_Main
    "HOL-Library.AList"
    "HOL-Library.Multiset"
    "HOL-Library.Product_Lexorder"
    "HOL-Library.List_Lexorder"
    "HOL-Library.Char_ord"
    "HOL-Library.Sublist"
begin

text \<open>
  Shared base of the development.  It holds
  \<^item> the monad of effectful Python code: a computation takes the state of the world and gives
    either no result (\<open>None\<close>: the call does not return), a raised exception (\<open>Inl\<close>) or a value
    (\<open>Inr\<close>), with the new world;
  \<^item> a weakest-precondition calculus for it, total: \<open>wp m Q E w\<close> says that \<open>m\<close> returns from \<open>w\<close>,
    with \<open>Q\<close> for a value and \<open>E\<close> for an exception;
  \<^item> the world: a monotonic clock, the log of the effects, and the state of the outside services;
  \<^item> the polling loop \<open>while now() < deadline: body; sleep(p)\<close>, which occurs in most components,
    with the locale of the clocks it stops on;
  \<^item> Python's insertion-ordered dictionaries as association lists, with their locale;
  \<^item> stable sorting by a key, with its locale.
\<close>

named_theorems wp_simps \<open>equations of the weakest precondition\<close>
named_theorems wp_intros \<open>rules for loops and library operations\<close>
named_theorems dict_simps \<open>laws of insertion-ordered dictionaries\<close>

section \<open>Computations\<close>

type_synonym ('w, 'e, 'a) io = "'w \<Rightarrow> (('e + 'a) \<times> 'w) option"

definition ret :: "'a \<Rightarrow> ('w, 'e, 'a) io" where
  "ret a w = Some (Inr a, w)"

definition raise_exn :: "'e \<Rightarrow> ('w, 'e, 'a) io" where
  "raise_exn e w = Some (Inl e, w)"

definition bind :: "('w, 'e, 'a) io \<Rightarrow> ('a \<Rightarrow> ('w, 'e, 'b) io) \<Rightarrow> ('w, 'e, 'b) io" where
  "bind m f w =
     (case m w of
        None \<Rightarrow> None
      | Some (Inl e, w1) \<Rightarrow> Some (Inl e, w1)
      | Some (Inr a, w1) \<Rightarrow> f a w1)"

definition andthen :: "('w, 'e, 'a) io \<Rightarrow> ('w, 'e, 'b) io \<Rightarrow> ('w, 'e, 'b) io" where
  "andthen m n = bind m (\<lambda>_. n)"

definition try_except ::
  "('w, 'e, 'a) io \<Rightarrow> ('e \<Rightarrow> ('w, 'f, 'a) io) \<Rightarrow> ('w, 'f, 'a) io" where
  "try_except m h w =
     (case m w of
        None \<Rightarrow> None
      | Some (Inl e, w1) \<Rightarrow> h e w1
      | Some (Inr a, w1) \<Rightarrow> Some (Inr a, w1))"

text \<open>\<open>try: m finally: n\<close>: \<open>n\<close> runs on both paths; an exception of \<open>n\<close> replaces the result.\<close>

definition try_finally ::
  "('w, 'e, 'a) io \<Rightarrow> ('w, 'e, unit) io \<Rightarrow> ('w, 'e, 'a) io" where
  "try_finally m n w =
     (case m w of
        None \<Rightarrow> None
      | Some (r, w1) \<Rightarrow>
          (case n w1 of
             None \<Rightarrow> None
           | Some (Inl e, w2) \<Rightarrow> Some (Inl e, w2)
           | Some (Inr _, w2) \<Rightarrow> Some (r, w2)))"

text \<open>\<open>for x in xs: f(x)\<close>, collecting the results.\<close>

fun map_io :: "('a \<Rightarrow> ('w, 'e, 'b) io) \<Rightarrow> 'a list \<Rightarrow> ('w, 'e, 'b list) io" where
  "map_io f [] = ret []"
| "map_io f (x # xs) = bind (f x) (\<lambda>y. bind (map_io f xs) (\<lambda>ys. ret (y # ys)))"

text \<open>\<open>for x in xs: s = f(x, s)\<close>: a loop that threads a local state.\<close>

fun fold_io :: "('a \<Rightarrow> 's \<Rightarrow> ('w, 'e, 's) io) \<Rightarrow> 'a list \<Rightarrow> 's \<Rightarrow> ('w, 'e, 's) io" where
  "fold_io f [] s = ret s"
| "fold_io f (x # xs) s = bind (f x s) (\<lambda>s1. fold_io f xs s1)"

definition lift_sum :: "'e + 'a \<Rightarrow> ('w, 'e, 'a) io" where
  "lift_sum r w = Some (r, w)"

lemma bind_ret [simp]: "bind (ret a) f = f a"
  by (rule ext) (simp add: bind_def ret_def)

lemma bind_raise [simp]: "bind (raise_exn e) f = raise_exn e"
  by (rule ext) (simp add: bind_def raise_exn_def)

lemma ret_bind [simp]: "bind m ret = m"
  by (rule ext) (simp add: bind_def ret_def split: option.split sum.split)

lemma bind_assoc: "bind (bind m f) g = bind m (\<lambda>a. bind (f a) g)"
  by (rule ext) (simp add: bind_def split: option.split sum.split)

lemma try_except_ret [simp]: "try_except (ret a) h = ret a"
  by (rule ext) (simp add: try_except_def ret_def)

lemma try_except_raise [simp]: "try_except (raise_exn e) h = h e"
  by (rule ext) (simp add: try_except_def raise_exn_def)

lemmas io_defs = ret_def raise_exn_def bind_def andthen_def try_except_def try_finally_def
  lift_sum_def

subsection \<open>Total weakest preconditions\<close>

definition wp ::
  "('w, 'e, 'a) io \<Rightarrow> ('a \<Rightarrow> 'w \<Rightarrow> bool) \<Rightarrow> ('e \<Rightarrow> 'w \<Rightarrow> bool) \<Rightarrow> 'w \<Rightarrow> bool" where
  "wp m Q E w =
     (case m w of
        None \<Rightarrow> False
      | Some (Inl e, w1) \<Rightarrow> E e w1
      | Some (Inr a, w1) \<Rightarrow> Q a w1)"

lemma wp_ret [wp_simps]: "wp (ret a) Q E = Q a"
  by (rule ext) (simp add: wp_def ret_def)

lemma wp_raise [wp_simps]: "wp (raise_exn e) Q E = E e"
  by (rule ext) (simp add: wp_def raise_exn_def)

lemma wp_lift_sum [wp_simps]: "wp (lift_sum r) Q E w = (case r of Inl e \<Rightarrow> E e w | Inr a \<Rightarrow> Q a w)"
  by (simp add: wp_def lift_sum_def split: sum.split)

lemma wp_bind [wp_simps]: "wp (bind m f) Q E w = wp m (\<lambda>a. wp (f a) Q E) E w"
  by (simp add: wp_def bind_def split: option.split sum.split)

lemma wp_andthen [wp_simps]: "wp (andthen m n) Q E w = wp m (\<lambda>_. wp n Q E) E w"
  by (simp add: andthen_def wp_bind)

lemma wp_try_except [wp_simps]:
  "wp (try_except m h) Q E w = wp m Q (\<lambda>e. wp (h e) Q E) w"
  by (simp add: wp_def try_except_def split: option.split sum.split)

lemma wp_try_finally [wp_simps]:
  "wp (try_finally m n) Q E w =
     wp m (\<lambda>a. wp n (\<lambda>_. Q a) E) (\<lambda>e. wp n (\<lambda>_. E e) E) w"
  by (simp add: wp_def try_finally_def split: option.split sum.split)

lemma wp_mono:
  assumes "wp m Q E w"
    and "\<And>a w'. Q a w' \<Longrightarrow> Q' a w'" and "\<And>e w'. E e w' \<Longrightarrow> E' e w'"
  shows "wp m Q' E' w"
  using assms by (auto simp: wp_def split: option.splits sum.splits)

lemma wp_conj:
  assumes "wp m Q E w" and "wp m Q' E' w"
  shows "wp m (\<lambda>a w'. Q a w' \<and> Q' a w') (\<lambda>e w'. E e w' \<and> E' e w') w"
  using assms by (auto simp: wp_def split: option.splits sum.splits)

lemma wpI_value: "m w = Some (Inr a, w1) \<Longrightarrow> Q a w1 \<Longrightarrow> wp m Q E w"
  by (simp add: wp_def)

lemma wpD_value: "wp m Q E w \<Longrightarrow> m w = Some (Inr a, w1) \<Longrightarrow> Q a w1"
  by (simp add: wp_def)

lemma wpD_error: "wp m Q E w \<Longrightarrow> m w = Some (Inl e, w1) \<Longrightarrow> E e w1"
  by (simp add: wp_def)

lemma wp_returns: "wp m Q E w \<Longrightarrow> \<exists>r w1. m w = Some (r, w1)"
  by (auto simp: wp_def split: option.splits)

lemma wp_result:
  "wp m (\<lambda>a. R (Inr a)) (\<lambda>e. R (Inl e)) w \<Longrightarrow> \<exists>r w1. m w = Some (r, w1) \<and> R r w1"
  by (cases "m w"; cases "fst (the (m w))") (auto simp: wp_def)

lemma wp_fold_io:
  assumes "I [] xs s w"
    and "\<And>done x rest s w. xs = done @ x # rest \<Longrightarrow> I done (x # rest) s w
           \<Longrightarrow> wp (f x s) (I (done @ [x]) rest) E w"
  shows "wp (fold_io f xs s) (I xs []) E w"
proof -
  have "wp (fold_io f rest s) (I xs []) E w" if "xs = done @ rest" and "I done rest s w"
    for "done" rest s w
    using that
  proof (induction rest arbitrary: "done" s w)
    case Nil
    then show ?case by (simp add: wp_simps)
  next
    case (Cons x rest)
    have "wp (f x s) (I (done @ [x]) rest) E w"
      using Cons.prems by (rule assms(2))
    then show ?case
      unfolding fold_io.simps wp_bind Cons.prems(1)
    proof (rule wp_mono)
      fix a w' assume "I (done @ [x]) rest a w'"
      then show "wp (fold_io f rest a) (I (done @ x # rest) []) E w'"
        using Cons.IH [of "done @ [x]" a w'] Cons.prems(1) by simp
    qed
  qed
  from this [of "[]" xs s w] assms(1) show ?thesis by simp
qed

lemma wp_fold_io_inv:
  assumes "I s w" and "\<And>x s w. x \<in> set xs \<Longrightarrow> I s w \<Longrightarrow> wp (f x s) I E w"
  shows "wp (fold_io f xs s) I E w"
  by (rule wp_fold_io [where I = "\<lambda>_ _. I" and xs = xs]) (auto intro: assms)

lemma wp_map_io_inv:
  assumes "I w" and "\<And>x w. x \<in> set xs \<Longrightarrow> I w \<Longrightarrow> wp (f x) (\<lambda>_. I) E w"
  shows "wp (map_io f xs) (\<lambda>_. I) E w"
  using assms
proof (induction xs arbitrary: w)
  case Nil
  then show ?case by (simp add: wp_simps)
next
  case (Cons x xs)
  from Cons.prems have "wp (f x) (\<lambda>_. I) E w" by simp
  moreover have "wp (map_io f xs) (\<lambda>_. I) E w'" if "I w'" for w'
    using that Cons.prems(2) by (intro Cons.IH) simp_all
  ultimately show ?case
    unfolding map_io.simps wp_bind wp_ret
    by (elim wp_mono) simp_all
qed

subsection \<open>Relations kept by every computation\<close>

text \<open>
  \<open>steps R P m\<close>: the computation \<open>m\<close> always returns, its end is \<open>R\<close>-related to its start, and what it
  raises satisfies \<open>P\<close>.  For a reflexive and transitive \<open>R\<close> the rules below follow the structure of
  the program.
\<close>

named_theorems steps_intros \<open>structural rules for relations kept by a computation\<close>

definition steps :: "('w \<Rightarrow> 'w \<Rightarrow> bool) \<Rightarrow> ('e \<Rightarrow> bool) \<Rightarrow> ('w, 'e, 'a) io \<Rightarrow> bool" where
  "steps R P m \<longleftrightarrow> (\<forall>w. wp m (\<lambda>_. R w) (\<lambda>e w1. P e \<and> R w w1) w)"

definition preorder_rel :: "('w \<Rightarrow> 'w \<Rightarrow> bool) \<Rightarrow> bool" where
  "preorder_rel R \<longleftrightarrow> (\<forall>w. R w w) \<and> (\<forall>x y z. R x y \<longrightarrow> R y z \<longrightarrow> R x z)"

lemma steps_returns:
  assumes "steps R P m"
  shows "\<exists>r w1. m w = Some (r, w1) \<and> R w w1 \<and> (\<forall>e. r = Inl e \<longrightarrow> P e)"
proof -
  have "wp m (\<lambda>_. R w) (\<lambda>e w1. P e \<and> R w w1) w" using assms by (simp add: steps_def)
  moreover from wp_returns [OF this] obtain r w1 where "m w = Some (r, w1)" by auto
  ultimately show ?thesis by (cases r) (simp_all add: wp_def)
qed

lemma steps_weaken: "steps R P m \<Longrightarrow> (\<And>e. P e \<Longrightarrow> P' e) \<Longrightarrow> steps R P' m"
  unfolding steps_def by (blast intro: wp_mono)

lemma steps_ret [steps_intros]: "preorder_rel R \<Longrightarrow> steps R P (ret a)"
  by (simp add: steps_def wp_simps preorder_rel_def)

lemma steps_raise [steps_intros]: "preorder_rel R \<Longrightarrow> P e \<Longrightarrow> steps R P (raise_exn e)"
  by (simp add: steps_def wp_simps preorder_rel_def)

lemma steps_lift_sum [steps_intros]:
  "preorder_rel R \<Longrightarrow> (\<And>e. r = Inl e \<Longrightarrow> P e) \<Longrightarrow> steps R P (lift_sum r)"
  by (simp add: steps_def wp_simps preorder_rel_def split: sum.split)

lemma steps_from:
  assumes "preorder_rel R" and "steps R P m" and "R w0 w"
  shows "wp m (\<lambda>_. R w0) (\<lambda>e w1. P e \<and> R w0 w1) w"
proof (rule wp_mono)
  show "wp m (\<lambda>_. R w) (\<lambda>e w1. P e \<and> R w w1) w" using assms(2) by (simp add: steps_def)
qed (use assms(1,3) in \<open>auto simp: preorder_rel_def\<close>)

lemma steps_bind [steps_intros]:
  assumes "preorder_rel R" and "steps R P m" and "\<And>a. steps R P (f a)"
  shows "steps R P (bind m f)"
  unfolding steps_def wp_bind
proof
  fix w
  have "wp m (\<lambda>_. R w) (\<lambda>e w1. P e \<and> R w w1) w" using assms(2) by (simp add: steps_def)
  then show "wp m (\<lambda>a. wp (f a) (\<lambda>_. R w) (\<lambda>e w1. P e \<and> R w w1)) (\<lambda>e w1. P e \<and> R w w1) w"
    by (rule wp_mono) (use steps_from [OF assms(1,3)] in auto)
qed

lemma steps_andthen [steps_intros]:
  "preorder_rel R \<Longrightarrow> steps R P m \<Longrightarrow> steps R P n \<Longrightarrow> steps R P (andthen m n)"
  unfolding andthen_def by (rule steps_bind)

lemma steps_try_except_kinds:
  assumes "preorder_rel R" and "steps R P' m" and "\<And>e. P' e \<Longrightarrow> steps R P (h e)"
  shows "steps R P (try_except m h)"
  unfolding steps_def wp_try_except
proof
  fix w
  have "wp m (\<lambda>_. R w) (\<lambda>e w1. P' e \<and> R w w1) w" using assms(2) by (simp add: steps_def)
  then show "wp m (\<lambda>_. R w)
      (\<lambda>e. wp (h e) (\<lambda>_. R w) (\<lambda>e w1. P e \<and> R w w1)) w"
    by (rule wp_mono) (use steps_from [OF assms(1,3)] in auto)
qed

lemma steps_try_except [steps_intros]:
  "preorder_rel R \<Longrightarrow> steps R (\<lambda>_. True) m \<Longrightarrow> (\<And>e. steps R P (h e))
     \<Longrightarrow> steps R P (try_except m h)"
  by (rule steps_try_except_kinds)

lemma steps_try_finally [steps_intros]:
  assumes "preorder_rel R" and "steps R P m" and "steps R P n"
  shows "steps R P (try_finally m n)"
  unfolding steps_def wp_try_finally
proof
  fix w
  have "wp m (\<lambda>_. R w) (\<lambda>e w1. P e \<and> R w w1) w" using assms(2) by (simp add: steps_def)
  then show "wp m (\<lambda>a. wp n (\<lambda>_. R w) (\<lambda>e w1. P e \<and> R w w1))
      (\<lambda>e. wp n (\<lambda>_ w1. P e \<and> R w w1) (\<lambda>e w1. P e \<and> R w w1)) w"
  proof (rule wp_mono)
    fix e w' assume e: "P e \<and> R w w'"
    with steps_from [OF assms(1,3)]
    have "wp n (\<lambda>_. R w) (\<lambda>e w1. P e \<and> R w w1) w'" by auto
    then show "wp n (\<lambda>_ w1. P e \<and> R w w1) (\<lambda>e w1. P e \<and> R w w1) w'"
      by (rule wp_mono) (use e in auto)
  qed (use steps_from [OF assms(1,3)] in auto)
qed

lemma steps_map_io [steps_intros]:
  "preorder_rel R \<Longrightarrow> (\<And>x. steps R P (f x)) \<Longrightarrow> steps R P (map_io f xs)"
  by (induction xs) (auto intro!: steps_intros)

lemma steps_fold_io [steps_intros]:
  "preorder_rel R \<Longrightarrow> (\<And>x s. steps R P (f x s)) \<Longrightarrow> steps R P (fold_io f xs s)"
  by (induction xs arbitrary: s) (auto intro!: steps_intros)

lemma steps_if [steps_intros]: "(b \<Longrightarrow> steps R P m) \<Longrightarrow> (\<not> b \<Longrightarrow> steps R P n) \<Longrightarrow> steps R P (if b then m else n)"
  by simp

lemma steps_case_option [steps_intros]:
  "steps R P m \<Longrightarrow> (\<And>x. steps R P (f x)) \<Longrightarrow> steps R P (case x of None \<Rightarrow> m | Some x \<Rightarrow> f x)"
  by (simp split: option.split)

lemma steps_case_sum [steps_intros]:
  "(\<And>a. steps R P (f a)) \<Longrightarrow> (\<And>b. steps R P (g b)) \<Longrightarrow> steps R P (case x of Inl a \<Rightarrow> f a | Inr b \<Rightarrow> g b)"
  by (simp split: sum.split)

lemma steps_case_prod [steps_intros]:
  "(\<And>a b. steps R P (f a b)) \<Longrightarrow> steps R P (case x of (a, b) \<Rightarrow> f a b)"
  by (simp split: prod.split)

lemma steps_case_list [steps_intros]:
  "steps R P m \<Longrightarrow> (\<And>y ys. steps R P (f y ys)) \<Longrightarrow> steps R P (case x of [] \<Rightarrow> m | y # ys \<Rightarrow> f y ys)"
  by (simp split: list.split)

lemma steps_Let [steps_intros]: "(\<And>x. steps R P (f x)) \<Longrightarrow> steps R P (Let a f)"
  by simp

section \<open>The world\<close>

text \<open>
  \<open>clock\<close> is what \<^verbatim>\<open>time.monotonic()\<close> (or \<^verbatim>\<open>time.time()\<close>) reads, \<open>trace\<close> lists the effects so far,
  oldest first, and \<open>ext\<close> is the state of everything outside the program.  A call to the outside
  is a function of \<open>ext\<close> that gives its answer, the time it took and the new outside state; the
  clock never goes back, whatever the call reports.
\<close>

record ('v, 'x) world =
  clock :: real
  trace :: "'v list"
  ext :: 'x

type_synonym ('x, 'a) outside = "'x \<Rightarrow> 'a \<times> real \<times> 'x"

definition emit :: "'v \<Rightarrow> (('v, 'x) world, 'e, unit) io" where
  "emit e w = Some (Inr (), w\<lparr>trace := trace w @ [e]\<rparr>)"

definition now :: "(('v, 'x) world, 'e, real) io" where
  "now w = Some (Inr (clock w), w)"

definition outside_call :: "'v \<Rightarrow> ('x, 'e + 'a) outside \<Rightarrow> (('v, 'x) world, 'e, 'a) io" where
  "outside_call e f w =
     (case f (ext w) of
        (r, dt, x) \<Rightarrow>
          Some (r, w\<lparr>clock := clock w + max 0 dt, trace := trace w @ [e], ext := x\<rparr>))"

text \<open>\<^verbatim>\<open>time.sleep(p)\<close>: raises for a negative length.\<close>

definition py_sleep :: "'v \<Rightarrow> 'e \<Rightarrow> real \<Rightarrow> (('v, 'x) world, 'e, unit) io" where
  "py_sleep ev err p w =
     (if p < 0 then Some (Inl err, w)
      else Some (Inr (), w\<lparr>clock := clock w + p, trace := trace w @ [ev]\<rparr>))"

lemma wp_emit [wp_simps]: "wp (emit e) Q E w = Q () (w\<lparr>trace := trace w @ [e]\<rparr>)"
  by (simp add: wp_def emit_def)

lemma wp_now [wp_simps]: "wp now Q E w = Q (clock w) w"
  by (simp add: wp_def now_def)

lemma wp_outside_call [wp_simps]:
  "wp (outside_call e f) Q E w =
     (case f (ext w) of
        (r, dt, x) \<Rightarrow>
          (let w1 = w\<lparr>clock := clock w + max 0 dt, trace := trace w @ [e], ext := x\<rparr>
           in (case r of Inl err \<Rightarrow> E err w1 | Inr a \<Rightarrow> Q a w1)))"
  by (simp add: wp_def outside_call_def Let_def split: prod.split sum.split)

lemma wp_py_sleep [wp_simps]:
  "wp (py_sleep ev err p) Q E w =
     (if p < 0 then E err w else Q () (w\<lparr>clock := clock w + p, trace := trace w @ [ev]\<rparr>))"
  by (simp add: wp_def py_sleep_def)

text \<open>
  \<open>logs A w w'\<close>: time has not gone back, and the trace of \<open>w'\<close> extends that of \<open>w\<close> by events of \<open>A\<close>.
\<close>

definition logs :: "'v set \<Rightarrow> ('v, 'x) world \<Rightarrow> ('v, 'x) world \<Rightarrow> bool" where
  "logs A w w' \<longleftrightarrow> clock w \<le> clock w' \<and> (\<exists>t. trace w' = trace w @ t \<and> set t \<subseteq> A)"

lemma logs_refl [simp]: "logs A w w"
  by (simp add: logs_def)

lemma logs_trans: "logs A w1 w2 \<Longrightarrow> logs A w2 w3 \<Longrightarrow> logs A w1 w3"
  by (auto simp: logs_def)

lemma logs_mono: "logs A w w' \<Longrightarrow> A \<subseteq> B \<Longrightarrow> logs B w w'"
  by (auto simp: logs_def)

lemma logs_clock: "logs A w w' \<Longrightarrow> clock w \<le> clock w'"
  by (simp add: logs_def)

lemma preorder_logs [steps_intros]: "preorder_rel (logs A)"
  unfolding preorder_rel_def by (blast intro: logs_refl logs_trans)

lemma steps_logs_mono: "steps (logs A) P m \<Longrightarrow> A \<subseteq> B \<Longrightarrow> steps (logs B) P m"
  unfolding steps_def by (blast intro: wp_mono logs_mono)

lemma steps_emit [steps_intros]: "e \<in> A \<Longrightarrow> steps (logs A) P (emit e)"
  by (simp add: steps_def wp_simps logs_def)

lemma steps_now [steps_intros]: "steps (logs A) P now"
  by (simp add: steps_def wp_simps)

lemma steps_outside_call [steps_intros]:
  fixes f :: "('x, 'b + 'a) outside" and e :: 'v
  assumes "e \<in> A" and "\<And>x err. fst (f x) = Inl err \<Longrightarrow> P err"
  shows "steps (logs A) P (outside_call e f)"
  unfolding steps_def
proof
  fix w :: "('v, 'x) world"
  obtain r dt x where f: "f (ext w) = (r, dt, x)" by (cases "f (ext w)")
  show "wp (outside_call e f) (\<lambda>_. logs A w) (\<lambda>e w1. P e \<and> logs A w w1) w"
    using assms(1) assms(2) [of "ext w"] by (simp add: wp_outside_call f logs_def split: sum.split)
qed

lemma steps_py_sleep [steps_intros]:
  "(p < 0 \<Longrightarrow> P err) \<Longrightarrow> ev \<in> A \<Longrightarrow> steps (logs A) P (py_sleep ev err p)"
  by (simp add: steps_def wp_simps logs_def)

section \<open>Polling until a deadline\<close>

text \<open>
  The loop \<^verbatim>\<open>while now() < deadline: body; sleep(p)\<close> over a local state \<open>s\<close>: the body gives \<open>Inr r\<close>
  to leave the loop with the answer \<open>r\<close> (a \<^verbatim>\<open>return\<close> or a \<^verbatim>\<open>break\<close> of the source) and \<open>Inl s1\<close> to go
  on.  The loop gives \<open>Inl s\<close> when the deadline has passed.  A clock that never reaches the
  deadline makes it run forever, which is the value \<open>None\<close>.
\<close>

partial_function (option) poll ::
  "('w \<Rightarrow> real) \<Rightarrow> real \<Rightarrow> ('w, 'e, unit) io \<Rightarrow> ('s \<Rightarrow> ('w, 'e, 's + 'r) io) \<Rightarrow> 's
     \<Rightarrow> 'w \<Rightarrow> (('e + ('s + 'r)) \<times> 'w) option" where
  "poll clk dl pause body s w =
     (if clk w < dl then
        Option.bind (body s w) (\<lambda>(res, w1).
          case res of
            Inl e \<Rightarrow> Some (Inl e, w1)
          | Inr (Inr r) \<Rightarrow> Some (Inr (Inr r), w1)
          | Inr (Inl s1) \<Rightarrow>
              Option.bind (pause w1) (\<lambda>(res2, w2).
                case res2 of
                  Inl e \<Rightarrow> Some (Inl e, w2)
                | Inr _ \<Rightarrow> poll clk dl pause body s1 w2))
      else Some (Inr (Inl s), w))"

lemma poll_timeout: "\<not> clk w < dl \<Longrightarrow> poll clk dl pause body s w = Some (Inr (Inl s), w)"
  by (simp add: poll.simps)

lemma poll_step:
  "clk w < dl \<Longrightarrow> poll clk dl pause body s w =
     bind (body s) (\<lambda>res. case res of
         Inr r \<Rightarrow> ret (Inr r)
       | Inl s1 \<Rightarrow> bind pause (\<lambda>_. poll clk dl pause body s1)) w"
  by (subst poll.simps) (auto simp: bind_def ret_def split: option.split sum.split Option.bind_split)

lemma wp_poll_unfold:
  "wp (poll clk dl pause body s) Q E w =
     (if clk w < dl then
        wp (body s) (\<lambda>res. case res of
            Inr r \<Rightarrow> Q (Inr r)
          | Inl s1 \<Rightarrow> wp pause (\<lambda>_. wp (poll clk dl pause body s1) Q E) E) E w
      else Q (Inl s) w)"
proof (cases "clk w < dl")
  case True
  have *: "wp (case res of Inr r \<Rightarrow> ret (Inr r)
                | Inl s1 \<Rightarrow> bind pause (\<lambda>_. poll clk dl pause body s1)) Q E =
      (case res of Inr r \<Rightarrow> Q (Inr r)
       | Inl s1 \<Rightarrow> wp pause (\<lambda>_. wp (poll clk dl pause body s1) Q E) E)" for res
    by (rule ext) (simp add: wp_simps split: sum.split)
  from True have "wp (poll clk dl pause body s) Q E w =
      wp (bind (body s) (\<lambda>res. case res of
         Inr r \<Rightarrow> ret (Inr r)
       | Inl s1 \<Rightarrow> bind pause (\<lambda>_. poll clk dl pause body s1))) Q E w"
    by (simp add: wp_def poll_step)
  with True show ?thesis by (simp add: wp_bind *)
next
  case False
  then show ?thesis by (simp add: wp_def poll_timeout)
qed

text \<open>
  The interface the loops rest on: a clock, and a pause of positive length that returns, later.
  Inside it, a loop whose body returns and does not turn the clock back always ends, and an
  invariant gives its result.
\<close>

locale timed_world =
  fixes now_of :: "'w \<Rightarrow> real"
    and pause :: "real \<Rightarrow> ('w, 'e, unit) io"
  assumes pause_advances:
    "0 < p \<Longrightarrow> wp (pause p) (\<lambda>_ w1. now_of w + p \<le> now_of w1) (\<lambda>_ _. False) w"
begin

lemma rounds_decrease:
  assumes "0 < p" and "t < dl" and "t + p \<le> t1"
  shows "nat \<lceil>(dl - t1) / p\<rceil> < nat \<lceil>(dl - t) / p\<rceil>"
proof -
  have "(dl - t1) / p \<le> (dl - (t + p)) / p"
    using assms by (intro divide_right_mono) auto
  also have "\<dots> = (dl - t) / p - 1"
    using assms(1) by (simp add: field_simps)
  finally have "\<lceil>(dl - t1) / p\<rceil> \<le> \<lceil>(dl - t) / p\<rceil> - 1"
    by (metis ceiling_diff_one ceiling_mono)
  moreover have "0 < \<lceil>(dl - t) / p\<rceil>"
    using assms by simp
  ultimately show ?thesis by linarith
qed

lemma wp_poll:
  assumes p: "0 < p" and init: "I s w"
    and step: "\<And>s w. I s w \<Longrightarrow> now_of w < dl \<Longrightarrow>
      wp (body s) (\<lambda>res w1. now_of w \<le> now_of w1 \<and>
        (case res of Inr r \<Rightarrow> Q (Inr r) w1
         | Inl s1 \<Rightarrow> wp (pause p) (\<lambda>_. I s1) E w1)) E w"
    and stop: "\<And>s w. I s w \<Longrightarrow> dl \<le> now_of w \<Longrightarrow> Q (Inl s) w"
  shows "wp (poll now_of dl (pause p) body s) Q E w"
  using init
proof (induction "nat \<lceil>(dl - now_of w) / p\<rceil>" arbitrary: s w rule: less_induct)
  case less
  show ?case
  proof (cases "now_of w < dl")
    case False
    with less.prems show ?thesis by (simp add: wp_poll_unfold stop)
  next
    case True
    have "wp (body s) (\<lambda>res. case res of Inr r \<Rightarrow> Q (Inr r)
        | Inl s1 \<Rightarrow> wp (pause p) (\<lambda>_. wp (poll now_of dl (pause p) body s1) Q E) E) E w"
    proof (rule wp_mono [OF step [OF less.prems True]])
      fix res w1
      assume r: "now_of w \<le> now_of w1 \<and>
        (case res of Inr r \<Rightarrow> Q (Inr r) w1 | Inl s1 \<Rightarrow> wp (pause p) (\<lambda>_. I s1) E w1)"
      show "(case res of Inr r \<Rightarrow> Q (Inr r)
        | Inl s1 \<Rightarrow> wp (pause p) (\<lambda>_. wp (poll now_of dl (pause p) body s1) Q E) E) w1"
      proof (cases res)
        case (Inr r')
        with r show ?thesis by simp
      next
        case (Inl s1)
        with r have "wp (pause p) (\<lambda>_. I s1) E w1" by simp
        from wp_conj [OF this pause_advances [OF p]]
        have "wp (pause p) (\<lambda>_. wp (poll now_of dl (pause p) body s1) Q E) E w1"
          by (rule wp_mono) (use r True p in \<open>auto intro!: less.hyps rounds_decrease\<close>)
        with Inl show ?thesis by simp
      qed
    qed simp
    with True show ?thesis by (simp add: wp_poll_unfold)
  qed
qed

text \<open>
  Counting the rounds: a loop that starts at \<open>t0\<close> and sleeps \<open>p\<close> makes at most
  \<open>\<lceil>(dl - t0) / p\<rceil>\<close> of them.
\<close>

lemma wp_poll_counted:
  fixes t0 dl p :: real
  defines "N \<equiv> nat \<lceil>(dl - t0) / p\<rceil>"
  assumes p: "0 < p" and start: "t0 \<le> now_of w" and init: "I 0 s w"
    and step: "\<And>n s w. I n s w \<Longrightarrow> n < N \<Longrightarrow>
      wp (body s) (\<lambda>res w1. now_of w \<le> now_of w1 \<and>
        (case res of Inr r \<Rightarrow> Q (Inr r) w1
         | Inl s1 \<Rightarrow> wp (pause p) (\<lambda>_. I (Suc n) s1) E w1)) E w"
    and stop: "\<And>n s w. I n s w \<Longrightarrow> n \<le> N \<Longrightarrow> dl \<le> now_of w \<Longrightarrow> Q (Inl s) w"
  shows "wp (poll now_of dl (pause p) body s) Q E w"
proof (rule wp_poll [where I = "\<lambda>s w. \<exists>n. I n s w \<and> n \<le> N \<and> t0 + real n * p \<le> now_of w"])
  fix s w assume "\<exists>n. I n s w \<and> n \<le> N \<and> t0 + real n * p \<le> now_of w" and early: "now_of w < dl"
  then obtain n where n: "I n s w" "n \<le> N" "t0 + real n * p \<le> now_of w" by blast
  have "real n < (dl - t0) / p"
    using n(3) early p by (simp add: pos_less_divide_eq)
  then have less: "n < N"
    unfolding N_def by linarith
  show "wp (body s) (\<lambda>res w1. now_of w \<le> now_of w1 \<and>
      (case res of Inr r \<Rightarrow> Q (Inr r) w1
       | Inl s1 \<Rightarrow> wp (pause p)
           (\<lambda>_ w. \<exists>n. I n s1 w \<and> n \<le> N \<and> t0 + real n * p \<le> now_of w) E w1)) E w"
  proof (rule wp_mono [OF step [OF n(1) less]])
    fix res w1
    assume r: "now_of w \<le> now_of w1 \<and> (case res of Inr r \<Rightarrow> Q (Inr r) w1
      | Inl s1 \<Rightarrow> wp (pause p) (\<lambda>_. I (Suc n) s1) E w1)"
    have "wp (pause p) (\<lambda>_ w. \<exists>n. I n s1 w \<and> n \<le> N \<and> t0 + real n * p \<le> now_of w) E w1"
      if "res = Inl s1" for s1
    proof -
      from r that have "wp (pause p) (\<lambda>_. I (Suc n) s1) E w1" by simp
      from wp_conj [OF this pause_advances [OF p]] show ?thesis
      proof (rule wp_mono)
        fix a w2 assume "I (Suc n) s1 w2 \<and> now_of w1 + p \<le> now_of w2"
        with less n(3) r show "\<exists>n. I n s1 w2 \<and> n \<le> N \<and> t0 + real n * p \<le> now_of w2"
          by (intro exI [of _ "Suc n"]) (simp add: algebra_simps)
      qed simp
    qed
    with r show "now_of w \<le> now_of w1 \<and> (case res of Inr r \<Rightarrow> Q (Inr r) w1
       | Inl s1 \<Rightarrow> wp (pause p)
           (\<lambda>_ w. \<exists>n. I n s1 w \<and> n \<le> N \<and> t0 + real n * p \<le> now_of w) E w1)"
      by (cases res) auto
  qed
qed (use p start init stop in auto)

lemma steps_poll:
  assumes "0 < p" and "preorder_rel R" and "\<And>w w1. R w w1 \<Longrightarrow> now_of w \<le> now_of w1"
    and "\<And>s. steps R P (body s)" and "steps R P (pause p)"
  shows "steps R P (poll now_of dl (pause p) body s)"
  unfolding steps_def
proof
  fix w0
  let ?E = "\<lambda>e w1. P e \<and> R w0 w1"
  show "wp (poll now_of dl (pause p) body s) (\<lambda>_. R w0) ?E w0"
  proof (rule wp_poll [where I = "\<lambda>_. R w0"])
    fix s w assume r: "R w0 w"
    have "wp (body s) (\<lambda>_. R w) (\<lambda>e w1. P e \<and> R w w1) w" using assms(4) by (simp add: steps_def)
    then show "wp (body s) (\<lambda>res w1. now_of w \<le> now_of w1 \<and>
        (case res of Inr r \<Rightarrow> R w0 w1 | Inl s1 \<Rightarrow> wp (pause p) (\<lambda>_. R w0) ?E w1)) ?E w"
    proof (rule wp_mono)
      fix res w1 assume "R w w1"
      then have "R w0 w1" using r assms(2) by (auto simp: preorder_rel_def)
      then show "now_of w \<le> now_of w1 \<and>
        (case res of Inr r \<Rightarrow> R w0 w1 | Inl s1 \<Rightarrow> wp (pause p) (\<lambda>_. R w0) ?E w1)"
        using steps_from [OF assms(2,5)] assms(3) [OF \<open>R w w1\<close>] by (simp split: sum.split)
    qed (use r assms(2) in \<open>auto simp: preorder_rel_def\<close>)
  qed (use assms(1,2) in \<open>auto simp: preorder_rel_def\<close>)
qed

lemma poll_returns:
  assumes "0 < p"
    and "\<And>s w. wp (body s) (\<lambda>_ w1. now_of w \<le> now_of w1) (\<lambda>_ _. True) w"
  shows "\<exists>r w1. poll now_of dl (pause p) body s w = Some (r, w1)"
proof -
  have "wp (poll now_of dl (pause p) body s) (\<lambda>_ _. True) (\<lambda>_ _. True) w"
  proof (rule wp_poll [where I = "\<lambda>_ _. True"])
    fix s' w'
    have "wp (pause p) (\<lambda>_ _. True) (\<lambda>_ _. True) w1" for w1
      by (rule wp_mono [OF pause_advances [OF assms(1)]]) simp_all
    then show "wp (body s') (\<lambda>res w1. now_of w' \<le> now_of w1 \<and>
        (case res of Inr r \<Rightarrow> True
         | Inl s1 \<Rightarrow> wp (pause p) (\<lambda>_ _. True) (\<lambda>_ _. True) w1)) (\<lambda>_ _. True) w'"
      by (intro wp_mono [OF assms(2)]) (auto split: sum.split)
  qed (use assms(1) in simp_all)
  then show ?thesis by (rule wp_returns)
qed

end

interpretation sleeping: timed_world clock "py_sleep ev err"
  by unfold_locales (simp add: wp_simps)

section \<open>Insertion-ordered dictionaries\<close>

text \<open>
  A Python dictionary keeps its keys in the order of their first insertion, and assigning to a key
  that is there changes its value in place: an association list with \<^const>\<open>AList.update\<close>.
\<close>

type_synonym ('k, 'v) dict = "('k \<times> 'v) list"

abbreviation dget :: "('k, 'v) dict \<Rightarrow> 'k \<Rightarrow> 'v option" where
  "dget d k \<equiv> map_of d k"

abbreviation dkeys :: "('k, 'v) dict \<Rightarrow> 'k list" where
  "dkeys d \<equiv> map fst d"

abbreviation dvalues :: "('k, 'v) dict \<Rightarrow> 'v list" where
  "dvalues d \<equiv> map snd d"

definition dset :: "'k \<Rightarrow> 'v \<Rightarrow> ('k, 'v) dict \<Rightarrow> ('k, 'v) dict" where
  "dset k v d = AList.update k v d"

definition dpop :: "'k \<Rightarrow> ('k, 'v) dict \<Rightarrow> ('k, 'v) dict" where
  "dpop k d = AList.delete k d"

definition dsetdefault :: "'k \<Rightarrow> 'v \<Rightarrow> ('k, 'v) dict \<Rightarrow> ('k, 'v) dict" where
  "dsetdefault k v d = (case dget d k of None \<Rightarrow> d @ [(k, v)] | Some _ \<Rightarrow> d)"

definition dupdate :: "('k, 'v) dict \<Rightarrow> ('k, 'v) dict \<Rightarrow> ('k, 'v) dict" where
  "dupdate d e = foldl (\<lambda>acc (k, v). dset k v acc) d e"

text \<open>
  Two idioms over them: \<open>first_by\<close> keeps the first element of each key
  (\<^verbatim>\<open>d.setdefault(key(x), x)\<close> in a loop), \<open>group_by\<close> collects the elements of each key
  (\<^verbatim>\<open>d.setdefault(key(x), []).append(x)\<close>).
\<close>

definition first_by :: "('a \<Rightarrow> 'k) \<Rightarrow> 'a list \<Rightarrow> ('k, 'a) dict" where
  "first_by key xs = foldl (\<lambda>d x. dsetdefault (key x) x d) [] xs"

definition group_by :: "('a \<Rightarrow> 'k) \<Rightarrow> 'a list \<Rightarrow> ('k, 'a list) dict" where
  "group_by key xs =
     foldl (\<lambda>d x. dset (key x) ((case dget d (key x) of None \<Rightarrow> [] | Some ys \<Rightarrow> ys) @ [x]) d) [] xs"

locale ordered_dict =
  fixes empty :: 'd
    and lookup :: "'d \<Rightarrow> 'k \<Rightarrow> 'v option"
    and store :: "'k \<Rightarrow> 'v \<Rightarrow> 'd \<Rightarrow> 'd"
    and default :: "'k \<Rightarrow> 'v \<Rightarrow> 'd \<Rightarrow> 'd"
    and keys :: "'d \<Rightarrow> 'k list"
  assumes keys_empty: "keys empty = []"
    and keys_dom: "set (keys d) = dom (lookup d)"
    and lookup_store: "lookup (store k v d) = (lookup d)(k \<mapsto> v)"
    and keys_store: "keys (store k v d) = (if k \<in> set (keys d) then keys d else keys d @ [k])"
    and lookup_default:
      "lookup (default k v d) = (if k \<in> set (keys d) then lookup d else (lookup d)(k \<mapsto> v))"
    and keys_default: "keys (default k v d) = (if k \<in> set (keys d) then keys d else keys d @ [k])"
begin

lemma lookup_empty: "lookup empty k = None"
  using keys_dom [of empty] by (auto simp: keys_empty)

lemma keys_iff: "k \<in> set (keys d) \<longleftrightarrow> lookup d k \<noteq> None"
  using keys_dom [of d] by auto

lemma distinct_store: "distinct (keys d) \<Longrightarrow> distinct (keys (store k v d))"
  by (simp add: keys_store)

lemma distinct_default: "distinct (keys d) \<Longrightarrow> distinct (keys (default k v d))"
  by (simp add: keys_default)

lemma lookup_defaults:
  "lookup (foldl (\<lambda>d x. default (key x) (val x) d) d xs) k =
     (case lookup d k of
        Some v \<Rightarrow> Some v
      | None \<Rightarrow> map_option val (find (\<lambda>x. key x = k) xs))"
  by (induction xs arbitrary: d) (auto simp: lookup_default keys_iff split: option.split)

lemma distinct_defaults:
  "distinct (keys d) \<Longrightarrow> distinct (keys (foldl (\<lambda>d x. default (key x) (val x) d) d xs))"
  by (induction xs arbitrary: d) (simp_all add: distinct_default)

lemma distinct_stores:
  "distinct (keys d) \<Longrightarrow> distinct (keys (foldl (\<lambda>d x. store (key x) (val d x) d) d xs))"
  by (induction xs arbitrary: d) (simp_all add: distinct_store)

end

interpretation pydict: ordered_dict "[]" map_of dset dsetdefault "map fst"
proof unfold_locales
  fix k :: 'k and v :: 'v and d :: "('k, 'v) dict"
  show "set (map fst d) = dom (map_of d)" by (simp add: dom_map_of_conv_image_fst)
  show "map_of (dset k v d) = (map_of d)(k \<mapsto> v)" by (simp add: dset_def update_conv')
  show "map fst (dset k v d) = (if k \<in> set (map fst d) then map fst d else map fst d @ [k])"
    by (simp add: dset_def update_keys)
  show "map_of (dsetdefault k v d) =
      (if k \<in> set (map fst d) then map_of d else (map_of d)(k \<mapsto> v))"
    by (auto simp: dsetdefault_def map_add_def fun_eq_iff dom_map_of_conv_image_fst [symmetric]
        split: option.split)
  show "map fst (dsetdefault k v d) =
      (if k \<in> set (map fst d) then map fst d else map fst d @ [k])"
    by (auto simp: dsetdefault_def dom_map_of_conv_image_fst [symmetric] split: option.split)
qed simp

lemmas pydict_laws = pydict.lookup_store pydict.keys_store pydict.lookup_default
  pydict.keys_default pydict.distinct_store pydict.distinct_default

declare pydict_laws [dict_simps]

lemma first_by_lookup: "dget (first_by key xs) k = find (\<lambda>x. key x = k) xs"
  using pydict.lookup_defaults [of key "\<lambda>x. x" "[]" xs k] by (simp add: first_by_def option.map_ident)

lemma first_by_distinct: "distinct (dkeys (first_by key xs))"
  unfolding first_by_def by (rule pydict.distinct_defaults [where val = "\<lambda>x. x"]) simp

lemma first_by_values_key:
  assumes "(k, x) \<in> set (first_by key xs)"
  shows "key x = k \<and> x \<in> set xs"
proof -
  have "dget (first_by key xs) k = Some x"
    by (rule map_of_is_SomeI [OF first_by_distinct assms])
  then show ?thesis
    by (auto simp: first_by_lookup find_Some_iff)
qed

lemma first_by_values_keys: "map key (dvalues (first_by key xs)) = dkeys (first_by key xs)"
  by (auto dest: first_by_values_key)

lemma first_by_keys: "set (dkeys (first_by key xs)) = key ` set xs"
proof -
  have "find (\<lambda>x. key x = k) xs \<noteq> None \<longleftrightarrow> k \<in> key ` set xs" for k
    by (auto simp: find_None_iff image_iff)
  then show ?thesis
    unfolding pydict.keys_dom by (auto simp: dom_def first_by_lookup)
qed

lemma group_by_lookup:
  "dget (group_by key xs) k =
     (let ys = filter (\<lambda>x. key x = k) xs in if ys = [] then None else Some ys)"
proof -
  let ?f = "\<lambda>d x. dset (key x) ((case dget d (key x) of None \<Rightarrow> [] | Some ys \<Rightarrow> ys) @ [x]) d"
  have "dget (foldl ?f d xs) k =
      (let ys = filter (\<lambda>x. key x = k) xs
       in if ys = [] then dget d k
          else Some ((case dget d k of None \<Rightarrow> [] | Some zs \<Rightarrow> zs) @ ys))" for d
    by (induction xs arbitrary: d) (auto simp: Let_def dict_simps split: option.split)
  from this [of "[]"] show ?thesis by (simp add: group_by_def Let_def)
qed

lemma group_by_distinct: "distinct (dkeys (group_by key xs))"
  unfolding group_by_def
  by (rule pydict.distinct_stores [where val =
        "\<lambda>d x. (case dget d (key x) of None \<Rightarrow> [] | Some ys \<Rightarrow> ys) @ [x]"]) simp

lemma group_by_mem:
  assumes "(k, ys) \<in> set (group_by key xs)"
  shows "ys = filter (\<lambda>x. key x = k) xs \<and> ys \<noteq> []"
proof -
  have "dget (group_by key xs) k = Some ys"
    by (rule map_of_is_SomeI [OF group_by_distinct assms])
  then show ?thesis by (auto simp: group_by_lookup Let_def split: if_splits)
qed

lemma group_by_keys: "set (dkeys (group_by key xs)) = key ` set xs"
  unfolding pydict.keys_dom
  by (auto simp: dom_def group_by_lookup Let_def filter_empty_conv split: if_splits)

section \<open>Stable sorting by a key\<close>

text \<open>\<^verbatim>\<open>sorted(xs, key=f)\<close> and \<^verbatim>\<open>xs.sort(key=f)\<close>: a stable permutation in ascending key order.\<close>

locale key_sort =
  fixes srt :: "('a \<Rightarrow> 'k::linorder) \<Rightarrow> 'a list \<Rightarrow> 'a list"
  assumes perm: "mset (srt f xs) = mset xs"
    and ascending: "sorted (map f (srt f xs))"
    and stable: "filter (\<lambda>x. f x = k) (srt f xs) = filter (\<lambda>x. f x = k) xs"
begin

lemma elements: "set (srt f xs) = set xs"
  by (metis perm set_mset_mset)

lemma same_length: "length (srt f xs) = length xs"
  by (metis perm size_mset)

lemma smaller_first:
  assumes "i < length (srt f xs)" and "j < length (srt f xs)"
    and "f (srt f xs ! i) < f (srt f xs ! j)"
  shows "i < j"
proof (rule ccontr)
  assume "\<not> i < j"
  then have "map f (srt f xs) ! j \<le> map f (srt f xs) ! i"
    using ascending [of f xs] assms(1) by (intro sorted_nth_mono) auto
  with assms show False by simp
qed

lemma first_minimal:
  assumes "x \<in> set xs"
  shows "f (hd (srt f xs)) \<le> f x"
proof -
  obtain y ys where s: "srt f xs = y # ys"
    using assms same_length [of f xs] by (cases "srt f xs") auto
  have "x \<in> set (y # ys)" using assms elements [of f xs] s by simp
  then show ?thesis using ascending [of f xs] s by auto
qed

lemma last_maximal:
  assumes "x \<in> set xs"
  shows "f x \<le> f (last (srt f xs))"
proof -
  have "srt f xs \<noteq> []" using assms same_length [of f xs] by auto
  then have s: "srt f xs = butlast (srt f xs) @ [last (srt f xs)]" by simp
  have "x \<in> set (butlast (srt f xs) @ [last (srt f xs)])"
    using assms elements [of f xs] s by simp
  moreover have "sorted (map f (butlast (srt f xs) @ [last (srt f xs)]))"
    using ascending [of f xs] s by simp
  ultimately show ?thesis by (auto simp: sorted_append)
qed

lemma last_mem: "xs \<noteq> [] \<Longrightarrow> last (srt f xs) \<in> set xs"
  using elements [of f xs] same_length [of f xs] by (metis last_in_set length_0_conv)

lemma first_mem: "xs \<noteq> [] \<Longrightarrow> hd (srt f xs) \<in> set xs"
  using elements [of f xs] same_length [of f xs] by (metis hd_in_set length_0_conv)

end

interpretation pysort: key_sort sort_key
  by unfold_locales (simp_all add: sort_key_stable)

end
