(* ===== verification/PyText.thy ===== *)
theory PyText
  imports Prelude
begin

text \<open>
  The text operations of Python's standard library that the programs use, on strings of ASCII
  characters: \<^verbatim>\<open>str.strip\<close>, \<^verbatim>\<open>lower\<close> and \<^verbatim>\<open>casefold\<close> (the same function on ASCII), \<^verbatim>\<open>upper\<close>,
  \<^verbatim>\<open>in\<close>, \<^verbatim>\<open>startswith\<close>, \<^verbatim>\<open>endswith\<close>, \<^verbatim>\<open>count\<close>, \<^verbatim>\<open>replace\<close>, \<^verbatim>\<open>split\<close>, \<^verbatim>\<open>splitlines\<close>, \<^verbatim>\<open>join\<close>, \<^verbatim>\<open>str\<close> and
  \<^verbatim>\<open>int\<close> of an integer, the regular expressions \<^verbatim>\<open>[^a-z0-9]+\<close> and \<^verbatim>\<open>[^a-z0-9]\<close> used to normalise
  names, and \<^verbatim>\<open>repr\<close> of a string.
\<close>

section \<open>Characters\<close>

definition is_lower :: "char \<Rightarrow> bool" where
  "is_lower c \<longleftrightarrow> CHR ''a'' \<le> c \<and> c \<le> CHR ''z''"

definition is_upper :: "char \<Rightarrow> bool" where
  "is_upper c \<longleftrightarrow> CHR ''A'' \<le> c \<and> c \<le> CHR ''Z''"

definition is_digit :: "char \<Rightarrow> bool" where
  "is_digit c \<longleftrightarrow> CHR ''0'' \<le> c \<and> c \<le> CHR ''9''"

definition is_word :: "char \<Rightarrow> bool" where
  "is_word c \<longleftrightarrow> is_lower c \<or> is_upper c \<or> is_digit c \<or> c = CHR ''_''"

definition is_space :: "char \<Rightarrow> bool" where
  "is_space c \<longleftrightarrow>
     c \<in> {CHR '' '', CHR 0x09, CHR 0x0A, CHR 0x0B, CHR 0x0C, CHR 0x0D,
           CHR 0x1C, CHR 0x1D, CHR 0x1E, CHR 0x1F}"

text \<open>The class \<^verbatim>\<open>[a-z0-9]\<close>.\<close>

definition is_name_char :: "char \<Rightarrow> bool" where
  "is_name_char c \<longleftrightarrow> is_lower c \<or> is_digit c"

definition lower_char :: "char \<Rightarrow> char" where
  "lower_char c = (if is_upper c then char_of (of_char c + 32 :: nat) else c)"

definition upper_char :: "char \<Rightarrow> char" where
  "upper_char c = (if is_lower c then char_of (of_char c - 32 :: nat) else c)"

lemma char_less_eq_code: "c \<le> d \<longleftrightarrow> (of_char c :: nat) \<le> of_char d"
  by (simp add: less_eq_char_def)

lemma is_lower_code: "is_lower c \<longleftrightarrow> 97 \<le> (of_char c :: nat) \<and> (of_char c :: nat) \<le> 122"
  by (simp add: is_lower_def char_less_eq_code)

lemma is_upper_code: "is_upper c \<longleftrightarrow> 65 \<le> (of_char c :: nat) \<and> (of_char c :: nat) \<le> 90"
  by (simp add: is_upper_def char_less_eq_code)

lemma is_digit_code: "is_digit c \<longleftrightarrow> 48 \<le> (of_char c :: nat) \<and> (of_char c :: nat) \<le> 57"
  by (simp add: is_digit_def char_less_eq_code)

lemma of_char_lower_char: "is_upper c \<Longrightarrow> (of_char (lower_char c) :: nat) = of_char c + 32"
  by (simp add: lower_char_def is_upper_code)

lemma not_upper_lower_char [simp]: "\<not> is_upper (lower_char c)"
proof (cases "is_upper c")
  case True
  then show ?thesis by (simp add: is_upper_code of_char_lower_char)
next
  case False
  then show ?thesis by (simp add: lower_char_def)
qed

lemma lower_char_idem [simp]: "lower_char (lower_char c) = lower_char c"
  using not_upper_lower_char [of c] by (simp add: lower_char_def [of "lower_char c"])

lemma lower_not_upper: "is_lower c \<Longrightarrow> \<not> is_upper c"
  by (simp add: is_lower_code is_upper_code)

lemma digit_not_upper: "is_digit c \<Longrightarrow> \<not> is_upper c"
  by (simp add: is_digit_code is_upper_code)

lemma lower_char_name_char [simp]: "is_name_char c \<Longrightarrow> lower_char c = c"
  by (auto simp: is_name_char_def lower_char_def dest: lower_not_upper digit_not_upper)

lemma lower_char_underscore [simp]: "lower_char CHR ''_'' = CHR ''_''"
  by (simp add: lower_char_def is_upper_code)

lemma underscore_not_name_char [simp]: "\<not> is_name_char CHR ''_''"
  by (simp add: is_name_char_def is_lower_code is_digit_code)

lemma space_not_name_char [simp]: "is_space c \<Longrightarrow> \<not> is_name_char c"
  by (auto simp: is_space_def is_name_char_def is_lower_code is_digit_code)

lemma underscore_not_space [simp]: "\<not> is_space CHR ''_''"
  by (simp add: is_space_def)

text \<open>
  Code equations on the bits of a character.  The simplifier evaluates both arms of a conjunction but
  only one arm of a conditional, so comparisons written with conditionals stop at the first
  difference.
\<close>

lemma equal_list_lazy [code]:
  "HOL.equal (x # xs) (y # ys) \<longleftrightarrow> (if HOL.equal x y then HOL.equal xs ys else False)"
  "HOL.equal [] [] \<longleftrightarrow> True" "HOL.equal (x # xs) [] \<longleftrightarrow> False" "HOL.equal [] (y # ys) \<longleftrightarrow> False"
  by (simp_all add: equal_eq)

lemma equal_char_lazy [code]:
  "HOL.equal (Char a0 a1 a2 a3 a4 a5 a6 a7) (Char b0 b1 b2 b3 b4 b5 b6 b7) \<longleftrightarrow>
     (if a0 = b0 then if a1 = b1 then if a2 = b2 then if a3 = b3 then
      if a4 = b4 then if a5 = b5 then if a6 = b6 then a7 = b7 else False else False else False
      else False else False else False else False)"
  by (simp add: equal_eq)

lemma is_digit_bits [code]:
  "is_digit (Char b0 b1 b2 b3 b4 b5 b6 b7) \<longleftrightarrow>
     (if b7 \<or> b6 then False else if b5 \<and> b4 then \<not> b3 \<or> \<not> b2 \<and> \<not> b1 else False)"
  by (cases b0; cases b1; cases b2; cases b3; cases b4; cases b5; cases b6; cases b7)
    (simp_all add: is_digit_code)

lemma is_lower_bits [code]:
  "is_lower (Char b0 b1 b2 b3 b4 b5 b6 b7) \<longleftrightarrow>
     (if b7 then False else if b6 \<and> b5 then
        (if b4 then \<not> b3 \<or> \<not> b2 \<and> (\<not> b1 \<or> \<not> b0) else b0 \<or> b1 \<or> b2 \<or> b3) else False)"
  by (cases b0; cases b1; cases b2; cases b3; cases b4; cases b5; cases b6; cases b7)
    (simp_all add: is_lower_code)

lemma is_upper_bits [code]:
  "is_upper (Char b0 b1 b2 b3 b4 b5 b6 b7) \<longleftrightarrow>
     (if b7 \<or> b5 then False else if b6 then
        (if b4 then \<not> b3 \<or> \<not> b2 \<and> (\<not> b1 \<or> \<not> b0) else b0 \<or> b1 \<or> b2 \<or> b3) else False)"
  by (cases b0; cases b1; cases b2; cases b3; cases b4; cases b5; cases b6; cases b7)
    (simp_all add: is_upper_code)

lemma lower_char_bits [code]:
  "lower_char (Char b0 b1 b2 b3 b4 b5 b6 b7) =
     (if is_upper (Char b0 b1 b2 b3 b4 b5 b6 b7) then Char b0 b1 b2 b3 b4 True b6 b7
      else Char b0 b1 b2 b3 b4 b5 b6 b7)"
proof (cases "is_upper (Char b0 b1 b2 b3 b4 b5 b6 b7)")
  case True
  have "(of_char (lower_char (Char b0 b1 b2 b3 b4 b5 b6 b7)) :: nat) =
      of_char (Char b0 b1 b2 b3 b4 True b6 b7)"
    unfolding of_char_lower_char [OF True] using True
    by (cases b0; cases b1; cases b2; cases b3; cases b4; cases b5; cases b6; cases b7)
      (simp_all add: is_upper_code)
  with True show ?thesis by (simp only: of_char_eq_iff if_True)
qed (simp add: lower_char_def)

section \<open>Stripping and case\<close>

definition strip_by :: "(char \<Rightarrow> bool) \<Rightarrow> string \<Rightarrow> string" where
  "strip_by P s = rev (dropWhile P (rev (dropWhile P s)))"

definition strip :: "string \<Rightarrow> string" where
  "strip = strip_by is_space"

definition rstrip_by :: "(char \<Rightarrow> bool) \<Rightarrow> string \<Rightarrow> string" where
  "rstrip_by P s = rev (dropWhile P (rev s))"

definition lower :: "string \<Rightarrow> string" where
  "lower s = map lower_char s"

abbreviation casefold :: "string \<Rightarrow> string" where
  "casefold \<equiv> lower"

definition upper :: "string \<Rightarrow> string" where
  "upper s = map upper_char s"

lemma lower_idem [simp]: "lower (lower s) = lower s"
  by (simp add: lower_def)

lemma lower_append [simp]: "lower (s @ t) = lower s @ lower t"
  by (simp add: lower_def)

lemma dropWhile_hd: "dropWhile P s = [] \<or> \<not> P (hd (dropWhile P s))"
  by (induction s) auto

lemma dropWhile_id: "s = [] \<or> \<not> P (hd s) \<Longrightarrow> dropWhile P s = s"
  by (cases s) auto

lemma dropWhile_last:
  "dropWhile P s \<noteq> [] \<Longrightarrow> last (dropWhile P s) = last s"
  by (induction s) (auto split: if_splits)

lemma strip_by_ends:
  "strip_by P s = [] \<or> \<not> P (hd (strip_by P s)) \<and> \<not> P (last (strip_by P s))"
proof (cases "dropWhile P (rev (dropWhile P s)) = []")
  case True
  then show ?thesis by (simp add: strip_by_def)
next
  case False
  let ?t = "dropWhile P s"
  let ?u = "dropWhile P (rev ?t)"
  have "?t \<noteq> []" using False by (metis dropWhile.simps(1) rev.simps(1))
  then have "\<not> P (hd ?t)" using dropWhile_hd [of P s] by blast
  moreover have "\<not> P (hd ?u)" using dropWhile_hd [of P "rev ?t"] False by blast
  moreover have "last ?u = hd ?t"
    using dropWhile_last [OF False] by (simp only: last_rev)
  ultimately show ?thesis by (simp only: strip_by_def hd_rev last_rev simp_thms)
qed

lemma strip_by_id:
  "s = [] \<or> \<not> P (hd s) \<and> \<not> P (last s) \<Longrightarrow> strip_by P s = s"
  by (auto simp: strip_by_def dropWhile_id hd_rev)

lemma strip_by_idem [simp]: "strip_by P (strip_by P s) = strip_by P s"
  using strip_by_ends [of P s] by (intro strip_by_id)

lemma set_strip_by: "set (strip_by P s) \<subseteq> set s"
  by (auto simp: strip_by_def dest!: set_dropWhileD)

lemma strip_idem [simp]: "strip (strip s) = strip s"
  by (simp add: strip_def)

section \<open>Substrings\<close>

fun contains :: "string \<Rightarrow> string \<Rightarrow> bool" where
  "contains needle [] \<longleftrightarrow> needle = []"
| "contains needle (c # cs) \<longleftrightarrow> prefix needle (c # cs) \<or> contains needle cs"

lemma contains_iff: "contains needle s \<longleftrightarrow> (\<exists>a b. s = a @ needle @ b)"
proof (induction s)
  case Nil
  then show ?case by auto
next
  case (Cons c cs)
  have "(\<exists>a b. c # cs = a @ needle @ b) \<longleftrightarrow>
      (\<exists>b. c # cs = needle @ b) \<or> (\<exists>a b. cs = a @ needle @ b)"
    by (metis append_Cons append_Nil list.sel(3) tl_append2 neq_Nil_conv)
  with Cons.IH show ?case by (simp add: prefix_def)
qed

lemma contains_append1 [intro]: "contains needle s \<Longrightarrow> contains needle (s @ t)"
  unfolding contains_iff by (metis append.assoc)

lemma contains_append2 [intro]: "contains needle t \<Longrightarrow> contains needle (s @ t)"
  unfolding contains_iff by (metis append.assoc)

lemma contains_refl [simp]: "contains s s"
  unfolding contains_iff by (metis append_Nil append_Nil2)

text \<open>\<^verbatim>\<open>s.count(needle)\<close> and \<^verbatim>\<open>s.replace(needle, by, n)\<close>: left to right, without overlap.\<close>

function count_sub :: "string \<Rightarrow> string \<Rightarrow> nat" where
  "count_sub needle s =
     (if needle = [] then Suc (length s)
      else if s = [] then 0
      else if prefix needle s then Suc (count_sub needle (drop (length needle) s))
      else count_sub needle (tl s))"
  by pat_completeness auto
termination
  by (relation "measure (\<lambda>(needle, s). length s)") auto

declare count_sub.simps [simp del]

fun replace_first :: "string \<Rightarrow> string \<Rightarrow> string \<Rightarrow> string" where
  "replace_first needle by [] = (if needle = [] then by else [])"
| "replace_first needle by (c # cs) =
     (if prefix needle (c # cs) then by @ drop (length needle) (c # cs)
      else c # replace_first needle by cs)"

function replace_all :: "string \<Rightarrow> string \<Rightarrow> string \<Rightarrow> string" where
  "replace_all needle by s =
     (if needle = [] then concat (map (\<lambda>c. by @ [c]) s) @ by
      else if s = [] then []
      else if prefix needle s then by @ replace_all needle by (drop (length needle) s)
      else hd s # replace_all needle by (tl s))"
  by pat_completeness auto
termination
  by (relation "measure (\<lambda>(needle, by, s). length s)") auto

declare replace_all.simps [simp del]

section \<open>Joining and splitting\<close>

fun join :: "string \<Rightarrow> string list \<Rightarrow> string" where
  "join sep [] = []"
| "join sep [s] = s"
| "join sep (s # t # ts) = s @ sep @ join sep (t # ts)"

fun split_on :: "char \<Rightarrow> string \<Rightarrow> string list" where
  "split_on d [] = [[]]"
| "split_on d (c # cs) =
     (if c = d then [] # split_on d cs
      else (case split_on d cs of [] \<Rightarrow> [[c]] | w # ws \<Rightarrow> (c # w) # ws))"

lemma split_on_nonempty [simp]: "split_on d s \<noteq> []"
  by (cases s) (auto split: list.split)

lemma join_Cons: "ws \<noteq> [] \<Longrightarrow> join sep (w # ws) = w @ sep @ join sep ws"
  by (cases ws) simp_all

lemma join_split_on [simp]: "join [d] (split_on d s) = s"
proof (induction s)
  case (Cons c cs)
  then show ?case
    by (cases "split_on d cs"; cases "tl (split_on d cs)") auto
qed simp

lemma split_on_no_delim: "w \<in> set (split_on d s) \<Longrightarrow> d \<notin> set w"
proof (induction s arbitrary: w)
  case (Cons c cs)
  then show ?case
    by (cases "split_on d cs") (auto split: if_splits)
qed simp

text \<open>
  \<^verbatim>\<open>str.splitlines()\<close>: the line ends are LF, CR, CR LF, VT, FF, FS, GS and RS; a final line end does
  not open another line.
\<close>

definition is_line_end :: "char \<Rightarrow> bool" where
  "is_line_end c \<longleftrightarrow>
     c \<in> {CHR 0x0A, CHR 0x0B, CHR 0x0C, CHR 0x0D, CHR 0x1C, CHR 0x1D, CHR 0x1E}"

fun splitlines_acc :: "bool \<Rightarrow> string \<Rightarrow> string \<Rightarrow> string list" where
  "splitlines_acc after_cr acc [] = (if acc = [] then [] else [rev acc])"
| "splitlines_acc after_cr acc (c # cs) =
     (if after_cr \<and> c = CHR 0x0A then splitlines_acc False acc cs
      else if is_line_end c then rev acc # splitlines_acc (c = CHR 0x0D) [] cs
      else splitlines_acc False (c # acc) cs)"

definition splitlines :: "string \<Rightarrow> string list" where
  "splitlines = splitlines_acc False []"

section \<open>Numbers as text\<close>

definition digit_char :: "nat \<Rightarrow> char" where
  "digit_char n = char_of (48 + n)"

fun show_nat :: "nat \<Rightarrow> string" where
  "show_nat n = (if n < 10 then [digit_char n] else show_nat (n div 10) @ [digit_char (n mod 10)])"

declare show_nat.simps [simp del]

definition show_int :: "int \<Rightarrow> string" where
  "show_int i = (if i < 0 then ''-'' @ show_nat (nat (- i)) else show_nat (nat i))"

definition digit_value :: "char \<Rightarrow> nat" where
  "digit_value c = of_char c - 48"

definition read_nat :: "string \<Rightarrow> nat" where
  "read_nat s = foldl (\<lambda>n c. 10 * n + digit_value c) 0 s"

text \<open>
  \<^verbatim>\<open>int(s)\<close> of a string: surrounding whitespace, an optional sign, then digits with single
  underscores between them; anything else is a \<^verbatim>\<open>ValueError\<close> (\<open>None\<close>).
\<close>

fun digits_ok :: "bool \<Rightarrow> string \<Rightarrow> bool" where
  "digits_ok after_digit [] \<longleftrightarrow> after_digit"
| "digits_ok after_digit (c # cs) \<longleftrightarrow>
     (if is_digit c then digits_ok True cs
      else c = CHR ''_'' \<and> after_digit \<and> digits_ok False cs)"

definition read_int :: "string \<Rightarrow> int option" where
  "read_int s =
     (let t = strip s;
          (neg, u) = (case t of
             [] \<Rightarrow> (False, [])
           | c # cs \<Rightarrow> if c = CHR ''-'' then (True, cs)
                       else if c = CHR ''+'' then (False, cs) else (False, t));
          n = int (read_nat (filter is_digit u))
      in if digits_ok False u then Some (if neg then - n else n) else None)"

lemma of_char_digit_char: "n < 10 \<Longrightarrow> (of_char (digit_char n) :: nat) = 48 + n"
  by (simp add: digit_char_def)

lemma is_digit_digit_char: "n < 10 \<Longrightarrow> is_digit (digit_char n)"
  by (simp add: is_digit_code of_char_digit_char)

lemma digit_value_digit_char: "n < 10 \<Longrightarrow> digit_value (digit_char n) = n"
  by (simp add: digit_value_def of_char_digit_char)

lemma show_nat_digits: "c \<in> set (show_nat n) \<Longrightarrow> is_digit c"
proof (induction n rule: show_nat.induct)
  case (1 n)
  show ?case
  proof (cases "n < 10")
    case True
    with "1.prems" show ?thesis
      by (simp add: show_nat.simps [of n] is_digit_digit_char)
  next
    case False
    with 1 show ?thesis
      by (auto simp: show_nat.simps [of n] is_digit_digit_char)
  qed
qed

lemma show_nat_nonempty [simp]: "show_nat n \<noteq> []"
  by (simp add: show_nat.simps [of n])

lemma read_nat_snoc: "read_nat (s @ [c]) = 10 * read_nat s + digit_value c"
  by (simp add: read_nat_def)

lemma read_show_nat [simp]: "read_nat (show_nat n) = n"
proof (induction n rule: show_nat.induct)
  case (1 n)
  show ?case
  proof (cases "n < 10")
    case True
    then show ?thesis
      by (simp add: show_nat.simps [of n] read_nat_def digit_value_digit_char)
  next
    case False
    with "1.IH" show ?thesis
      by (simp add: show_nat.simps [of n] read_nat_snoc digit_value_digit_char)
  qed
qed

lemma show_nat_inject [simp]: "show_nat m = show_nat n \<longleftrightarrow> m = n"
  by (metis read_show_nat)

text \<open>\<^verbatim>\<open>f"{x:.0f}"\<close>: the nearest integer, a tie going to the even one.\<close>

definition round_half_even :: "real \<Rightarrow> int" where
  "round_half_even x =
     (let f = \<lfloor>x\<rfloor>; d = x - of_int f
      in if d < 1 / 2 then f else if 1 / 2 < d then f + 1 else if even f then f else f + 1)"

definition format_0f :: "real \<Rightarrow> string" where
  "format_0f x =
     (let n = round_half_even x in if x < 0 \<and> n = 0 then ''-0'' else show_int n)"

section \<open>Names\<close>

text \<open>\<^verbatim>\<open>re.sub(r"[^a-z0-9]+", "_", s)\<close>: every run of other characters becomes one underscore.\<close>

fun underscore_runs :: "bool \<Rightarrow> string \<Rightarrow> string" where
  "underscore_runs in_run [] = []"
| "underscore_runs in_run (c # cs) =
     (if is_name_char c then c # underscore_runs False cs
      else if in_run then underscore_runs True cs
      else CHR ''_'' # underscore_runs True cs)"

text \<open>\<^verbatim>\<open>re.sub(r"[^a-z0-9]", "", s)\<close>.\<close>

definition drop_non_name :: "string \<Rightarrow> string" where
  "drop_non_name s = filter is_name_char s"

text \<open>
  A name in normal form: words of \<^verbatim>\<open>[a-z0-9]\<close> joined by single underscores.  \<open>snake b s\<close> says
  that \<open>s\<close> continues such a name; \<open>b\<close> tells whether the character before it belongs to a word.
\<close>

fun snake :: "bool \<Rightarrow> string \<Rightarrow> bool" where
  "snake b [] \<longleftrightarrow> b"
| "snake b (c # cs) \<longleftrightarrow>
     (if is_name_char c then snake True cs else c = CHR ''_'' \<and> b \<and> snake False cs)"

definition normal_name :: "string \<Rightarrow> bool" where
  "normal_name s \<longleftrightarrow> s = [] \<or> snake False s"

lemma snake_chars: "snake b s \<Longrightarrow> c \<in> set s \<Longrightarrow> is_name_char c \<or> c = CHR ''_''"
  by (induction b s rule: snake.induct) (auto split: if_splits)

lemma snake_last: "snake b s \<Longrightarrow> s \<noteq> [] \<Longrightarrow> is_name_char (last s)"
  by (induction b s rule: snake.induct) (auto split: if_splits)

lemma underscore_runs_snake:
  "snake b s \<Longrightarrow> (in_run \<longrightarrow> \<not> b) \<Longrightarrow> underscore_runs in_run s = s"
  by (induction b s arbitrary: in_run rule: snake.induct) (auto split: if_splits)

abbreviation not_both_underscores :: "char \<Rightarrow> char \<Rightarrow> bool" where
  "not_both_underscores c d \<equiv> \<not> (c = CHR ''_'' \<and> d = CHR ''_'')"

lemma underscore_runs_chars:
  "c \<in> set (underscore_runs in_run s) \<Longrightarrow> is_name_char c \<or> c = CHR ''_''"
  by (induction in_run s rule: underscore_runs.induct) (auto split: if_splits)

lemma underscore_runs_hd:
  "underscore_runs True s = [] \<or> is_name_char (hd (underscore_runs True s))"
  by (induction s) auto

lemma underscore_runs_single:
  "successively not_both_underscores (underscore_runs in_run s)"
proof (induction in_run s rule: underscore_runs.induct)
  case (2 in_run c cs)
  then show ?case
    using underscore_runs_hd [of cs]
    by (auto simp: successively_Cons)
qed simp

lemma snakeI:
  assumes "\<And>c. c \<in> set t \<Longrightarrow> is_name_char c \<or> c = CHR ''_''"
    and "successively not_both_underscores t"
    and "t = [] \<longrightarrow> b" and "t \<noteq> [] \<longrightarrow> last t \<noteq> CHR ''_''"
    and "\<not> b \<longrightarrow> hd t \<noteq> CHR ''_''"
  shows "snake b t"
  using assms
proof (induction t arbitrary: b)
  case (Cons c cs)
  show ?case
  proof (cases "is_name_char c")
    case True
    have "snake True cs"
      using Cons.prems by (intro Cons.IH) (auto simp: successively_Cons split: if_splits)
    with True show ?thesis by simp
  next
    case False
    then have c: "c = CHR ''_''" using Cons.prems(1) [of c] by simp
    then have "cs \<noteq> []" and b using Cons.prems(4,5) by auto
    have "snake False cs"
    proof (rule Cons.IH)
      show "\<not> False \<longrightarrow> hd cs \<noteq> CHR ''_''"
        using Cons.prems(2) c \<open>cs \<noteq> []\<close> by (simp add: successively_Cons)
    qed (use Cons.prems \<open>cs \<noteq> []\<close> in \<open>simp_all add: successively_Cons\<close>)
    with False c \<open>b\<close> show ?thesis by simp
  qed
qed simp

lemma strip_by_parts: "\<exists>a b. s = a @ strip_by P s @ b"
proof -
  let ?t = "dropWhile P s"
  let ?u = "dropWhile P (rev ?t)"
  have "?t = rev ?u @ rev (takeWhile P (rev ?t))"
    by (metis rev_append rev_rev_ident takeWhile_dropWhile_id)
  then have "s = takeWhile P s @ strip_by P s @ rev (takeWhile P (rev ?t))"
    unfolding strip_by_def by (metis takeWhile_dropWhile_id)
  then show ?thesis by blast
qed

lemma normal_name_strip:
  "normal_name (strip_by (\<lambda>c. c = CHR ''_'') (underscore_runs False s))"
proof -
  let ?r = "underscore_runs False s"
  let ?t = "strip_by (\<lambda>c. c = CHR ''_'') ?r"
  obtain a b where r: "?r = a @ ?t @ b" using strip_by_parts by blast
  have "successively not_both_underscores (a @ ?t @ b)"
    using underscore_runs_single [of False s] r by simp
  then have "successively not_both_underscores ?t"
    by (auto simp: successively_append_iff)
  moreover have "is_name_char c \<or> c = CHR ''_''" if "c \<in> set ?t" for c
    using that underscore_runs_chars [of c False s] set_strip_by by blast
  ultimately show ?thesis
    using strip_by_ends [of "\<lambda>c. c = CHR ''_''" ?r]
    by (auto simp: normal_name_def intro!: snakeI)
qed

lemma normal_name_chars: "normal_name s \<Longrightarrow> c \<in> set s \<Longrightarrow> is_name_char c \<or> c = CHR ''_''"
  by (auto simp: normal_name_def dest: snake_chars)

lemma snake_hd: "snake False s \<Longrightarrow> s \<noteq> [] \<and> is_name_char (hd s)"
  by (cases s) (auto split: if_splits)

end
