(* ===== verification/PyValue.thy ===== *)
theory PyValue
  imports PyText
begin

text \<open>
  Python values: what \<^verbatim>\<open>json.loads\<close> gives (\<open>PNone\<close> to \<open>PDict\<close>) and the objects of the OpenStack
  SDKs (\<open>PBytes\<close>, \<open>PIso\<close>, \<open>PObj\<close>), with truth, \<^verbatim>\<open>str\<close>, \<^verbatim>\<open>repr\<close>, \<^verbatim>\<open>==\<close> (equality of the datatype)
  and \<^verbatim>\<open>dict.get\<close>.

  A float is its \<^verbatim>\<open>repr\<close> text, which determines it.  A tuple, a set and a list are all \<open>PList\<close>.
  \<open>PIso iso txt\<close> is an object with an \<^verbatim>\<open>isoformat\<close> method (a date).  \<open>PObj txt attrs dicts\<close> is any
  other object: \<open>txt\<close> is its \<^verbatim>\<open>str\<close>, \<open>attrs\<close> its attributes, and \<open>dicts\<close> what its \<^verbatim>\<open>to_dict\<close> method
  gives for each of the three argument lists the inventory tries (\<open>None\<close> for a \<^verbatim>\<open>TypeError\<close>;
  the empty list when it has no such method).
\<close>

datatype pyval =
    PNone
  | PBool bool
  | PInt int
  | PFloat string
  | PStr string
  | PBytes string
  | PList "pyval list"
  | PDict "(string \<times> pyval) list"
  | PIso string string
  | PObj string "(string \<times> pyval) list" "pyval option list"

type_synonym pydict = "(string, pyval) dict"

fun truthy :: "pyval \<Rightarrow> bool" where
  "truthy PNone = False"
| "truthy (PBool b) = b"
| "truthy (PInt i) = (i \<noteq> 0)"
| "truthy (PFloat t) = (t \<noteq> ''0.0'' \<and> t \<noteq> ''-0.0'')"
| "truthy (PStr s) = (s \<noteq> [])"
| "truthy (PBytes s) = (s \<noteq> [])"
| "truthy (PList xs) = (xs \<noteq> [])"
| "truthy (PDict d) = (d \<noteq> [])"
| "truthy (PIso _ _) = True"
| "truthy (PObj _ _ _) = True"

text \<open>\<^verbatim>\<open>a or b\<close>.\<close>

definition py_or :: "pyval \<Rightarrow> pyval \<Rightarrow> pyval" where
  "py_or a b = (if truthy a then a else b)"

section \<open>\<^verbatim>\<open>repr\<close> and \<^verbatim>\<open>str\<close>\<close>

definition hex_digit :: "nat \<Rightarrow> char" where
  "hex_digit n = (if n < 10 then char_of (48 + n) else char_of (87 + n))"

definition repr_char :: "char \<Rightarrow> char \<Rightarrow> string" where
  "repr_char quote c =
     (if c = quote \<or> c = CHR 0x5C then [CHR 0x5C, c]
      else if c = CHR 0x0A then [CHR 0x5C, CHR ''n'']
      else if c = CHR 0x0D then [CHR 0x5C, CHR ''r'']
      else if c = CHR 0x09 then [CHR 0x5C, CHR ''t'']
      else if (of_char c :: nat) < 32 \<or> of_char c = (127 :: nat) then
        [CHR 0x5C, CHR ''x'', hex_digit (of_char c div 16), hex_digit (of_char c mod 16)]
      else [c])"

definition repr_str :: "string \<Rightarrow> string" where
  "repr_str s =
     (let quote = (if CHR 0x27 \<in> set s \<and> CHR 0x22 \<notin> set s then CHR 0x22 else CHR 0x27)
      in [quote] @ concat (map (repr_char quote) s) @ [quote])"

fun py_repr :: "pyval \<Rightarrow> string"
  and repr_list :: "pyval list \<Rightarrow> string list"
  and repr_items :: "(string \<times> pyval) list \<Rightarrow> string list" where
  "py_repr PNone = ''None''"
| "py_repr (PBool b) = (if b then ''True'' else ''False'')"
| "py_repr (PInt i) = show_int i"
| "py_repr (PFloat t) = t"
| "py_repr (PStr s) = repr_str s"
| "py_repr (PBytes s) = ''b'' @ repr_str s"
| "py_repr (PList xs) = ''['' @ join '', '' (repr_list xs) @ '']''"
| "py_repr (PDict d) = ''{'' @ join '', '' (repr_items d) @ ''}''"
| "py_repr (PIso _ txt) = txt"
| "py_repr (PObj txt _ _) = txt"
| "repr_list [] = []"
| "repr_list (x # xs) = py_repr x # repr_list xs"
| "repr_items [] = []"
| "repr_items ((k, v) # kvs) = (repr_str k @ '': '' @ py_repr v) # repr_items kvs"

fun py_str :: "pyval \<Rightarrow> string" where
  "py_str (PStr s) = s"
| "py_str v = py_repr v"

definition repr_argv :: "string list \<Rightarrow> string" where
  "repr_argv xs = ''['' @ join '', '' (map repr_str xs) @ '']''"

section \<open>Dictionaries of values\<close>

text \<open>\<^verbatim>\<open>d.get(k)\<close> and \<^verbatim>\<open>d.get(k, default)\<close>.\<close>

definition vget :: "pydict \<Rightarrow> string \<Rightarrow> pyval" where
  "vget d k = (case dget d k of None \<Rightarrow> PNone | Some v \<Rightarrow> v)"

definition vget_or :: "pydict \<Rightarrow> string \<Rightarrow> pyval \<Rightarrow> pyval" where
  "vget_or d k def_v = (case dget d k of None \<Rightarrow> def_v | Some v \<Rightarrow> v)"

fun is_mapping :: "pyval \<Rightarrow> bool" where
  "is_mapping (PDict _) = True"
| "is_mapping _ = False"

text \<open>The values \<^verbatim>\<open>json.dumps\<close> accepts.\<close>

fun is_json :: "pyval \<Rightarrow> bool"
  and is_json_list :: "pyval list \<Rightarrow> bool"
  and is_json_items :: "(string \<times> pyval) list \<Rightarrow> bool" where
  "is_json (PBytes _) = False"
| "is_json (PIso _ _) = False"
| "is_json (PObj _ _ _) = False"
| "is_json (PList xs) = is_json_list xs"
| "is_json (PDict d) = is_json_items d"
| "is_json _ = True"
| "is_json_list [] = True"
| "is_json_list (x # xs) = (is_json x \<and> is_json_list xs)"
| "is_json_items [] = True"
| "is_json_items ((k, v) # kvs) = (is_json v \<and> is_json_items kvs)"

lemma is_json_list_iff: "is_json_list xs \<longleftrightarrow> (\<forall>x \<in> set xs. is_json x)"
  by (induction xs) simp_all

lemma is_json_items_iff: "is_json_items d \<longleftrightarrow> (\<forall>(k, v) \<in> set d. is_json v)"
  by (induction d) auto

lemma vget_simps [simp]:
  "vget [] k = PNone"
  "vget ((k', v) # d) k = (if k' = k then v else vget d k)"
  by (simp_all add: vget_def)

text \<open>The \<^verbatim>\<open>CompletedProcess\<close> of \<^verbatim>\<open>subprocess.run(..., capture_output=True, text=True)\<close>.\<close>

record completed =
  returncode :: int
  stdout :: string
  stderr :: string

text \<open>Iteration: the items of a list, the keys of a dictionary, the characters of a string; \<open>Inl\<close> is the
  message of the \<^verbatim>\<open>TypeError\<close>.\<close>

fun type_name :: "pyval \<Rightarrow> string" where
  "type_name PNone = ''NoneType''"
| "type_name (PBool _) = ''bool''"
| "type_name (PInt _) = ''int''"
| "type_name (PFloat _) = ''float''"
| "type_name (PStr _) = ''str''"
| "type_name (PBytes _) = ''bytes''"
| "type_name (PList _) = ''list''"
| "type_name (PDict _) = ''dict''"
| "type_name (PIso _ _) = ''date''"
| "type_name (PObj _ _ _) = ''object''"

fun py_iter :: "pyval \<Rightarrow> string + pyval list" where
  "py_iter (PList xs) = Inr xs"
| "py_iter (PDict d) = Inr (map (\<lambda>(k, _). PStr k) d)"
| "py_iter (PStr s) = Inr (map (\<lambda>c. PStr [c]) s)"
| "py_iter (PBytes s) = Inr (map (\<lambda>c. PInt (of_char c)) s)"
| "py_iter v = Inl (repr_str (type_name v) @ '' object is not iterable'')"

end
