(* ===== verification/DeletePlan.thy ===== *)
theory DeletePlan
  imports PyValue
begin

text \<open>
  The planning half of \<^verbatim>\<open>scripts/openstack/delete-project-resources.py\<close>: the tables that name the
  services and resources, the command of each resource, and the ordered deletion plan made from
  an inventory report.  Nothing here has an effect.
\<close>

section \<open>Data\<close>

text \<open>\<open>Mapping\<close> objects of the report are \<^typ>\<open>pydict\<close>; a table of the source is a dictionary.\<close>

record Resource =
  r_service :: string
  r_resource :: string
  r_identifier :: string
  r_raw :: pydict

type_synonym key = "string \<times> string \<times> string"

definition resource_key :: "Resource \<Rightarrow> key" where
  "resource_key r = (r_service r, r_resource r, r_identifier r)"

record Operation =
  o_phase :: nat
  o_resource :: Resource
  o_argv :: "string list"

text \<open>
  The exceptions of the program: \<open>DeletePlanError\<close> and \<open>OSErr\<close> are the two that \<^verbatim>\<open>main\<close> handles;
  a missing table key and a negative sleep would escape it.
\<close>

datatype del_error =
    DeletePlanError string
  | OSErr string
  | KeyErr key
  | ValueErr string
  | TypeErr string

section \<open>Tables\<close>

definition SERVICE_ALIASES :: "(string, string) dict" where
  "SERVICE_ALIASES =
    [(''alarming'', ''alarm''),
     (''application_container'', ''application-container''),
     (''backup'', ''backup''),
     (''container'', ''application-container''),
     (''zun'', ''application-container''),
     (''block_storage'', ''block-storage''),
     (''cinder'', ''block-storage''),
     (''clustering'', ''clustering''),
     (''compute'', ''compute''),
     (''database'', ''database''),
     (''designate'', ''dns''),
     (''dns'', ''dns''),
     (''heat'', ''orchestration''),
     (''image'', ''image''),
     (''key_manager'', ''key-manager''),
     (''load_balancer'', ''load-balancer''),
     (''loadbalancer'', ''load-balancer''),
     (''magnum'', ''container-infrastructure-management''),
     (''manila'', ''shared-file-system''),
     (''mistral'', ''workflow''),
     (''network'', ''network''),
     (''neutron'', ''network''),
     (''nova'', ''compute''),
     (''object_store'', ''object-store''),
     (''orchestration'', ''orchestration''),
     (''octavia'', ''load-balancer''),
     (''shared_file_system'', ''shared-file-system''),
     (''swift'', ''object-store''),
     (''workflow_engine'', ''workflow'')]"

definition RESOURCE_ALIASES :: "(string, string) dict" where
  "RESOURCE_ALIASES =
    [(''action_executions'', ''action_execution''),
     (''actions'', ''action''),
     (''alarms'', ''alarm''),
     (''application_containers'', ''container''),
     (''backups'', ''backup''),
     (''capsules'', ''capsule''),
     (''cluster_templates'', ''cluster_template''),
     (''code_sources'', ''code_source''),
     (''containers'', ''container''),
     (''cron_triggers'', ''cron_trigger''),
     (''database_instances'', ''instance''),
     (''event_triggers'', ''event_trigger''),
     (''events'', ''event''),
     (''floating_ips'', ''floating_ip''),
     (''group_snapshots'', ''group_snapshot''),
     (''keypairs'', ''keypair''),
     (''load_balancers'', ''load_balancer''),
     (''loadbalancers'', ''load_balancer''),
     (''networks'', ''network''),
     (''network_ip_availabilities'', ''network_ip_availability''),
     (''objects'', ''object''),
     (''ports'', ''port''),
     (''rbac_policies'', ''rbac_policy''),
     (''record_sets'', ''recordset''),
     (''recordsets'', ''recordset''),
     (''receivers'', ''receiver''),
     (''security_group_rules'', ''security_group_rule''),
     (''security_groups'', ''security_group''),
     (''server_groups'', ''server_group''),
     (''servers'', ''server''),
     (''share_groups'', ''share_group''),
     (''share_snapshots'', ''share_snapshot''),
     (''share_networks'', ''share_network''),
     (''shares'', ''share''),
     (''snapshots'', ''snapshot''),
     (''software_configs'', ''software_config''),
     (''software_deployments'', ''software_deployment''),
     (''stacks'', ''stack''),
     (''subnets'', ''subnet''),
     (''trusts'', ''trust''),
     (''user_messages'', ''user_message''),
     (''volume_transfers'', ''volume_transfer''),
     (''volumes'', ''volume''),
     (''workbooks'', ''workbook''),
     (''workflow_executions'', ''execution''),
     (''workflows'', ''workflow''),
     (''zone_shares'', ''zone_share''),
     (''zones'', ''zone'')]"

definition RESOURCE_PHASES :: "(string \<times> string, nat) dict" where
  "RESOURCE_PHASES =
    [((''identity'', ''trust''), 200),
     ((''workflow'', ''event_trigger''), 10),
     ((''workflow'', ''cron_trigger''), 10),
     ((''workflow'', ''action_execution''), 15),
     ((''workflow'', ''execution''), 20),
     ((''workflow'', ''workflow''), 30),
     ((''workflow'', ''action''), 31),
     ((''workflow'', ''code_source''), 31),
     ((''workflow'', ''dynamic_action''), 31),
     ((''workflow'', ''environment''), 31),
     ((''workflow'', ''workbook''), 31),
     ((''dns'', ''zone_share''), 35),
     ((''dns'', ''recordset''), 36),
     ((''dns'', ''zone''), 37),
     ((''alarm'', ''alarm''), 34),
     ((''clustering'', ''receiver''), 39),
     ((''clustering'', ''cluster''), 40),
     ((''clustering'', ''node''), 41),
     ((''clustering'', ''policy''), 42),
     ((''clustering'', ''profile''), 42),
     ((''orchestration'', ''stack''), 40),
     ((''orchestration'', ''software_deployment''), 41),
     ((''orchestration'', ''software_config''), 42),
     ((''application-container'', ''capsule''), 50),
     ((''application-container'', ''container''), 50),
     ((''load-balancer'', ''load_balancer''), 60),
     ((''container-infrastructure-management'', ''cluster''), 61),
     ((''container-infrastructure-management'', ''cluster_template''), 62),
     ((''database'', ''instance''), 63),
     ((''shared-file-system'', ''share_snapshot''), 64),
     ((''shared-file-system'', ''share''), 65),
     ((''shared-file-system'', ''share_group''), 66),
     ((''shared-file-system'', ''share_network''), 67),
     ((''shared-file-system'', ''user_message''), 68),
     ((''object-store'', ''object''), 70),
     ((''object-store'', ''container''), 71),
     ((''compute'', ''server''), 80),
     ((''compute'', ''keypair''), 81),
     ((''compute'', ''server_group''), 82),
     ((''image'', ''image''), 83),
     ((''key-manager'', ''container''), 84),
     ((''key-manager'', ''order''), 84),
     ((''key-manager'', ''secret''), 85),
     ((''block-storage'', ''group_snapshot''), 90),
     ((''block-storage'', ''snapshot''), 91),
     ((''block-storage'', ''backup''), 92),
     ((''block-storage'', ''group''), 93),
     ((''block-storage'', ''volume_transfer''), 94),
     ((''block-storage'', ''volume''), 95),
     ((''network'', ''floating_ip''), 100),
     ((''network'', ''router''), 110),
     ((''network'', ''port''), 120),
     ((''network'', ''subnet''), 130),
     ((''network'', ''network''), 140),
     ((''network'', ''rbac_policy''), 139),
     ((''network'', ''security_group_rule''), 150),
     ((''network'', ''security_group''), 151)]"

definition COVERED_CHILD_RESOURCES :: "(string \<times> string) list" where
  "COVERED_CHILD_RESOURCES =
    [(''application-container'', ''action''),
     (''application-container'', ''container_action''),
     (''application-container'', ''log''),
     (''application-container'', ''stats''),
     (''workflow'', ''action_execution_result''),
     (''workflow'', ''task''),
     (''workflow'', ''task_execution''),
     (''load-balancer'', ''health_monitor''),
     (''load-balancer'', ''listener''),
     (''load-balancer'', ''member''),
     (''load-balancer'', ''pool''),
     (''orchestration'', ''resource''),
     (''compute'', ''server_action''),
     (''compute'', ''server_interface''),
     (''compute'', ''server_ip'')]"

section \<open>Names\<close>

definition normalize_name :: "string \<Rightarrow> string" where
  "normalize_name v =
     strip_by (\<lambda>c. c = CHR ''_'') (underscore_runs False (lower (strip v)))"

definition dashes :: "string \<Rightarrow> string" where
  "dashes s = map (\<lambda>c. if c = CHR ''_'' then CHR ''-'' else c) s"

definition canonical_service :: "string \<Rightarrow> string" where
  "canonical_service v =
     (let normalized = normalize_name v
      in case dget SERVICE_ALIASES normalized of
           Some s \<Rightarrow> s
         | None \<Rightarrow> dashes normalized)"

definition canonical_resource :: "string \<Rightarrow> string" where
  "canonical_resource v =
     (let normalized = normalize_name v
      in case dget RESOURCE_ALIASES normalized of
           Some s \<Rightarrow> s
         | None \<Rightarrow> normalized)"

fun scalar_text :: "pyval \<Rightarrow> string" where
  "scalar_text PNone = []"
| "scalar_text (PDict _) = []"
| "scalar_text (PList _) = []"
| "scalar_text v = strip (py_str v)"

definition identifier_keys :: "string \<Rightarrow> string \<Rightarrow> string list" where
  "identifier_keys service resource =
     (if service = ''workflow'' \<and> resource = ''cron_trigger'' then [''name'', ''id'', ''uuid'']
      else if service = ''alarm'' \<and> resource = ''alarm'' then
        [''alarm_id'', ''id'', ''uuid'', ''name'', ''display_name'', ''stack_name'']
      else [''id'', ''uuid'', ''name'', ''display_name'', ''stack_name''])"

fun first_text :: "pydict \<Rightarrow> string list \<Rightarrow> string" where
  "first_text raw [] = []"
| "first_text raw (k # ks) =
     (let value = scalar_text (vget raw k) in if value \<noteq> [] then value else first_text raw ks)"

definition identifier_of :: "pydict \<Rightarrow> string \<Rightarrow> string \<Rightarrow> string" where
  "identifier_of raw service resource = first_text raw (identifier_keys service resource)"

section \<open>Commands\<close>

definition object_operation :: "Resource \<Rightarrow> del_error + string list" where
  "object_operation r =
     (let raw = r_raw r;
          container = scalar_text (py_or (vget raw ''container'') (vget raw ''container_name''));
          object_name = scalar_text
            (py_or (py_or (vget raw ''name'') (vget raw ''id'')) (vget raw ''object''))
      in if container = [] \<or> object_name = [] then
           Inl (DeletePlanError
             (''object-store object is missing its container or object name: '' @ py_repr (PDict raw)))
         else Inr [''object'', ''delete'', container, object_name])"

definition recordset_operation :: "Resource \<Rightarrow> del_error + string list" where
  "recordset_operation r =
     (let raw = r_raw r;
          zone = scalar_text (py_or (vget raw ''zone_id'') (vget raw ''zone''))
      in if zone = [] then
           Inl (DeletePlanError (''dns recordset is missing its zone ID: '' @ py_repr (PDict raw)))
         else Inr [''recordset'', ''delete'', zone, r_identifier r])"

definition zone_share_operation :: "Resource \<Rightarrow> del_error + string list" where
  "zone_share_operation r =
     (let raw = r_raw r;
          zone = scalar_text (py_or (vget raw ''zone_id'') (vget raw ''zone''))
      in if zone = [] then
           Inl (DeletePlanError (''dns zone share is missing its zone ID: '' @ py_repr (PDict raw)))
         else Inr [''zone'', ''share'', ''delete'', zone, r_identifier r])"

text \<open>
  The command tables of \<^verbatim>\<open>command_for\<close>, one per service.  Each block of the source either returns
  or falls through to the next; the blocks test different services, so a resource that no block
  of its service handles reaches the final \<^verbatim>\<open>raise\<close>.
\<close>

definition command_tables :: "(string, (string, string list) dict) dict" where
  "command_tables =
    [(''clustering'',
      [(''cluster'', [''cluster'', ''delete'', ''--force'']),
       (''policy'', [''cluster'', ''policy'', ''delete'', ''--force'']),
       (''profile'', [''cluster'', ''profile'', ''delete'', ''--force'']),
       (''node'', [''cluster'', ''node'', ''delete'', ''--force'']),
       (''receiver'', [''cluster'', ''receiver'', ''delete''])]),
     (''workflow'',
      [(''action'', [''action'', ''definition'', ''delete'']),
       (''action_execution'', [''action'', ''execution'', ''delete'']),
       (''code_source'', [''code'', ''source'', ''delete'']),
       (''cron_trigger'', [''cron'', ''trigger'', ''delete'']),
       (''dynamic_action'', [''dynamic'', ''action'', ''delete'']),
       (''environment'', [''workflow'', ''env'', ''delete'']),
       (''event_trigger'', [''event'', ''trigger'', ''delete'']),
       (''execution'', [''workflow'', ''execution'', ''delete'', ''--force'']),
       (''workbook'', [''workbook'', ''delete'']),
       (''workflow'', [''workflow'', ''delete''])]),
     (''orchestration'',
      [(''software_config'', [''software'', ''config'', ''delete'']),
       (''software_deployment'', [''software'', ''deployment'', ''delete'']),
       (''stack'', [''stack'', ''delete'', ''--yes''])]),
     (''application-container'',
      [(''capsule'', [''capsule'', ''delete'']),
       (''container'', [''appcontainer'', ''delete'', ''--force'', ''--stop'', ''--wait''])]),
     (''shared-file-system'',
      [(''share'', [''share'', ''delete'', ''--wait'']),
       (''share_network'', [''share'', ''network'', ''delete'']),
       (''share_group'', [''share'', ''group'', ''delete'']),
       (''share_snapshot'', [''share'', ''snapshot'', ''delete'']),
       (''user_message'', [''share'', ''message'', ''delete''])]),
     (''compute'',
      [(''keypair'', [''keypair'', ''delete'']),
       (''server'', [''server'', ''delete'', ''--wait'']),
       (''server_group'', [''server'', ''group'', ''delete''])]),
     (''key-manager'',
      [(''container'', [''secret'', ''container'', ''delete'']),
       (''order'', [''secret'', ''order'', ''delete'']),
       (''secret'', [''secret'', ''delete''])]),
     (''block-storage'',
      [(''backup'', [''volume'', ''backup'', ''delete'']),
       (''group'', [''volume'', ''group'', ''delete'']),
       (''group_snapshot'', [''volume'', ''group'', ''snapshot'', ''delete'']),
       (''snapshot'', [''volume'', ''snapshot'', ''delete'']),
       (''volume'', [''volume'', ''delete'', ''--force'']),
       (''volume_transfer'', [''volume'', ''transfer'', ''request'', ''delete''])]),
     (''network'',
      [(''floating_ip'', [''floating'', ''ip'', ''delete'']),
       (''network'', [''network'', ''delete'']),
       (''port'', [''port'', ''delete'']),
       (''rbac_policy'', [''network'', ''rbac'', ''delete'']),
       (''security_group'', [''security'', ''group'', ''delete'']),
       (''security_group_rule'', [''security'', ''group'', ''rule'', ''delete'']),
       (''subnet'', [''subnet'', ''delete''])])]"

definition table_command :: "string \<Rightarrow> string \<Rightarrow> string list option" where
  "table_command service kind =
     (case dget command_tables service of
        None \<Rightarrow> None
      | Some commands \<Rightarrow> dget commands kind)"

definition command_for :: "Resource \<Rightarrow> del_error + string list" where
  "command_for r =
     (let service = r_service r; kind = r_resource r; identifier = r_identifier r in
      if service = ''identity'' \<and> kind = ''trust'' then Inr [''trust'', ''delete'', identifier]
      else if service = ''dns'' \<and> kind = ''recordset'' then recordset_operation r
      else if service = ''dns'' \<and> kind = ''zone_share'' then zone_share_operation r
      else if service = ''dns'' \<and> kind = ''zone'' then
        Inr [''zone'', ''delete'', ''--hard-delete'', identifier]
      else if service = ''alarm'' \<and> kind = ''alarm'' then Inr [''alarm'', ''delete'', identifier]
      else if service = ''load-balancer'' \<and> kind = ''load_balancer'' then
        Inr [''loadbalancer'', ''delete'', ''--cascade'', ''--wait'', identifier]
      else if service = ''container-infrastructure-management'' \<and> kind = ''cluster'' then
        Inr [''coe'', ''cluster'', ''delete'', identifier]
      else if service = ''container-infrastructure-management'' \<and> kind = ''cluster_template'' then
        Inr [''coe'', ''cluster'', ''template'', ''delete'', identifier]
      else if service = ''database'' \<and> kind = ''instance'' then
        Inr [''database'', ''instance'', ''delete'', ''--force'', identifier]
      else if service = ''object-store'' \<and> kind = ''object'' then object_operation r
      else if service = ''object-store'' \<and> kind = ''container'' then
        Inr [''container'', ''delete'', ''-r'', identifier]
      else if service = ''image'' \<and> kind = ''image'' then Inr [''image'', ''delete'', identifier]
      else if service = ''network'' \<and> kind = ''router'' then
        Inr [''router'', ''delete'', identifier]
      else (case table_command service kind of
              Some command \<Rightarrow> Inr (command @ [identifier])
            | None \<Rightarrow> Inl (DeletePlanError
                (''unsupported project resource: '' @ service @ ''/'' @ kind))))"

section \<open>The plan\<close>

text \<open>
  The nested loops of \<^verbatim>\<open>_resource_entries\<close>.  Each level gives its outcomes in order, an issue
  (\<open>Inl\<close>) or an entry (\<open>Inr\<close>); the source appends them to its two lists.
\<close>

definition item_outcome :: "string \<Rightarrow> string \<Rightarrow> pyval \<Rightarrow> string + Resource" where
  "item_outcome service resource item =
     (case item of
        PDict raw \<Rightarrow>
          (let identifier = identifier_of raw service resource
           in if identifier = [] then
                Inl (service @ ''/'' @ resource @ '': resource has no id or name: ''
                     @ py_repr (PDict raw))
              else Inr \<lparr>r_service = service, r_resource = resource,
                        r_identifier = identifier, r_raw = raw\<rparr>)
      | _ \<Rightarrow> Inl (service @ ''/'' @ resource @ '': resource is not an object''))"

definition collection_outcomes ::
  "string \<Rightarrow> string \<Rightarrow> pyval \<Rightarrow> (string + Resource) list" where
  "collection_outcomes service raw_resource objects =
     (let resource = canonical_resource raw_resource in
      if \<not> truthy objects then []
      else case objects of
        PList items \<Rightarrow>
          if service = ''identity'' \<and> resource = ''project'' then []
          else if (service, resource) \<in> set COVERED_CHILD_RESOURCES then []
          else if dget RESOURCE_PHASES (service, resource) = None then
            [Inl (''unsupported project resource: '' @ service @ ''/'' @ resource)]
          else map (item_outcome service resource) items
      | _ \<Rightarrow> [Inl (service @ ''/'' @ resource @ '': resource collection is not a list'')])"

definition service_outcomes :: "string \<Rightarrow> pyval \<Rightarrow> (string + Resource) list" where
  "service_outcomes raw_service service_resources =
     (case service_resources of
        PDict collections \<Rightarrow>
          concat (map (\<lambda>(raw_resource, objects).
              collection_outcomes (canonical_service raw_service) raw_resource objects) collections)
      | _ \<Rightarrow> [Inl (raw_service @ '': resource collection is not an object'')])"

definition lefts :: "('a + 'b) list \<Rightarrow> 'a list" where
  "lefts xs = List.map_filter (\<lambda>x. case x of Inl a \<Rightarrow> Some a | Inr _ \<Rightarrow> None) xs"

definition rights :: "('a + 'b) list \<Rightarrow> 'b list" where
  "rights xs = List.map_filter (\<lambda>x. case x of Inl _ \<Rightarrow> None | Inr b \<Rightarrow> Some b) xs"

definition deduplicated :: "Resource list \<Rightarrow> Resource list" where
  "deduplicated entries = dvalues (first_by resource_key entries)"

definition resource_entries :: "pydict \<Rightarrow> del_error + Resource list \<times> string list" where
  "resource_entries report =
     (case vget report ''resources'' of
        PDict services \<Rightarrow>
          (let outcomes = concat (map (\<lambda>(s, rs). service_outcomes s rs) services)
           in Inr (deduplicated (rights outcomes), lefts outcomes))
      | _ \<Rightarrow> Inl (DeletePlanError ''inventory report has no resources object''))"

text \<open>
  \<^verbatim>\<open>plan_deletions\<close>: \<open>str(exc)\<close> of a \<open>DeletePlanError\<close> is its message; the phase is a plain table
  access, which would raise for a resource without a phase.
\<close>

definition sort_operations :: "Operation list \<Rightarrow> Operation list" where
  "sort_operations ops = sort_key (\<lambda>op. (o_phase op, resource_key (o_resource op))) ops"

fun plan_loop ::
  "Resource list \<Rightarrow> Operation list \<Rightarrow> string list \<Rightarrow> del_error + Operation list \<times> string list" where
  "plan_loop [] operations issues = Inr (operations, issues)"
| "plan_loop (r # rs) operations issues =
     (case command_for r of
        Inl (DeletePlanError message) \<Rightarrow> plan_loop rs operations (issues @ [message])
      | Inl e \<Rightarrow> Inl e
      | Inr argv \<Rightarrow>
          (case dget RESOURCE_PHASES (r_service r, r_resource r) of
             None \<Rightarrow> Inl (KeyErr (r_service r, r_resource r, []))
           | Some phase \<Rightarrow>
               plan_loop rs
                 (operations @ [\<lparr>o_phase = phase, o_resource = r, o_argv = argv\<rparr>]) issues))"

definition plan_deletions :: "pydict \<Rightarrow> del_error + Operation list \<times> string list" where
  "plan_deletions report =
     (case resource_entries report of
        Inl e \<Rightarrow> Inl e
      | Inr (resources, issues) \<Rightarrow>
          (case plan_loop resources [] issues of
             Inl e \<Rightarrow> Inl e
           | Inr (operations, all_issues) \<Rightarrow>
               Inr (sort_operations operations, sort (remdups all_issues))))"

section \<open>Names: normal forms\<close>

lemma normal_name_normalize [simp]: "normal_name (normalize_name v)"
  by (simp add: normalize_name_def normal_name_strip)

lemma lower_normal_name: "normal_name s \<Longrightarrow> lower s = s"
  by (auto simp: lower_def intro!: map_idI dest: normal_name_chars)

lemma normal_name_ends:
  assumes "normal_name s" and "s \<noteq> []"
  shows "is_name_char (hd s)" and "is_name_char (last s)"
proof -
  have "snake False s" using assms by (simp add: normal_name_def)
  then show "is_name_char (hd s)" and "is_name_char (last s)"
    using snake_hd snake_last assms(2) by blast+
qed

lemma strip_normal_name: "normal_name s \<Longrightarrow> strip s = s"
  using normal_name_ends [of s] unfolding strip_def
  by (intro strip_by_id) (auto dest: space_not_name_char)

lemma normalize_name_id: "normal_name s \<Longrightarrow> normalize_name s = s"
proof -
  assume n: "normal_name s"
  have "underscore_runs False s = s"
    using n by (auto simp: normal_name_def intro: underscore_runs_snake)
  moreover have "strip_by (\<lambda>c. c = CHR ''_'') s = s"
    using normal_name_ends [OF n] by (intro strip_by_id) auto
  ultimately show ?thesis
    using n by (simp add: normalize_name_def strip_normal_name lower_normal_name)
qed

lemma normalize_name_idem [simp]: "normalize_name (normalize_name v) = normalize_name v"
  by (simp add: normalize_name_id)

lemma service_alias_values:
  "dget SERVICE_ALIASES n = Some s \<Longrightarrow> canonical_service s = s"
proof -
  assume "dget SERVICE_ALIASES n = Some s"
  then have "s \<in> set (dvalues SERVICE_ALIASES)"
    by (metis imageI list.set_map map_of_SomeD snd_conv)
  moreover have "list_all (\<lambda>v. canonical_service v = v) (dvalues SERVICE_ALIASES)"
    by code_simp
  ultimately show ?thesis by (auto simp: list_all_iff)
qed

lemma resource_alias_values:
  "dget RESOURCE_ALIASES n = Some s \<Longrightarrow> canonical_resource s = s"
proof -
  assume "dget RESOURCE_ALIASES n = Some s"
  then have "s \<in> set (dvalues RESOURCE_ALIASES)"
    by (metis imageI list.set_map map_of_SomeD snd_conv)
  moreover have "list_all (\<lambda>v. canonical_resource v = v) (dvalues RESOURCE_ALIASES)"
    by code_simp
  ultimately show ?thesis by (auto simp: list_all_iff)
qed

text \<open>Dashes for underscores lose nothing: normalising gives the underscores back.\<close>

lemma dashes_runs:
  "(\<forall>c \<in> set s. is_name_char c \<or> c = CHR ''_'') \<Longrightarrow>
     underscore_runs b (dashes s) = underscore_runs b s"
proof (induction s arbitrary: b)
  case (Cons c cs)
  have "\<not> is_name_char CHR ''-''"
    by (simp add: is_name_char_def is_lower_code is_digit_code)
  with Cons show ?case by (auto simp: dashes_def)
qed (simp add: dashes_def)

lemma lower_char_dash [simp]: "lower_char CHR ''-'' = CHR ''-''"
  by (simp add: lower_char_def is_upper_code)

lemma normalize_dashes:
  assumes n: "normal_name s"
  shows "normalize_name (dashes s) = s"
proof -
  have chars: "\<forall>c \<in> set s. is_name_char c \<or> c = CHR ''_''"
    using n by (auto dest: normal_name_chars)
  then have "lower (dashes s) = dashes s"
    by (auto simp: lower_def dashes_def)
  moreover have "strip (dashes s) = dashes s"
    unfolding strip_def
  proof (rule strip_by_id, cases "s = []")
    case False
    have "\<not> is_space (if c = CHR ''_'' then CHR ''-'' else c)" if "c \<in> set s" for c
      using chars that by (auto simp: is_space_def is_name_char_def is_lower_code is_digit_code)
    with False show "dashes s = [] \<or> \<not> is_space (hd (dashes s)) \<and> \<not> is_space (last (dashes s))"
      by (simp add: dashes_def hd_map last_map)
  qed (simp add: dashes_def)
  ultimately have "normalize_name (dashes s) = strip_by (\<lambda>c. c = CHR ''_'') (underscore_runs False s)"
    using dashes_runs [OF chars] by (simp add: normalize_name_def)
  also have "\<dots> = normalize_name s"
    using n by (simp add: normalize_name_def strip_normal_name lower_normal_name)
  finally show ?thesis using n by (simp add: normalize_name_id)
qed

lemma canonical_service_idem: "canonical_service (canonical_service v) = canonical_service v"
proof (cases "dget SERVICE_ALIASES (normalize_name v)")
  case None
  then have "canonical_service v = dashes (normalize_name v)"
    by (simp add: canonical_service_def)
  with None show ?thesis
    by (simp add: canonical_service_def normalize_dashes)
next
  case (Some s)
  then have "canonical_service v = s" by (simp add: canonical_service_def)
  with Some show ?thesis by (simp add: service_alias_values)
qed

lemma canonical_resource_idem: "canonical_resource (canonical_resource v) = canonical_resource v"
proof (cases "dget RESOURCE_ALIASES (normalize_name v)")
  case None
  then show ?thesis by (simp add: canonical_resource_def)
next
  case (Some s)
  then have "canonical_resource v = s" by (simp add: canonical_resource_def)
  with Some show ?thesis by (simp add: resource_alias_values)
qed

section \<open>The dispatch and the phase table agree\<close>

text \<open>The resources that \<^verbatim>\<open>command_for\<close> handles outside the per-service tables.\<close>

definition special_kinds :: "(string \<times> string) list" where
  "special_kinds =
    [(''identity'', ''trust''), (''dns'', ''recordset''), (''dns'', ''zone_share''),
     (''dns'', ''zone''), (''alarm'', ''alarm''), (''load-balancer'', ''load_balancer''),
     (''container-infrastructure-management'', ''cluster''),
     (''container-infrastructure-management'', ''cluster_template''),
     (''database'', ''instance''), (''object-store'', ''object''),
     (''object-store'', ''container''), (''image'', ''image''), (''network'', ''router'')]"

definition unsupported :: "string \<Rightarrow> string \<Rightarrow> del_error" where
  "unsupported s k = DeletePlanError (''unsupported project resource: '' @ s @ ''/'' @ k)"

lemma command_for_table:
  assumes "(r_service r, r_resource r) \<notin> set special_kinds"
  shows "command_for r =
    (case table_command (r_service r) (r_resource r) of
       Some command \<Rightarrow> Inr (command @ [r_identifier r])
     | None \<Rightarrow> Inl (unsupported (r_service r) (r_resource r)))"
  using assms unfolding command_for_def Let_def special_kinds_def unsupported_def
  by (simp only: list.set insert_iff empty_iff prod.inject de_Morgan_disj if_False simp_thms)

lemma operation_errors_specific:
  "object_operation r \<noteq> Inl (unsupported s k)"
  "recordset_operation r \<noteq> Inl (unsupported s k)"
  "zone_share_operation r \<noteq> Inl (unsupported s k)"
  by (simp_all add: object_operation_def recordset_operation_def zone_share_operation_def
      Let_def unsupported_def)

lemma command_for_special:
  assumes "(r_service r, r_resource r) \<in> set special_kinds"
  shows "command_for r \<noteq> Inl (unsupported s k)"
  using assms unfolding special_kinds_def
  by (auto simp: command_for_def operation_errors_specific)

lemma table_command_phases:
  assumes "table_command s k = Some c"
  shows "dget RESOURCE_PHASES (s, k) \<noteq> None"
proof -
  from assms obtain cs where "(s, cs) \<in> set command_tables" and "(k, c) \<in> set cs"
    by (auto simp: table_command_def split: option.splits dest!: map_of_SomeD)
  moreover have "list_all (\<lambda>(s, cs). list_all (\<lambda>(k, _).
      dget RESOURCE_PHASES (s, k) \<noteq> None) cs) command_tables"
    by code_simp
  ultimately show ?thesis by (fastforce simp: list_all_iff)
qed

lemma special_kinds_phases:
  "(s, k) \<in> set special_kinds \<Longrightarrow> dget RESOURCE_PHASES (s, k) \<noteq> None"
proof -
  have "list_all (\<lambda>sk. dget RESOURCE_PHASES sk \<noteq> None) special_kinds"
    by code_simp
  then show "(s, k) \<in> set special_kinds \<Longrightarrow> dget RESOURCE_PHASES (s, k) \<noteq> None"
    by (simp add: list_all_iff)
qed

lemma phases_handled:
  assumes "dget RESOURCE_PHASES (s, k) = Some p"
  shows "(s, k) \<in> set special_kinds \<or> table_command s k \<noteq> None"
proof -
  have "((s, k), p) \<in> set RESOURCE_PHASES" using assms by (rule map_of_SomeD)
  moreover have "list_all (\<lambda>((s, k), _).
      List.member special_kinds (s, k) \<or> table_command s k \<noteq> None) RESOURCE_PHASES"
    by code_simp
  ultimately show ?thesis by (fastforce simp: list_all_iff)
qed

lemma unsupported_iff_no_phase:
  "command_for r = Inl (unsupported (r_service r) (r_resource r)) \<longleftrightarrow>
     dget RESOURCE_PHASES (r_service r, r_resource r) = None"
proof (cases "(r_service r, r_resource r) \<in> set special_kinds")
  case True
  then show ?thesis
    using command_for_special special_kinds_phases by blast
next
  case False
  then show ?thesis
    using phases_handled [of "r_service r" "r_resource r"]
      table_command_phases [of "r_service r" "r_resource r"]
    by (cases "dget RESOURCE_PHASES (r_service r, r_resource r)";
        cases "table_command (r_service r) (r_resource r)")
      (auto simp: command_for_table)
qed

lemma command_for_error:
  assumes "command_for r = Inl e"
  shows "\<exists>m. e = DeletePlanError m"
proof (cases "(r_service r, r_resource r) \<in> set special_kinds")
  case True
  then show ?thesis
    using assms unfolding special_kinds_def
    by (auto simp: command_for_def object_operation_def recordset_operation_def
        zone_share_operation_def Let_def split: if_splits)
next
  case False
  with assms show ?thesis
    by (auto simp: command_for_table unsupported_def split: option.splits)
qed

section \<open>What the plan holds\<close>

lemma lefts_simps [simp]:
  "lefts [] = []" "lefts (Inl a # xs) = a # lefts xs" "lefts (Inr b # xs) = lefts xs"
  "lefts (xs @ ys) = lefts xs @ lefts ys"
  by (simp_all add: lefts_def List.map_filter_def)

lemma rights_simps [simp]:
  "rights [] = []" "rights (Inl a # xs) = rights xs" "rights (Inr b # xs) = b # rights xs"
  "rights (xs @ ys) = rights xs @ rights ys"
  by (simp_all add: rights_def List.map_filter_def)

lemma set_rights: "b \<in> set (rights xs) \<longleftrightarrow> Inr b \<in> set xs"
  by (induction xs) (auto simp: rights_def List.map_filter_def split: sum.splits)

lemma set_lefts: "a \<in> set (lefts xs) \<longleftrightarrow> Inl a \<in> set xs"
  by (induction xs) (auto simp: lefts_def List.map_filter_def split: sum.splits)

text \<open>One pass of the planning loop, as a function.\<close>

definition planned :: "Resource \<Rightarrow> string + Operation" where
  "planned r =
     (case (command_for r, dget RESOURCE_PHASES (r_service r, r_resource r)) of
        (Inr argv, Some phase) \<Rightarrow> Inr \<lparr>o_phase = phase, o_resource = r, o_argv = argv\<rparr>
      | (Inl (DeletePlanError m), _) \<Rightarrow> Inl m
      | _ \<Rightarrow> Inl [])"

lemma plan_loop_eq:
  assumes "\<And>r. r \<in> set rs \<Longrightarrow> dget RESOURCE_PHASES (r_service r, r_resource r) \<noteq> None"
  shows "plan_loop rs ops issues =
    Inr (ops @ rights (map planned rs), issues @ lefts (map planned rs))"
  using assms
proof (induction rs arbitrary: ops issues)
  case (Cons r rs)
  obtain p where phase: "dget RESOURCE_PHASES (r_service r, r_resource r) = Some p"
    using Cons.prems by auto
  show ?case
  proof (cases "command_for r")
    case (Inl e)
    then obtain m where "e = DeletePlanError m" using command_for_error by blast
    with Inl phase Cons show ?thesis by (simp add: planned_def)
  next
    case (Inr argv)
    with phase Cons show ?thesis by (auto simp: planned_def)
  qed
qed simp

lemma planned_Inr:
  "planned r = Inr op \<longleftrightarrow>
     o_resource op = r \<and> command_for r = Inr (o_argv op) \<and>
     dget RESOURCE_PHASES (r_service r, r_resource r) = Some (o_phase op)"
  by (cases op) (auto simp: planned_def split: sum.splits option.splits del_error.splits)

text \<open>\<open>lists_object report s k item\<close>: the report lists \<open>item\<close> in the collection \<open>k\<close> of service \<open>s\<close>.\<close>

definition lists_object :: "pydict \<Rightarrow> string \<Rightarrow> string \<Rightarrow> pyval \<Rightarrow> bool" where
  "lists_object report s k item \<longleftrightarrow>
     (\<exists>services collections items.
        vget report ''resources'' = PDict services \<and> (s, PDict collections) \<in> set services \<and>
        (k, PList items) \<in> set collections \<and> item \<in> set items)"

text \<open>The kinds a plan leaves to the deletion of something else.\<close>

definition left_to_parent :: "string \<Rightarrow> string \<Rightarrow> bool" where
  "left_to_parent service resource \<longleftrightarrow>
     (service, resource) = (''identity'', ''project'') \<or>
     (service, resource) \<in> set COVERED_CHILD_RESOURCES"

lemma project_no_phase: "dget RESOURCE_PHASES (''identity'', ''project'') = None"
  by code_simp

lemma covered_no_phase: "sk \<in> set COVERED_CHILD_RESOURCES \<Longrightarrow> dget RESOURCE_PHASES sk = None"
proof -
  have "list_all (\<lambda>sk. dget RESOURCE_PHASES sk = None) COVERED_CHILD_RESOURCES"
    by code_simp
  then show "sk \<in> set COVERED_CHILD_RESOURCES \<Longrightarrow> dget RESOURCE_PHASES sk = None"
    by (simp add: list_all_iff)
qed

lemma item_outcome_Inr:
  "item_outcome s k item = Inr r \<longleftrightarrow>
     (\<exists>raw. item = PDict raw \<and> identifier_of raw s k \<noteq> [] \<and>
        r = \<lparr>r_service = s, r_resource = k, r_identifier = identifier_of raw s k, r_raw = raw\<rparr>)"
  by (auto simp: item_outcome_def Let_def split: pyval.splits)

lemma collection_outcomes_Inr:
  "Inr r \<in> set (collection_outcomes s raw_k objects) \<longleftrightarrow>
     (\<exists>items raw. objects = PList items \<and> PDict raw \<in> set items \<and>
        dget RESOURCE_PHASES (s, canonical_resource raw_k) \<noteq> None \<and>
        identifier_of raw s (canonical_resource raw_k) \<noteq> [] \<and>
        r = \<lparr>r_service = s, r_resource = canonical_resource raw_k,
             r_identifier = identifier_of raw s (canonical_resource raw_k), r_raw = raw\<rparr>)"
  (is "?l \<longleftrightarrow> ?r")
proof
  assume ?l
  then show ?r
    by (auto simp: collection_outcomes_def Let_def item_outcome_Inr eq_commute [of "Inr r"]
        split: if_splits pyval.splits)
next
  assume ?r
  then obtain items raw where *: "objects = PList items" "PDict raw \<in> set items"
    "dget RESOURCE_PHASES (s, canonical_resource raw_k) \<noteq> None"
    "item_outcome s (canonical_resource raw_k) (PDict raw) = Inr r"
    by (auto simp: item_outcome_Inr)
  then have "items \<noteq> []" and "(s, canonical_resource raw_k) \<notin> set COVERED_CHILD_RESOURCES"
    and "\<not> (s = ''identity'' \<and> canonical_resource raw_k = ''project'')"
    using covered_no_phase project_no_phase by auto
  with * show ?l
    by (auto simp: collection_outcomes_def Let_def intro!: rev_image_eqI)
qed

lemma resource_entries_Inr:
  assumes "resource_entries report = Inr (rs, issues)"
  obtains services where "vget report ''resources'' = PDict services"
    and "rs = deduplicated (rights (concat (map (\<lambda>(s, c). service_outcomes s c) services)))"
    and "issues = lefts (concat (map (\<lambda>(s, c). service_outcomes s c) services))"
  using assms by (auto simp: resource_entries_def Let_def split: pyval.splits)

lemma set_deduplicated: "r \<in> set (deduplicated rs) \<Longrightarrow> r \<in> set rs"
  by (auto simp: deduplicated_def dest: first_by_values_key)

lemma deduplicated_distinct: "distinct (map resource_key (deduplicated rs))"
  unfolding deduplicated_def first_by_values_keys by (rule first_by_distinct)

lemma deduplicated_keys: "resource_key ` set (deduplicated rs) = resource_key ` set rs"
  unfolding deduplicated_def
  by (metis first_by_keys first_by_values_keys list.set_map)

lemma service_outcomes_entry:
  "Inr r \<in> set (service_outcomes s c) \<longleftrightarrow>
     (\<exists>collections k objects. c = PDict collections \<and> (k, objects) \<in> set collections \<and>
        Inr r \<in> set (collection_outcomes (canonical_service s) k objects))"
  by (auto simp: service_outcomes_def split: pyval.splits)

lemma entry_listed:
  assumes "vget report ''resources'' = PDict services"
  shows "Inr r \<in> set (concat (map (\<lambda>(s, c). service_outcomes s c) services)) \<longleftrightarrow>
    (\<exists>s k raw. lists_object report s k (PDict raw) \<and>
       dget RESOURCE_PHASES (canonical_service s, canonical_resource k) \<noteq> None \<and>
       identifier_of raw (canonical_service s) (canonical_resource k) \<noteq> [] \<and>
       r = \<lparr>r_service = canonical_service s, r_resource = canonical_resource k,
            r_identifier = identifier_of raw (canonical_service s) (canonical_resource k),
            r_raw = raw\<rparr>)"
  using assms
  by (fastforce simp: lists_object_def service_outcomes_entry collection_outcomes_Inr)

lemma entry_origin:
  assumes "resource_entries report = Inr (rs, issues)" and "r \<in> set rs"
  obtains s k raw where "lists_object report s k (PDict raw)"
    and "dget RESOURCE_PHASES (canonical_service s, canonical_resource k) \<noteq> None"
    and "identifier_of raw (canonical_service s) (canonical_resource k) \<noteq> []"
    and "r = \<lparr>r_service = canonical_service s, r_resource = canonical_resource k,
              r_identifier = identifier_of raw (canonical_service s) (canonical_resource k),
              r_raw = raw\<rparr>"
  using assms(1)
proof (rule resource_entries_Inr)
  fix services
  assume v: "vget report ''resources'' = PDict services"
    and rs: "rs = deduplicated (rights (concat (map (\<lambda>(s, c). service_outcomes s c) services)))"
  have "Inr r \<in> set (concat (map (\<lambda>(s, c). service_outcomes s c) services))"
    using set_deduplicated [OF assms(2) [unfolded rs]] by (simp only: set_rights)
  then show thesis unfolding entry_listed [OF v] using that by blast
qed

lemma entries_have_phase:
  assumes "resource_entries report = Inr (rs, issues)" and "r \<in> set rs"
  shows "dget RESOURCE_PHASES (r_service r, r_resource r) \<noteq> None"
  using assms by (rule entry_origin) simp

text \<open>The plan in closed form: no table access fails.\<close>

lemma plan_deletions_eq:
  "plan_deletions report =
     (case resource_entries report of
        Inl e \<Rightarrow> Inl e
      | Inr (rs, issues) \<Rightarrow>
          Inr (sort_operations (rights (map planned rs)),
               sort (remdups (issues @ lefts (map planned rs)))))"
  by (auto simp: plan_deletions_def plan_loop_eq entries_have_phase split: sum.split)

lemma plan_deletionsE:
  assumes "plan_deletions report = Inr (ops, issues)"
  obtains rs entry_issues where "resource_entries report = Inr (rs, entry_issues)"
    and "ops = sort_operations (rights (map planned rs))"
    and "issues = sort (remdups (entry_issues @ lefts (map planned rs)))"
  using assms by (auto simp: plan_deletions_eq split: sum.splits)

lemma set_sort_operations [simp]: "set (sort_operations ops) = set ops"
  by (simp add: sort_operations_def)

lemma plan_operation_planned:
  assumes "plan_deletions report = Inr (ops, issues)" and "op \<in> set ops"
  shows "planned (o_resource op) = Inr op"
  using assms by (elim plan_deletionsE) (auto simp: set_rights planned_Inr eq_commute [of "Inr _"])

lemma plan_sorted:
  assumes "plan_deletions report = Inr (ops, issues)"
  shows "sorted (map (\<lambda>op. (o_phase op, resource_key (o_resource op))) ops)"
  using assms by (elim plan_deletionsE) (simp add: sort_operations_def pysort.ascending)

lemma plan_order:
  assumes "plan_deletions report = Inr (ops, issues)"
    and "i < length ops" and "j < length ops" and "o_phase (ops ! i) < o_phase (ops ! j)"
  shows "i < j"
proof -
  let ?key = "\<lambda>op. (o_phase op, resource_key (o_resource op))"
  from assms(1) obtain xs where ops: "ops = sort_key ?key xs"
    by (elim plan_deletionsE) (simp add: sort_operations_def)
  have "?key (ops ! i) < ?key (ops ! j)" using assms(4) by simp
  then show ?thesis
    using assms(2,3) pysort.smaller_first [of i ?key xs j] unfolding ops by blast
qed

lemma rights_planned_resources:
  "lefts (map planned rs) = [] \<Longrightarrow> map o_resource (rights (map planned rs)) = rs"
proof (induction rs)
  case (Cons r rs)
  show ?case
  proof (cases "planned r")
    case (Inr op)
    moreover from Inr have "o_resource op = r" by (simp add: planned_Inr)
    ultimately show ?thesis using Cons by simp
  qed (use Cons.prems in simp)
qed simp

lemma plan_resources:
  assumes "plan_deletions report = Inr (ops, [])"
  obtains rs where "resource_entries report = Inr (rs, [])" and "set (map o_resource ops) = set rs"
    and "distinct (map (\<lambda>op. resource_key (o_resource op)) ops)"
proof -
  from assms obtain rs entry_issues where rs: "resource_entries report = Inr (rs, entry_issues)"
    and ops: "ops = sort_operations (rights (map planned rs))"
    and "[] = sort (remdups (entry_issues @ lefts (map planned rs)))"
    by (elim plan_deletionsE) blast
  then have "set (entry_issues @ lefts (map planned rs)) = {}"
    by (metis set_remdups set_sort list.set(1))
  then have none: "entry_issues = []" "lefts (map planned rs) = []" by simp_all
  have res: "map o_resource (rights (map planned rs)) = rs"
    by (rule rights_planned_resources [OF none(2)])
  have "set (map o_resource ops) = set rs"
    using res by (metis list.set_map ops set_sort_operations)
  moreover have "mset (map (resource_key \<circ> o_resource) ops) = mset (map resource_key rs)"
  proof -
    have "mset (map (resource_key \<circ> o_resource) ops) =
        mset (map (resource_key \<circ> o_resource) (rights (map planned rs)))"
      unfolding ops sort_operations_def by (simp only: mset_map pysort.perm)
    also have "map (resource_key \<circ> o_resource) (rights (map planned rs)) = map resource_key rs"
      using res by (metis map_map)
    finally show ?thesis .
  qed
  then have "distinct (map (\<lambda>op. resource_key (o_resource op)) ops) \<longleftrightarrow>
      distinct (map resource_key rs)"
    by (metis (mono_tags, lifting) comp_apply map_eq_conv mset_eq_imp_distinct_iff)
  moreover have "distinct (map resource_key rs)"
    using rs by (elim resource_entries_Inr) (simp add: deduplicated_distinct)
  ultimately show thesis using that rs none by simp
qed

lemma collection_without_issue:
  assumes "\<And>m. Inl m \<notin> set (collection_outcomes s raw_k (PList items))"
    and "items \<noteq> []" and "\<not> left_to_parent s (canonical_resource raw_k)"
  shows "collection_outcomes s raw_k (PList items) =
    map (item_outcome s (canonical_resource raw_k)) items"
proof (cases "dget RESOURCE_PHASES (s, canonical_resource raw_k)")
  case None
  let ?m = "''unsupported project resource: '' @ s @ ''/'' @ canonical_resource raw_k"
  have "collection_outcomes s raw_k (PList items) = [Inl ?m]"
    using None assms(2,3)
    by (simp only: collection_outcomes_def Let_def left_to_parent_def truthy.simps pyval.case
        if_True if_False simp_thms prod.inject de_Morgan_disj)
  with assms(1) [of ?m] show ?thesis by (simp only: list.set_intros simp_thms)
next
  case (Some p)
  with assms(2,3) show ?thesis
    by (simp add: collection_outcomes_def Let_def left_to_parent_def)
qed

definition kind_of :: "Operation \<Rightarrow> string \<times> string" where
  "kind_of op = (r_service (o_resource op), r_resource (o_resource op))"

lemma plan_kind_phase:
  "plan_deletions report = Inr (ops, issues) \<Longrightarrow> op \<in> set ops \<Longrightarrow>
     dget RESOURCE_PHASES (kind_of op) = Some (o_phase op)"
  by (drule (1) plan_operation_planned) (simp add: planned_Inr kind_of_def)

lemma plan_order_by_kind:
  assumes "plan_deletions report = Inr (ops, issues)"
    and "i < length ops" and "j < length ops"
    and "dget RESOURCE_PHASES (kind_of (ops ! i)) = Some p"
    and "dget RESOURCE_PHASES (kind_of (ops ! j)) = Some q" and "p < q"
  shows "i < j"
  using plan_order [OF assms(1-3)] assms(2-6) plan_kind_phase [OF assms(1) nth_mem]
  by fastforce

section \<open>Properties of the plan\<close>

text \<open>
  What must go before what.  The pairs state the rules of the services, independently of the
  phase numbers: a trigger or an execution before its workflow, the children of a DNS zone, a
  cluster before its nodes, policies and profile, a Heat stack before anything it may own, a
  template after its clusters, snapshots and backups before their source, an object before its
  container, a server before what it uses, a secret container before its secrets, and the network
  from the floating addresses inwards.
\<close>

definition DELETED_BEFORE :: "((string \<times> string) \<times> (string \<times> string)) list" where
  "DELETED_BEFORE =
    [((''workflow'', ''cron_trigger''), (''workflow'', ''workflow'')),
     ((''workflow'', ''event_trigger''), (''workflow'', ''workflow'')),
     ((''workflow'', ''action_execution''), (''workflow'', ''execution'')),
     ((''workflow'', ''execution''), (''workflow'', ''workflow'')),
     ((''workflow'', ''workflow''), (''workflow'', ''action'')),
     ((''dns'', ''zone_share''), (''dns'', ''zone'')),
     ((''dns'', ''recordset''), (''dns'', ''zone'')),
     ((''clustering'', ''receiver''), (''clustering'', ''cluster'')),
     ((''clustering'', ''cluster''), (''clustering'', ''node'')),
     ((''clustering'', ''cluster''), (''clustering'', ''policy'')),
     ((''clustering'', ''node''), (''clustering'', ''profile'')),
     ((''clustering'', ''node''), (''application-container'', ''capsule'')),
     ((''orchestration'', ''stack''), (''orchestration'', ''software_deployment'')),
     ((''orchestration'', ''software_deployment''), (''orchestration'', ''software_config'')),
     ((''orchestration'', ''stack''), (''load-balancer'', ''load_balancer'')),
     ((''orchestration'', ''stack''), (''compute'', ''server'')),
     ((''orchestration'', ''stack''), (''block-storage'', ''volume'')),
     ((''orchestration'', ''stack''), (''network'', ''router'')),
     ((''container-infrastructure-management'', ''cluster''),
      (''container-infrastructure-management'', ''cluster_template'')),
     ((''shared-file-system'', ''share_snapshot''), (''shared-file-system'', ''share'')),
     ((''shared-file-system'', ''share''), (''shared-file-system'', ''share_group'')),
     ((''shared-file-system'', ''share''), (''shared-file-system'', ''share_network'')),
     ((''object-store'', ''object''), (''object-store'', ''container'')),
     ((''compute'', ''server''), (''compute'', ''keypair'')),
     ((''compute'', ''server''), (''compute'', ''server_group'')),
     ((''compute'', ''server''), (''image'', ''image'')),
     ((''compute'', ''server''), (''block-storage'', ''volume'')),
     ((''compute'', ''server''), (''network'', ''port'')),
     ((''key-manager'', ''container''), (''key-manager'', ''secret'')),
     ((''block-storage'', ''group_snapshot''), (''block-storage'', ''group'')),
     ((''block-storage'', ''snapshot''), (''block-storage'', ''volume'')),
     ((''block-storage'', ''backup''), (''block-storage'', ''volume'')),
     ((''block-storage'', ''volume_transfer''), (''block-storage'', ''volume'')),
     ((''load-balancer'', ''load_balancer''), (''network'', ''floating_ip'')),
     ((''network'', ''floating_ip''), (''network'', ''router'')),
     ((''network'', ''router''), (''network'', ''port'')),
     ((''network'', ''port''), (''network'', ''subnet'')),
     ((''network'', ''subnet''), (''network'', ''network'')),
     ((''network'', ''rbac_policy''), (''network'', ''network'')),
     ((''network'', ''port''), (''network'', ''security_group'')),
     ((''network'', ''security_group_rule''), (''network'', ''security_group''))]"

definition phase_before :: "string \<times> string \<Rightarrow> string \<times> string \<Rightarrow> bool" where
  "phase_before a b =
     (case (dget RESOURCE_PHASES a, dget RESOURCE_PHASES b) of
        (Some p, Some q) \<Rightarrow> p < q
      | _ \<Rightarrow> False)"

lemma deleted_before_phases: "(a, b) \<in> set DELETED_BEFORE \<Longrightarrow> phase_before a b"
proof -
  let ?ok = "list_all (\<lambda>(a, b). phase_before a b)"
  have "?ok (take 10 DELETED_BEFORE)" by code_simp
  moreover have "?ok (take 10 (drop 10 DELETED_BEFORE))" by code_simp
  moreover have "?ok (take 10 (drop 20 DELETED_BEFORE))" by code_simp
  moreover have "?ok (drop 30 DELETED_BEFORE)" by code_simp
  moreover have "DELETED_BEFORE = take 10 DELETED_BEFORE @ take 10 (drop 10 DELETED_BEFORE)
      @ take 10 (drop 20 DELETED_BEFORE) @ drop 30 DELETED_BEFORE"
    (is "_ = ?a @ ?b @ ?c @ ?d")
    using append_take_drop_id [of 10 DELETED_BEFORE]
      append_take_drop_id [of 10 "drop 10 DELETED_BEFORE"]
      append_take_drop_id [of 10 "drop 20 DELETED_BEFORE"]
    by (simp only: drop_drop) simp
  ultimately have "?ok DELETED_BEFORE" using list_all_append by metis
  then show "(a, b) \<in> set DELETED_BEFORE \<Longrightarrow> phase_before a b" by (auto simp: list_all_iff)
qed

text \<open>C1: The plan respects the dependencies between resources: an operation whose kind must be
  deleted before the kind of another stands before it.\<close>

theorem plan_respects_dependencies:
  assumes "plan_deletions report = Inr (ops, issues)"
    and "i < length ops" and "j < length ops"
    and "(kind_of (ops ! i), kind_of (ops ! j)) \<in> set DELETED_BEFORE"
  shows "i < j"
  using deleted_before_phases [OF assms(4)] plan_order_by_kind [OF assms(1-3)]
  by (auto simp: phase_before_def split: option.splits)

text \<open>The bands of the phase table: trusts at 200, networking in 100 to 199, the rest below.\<close>

definition phase_place :: "string \<times> string \<Rightarrow> nat \<Rightarrow> bool" where
  "phase_place sk p \<longleftrightarrow>
     (if sk = (''identity'', ''trust'') then p = 200
      else if fst sk = ''network'' then 100 \<le> p \<and> p < 200
      else p < 100)"

lemma phase_places: "(sk, p) \<in> set RESOURCE_PHASES \<Longrightarrow> phase_place sk p"
proof -
  have "list_all (\<lambda>(sk, p). phase_place sk p) RESOURCE_PHASES" by code_simp
  then show "(sk, p) \<in> set RESOURCE_PHASES \<Longrightarrow> phase_place sk p"
    unfolding list_all_iff by blast
qed

text \<open>Keystone trusts, which Heat needs for its deferred clean-up, go after everything else, and
  every network resource goes after all that is neither network nor trust.\<close>

theorem trusts_last_networks_before:
  assumes "plan_deletions report = Inr (ops, issues)"
    and "i < length ops" and "j < length ops"
  shows "(kind_of (ops ! j) = (''identity'', ''trust'') \<and>
            kind_of (ops ! i) \<noteq> (''identity'', ''trust'') \<longrightarrow> i < j) \<and>
         (fst (kind_of (ops ! j)) = ''network'' \<and>
            fst (kind_of (ops ! i)) \<notin> {''network'', ''identity''} \<longrightarrow> i < j)"
proof -
  have phase: "phase_place (kind_of op) (o_phase op)" if "op \<in> set ops" for op
    using map_of_SomeD [OF plan_kind_phase [OF assms(1) that]] by (rule phase_places)
  note at = phase [OF nth_mem [OF assms(2)]] phase [OF nth_mem [OF assms(3)]]
  then have "o_phase (ops ! i) < o_phase (ops ! j)"
    if "kind_of (ops ! j) = (''identity'', ''trust'') \<and> kind_of (ops ! i) \<noteq> (''identity'', ''trust'') \<or>
      fst (kind_of (ops ! j)) = ''network'' \<and> fst (kind_of (ops ! i)) \<notin> {''network'', ''identity''}"
    using that by (auto simp: phase_place_def split: if_splits)
  then show ?thesis using plan_order [OF assms] by blast
qed

text \<open>C3: The plan only deletes what the report lists: each operation is for one listed object of a
  kind that has a phase, never the project itself, with the command of that object; and no two
  operations have the same key.\<close>

theorem plan_sound:
  assumes "plan_deletions report = Inr (ops, [])"
  shows "distinct (map (\<lambda>op. resource_key (o_resource op)) ops) \<and>
    (\<forall>op \<in> set ops. kind_of op \<noteq> (''identity'', ''project'') \<and>
       command_for (o_resource op) = Inr (o_argv op) \<and>
       (\<exists>s k raw. lists_object report s k (PDict raw) \<and>
          kind_of op = (canonical_service s, canonical_resource k) \<and>
          r_identifier (o_resource op) = identifier_of raw (canonical_service s) (canonical_resource k) \<and>
          r_identifier (o_resource op) \<noteq> [] \<and> r_raw (o_resource op) = raw))"
proof -
  obtain rs where rs: "resource_entries report = Inr (rs, [])"
    and ops: "set (map o_resource ops) = set rs"
    and dist: "distinct (map (\<lambda>op. resource_key (o_resource op)) ops)"
    using assms by (rule plan_resources)
  have "kind_of op \<noteq> (''identity'', ''project'')" if "op \<in> set ops" for op
    using plan_kind_phase [OF assms that] project_no_phase by auto
  moreover have "command_for (o_resource op) = Inr (o_argv op)" if "op \<in> set ops" for op
    using plan_operation_planned [OF assms that] by (simp add: planned_Inr)
  moreover have "\<exists>s k raw. lists_object report s k (PDict raw) \<and>
          kind_of op = (canonical_service s, canonical_resource k) \<and>
          r_identifier (o_resource op) = identifier_of raw (canonical_service s) (canonical_resource k) \<and>
          r_identifier (o_resource op) \<noteq> [] \<and> r_raw (o_resource op) = raw" if "op \<in> set ops" for op
  proof -
    have "o_resource op \<in> set rs" using ops that by (metis image_eqI list.set_map)
    with rs show ?thesis by (rule entry_origin) (force simp: kind_of_def)
  qed
  ultimately show ?thesis using dist by blast
qed

text \<open>The phase table and the command dispatch agree.  \<open>command_for\<close> rejects a resource as
  unsupported exactly when \<open>RESOURCE_PHASES\<close> has no phase for its kind.\<close>

theorem dispatch_agrees_with_phases:
  "command_for r =
     Inl (DeletePlanError
       (''unsupported project resource: '' @ r_service r @ ''/'' @ r_resource r)) \<longleftrightarrow>
   dget RESOURCE_PHASES (r_service r, r_resource r) = None"
  using unsupported_iff_no_phase by (simp add: unsupported_def)

lemma listed_is_planned:
  assumes "plan_deletions report = Inr (ops, [])"
    and "lists_object report s k item"
    and "\<not> left_to_parent (canonical_service s) (canonical_resource k)"
  shows "\<exists>raw op. item = PDict raw \<and> op \<in> set ops \<and>
    resource_key (o_resource op) = (canonical_service s, canonical_resource k,
      identifier_of raw (canonical_service s) (canonical_resource k))"
proof -
  let ?s = "canonical_service s" and ?k = "canonical_resource k"
  obtain rs where rs: "resource_entries report = Inr (rs, [])"
    and ops: "set (map o_resource ops) = set rs"
    using assms(1) by (rule plan_resources)
  obtain services where v: "vget report ''resources'' = PDict services"
    and rs_eq: "rs = deduplicated (rights (concat (map (\<lambda>(s, c). service_outcomes s c) services)))"
    and issues: "[] = lefts (concat (map (\<lambda>(s, c). service_outcomes s c) services))"
    using rs by (rule resource_entries_Inr)
  obtain collections items where l: "(s, PDict collections) \<in> set services"
    "(k, PList items) \<in> set collections" "item \<in> set items"
    using assms(2) v by (auto simp: lists_object_def)
  have no_issue: "Inl m \<notin> set (collection_outcomes ?s k (PList items))" for m
  proof
    assume "Inl m \<in> set (collection_outcomes ?s k (PList items))"
    then have "Inl m \<in> set (concat (map (\<lambda>(s, c). service_outcomes s c) services))"
      using l by (force simp: service_outcomes_def)
    then show False using issues by (metis empty_iff empty_set set_lefts)
  qed
  have "items \<noteq> []" using l by auto
  then have outcomes: "collection_outcomes ?s k (PList items) = map (item_outcome ?s ?k) items"
    using no_issue assms(3) by (intro collection_without_issue)
  then have "Inl m \<noteq> item_outcome ?s ?k item" for m
    using no_issue [of m] l(3) by auto
  then obtain r where r: "item_outcome ?s ?k item = Inr r"
    by (metis sum.exhaust)
  then obtain raw where raw: "item = PDict raw"
    "resource_key r = (?s, ?k, identifier_of raw ?s ?k)"
    by (auto simp: item_outcome_Inr resource_key_def)
  have "Inr r \<in> set (collection_outcomes ?s k (PList items))"
    using outcomes r l(3) by (metis image_eqI list.set_map)
  then have "Inr r \<in> set (concat (map (\<lambda>(s, c). service_outcomes s c) services))"
    using l by (force simp: service_outcomes_def)
  then have "resource_key r \<in> resource_key ` set rs"
    unfolding rs_eq deduplicated_keys by (simp add: set_rights)
  with ops raw show ?thesis by (auto simp flip: ops)
qed

text \<open>C2: Nothing is skipped silently.  When planning reports no issue, every object listed in the
  report has an operation with its key, unless its kind is deleted with its parent (or is the
  project itself).\<close>

theorem plan_complete:
  assumes "plan_deletions report = Inr (ops, [])"
    and "lists_object report s k item"
    and "\<not> left_to_parent (canonical_service s) (canonical_resource k)"
  shows "\<exists>raw op. item = PDict raw \<and> op \<in> set ops \<and>
    resource_key (o_resource op) = (canonical_service s, canonical_resource k,
      identifier_of raw (canonical_service s) (canonical_resource k))"
  using assms by (rule listed_is_planned)

definition sample_report :: pydict where
  "sample_report =
    [(''resources'', PDict
      [(''network'', PDict
         [(''security_group'', PList [PDict [(''id'', PStr ''sg-1'')]]),
          (''network'', PList [PDict [(''id'', PStr ''net-1'')]]),
          (''ports'', PList [PDict [(''id'', PStr ''port-1'')]])]),
       (''Nova'', PDict
         [(''servers'', PList [PDict [(''id'', PStr ''server-1'')]]),
          (''server_ip'', PList [PDict [(''id'', PStr ''ip-1'')]])]),
       (''identity'', PDict
         [(''project'', PList [PDict [(''id'', PStr ''p'')]]),
          (''trust'', PList [PDict [(''id'', PStr ''trust-1'')]])])])]"

lemma sample_plan:
  obtains ops where "plan_deletions sample_report = Inr (ops, [])"
    and "map o_argv ops =
      [[''server'', ''delete'', ''--wait'', ''server-1''], [''port'', ''delete'', ''port-1''],
       [''network'', ''delete'', ''net-1''], [''security'', ''group'', ''delete'', ''sg-1''],
       [''trust'', ''delete'', ''trust-1'']]"
    and "map kind_of ops =
      [(''compute'', ''server''), (''network'', ''port''), (''network'', ''network''),
       (''network'', ''security_group''), (''identity'', ''trust'')]"
proof -
  have "map_sum id (\<lambda>(ops, iss). ((map o_argv ops, map kind_of ops), iss))
      (plan_deletions sample_report) =
    Inr (([[''server'', ''delete'', ''--wait'', ''server-1''], [''port'', ''delete'', ''port-1''],
       [''network'', ''delete'', ''net-1''], [''security'', ''group'', ''delete'', ''sg-1''],
       [''trust'', ''delete'', ''trust-1'']],
      [(''compute'', ''server''), (''network'', ''port''), (''network'', ''network''),
       (''network'', ''security_group''), (''identity'', ''trust'')]), [])"
    by code_simp
  then show ?thesis by (cases "plan_deletions sample_report") (auto intro: that)
qed

theorem plan_respects_dependencies_witness:
  "\<exists>ops. plan_deletions sample_report = Inr (ops, []) \<and> length ops = 5 \<and>
     kind_of (ops ! 0) = (''compute'', ''server'') \<and> kind_of (ops ! 1) = (''network'', ''port'') \<and>
     (0::nat) < 1"
proof (rule sample_plan)
  fix ops
  assume ops: "plan_deletions sample_report = Inr (ops, [])"
    and kinds: "map kind_of ops = [(''compute'', ''server''), (''network'', ''port''),
       (''network'', ''network''), (''network'', ''security_group''), (''identity'', ''trust'')]"
  have "length (map kind_of ops) = 5" unfolding kinds by simp
  then have len: "length ops = 5" by simp
  then have "kind_of (ops ! 0) = map kind_of ops ! 0" "kind_of (ops ! 1) = map kind_of ops ! 1"
    by simp_all
  then have at: "kind_of (ops ! 0) = (''compute'', ''server'')" "kind_of (ops ! 1) = (''network'', ''port'')"
    by (simp_all add: kinds)
  have "List.member DELETED_BEFORE ((''compute'', ''server''), (''network'', ''port''))"
    by code_simp
  then have "(kind_of (ops ! 0), kind_of (ops ! 1)) \<in> set DELETED_BEFORE"
    unfolding at by simp
  then have "0 < (1::nat)"
    by (rule plan_respects_dependencies [OF ops, rotated 2]) (simp_all add: len)
  with ops len at show ?thesis by blast
qed

theorem trusts_last_networks_before_witness:
  "\<exists>ops. plan_deletions sample_report = Inr (ops, []) \<and>
     (kind_of (ops ! 4) = (''identity'', ''trust'') \<and> kind_of (ops ! 0) \<noteq> (''identity'', ''trust'')
        \<longrightarrow> (0::nat) < 4)"
proof (rule sample_plan)
  fix ops
  assume ops: "plan_deletions sample_report = Inr (ops, [])"
    and kinds: "map kind_of ops = [(''compute'', ''server''), (''network'', ''port''),
       (''network'', ''network''), (''network'', ''security_group''), (''identity'', ''trust'')]"
  then have len: "length (map kind_of ops) = 5" by simp
  have "(kind_of (ops ! 4) = (''identity'', ''trust'') \<and> kind_of (ops ! 0) \<noteq> (''identity'', ''trust'')
        \<longrightarrow> (0::nat) < 4)"
    using trusts_last_networks_before [OF ops, of 0 4] len by simp
  with ops show ?thesis by blast
qed

theorem plan_sound_witness:
  "\<exists>ops. plan_deletions sample_report = Inr (ops, []) \<and> length ops = 5 \<and>
     distinct (map (\<lambda>op. resource_key (o_resource op)) ops)"
proof (rule sample_plan)
  fix ops
  assume ops: "plan_deletions sample_report = Inr (ops, [])"
    and kinds: "map kind_of ops = [(''compute'', ''server''), (''network'', ''port''),
       (''network'', ''network''), (''network'', ''security_group''), (''identity'', ''trust'')]"
  then have "length (map kind_of ops) = 5" by simp
  with ops plan_sound [OF ops] show ?thesis by auto
qed

theorem plan_complete_witness:
  "\<exists>ops raw op. plan_deletions sample_report = Inr (ops, []) \<and> op \<in> set ops \<and>
     PDict [(''id'', PStr ''server-1'')] = PDict raw \<and>
     resource_key (o_resource op) = (''compute'', ''server'', identifier_of raw ''compute'' ''server'')"
proof -
  obtain ops where ops: "plan_deletions sample_report = Inr (ops, [])"
    by (rule sample_plan)
  have listed: "lists_object sample_report ''Nova'' ''servers'' (PDict [(''id'', PStr ''server-1'')])"
    by (auto simp: lists_object_def sample_report_def)
  have names: "canonical_service ''Nova'' = ''compute''" "canonical_resource ''servers'' = ''server''"
    by code_simp+
  have "\<not> left_to_parent (canonical_service ''Nova'') (canonical_resource ''servers'')"
    unfolding names by (simp add: left_to_parent_def COVERED_CHILD_RESOURCES_def)
  from plan_complete [OF ops listed this] ops show ?thesis
    unfolding names by blast
qed

end
