(* ===== verification/DeleteExec.thy ===== *)
theory DeleteExec
  imports DeletePlan
begin

text \<open>
  The executing half of \<^verbatim>\<open>scripts/openstack/delete-project-resources.py\<close>: the calls of the OpenStack
  command line and of the SDK, the deletion of routers, stacks and Senlin resources, and
  \<^verbatim>\<open>execute_plan\<close>.  The \<^verbatim>\<open>openstack\<close> executable, the SDK and the file system are outside the program:
  a record of functions, the argument \<open>c\<close> of the definitions.
\<close>

section \<open>The world of the program\<close>

text \<open>The effects, in the order they happen: a printed line, a process run, a sleep, an SDK call.\<close>

datatype event =
    Out string
  | Err string
  | Ran "string list"
  | Slept real
  | SdkConnect
  | SdkGet string string
  | SdkDelete string string bool
  | SdkAction string
  | ReadFile string
  | ReadStdin

text \<open>
  \<open>subprocess_run\<close> gives the finished process, or the text of the \<^verbatim>\<open>OSError\<close> when it cannot be
  started.  The SDK calls give the class name of the exception they raise; deleting gives the \<^verbatim>\<open>id\<close>
  of the returned action if it has one, \<open>sdk_action\<close> the \<^verbatim>\<open>str\<close> of the action's \<^verbatim>\<open>status\<close>.
  \<open>float_repr\<close> is the parameter of \<^verbatim>\<open>json.loads\<close>.
\<close>

record 'x cloud =
  sys_executable :: string
  float_repr :: "string \<Rightarrow> string"
  subprocess_run :: "string list \<Rightarrow> ('x, string + completed) outside"
  sdk_connect :: "('x, string + unit) outside"
  sdk_get :: "string \<Rightarrow> string \<Rightarrow> ('x, string + unit) outside"
  sdk_delete :: "string \<Rightarrow> string \<Rightarrow> bool \<Rightarrow> ('x, string + string option) outside"
  sdk_action :: "string \<Rightarrow> ('x, string + string) outside"
  read_text :: "string \<Rightarrow> ('x, string + string) outside"
  read_stdin :: "('x, string + string) outside"

type_synonym 'x dworld = "(event, 'x) world"
type_synonym ('x, 'a) dio = "('x dworld, del_error, 'a) io"

definition os_error :: "('x dworld, string, 'a) io \<Rightarrow> ('x, 'a) dio" where
  "os_error m = try_except m (\<lambda>e. raise_exn (OSErr e))"

definition run_process :: "'x cloud \<Rightarrow> string list \<Rightarrow> ('x, completed) dio" where
  "run_process c argv = os_error (outside_call (Ran argv) (subprocess_run c argv))"

definition sleep :: "real \<Rightarrow> ('x, unit) dio" where
  "sleep p = py_sleep (Slept p) (ValueErr ''sleep length must be non-negative'') p"

section \<open>Commands\<close>

definition join_output :: "completed \<Rightarrow> string" where
  "join_output p =
     strip (join [CHR 0x0A] (filter (\<lambda>value. value \<noteq> []) [stdout p, stderr p]))"

text \<open>\<^verbatim>\<open>no .* found\<close> on one line.\<close>

definition no_found :: "string \<Rightarrow> bool" where
  "no_found line =
     list_ex (\<lambda>s. prefix ''no '' s \<and> contains '' found'' (drop 3 s)) (suffixes line)"

definition missing_output :: "string \<Rightarrow> bool" where
  "missing_output output =
     (let text = casefold output
      in contains ''not found'' text \<or> list_ex no_found (split_on CHR 0x0A text) \<or>
         contains ''404 not found'' text \<or> contains ''does not exist'' text \<or>
         contains ''could not be found'' text \<or> contains ''does not have an interface'' text)"

definition failure_detail :: "completed \<Rightarrow> string" where
  "failure_detail p =
     (if join_output p = [] then ''exit code '' @ show_int (returncode p) else join_output p)"

definition run_openstack ::
  "'x cloud \<Rightarrow> string \<Rightarrow> string list \<Rightarrow> bool \<Rightarrow> ('x, bool \<times> string) dio" where
  "run_openstack c openstack_bin argv allow_missing =
     bind (run_process c (openstack_bin # argv)) (\<lambda>completed.
       let output = join_output completed
       in if returncode completed = 0 then ret (True, output)
          else if allow_missing \<and> missing_output output then ret (True, output)
          else ret (False, failure_detail completed))"

definition router_ports_argv :: "string \<Rightarrow> string list" where
  "router_ports_argv router_id =
     [''port'', ''list'', ''--router'', router_id, ''-f'', ''value'', ''-c'', ''ID'']"

definition router_ports ::
  "'x cloud \<Rightarrow> string \<Rightarrow> string \<Rightarrow> ('x, string list \<times> string option) dio" where
  "router_ports c openstack_bin router_id =
     bind (run_process c (openstack_bin # router_ports_argv router_id)) (\<lambda>completed.
       let output = join_output completed
       in if returncode completed \<noteq> 0 \<and> \<not> missing_output output
          then ret ([], Some (failure_detail completed))
          else ret (filter (\<lambda>line. line \<noteq> []) (map strip (splitlines (stdout completed))), None))"

definition resource_path :: "Resource \<Rightarrow> string" where
  "resource_path r = r_service r @ ''/'' @ r_resource r @ ''/'' @ r_identifier r"

definition remove_port_argv :: "string \<Rightarrow> string \<Rightarrow> string list" where
  "remove_port_argv router port = [''router'', ''remove'', ''port'', router, port]"

definition router_final_argvs :: "string \<Rightarrow> string list list" where
  "router_final_argvs router =
     [[''router'', ''unset'', ''--external-gateway'', router], [''router'', ''delete'', router]]"

text \<open>One command of a router's deletion: a failure adds a message and the deletion goes on.\<close>

definition attempt ::
  "'x cloud \<Rightarrow> string \<Rightarrow> string list \<Rightarrow> string \<Rightarrow> string list \<Rightarrow> ('x, string list) dio" where
  "attempt c openstack_bin argv what errors =
     bind (run_openstack c openstack_bin argv True) (\<lambda>(ok, detail).
       ret (if ok then errors else errors @ [what @ '': '' @ detail]))"

definition delete_router :: "'x cloud \<Rightarrow> string \<Rightarrow> Resource \<Rightarrow> ('x, string list) dio" where
  "delete_router c openstack_bin r =
     bind (router_ports c openstack_bin (r_identifier r)) (\<lambda>(ports, error).
       case error of
         Some e \<Rightarrow> ret [resource_path r @ '': '' @ e]
       | None \<Rightarrow>
           bind (fold_io (\<lambda>port. attempt c openstack_bin (remove_port_argv (r_identifier r) port)
                    (''router '' @ r_identifier r @ '': remove port '' @ port)) ports [])
             (fold_io (\<lambda>argv. attempt c openstack_bin argv
                    (''router '' @ r_identifier r @ '': '' @ join '' '' argv))
                (router_final_argvs (r_identifier r))))"

section \<open>Waiting for a stack\<close>

definition stack_status_argv :: "string \<Rightarrow> string list" where
  "stack_status_argv stack_id =
     [''stack'', ''show'', stack_id, ''-f'', ''value'', ''-c'', ''stack_status'']"

text \<open>One look at the stack: \<open>Inr\<close> is a \<^verbatim>\<open>return\<close> of the source, \<open>Inl ()\<close> goes on to the sleep.\<close>

definition stack_check :: "completed \<Rightarrow> unit + string option" where
  "stack_check p =
     (if returncode p \<noteq> 0 \<and> missing_output (join_output p) then Inr None
      else if returncode p \<noteq> 0 then Inr (Some (failure_detail p))
      else let status = casefold (strip (stdout p))
           in if status = ''delete_complete'' then Inr None
              else if status = ''delete_failed'' then
                Inr (Some (if join_output p = [] then ''stack deletion failed'' else join_output p))
              else Inl ())"

definition wait_for_stack_delete ::
  "'x cloud \<Rightarrow> string \<Rightarrow> string \<Rightarrow> real \<Rightarrow> real \<Rightarrow> ('x, string option) dio" where
  "wait_for_stack_delete c openstack_bin stack_id timeout poll_seconds =
     bind now (\<lambda>start.
     bind (poll clock (start + timeout) (sleep poll_seconds)
        (\<lambda>_. bind (run_process c (openstack_bin # stack_status_argv stack_id))
                (\<lambda>completed. ret (stack_check completed))) ()) (\<lambda>res.
     case res of
       Inr answer \<Rightarrow> ret answer
     | Inl _ \<Rightarrow> ret (Some (''stack remained visible after '' @ format_0f timeout @ '' seconds''))))"

section \<open>Senlin resources\<close>

definition senlin_kinds :: "string list" where
  "senlin_kinds = [''cluster'', ''node'', ''policy'', ''profile'', ''receiver'']"

text \<open>Only clusters and nodes are deleted with \<^verbatim>\<open>force_delete=True\<close>.\<close>

definition forced_kind :: "string \<Rightarrow> bool" where
  "forced_kind kind \<longleftrightarrow> kind = ''cluster'' \<or> kind = ''node''"

text \<open>\<^verbatim>\<open>try: getter(identifier) except ...\<close>: \<open>Inr\<close> is the answer to return, \<open>Inl ()\<close> goes on.\<close>

definition senlin_get ::
  "'x cloud \<Rightarrow> string \<Rightarrow> string \<Rightarrow> string \<Rightarrow> ('x, unit + string list) dio" where
  "senlin_get c kind identifier problem =
     try_except
       (bind (outside_call (SdkGet kind identifier) (sdk_get c kind identifier))
          (\<lambda>_. ret (Inl ())))
       (\<lambda>exc. ret (Inr
          (if exc = ''NotFoundException'' then []
           else [''clustering/'' @ kind @ ''/'' @ identifier @ '': '' @ problem @ '' ('' @ exc
                   @ '')''])))"

definition senlin_request ::
  "'x cloud \<Rightarrow> string \<Rightarrow> string \<Rightarrow> ('x, string option + string list) dio" where
  "senlin_request c kind identifier =
     try_except
       (bind (outside_call (SdkDelete kind identifier (forced_kind kind))
                (sdk_delete c kind identifier (forced_kind kind))) (\<lambda>action. ret (Inl action)))
       (\<lambda>exc. ret (Inr
          (if exc = ''NotFoundException'' then []
           else [''clustering/'' @ kind @ ''/'' @ identifier @ '': delete request failed ('' @ exc
                   @ '')''])))"

definition senlin_action ::
  "'x cloud \<Rightarrow> string \<Rightarrow> string \<Rightarrow> string option \<Rightarrow> ('x, unit + string list) dio" where
  "senlin_action c kind identifier action_id =
     (let path = ''clustering/'' @ kind @ ''/'' @ identifier
      in case action_id of
        None \<Rightarrow> ret (Inl ())
      | Some action \<Rightarrow>
          if action = [] then ret (Inl ())
          else bind
            (try_except
               (bind (outside_call (SdkAction action) (sdk_action c action)) (\<lambda>status. ret (Inl status)))
               (\<lambda>exc. ret (if exc = ''NotFoundException'' then Inl []
                           else Inr [path @ '': action lookup failed ('' @ exc @ '')''])))
            (\<lambda>found. case found of
               Inr errors \<Rightarrow> ret (Inr errors)
             | Inl text \<Rightarrow>
                 let status = upper text
                 in if status = ''FAILED'' \<or> status = ''CANCELLED''
                    then ret (Inr [path @ '': Senlin deletion action entered '' @ status])
                    else ret (Inl ())))"

definition senlin_round ::
  "'x cloud \<Rightarrow> string \<Rightarrow> string \<Rightarrow> string option \<Rightarrow> ('x, unit + string list) dio" where
  "senlin_round c kind identifier action_id =
     bind (senlin_get c kind identifier ''resource lookup failed'') (\<lambda>res.
       case res of
         Inr errors \<Rightarrow> ret (Inr errors)
       | Inl _ \<Rightarrow> senlin_action c kind identifier action_id)"

definition delete_senlin_resource ::
  "'x cloud \<Rightarrow> Resource \<Rightarrow> real \<Rightarrow> real \<Rightarrow> ('x, string list) dio" where
  "delete_senlin_resource c r wait_seconds poll_seconds =
     (let kind = r_resource r; identifier = r_identifier r
      in if kind \<notin> set senlin_kinds
         then ret [''clustering/'' @ kind @ ''/'' @ identifier @ '': unsupported Senlin resource'']
         else
           bind (senlin_get c kind identifier ''unable to load Senlin resource'') (\<lambda>loaded.
           case loaded of
             Inr errors \<Rightarrow> ret errors
           | Inl _ \<Rightarrow>
           bind (senlin_request c kind identifier) (\<lambda>requested.
           case requested of
             Inr errors \<Rightarrow> ret errors
           | Inl action_id \<Rightarrow>
           bind now (\<lambda>start.
           bind (poll clock (start + wait_seconds) (sleep poll_seconds)
                   (\<lambda>_. senlin_round c kind identifier action_id) ()) (\<lambda>res.
           case res of
             Inr errors \<Rightarrow> ret errors
           | Inl _ \<Rightarrow>
               ret [''clustering/'' @ kind @ ''/'' @ identifier
                      @ '': Senlin resource remained after '' @ format_0f wait_seconds
                      @ '' seconds''])))))"

section \<open>Executing the plan\<close>

definition deleting_line :: "Operation \<Rightarrow> string" where
  "deleting_line op =
     ''Deleting '' @ r_service (o_resource op) @ ''/'' @ r_resource (o_resource op) @ '' ''
       @ r_identifier (o_resource op) @ '': '' @ join '' '' (o_argv op)"

text \<open>\<open>clustering\<close> becomes \<open>True\<close> when the SDK is connected; a failed attempt is repeated next time.\<close>

definition execute_senlin ::
  "'x cloud \<Rightarrow> real \<Rightarrow> real \<Rightarrow> Resource \<Rightarrow> string list \<times> bool \<Rightarrow> ('x, string list \<times> bool) dio"
where
  "execute_senlin c wait_seconds poll_seconds r = (\<lambda>(errors, clustering).
     bind (if clustering then ret None
           else try_except
             (bind (outside_call SdkConnect (sdk_connect c)) (\<lambda>_. ret None))
             (\<lambda>exc. ret (Some (''clustering: unable to initialize OpenStack SDK ('' @ exc @ '')''))))
       (\<lambda>failed. case failed of
          Some e \<Rightarrow> ret (errors @ [e], False)
        | None \<Rightarrow>
            bind (delete_senlin_resource c r wait_seconds poll_seconds) (\<lambda>es.
              ret (errors @ es, True))))"

definition execute_operation ::
  "'x cloud \<Rightarrow> string \<Rightarrow> real \<Rightarrow> real \<Rightarrow> Operation \<Rightarrow> string list \<times> bool
     \<Rightarrow> ('x, string list \<times> bool) dio"
where
  "execute_operation c openstack_bin wait_seconds poll_seconds op = (\<lambda>(errors, clustering).
     let r = o_resource op
     in andthen (emit (Out (deleting_line op)))
       (if r_service r = ''clustering'' then
          execute_senlin c wait_seconds poll_seconds r (errors, clustering)
        else if r_resource r = ''router'' then
          bind (delete_router c openstack_bin r) (\<lambda>es. ret (errors @ es, clustering))
        else
          bind (run_openstack c openstack_bin (o_argv op) True) (\<lambda>(ok, detail).
            if \<not> ok then ret (errors @ [resource_path r @ '': '' @ detail], clustering)
            else if r_service r = ''orchestration'' \<and> r_resource r = ''stack'' then
              bind (wait_for_stack_delete c openstack_bin (r_identifier r) wait_seconds poll_seconds)
                (\<lambda>error. case error of
                   None \<Rightarrow> ret (errors, clustering)
                 | Some e \<Rightarrow>
                     if e = [] then ret (errors, clustering)
                     else ret (errors @ [''stack '' @ r_identifier r @ '': '' @ e], clustering))
            else ret (errors, clustering))))"

definition execute_plan ::
  "'x cloud \<Rightarrow> string \<Rightarrow> real \<Rightarrow> real \<Rightarrow> Operation list \<Rightarrow> ('x, string list) dio" where
  "execute_plan c openstack_bin wait_seconds poll_seconds operations =
     bind (fold_io (execute_operation c openstack_bin wait_seconds poll_seconds) operations
             ([], False)) (\<lambda>(errors, _). ret errors)"

section \<open>Every run ends\<close>

abbreviation os_only :: "del_error \<Rightarrow> bool" where
  "os_only e \<equiv> (\<exists>m. e = OSErr m)"

text \<open>What the two halves of the program may log: commands, or calls of the SDK.\<close>

definition cli_events :: "event set" where
  "cli_events = range Ran \<union> range Slept"

definition sdk_events :: "event set" where
  "sdk_events = - (range Ran \<union> range Out \<union> range Err \<union> range ReadFile \<union> {ReadStdin})"

lemma in_cli_events [simp]: "Ran a \<in> cli_events" "Slept p \<in> cli_events"
  by (simp_all add: cli_events_def)

lemma in_sdk_events [simp]:
  "SdkConnect \<in> sdk_events" "SdkGet k i \<in> sdk_events" "SdkDelete k i f \<in> sdk_events"
  "SdkAction a \<in> sdk_events" "Slept p \<in> sdk_events"
  by (auto simp: sdk_events_def)

lemma steps_run_process [steps_intros]: "steps (logs cli_events) os_only (run_process c argv)"
  unfolding run_process_def os_error_def by (intro steps_intros) simp_all

lemma steps_polling:
  assumes "0 < p" and "Slept p \<in> A" and "\<And>s. steps (logs A) P (body s)"
  shows "steps (logs A) P (poll clock dl (sleep p) body s)"
  unfolding sleep_def
  by (rule sleeping.steps_poll [OF assms(1)])
    (use assms in \<open>auto intro: steps_intros steps_py_sleep logs_clock\<close>)

lemma steps_run_openstack [steps_intros]:
  "steps (logs cli_events) os_only (run_openstack c bin argv allow)"
  unfolding run_openstack_def by (intro steps_intros)

lemma steps_delete_router [steps_intros]: "steps (logs cli_events) os_only (delete_router c bin r)"
  unfolding delete_router_def router_ports_def attempt_def by (intro steps_intros)

lemma steps_wait_for_stack [steps_intros]:
  assumes "0 < p"
  shows "steps (logs cli_events) os_only (wait_for_stack_delete c bin stack timeout p)"
  unfolding wait_for_stack_delete_def
  by (intro steps_intros steps_polling assms) simp_all

lemma steps_senlin [steps_intros]:
  assumes "0 < p"
  shows "steps (logs sdk_events) P (delete_senlin_resource c r wait p)"
  unfolding delete_senlin_resource_def senlin_get_def senlin_request_def senlin_round_def
    senlin_action_def
  by (intro steps_intros steps_polling assms) simp_all

lemma steps_execute_senlin:
  assumes "0 < p"
  shows "steps (logs sdk_events) P (execute_senlin c wait p r s)"
  unfolding execute_senlin_def by (intro steps_intros assms) simp_all

text \<open>The command an operation starts with, and the part of the log it fills.\<close>

definition first_command :: "Operation \<Rightarrow> string list" where
  "first_command op =
     (if r_resource (o_resource op) = ''router''
      then router_ports_argv (r_identifier (o_resource op)) else o_argv op)"

definition operation_segment :: "string \<Rightarrow> Operation \<Rightarrow> event list \<Rightarrow> bool" where
  "operation_segment bin op t \<longleftrightarrow>
     (\<exists>rest. t = Out (deleting_line op) # rest \<and>
       (if r_service (o_resource op) = ''clustering'' then set rest \<subseteq> sdk_events
        else (\<exists>us. rest = Ran (bin # first_command op) # us \<and> set us \<subseteq> cli_events)))"

abbreviation logs_from :: "event list \<Rightarrow> event set \<Rightarrow> 'x dworld \<Rightarrow> bool" where
  "logs_from t A w \<equiv> (\<exists>us. trace w = t @ us \<and> set us \<subseteq> A)"

lemma wp_steps_from:
  assumes "steps (logs A) P m" and "logs_from t A w"
  shows "wp m (\<lambda>_. logs_from t A) (\<lambda>e _. P e) w"
proof (rule wp_mono)
  show "wp m (\<lambda>_. logs A w) (\<lambda>e w1. P e \<and> logs A w w1) w"
    using assms(1) by (simp add: steps_def)
qed (use assms(2) in \<open>auto simp: logs_def\<close>)

lemma wp_run_process_then:
  assumes "\<And>p. steps (logs cli_events) P (f p)" and "\<And>m. P (OSErr m)"
  shows "wp (bind (run_process c argv) f)
    (\<lambda>_. logs_from (trace w @ [Ran argv]) cli_events) (\<lambda>e _. P e) w"
proof -
  obtain r dt x where r: "subprocess_run c argv (ext w) = (r, dt, x)"
    by (cases "subprocess_run c argv (ext w)")
  let ?w1 = "w\<lparr>clock := clock w + max 0 dt, trace := trace w @ [Ran argv], ext := x\<rparr>"
  have "wp (f p) (\<lambda>_. logs_from (trace w @ [Ran argv]) cli_events) (\<lambda>e _. P e) ?w1" for p
    by (rule wp_steps_from [OF assms(1)]) simp
  then show ?thesis
    using assms(2)
    by (simp add: run_process_def os_error_def wp_simps r Let_def split: sum.split)
qed

lemma execute_operation_segment:
  assumes "0 < p"
  shows "wp (execute_operation c bin wait p op s)
    (\<lambda>_ w1. \<exists>t. trace w1 = trace w @ t \<and> operation_segment bin op t) (\<lambda>e _. os_only e) w"
proof -
  obtain errors clustering where s: "s = (errors, clustering)" by (cases s)
  let ?r = "o_resource op"
  let ?w0 = "w\<lparr>trace := trace w @ [Out (deleting_line op)]\<rparr>"
  let ?m = "if r_service ?r = ''clustering'' then execute_senlin c wait p ?r (errors, clustering)
        else if r_resource ?r = ''router'' then
          bind (delete_router c bin ?r) (\<lambda>es. ret (errors @ es, clustering))
        else
          bind (run_openstack c bin (o_argv op) True) (\<lambda>(ok, detail).
            if \<not> ok then ret (errors @ [resource_path ?r @ '': '' @ detail], clustering)
            else if r_service ?r = ''orchestration'' \<and> r_resource ?r = ''stack'' then
              bind (wait_for_stack_delete c bin (r_identifier ?r) wait p)
                (\<lambda>error. case error of
                   None \<Rightarrow> ret (errors, clustering)
                 | Some e \<Rightarrow>
                     if e = [] then ret (errors, clustering)
                     else ret (errors @ [''stack '' @ r_identifier ?r @ '': '' @ e], clustering))
            else ret (errors, clustering))"
  let ?post = "\<lambda>_ w1. \<exists>t. trace w1 = trace w @ t \<and> operation_segment bin op t"
  consider (senlin) "r_service ?r = ''clustering''"
    | (router) "r_service ?r \<noteq> ''clustering''" "r_resource ?r = ''router''"
    | (plain) "r_service ?r \<noteq> ''clustering''" "r_resource ?r \<noteq> ''router''"
    by blast
  then have "wp ?m ?post (\<lambda>e _. os_only e) ?w0"
  proof cases
    case senlin
    have "wp (execute_senlin c wait p ?r (errors, clustering))
        (\<lambda>_. logs_from (trace w @ [Out (deleting_line op)]) sdk_events) (\<lambda>e _. os_only e) ?w0"
      by (rule wp_steps_from [OF steps_execute_senlin [OF assms]]) simp
    with senlin show ?thesis
      by simp (erule wp_mono, auto simp: operation_segment_def)
  next
    case router
    have "wp (bind (delete_router c bin ?r) (\<lambda>es. ret (errors @ es, clustering)))
        (\<lambda>_. logs_from (trace ?w0 @ [Ran (bin # router_ports_argv (r_identifier ?r))]) cli_events)
        (\<lambda>e _. os_only e) ?w0"
      unfolding delete_router_def router_ports_def attempt_def bind_assoc
      by (rule wp_run_process_then) (intro steps_intros | simp)+
    with router show ?thesis
      by simp (erule wp_mono, auto simp: operation_segment_def first_command_def)
  next
    case plain
    have "wp ?m (\<lambda>_. logs_from (trace ?w0 @ [Ran (bin # o_argv op)]) cli_events)
        (\<lambda>e _. os_only e) ?w0"
      unfolding run_openstack_def bind_assoc if_not_P [OF plain(1)] if_not_P [OF plain(2)]
      by (rule wp_run_process_then) (intro steps_intros assms | simp)+
    then show ?thesis
      by (rule wp_mono) (use plain in \<open>auto simp: operation_segment_def first_command_def\<close>)
  qed
  then show ?thesis
    by (simp add: execute_operation_def s wp_simps Let_def)
qed

lemma execute_plan_segments:
  fixes w :: "'x dworld"
  assumes "0 < p"
  shows "wp (execute_plan c bin wait p ops)
    (\<lambda>_ w1. \<exists>ts. trace w1 = trace w @ concat ts \<and> list_all2 (operation_segment bin) ops ts)
    (\<lambda>e _. os_only e) w"
proof -
  have "wp (fold_io (execute_operation c bin wait p) ops ([], False))
    (\<lambda>_ w1. \<exists>ts. trace w1 = trace w @ concat ts \<and> list_all2 (operation_segment bin) ops ts)
    (\<lambda>e _. os_only e) w"
  proof (rule wp_fold_io [where xs = ops and I = "\<lambda>done _ _ w1. \<exists>ts. trace w1 = trace w @ concat ts \<and>
        list_all2 (operation_segment bin) done ts"])
    fix "done" op rest s and w1 :: "'x dworld"
    assume "\<exists>ts. trace w1 = trace w @ concat ts \<and> list_all2 (operation_segment bin) done ts"
    then obtain ts where ts: "trace w1 = trace w @ concat ts"
      "list_all2 (operation_segment bin) done ts" by blast
    show "wp (execute_operation c bin wait p op s)
        (\<lambda>_ w2. \<exists>ts. trace w2 = trace w @ concat ts \<and>
           list_all2 (operation_segment bin) (done @ [op]) ts) (\<lambda>e _. os_only e) w1"
    proof (rule wp_mono [OF execute_operation_segment [OF assms]])
      fix a w2 assume "\<exists>t. trace w2 = trace w1 @ t \<and> operation_segment bin op t"
      then obtain t where "trace w2 = trace w1 @ t" "operation_segment bin op t" by blast
      with ts show "\<exists>ts. trace w2 = trace w @ concat ts \<and>
          list_all2 (operation_segment bin) (done @ [op]) ts"
        by (intro exI [of _ "ts @ [t]"]) (simp add: list_all2_appendI)
    qed
  qed simp
  then show ?thesis by (simp add: execute_plan_def wp_simps case_prod_beta)
qed

text \<open>C4: Running a plan always ends, whatever the cloud answers (a positive polling interval given), and
  works through the whole plan: unless a process cannot be started, the log is one segment per
  operation, in plan order, failed operations included; each segment announces its operation once
  and starts with its command, and Senlin resources are deleted without any command.\<close>

theorem execute_plan_trace:
  assumes "0 < poll_seconds"
  shows "\<exists>r w1 ts. execute_plan c bin wait_seconds poll_seconds ops w = Some (r, w1) \<and>
    (case r of
       Inl e \<Rightarrow> (\<exists>m. e = OSErr m)
     | Inr errors \<Rightarrow> trace w1 = trace w @ concat ts \<and> list_all2 (operation_segment bin) ops ts)"
proof -
  from wp_returns [OF execute_plan_segments [OF assms]] obtain r w1
    where r: "execute_plan c bin wait_seconds poll_seconds ops w = Some (r, w1)" by blast
  show ?thesis
    using execute_plan_segments [OF assms, of c bin wait_seconds ops w] r
    by (cases r) (auto simp: wp_def)
qed

section \<open>Routers\<close>

definition cli_log :: "string \<Rightarrow> string list list \<Rightarrow> event list" where
  "cli_log bin argvs = map (\<lambda>argv. Ran (bin # argv)) argvs"

lemma wp_attempts:
  fixes w :: "'x dworld"
  assumes "trace w = t"
  shows "wp (fold_io (\<lambda>x. attempt c bin (cmd x) (what x)) xs s)
    (\<lambda>_ w1. trace w1 = t @ cli_log bin (map cmd xs)) (\<lambda>e _. os_only e) w"
proof (rule wp_fold_io [where xs = xs
      and I = "\<lambda>done _ _ w1. trace w1 = t @ cli_log bin (map cmd done)"])
  fix "done" x rest s and w1 :: "'x dworld"
  assume "trace w1 = t @ cli_log bin (map cmd done)"
  then show "wp (attempt c bin (cmd x) (what x) s)
      (\<lambda>_ w1. trace w1 = t @ cli_log bin (map cmd (done @ [x]))) (\<lambda>e _. os_only e) w1"
    by (simp add: attempt_def run_openstack_def run_process_def os_error_def wp_simps Let_def
        cli_log_def split: prod.split sum.split)
qed (simp add: assms cli_log_def)

definition listed_ports :: "completed \<Rightarrow> string list" where
  "listed_ports p = filter (\<lambda>line. line \<noteq> []) (map strip (splitlines (stdout p)))"

definition router_outcome :: "string \<Rightarrow> Resource \<Rightarrow> completed \<Rightarrow> string list \<Rightarrow> event list \<Rightarrow> bool" where
  "router_outcome bin r p errors t \<longleftrightarrow>
     (if returncode p \<noteq> 0 \<and> \<not> missing_output (join_output p)
      then errors = [resource_path r @ '': '' @ failure_detail p] \<and>
        t = cli_log bin [router_ports_argv (r_identifier r)]
      else t = cli_log bin
        (router_ports_argv (r_identifier r) #
           map (remove_port_argv (r_identifier r)) (listed_ports p) @
           [[''router'', ''unset'', ''--external-gateway'', r_identifier r],
            [''router'', ''delete'', r_identifier r]]))"

lemma wp_delete_router:
  fixes w :: "'x dworld"
  assumes run: "subprocess_run c (bin # router_ports_argv (r_identifier r)) (ext w) = (Inr p, dt, x)"
  shows "wp (delete_router c bin r)
    (\<lambda>errors w1. \<exists>t. trace w1 = trace w @ t \<and> router_outcome bin r p errors t) (\<lambda>e _. os_only e) w"
proof (cases "returncode p \<noteq> 0 \<and> \<not> missing_output (join_output p)")
  case True
  then show ?thesis
    by (simp add: delete_router_def router_ports_def run_process_def os_error_def wp_simps run
        Let_def cli_log_def router_outcome_def)
next
  case False
  let ?rid = "r_identifier r"
  let ?t = "trace w @ cli_log bin (router_ports_argv ?rid #
              map (remove_port_argv ?rid) (listed_ports p))"
  have final: "wp (fold_io (\<lambda>argv. attempt c bin argv (''router '' @ ?rid @ '': '' @ join '' '' argv))
        (router_final_argvs ?rid) errors)
      (\<lambda>errors w1. \<exists>t. trace w1 = trace w @ t \<and> router_outcome bin r p errors t)
      (\<lambda>e _. os_only e) w1" if "trace w1 = ?t" for errors and w1 :: "'x dworld"
    using wp_attempts [where cmd = "\<lambda>argv. argv" and xs = "router_final_argvs ?rid", OF that]
    by (rule wp_mono) (use False in \<open>auto simp: router_outcome_def cli_log_def router_final_argvs_def\<close>)
  have "wp (fold_io (\<lambda>port. attempt c bin (remove_port_argv ?rid port)
          (''router '' @ ?rid @ '': remove port '' @ port)) (listed_ports p) [])
      (\<lambda>errors. wp (fold_io (\<lambda>argv. attempt c bin argv (''router '' @ ?rid @ '': '' @ join '' '' argv))
           (router_final_argvs ?rid) errors)
         (\<lambda>errors w1. \<exists>t. trace w1 = trace w @ t \<and> router_outcome bin r p errors t)
         (\<lambda>e _. os_only e)) (\<lambda>e _. os_only e)
      (w\<lparr>clock := clock w + max 0 dt, trace := trace w @ [Ran (bin # router_ports_argv ?rid)], ext := x\<rparr>)"
    using wp_attempts [where cmd = "remove_port_argv ?rid", OF refl]
  proof (rule wp_mono)
    fix errors and w1 :: "'x dworld"
    assume "trace w1 = trace (w\<lparr>clock := clock w + max 0 dt,
        trace := trace w @ [Ran (bin # router_ports_argv ?rid)], ext := x\<rparr>)
        @ cli_log bin (map (remove_port_argv ?rid) (listed_ports p))"
    then have "trace w1 = ?t" by (simp add: cli_log_def)
    then show "wp (fold_io (\<lambda>argv. attempt c bin argv (''router '' @ ?rid @ '': '' @ join '' '' argv))
           (router_final_argvs ?rid) errors)
         (\<lambda>errors w1. \<exists>t. trace w1 = trace w @ t \<and> router_outcome bin r p errors t)
         (\<lambda>e _. os_only e) w1" by (rule final)
  qed
  with False show ?thesis
    by (simp add: delete_router_def router_ports_def run_process_def os_error_def wp_simps run
        Let_def listed_ports_def) blast
qed

text \<open>A router is taken down in the order Neutron needs.  The ports are listed first; when that fails
  the router is left alone and the failure is the one error.  Otherwise every listed port is removed
  (failures included), then the external gateway is cleared, then the router is deleted, and
  nothing else is run.\<close>

theorem delete_router_commands:
  "\<exists>res w1. delete_router c bin r w = Some (res, w1) \<and>
     (case (res, fst (subprocess_run c (bin # router_ports_argv (r_identifier r)) (ext w))) of
        (Inl e, _) \<Rightarrow> (\<exists>m. e = OSErr m)
      | (Inr errors, Inl _) \<Rightarrow> False
      | (Inr errors, Inr p) \<Rightarrow> (\<exists>t. trace w1 = trace w @ t \<and> router_outcome bin r p errors t))"
proof -
  obtain o1 dt x where run:
    "subprocess_run c (bin # router_ports_argv (r_identifier r)) (ext w) = (o1, dt, x)"
    by (cases "subprocess_run c (bin # router_ports_argv (r_identifier r)) (ext w)")
  show ?thesis
  proof (cases o1)
    case (Inl e)
    with run show ?thesis
      by (simp add: delete_router_def router_ports_def run_process_def os_error_def io_defs
          outside_call_def)
  next
    case (Inr p)
    note wp = wp_delete_router [OF run [unfolded Inr]]
    from wp_returns [OF wp] obtain res w1 where "delete_router c bin r w = Some (res, w1)" by blast
    with wp run Inr show ?thesis
      by (cases res) (simp_all add: wp_def)
  qed
qed

section \<open>Waiting\<close>

text \<open>What a status command says: the stack is gone, or its deletion has failed.\<close>

definition stack_gone :: "completed \<Rightarrow> bool" where
  "stack_gone p \<longleftrightarrow>
     (if returncode p = 0 then casefold (strip (stdout p)) = ''delete_complete''
      else missing_output (join_output p))"

definition stack_failed :: "completed \<Rightarrow> bool" where
  "stack_failed p \<longleftrightarrow>
     (if returncode p = 0 then casefold (strip (stdout p)) = ''delete_failed''
      else \<not> missing_output (join_output p))"

lemma stack_check_cases:
  "stack_check p = Inr None \<longleftrightarrow> stack_gone p"
  "stack_check p = Inr (Some e) \<Longrightarrow> stack_failed p"
  by (auto simp: stack_check_def stack_gone_def stack_failed_def Let_def split: if_splits)

definition commands_run :: "event list \<Rightarrow> nat" where
  "commands_run t = length (filter (\<lambda>e. case e of Ran _ \<Rightarrow> True | _ \<Rightarrow> False) t)"

lemma commands_run_simps [simp]:
  "commands_run [] = 0"
  "commands_run (t @ u) = commands_run t + commands_run u"
  "commands_run (Ran a # t) = Suc (commands_run t)" "commands_run (Slept q # t) = commands_run t"
  by (simp_all add: commands_run_def)

text \<open>\<open>last_said c argv P w\<close>: the last process run was \<open>argv\<close>, and its result satisfies \<open>P\<close>.\<close>

definition last_said :: "'x cloud \<Rightarrow> string list \<Rightarrow> (completed \<Rightarrow> bool) \<Rightarrow> 'x dworld \<Rightarrow> bool" where
  "last_said c argv P w \<longleftrightarrow>
     (\<exists>x p dt. subprocess_run c argv x = (Inr p, dt, ext w) \<and> P p)"

definition wait_answer ::
  "'x cloud \<Rightarrow> string list \<Rightarrow> real \<Rightarrow> real \<Rightarrow> string option \<Rightarrow> 'x dworld \<Rightarrow> bool" where
  "wait_answer c argv start timeout answer w \<longleftrightarrow>
     (case answer of
        None \<Rightarrow> last_said c argv stack_gone w
      | Some m \<Rightarrow> last_said c argv stack_failed w \<or>
          (start + timeout \<le> clock w \<and>
           m = ''stack remained visible after '' @ format_0f timeout @ '' seconds''))"

lemma wp_wait_for_stack_delete:
  fixes w :: "'x dworld"
  assumes p: "0 < p"
  shows "wp (wait_for_stack_delete c bin stack timeout p)
    (\<lambda>answer w1. (\<exists>t. trace w1 = trace w @ t \<and> commands_run t \<le> nat \<lceil>timeout / p\<rceil>) \<and>
       wait_answer c (bin # stack_status_argv stack) (clock w) timeout answer w1)
    (\<lambda>e _. os_only e) w"
proof -
  let ?argv = "bin # stack_status_argv stack"
  let ?N = "nat \<lceil>(clock w + timeout - clock w) / p\<rceil>"
  let ?I = "\<lambda>n (s::unit) (w1 :: 'x dworld). \<exists>t. trace w1 = trace w @ t \<and> commands_run t = n"
  let ?Q = "\<lambda>res (w1 :: 'x dworld). (\<exists>t. trace w1 = trace w @ t \<and> commands_run t \<le> ?N) \<and>
    (case res of
       Inr answer \<Rightarrow> wait_answer c ?argv (clock w) timeout answer w1
     | Inl _ \<Rightarrow> clock w + timeout \<le> clock w1)"
  have "wp (poll clock (clock w + timeout) (sleep p)
      (\<lambda>_. bind (run_process c ?argv) (\<lambda>completed. ret (stack_check completed))) ())
    ?Q (\<lambda>e _. os_only e) w"
    unfolding sleep_def
  proof (rule sleeping.wp_poll_counted [OF p order_refl, where I = ?I])
    fix n s and w1 :: "'x dworld"
    assume I: "?I n s w1" and n: "n < ?N"
    obtain r dt x where run: "subprocess_run c ?argv (ext w1) = (r, dt, x)"
      by (cases "subprocess_run c ?argv (ext w1)")
    show "wp (bind (run_process c ?argv) (\<lambda>completed. ret (stack_check completed)))
       (\<lambda>res w2. clock w1 \<le> clock w2 \<and>
         (case res of
            Inr r \<Rightarrow> ?Q (Inr r) w2
          | Inl s1 \<Rightarrow> wp (py_sleep (Slept p) (ValueErr ''sleep length must be non-negative'') p)
              (\<lambda>_. ?I (Suc n) s1) (\<lambda>e _. os_only e) w2)) (\<lambda>e _. os_only e) w1"
    proof (cases r)
      case (Inl e)
      then show ?thesis by (simp add: run_process_def os_error_def wp_simps run Let_def)
    next
      case (Inr y)
      from I obtain t where t: "trace w1 = trace w @ t" "commands_run t = n" by blast
      show ?thesis
      proof (cases "stack_check y")
        case (Inl s1)
        with Inr run t p show ?thesis
          by (simp add: run_process_def os_error_def wp_simps Let_def)
      next
        case answer: (Inr answer)
        have "wait_answer c ?argv (clock w) timeout answer
            (w1\<lparr>clock := clock w1 + max 0 dt, trace := trace w1 @ [Ran ?argv], ext := x\<rparr>)"
          using answer run Inr stack_check_cases [of y]
          by (cases answer) (auto simp: wait_answer_def last_said_def)
        with Inr run t n answer show ?thesis
          by (simp add: run_process_def os_error_def wp_simps Let_def)
      qed
    qed
  qed auto
  then show ?thesis
    unfolding wait_for_stack_delete_def wp_bind wp_now
    by (rule wp_mono) (auto simp: wp_simps wait_answer_def split: sum.split)
qed

text \<open>C10: Waiting for a stack always ends, after at most \<open>\<lceil>timeout / poll\<rceil>\<close> looks at it (a positive polling
  interval given), and its answer is right: success only when the last look says the stack is gone
  or its deletion complete; a failure only when the last look says so, or when the whole timeout
  has passed.\<close>

theorem wait_for_stack_delete_correct:
  assumes "0 < poll_seconds"
  shows "\<exists>r w1 t. wait_for_stack_delete c bin stack timeout poll_seconds w = Some (r, w1) \<and>
    (case r of
       Inl e \<Rightarrow> (\<exists>m. e = OSErr m)
     | Inr answer \<Rightarrow> trace w1 = trace w @ t \<and> commands_run t \<le> nat \<lceil>timeout / poll_seconds\<rceil> \<and>
         wait_answer c (bin # stack_status_argv stack) (clock w) timeout answer w1)"
proof -
  note wp = wp_wait_for_stack_delete [OF assms, of c bin stack timeout w]
  from wp_returns [OF wp] obtain r w1
    where "wait_for_stack_delete c bin stack timeout poll_seconds w = Some (r, w1)" by blast
  with wp show ?thesis by (cases r) (auto simp: wp_def)
qed

text \<open>The Senlin wait gives no error only when the service answers that the resource is not there.\<close>

definition senlin_gone :: "'x cloud \<Rightarrow> string \<Rightarrow> string \<Rightarrow> 'x dworld \<Rightarrow> bool" where
  "senlin_gone c kind identifier w \<longleftrightarrow>
     (\<exists>x dt. sdk_get c kind identifier x = (Inl ''NotFoundException'', dt, ext w)) \<or>
     (\<exists>x dt. sdk_delete c kind identifier (forced_kind kind) x
                = (Inl ''NotFoundException'', dt, ext w))"

lemma wp_senlin_get:
  "wp (senlin_get c kind identifier problem)
     (\<lambda>res w1. logs sdk_events w w1 \<and> (res = Inr [] \<longrightarrow> senlin_gone c kind identifier w1)) E w"
proof -
  obtain r dt x where "sdk_get c kind identifier (ext w) = (r, dt, x)"
    by (cases "sdk_get c kind identifier (ext w)")
  then show ?thesis
    by (auto simp: senlin_get_def wp_simps Let_def senlin_gone_def logs_def split: sum.split)
qed

lemma wp_senlin_request:
  "wp (senlin_request c kind identifier)
     (\<lambda>res w1. logs sdk_events w w1 \<and> (res = Inr [] \<longrightarrow> senlin_gone c kind identifier w1)) E w"
proof -
  obtain r dt x where "sdk_delete c kind identifier (forced_kind kind) (ext w) = (r, dt, x)"
    by (cases "sdk_delete c kind identifier (forced_kind kind) (ext w)")
  then show ?thesis
    by (auto simp: senlin_request_def wp_simps Let_def senlin_gone_def logs_def split: sum.split)
qed

lemma wp_senlin_action:
  "wp (senlin_action c kind identifier action)
     (\<lambda>res w1. logs sdk_events w w1 \<and> res \<noteq> Inr []) E w"
proof (cases "action = None \<or> action = Some []")
  case False
  then obtain a where a: "action = Some a" "a \<noteq> []" by auto
  obtain r dt x where "sdk_action c a (ext w) = (r, dt, x)" by (cases "sdk_action c a (ext w)")
  with a show ?thesis
    by (auto simp: senlin_action_def wp_simps Let_def logs_def split: sum.split)
qed (auto simp: senlin_action_def wp_simps Let_def)

lemma wp_senlin_round:
  "wp (senlin_round c kind identifier action)
     (\<lambda>res w1. logs sdk_events w w1 \<and> (res = Inr [] \<longrightarrow> senlin_gone c kind identifier w1)) E w"
  unfolding senlin_round_def wp_bind
proof (rule wp_mono [OF wp_senlin_get])
  fix res :: "unit + string list" and w1
  assume r: "logs sdk_events w w1 \<and> (res = Inr [] \<longrightarrow> senlin_gone c kind identifier w1)"
  have "wp (senlin_action c kind identifier action) (\<lambda>res w2. logs sdk_events w w2 \<and>
      (res = Inr [] \<longrightarrow> senlin_gone c kind identifier w2)) E w1"
    by (rule wp_mono [OF wp_senlin_action]) (use r in \<open>auto intro: logs_trans\<close>)
  with r show "wp (case res of Inl _ \<Rightarrow> senlin_action c kind identifier action
      | Inr errors \<Rightarrow> ret (Inr errors)) (\<lambda>res w1. logs sdk_events w w1 \<and>
      (res = Inr [] \<longrightarrow> senlin_gone c kind identifier w1)) E w1"
    by (simp add: wp_simps split: sum.split)
qed

lemma wp_senlin_wait:
  fixes w :: "'x dworld"
  assumes p: "0 < p"
  shows "wp (poll clock dl (sleep p) (\<lambda>_. senlin_round c kind identifier action) ())
    (\<lambda>res w1. res = Inr [] \<longrightarrow> senlin_gone c kind identifier w1) (\<lambda>_ _. False) w"
  unfolding sleep_def
proof (rule sleeping.wp_poll [OF p, where I = "\<lambda>_ _. True"])
  fix w1 :: "'x dworld"
  show "wp (senlin_round c kind identifier action) (\<lambda>res w2. clock w1 \<le> clock w2 \<and>
      (case res of
         Inl s1 \<Rightarrow> wp (py_sleep (Slept p) (ValueErr ''sleep length must be non-negative'') p)
           (\<lambda>_ _. True) (\<lambda>_ _. False) w2
       | Inr r \<Rightarrow> (Inr r :: unit + string list) = Inr [] \<longrightarrow> senlin_gone c kind identifier w2))
      (\<lambda>_ _. False) w1"
    by (rule wp_mono [OF wp_senlin_round])
      (use p in \<open>auto simp: wp_simps logs_clock split: sum.split\<close>)
qed auto

lemma wp_delete_senlin_resource:
  fixes w :: "'x dworld"
  assumes p: "0 < p"
  shows "wp (delete_senlin_resource c r wait p)
    (\<lambda>errors w1. errors = [] \<longrightarrow> r_resource r \<in> set senlin_kinds \<and>
       senlin_gone c (r_resource r) (r_identifier r) w1) (\<lambda>_ _. False) w"
proof -
  let ?k = "r_resource r" and ?i = "r_identifier r"
  let ?Q = "\<lambda>errors w1. errors = [] \<longrightarrow> ?k \<in> set senlin_kinds \<and> senlin_gone c ?k ?i w1"
  show ?thesis
  proof (cases "?k \<in> set senlin_kinds")
    case False
    then show ?thesis by (simp add: delete_senlin_resource_def wp_simps Let_def)
  next
    case True
    have waiting: "wp (bind now (\<lambda>start.
           bind (poll clock (start + wait) (sleep p)
                   (\<lambda>_. senlin_round c ?k ?i action_id) ()) (\<lambda>res.
           case res of
             Inr errors \<Rightarrow> ret errors
           | Inl _ \<Rightarrow>
               ret [''clustering/'' @ ?k @ ''/'' @ ?i
                      @ '': Senlin resource remained after '' @ format_0f wait
                      @ '' seconds'']))) ?Q (\<lambda>_ _. False) w1" for action_id and w1 :: "'x dworld"
      unfolding wp_bind wp_now
      by (rule wp_mono [OF wp_senlin_wait [OF p]]) (auto simp: wp_simps True split: sum.split)
    have known: "\<not> ?k \<notin> set senlin_kinds" using True by simp
    show ?thesis
      unfolding delete_senlin_resource_def Let_def if_not_P [OF known]
        wp_bind [where m = "senlin_get c ?k ?i _"]
    proof (rule wp_mono [OF wp_senlin_get])
      fix res1 :: "unit + string list" and w1 :: "'x dworld"
      assume r1: "logs sdk_events w w1 \<and> (res1 = Inr [] \<longrightarrow> senlin_gone c ?k ?i w1)"
      show "wp (case res1 of Inr errors \<Rightarrow> ret errors
        | Inl _ \<Rightarrow> bind (senlin_request c ?k ?i) (\<lambda>requested.
           case requested of
             Inr errors \<Rightarrow> ret errors
           | Inl action_id \<Rightarrow>
           bind now (\<lambda>start.
           bind (poll clock (start + wait) (sleep p)
                   (\<lambda>_. senlin_round c ?k ?i action_id) ()) (\<lambda>res.
           case res of
             Inr errors \<Rightarrow> ret errors
           | Inl _ \<Rightarrow>
               ret [''clustering/'' @ ?k @ ''/'' @ ?i
                      @ '': Senlin resource remained after '' @ format_0f wait
                      @ '' seconds''])))) ?Q (\<lambda>_ _. False) w1"
      proof (cases res1)
        case (Inl u)
        show ?thesis
          unfolding Inl sum.case wp_bind [where m = "senlin_request c ?k ?i"]
          by (rule wp_mono [OF wp_senlin_request])
            (use waiting True in \<open>auto simp: wp_ret split: sum.split\<close>)
      qed (use r1 True in \<open>simp add: wp_simps\<close>)
    qed simp
  qed
qed

text \<open>C9: Deleting a Senlin resource always ends and never raises (a positive polling interval given).
  It reports success only when the last answer of the service was that the resource does not
  exist; an accepted delete request alone is not enough.\<close>

theorem senlin_success_means_gone:
  assumes "0 < poll_seconds"
  shows "\<exists>errors w1. delete_senlin_resource c r wait_seconds poll_seconds w = Some (Inr errors, w1) \<and>
    (errors = [] \<longrightarrow> r_resource r \<in> set senlin_kinds \<and>
       senlin_gone c (r_resource r) (r_identifier r) w1)"
proof -
  note wp = wp_delete_senlin_resource [OF assms, of c r wait_seconds w]
  from wp_returns [OF wp] obtain res w1
    where "delete_senlin_resource c r wait_seconds poll_seconds w = Some (res, w1)" by blast
  with wp show ?thesis by (cases res) (auto simp: wp_def)
qed

section \<open>A small cloud\<close>

text \<open>
  A cloud for the examples, whose state counts the calls: every command succeeds, a stack's status
  is complete, the SDK has lost its resources, and a refreshed inventory is empty.
\<close>

definition demo_cloud :: "nat cloud" where
  "demo_cloud =
     \<lparr>sys_executable = ''python3'', float_repr = \<lambda>t. t,
      subprocess_run = \<lambda>argv n.
        (Inr \<lparr>returncode = 0,
              stdout = (if hd argv = ''python3'' then ''{\"resources\": {}}'' else ''DELETE_COMPLETE''),
              stderr = []\<rparr>, 1, Suc n),
      sdk_connect = \<lambda>n. (Inr (), 1, Suc n),
      sdk_get = \<lambda>kind identifier n. (Inl ''NotFoundException'', 1, Suc n),
      sdk_delete = \<lambda>kind identifier force n. (Inr None, 1, Suc n),
      sdk_action = \<lambda>action n. (Inr ''SUCCEEDED'', 1, Suc n),
      read_text = \<lambda>path n.
        (Inr (if path = ''empty.json'' then ''{}''
              else ''{\"resources\": {\"network\": {\"networks\": [{\"id\": \"n1\"}]}}}''), 1, Suc n),
      read_stdin = \<lambda>n. (Inr ''{}'', 1, Suc n)\<rparr>"

definition demo_world :: "nat dworld" where
  "demo_world = \<lparr>clock = 0, trace = [], ext = 0\<rparr>"

definition demo_resource :: "string \<Rightarrow> string \<Rightarrow> string \<Rightarrow> Resource" where
  "demo_resource service resource identifier =
     \<lparr>r_service = service, r_resource = resource, r_identifier = identifier, r_raw = []\<rparr>"

definition demo_operations :: "Operation list" where
  "demo_operations =
     [\<lparr>o_phase = 10, o_resource = demo_resource ''orchestration'' ''stack'' ''s1'',
       o_argv = [''stack'', ''delete'', ''--yes'', ''s1'']\<rparr>,
      \<lparr>o_phase = 130, o_resource = demo_resource ''network'' ''router'' ''r1'',
       o_argv = [''router'', ''delete'', ''r1'']\<rparr>]"

lemma execute_plan_trace_witness:
  "\<exists>r w1 ts. execute_plan demo_cloud ''openstack'' 600 2 demo_operations demo_world = Some (r, w1) \<and>
    (case r of
       Inl e \<Rightarrow> (\<exists>m. e = OSErr m)
     | Inr errors \<Rightarrow> trace w1 = trace demo_world @ concat ts \<and>
         list_all2 (operation_segment ''openstack'') demo_operations ts)"
  by (rule execute_plan_trace) simp

lemma wait_for_stack_delete_correct_witness:
  "\<exists>r w1 t. wait_for_stack_delete demo_cloud ''openstack'' ''s1'' 600 2 demo_world = Some (r, w1) \<and>
    (case r of
       Inl e \<Rightarrow> (\<exists>m. e = OSErr m)
     | Inr answer \<Rightarrow> trace w1 = trace demo_world @ t \<and> commands_run t \<le> nat \<lceil>600 / 2 :: real\<rceil> \<and>
         wait_answer demo_cloud (''openstack'' # stack_status_argv ''s1'') (clock demo_world) 600
           answer w1)"
  by (rule wait_for_stack_delete_correct) simp

lemma senlin_success_means_gone_witness:
  "\<exists>errors w1. delete_senlin_resource demo_cloud (demo_resource ''clustering'' ''node'' ''n1'') 600 2
       demo_world = Some (Inr errors, w1) \<and>
    (errors = [] \<longrightarrow> r_resource (demo_resource ''clustering'' ''node'' ''n1'') \<in> set senlin_kinds \<and>
       senlin_gone demo_cloud (r_resource (demo_resource ''clustering'' ''node'' ''n1''))
         (r_identifier (demo_resource ''clustering'' ''node'' ''n1'')) w1)"
  by (rule senlin_success_means_gone) simp

end
