(* ===== verification/Json.thy ===== *)
theory Json
  imports PyValue
begin

text \<open>
  \<^verbatim>\<open>json.loads\<close> of a text and \<^verbatim>\<open>json.dumps(value, indent=2, sort_keys=True)\<close>, as the programs use
  them.  \<open>float_repr\<close> gives the \<^verbatim>\<open>repr\<close> of the float that a decimal literal denotes, which is how a
  float is kept.  A \<^verbatim>\<open>\u\<close> escape past ASCII stands for the bytes of its UTF-8 form.
\<close>

section \<open>Reading\<close>

definition json_space :: "char \<Rightarrow> bool" where
  "json_space c \<longleftrightarrow> c = CHR '' '' \<or> c = CHR 0x09 \<or> c = CHR 0x0A \<or> c = CHR 0x0D"

definition hex_value :: "char \<Rightarrow> nat option" where
  "hex_value c =
     (if is_digit c then Some (digit_value c)
      else if CHR ''a'' \<le> c \<and> c \<le> CHR ''f'' then Some (of_char c - 87)
      else if CHR ''A'' \<le> c \<and> c \<le> CHR ''F'' then Some (of_char c - 55)
      else None)"

fun hex4 :: "string \<Rightarrow> (nat \<times> string) option" where
  "hex4 (a # b # c # d # s) =
     (case (hex_value a, hex_value b, hex_value c, hex_value d) of
        (Some i, Some j, Some k, Some l) \<Rightarrow> Some (4096 * i + 256 * j + 16 * k + l, s)
      | _ \<Rightarrow> None)"
| "hex4 _ = None"

definition utf8 :: "nat \<Rightarrow> string" where
  "utf8 n =
     (if n < 128 then [char_of n]
      else if n < 2048 then [char_of (192 + n div 64), char_of (128 + n mod 64)]
      else if n < 65536 then
        [char_of (224 + n div 4096), char_of (128 + n div 64 mod 64), char_of (128 + n mod 64)]
      else
        [char_of (240 + n div 262144), char_of (128 + n div 4096 mod 64),
         char_of (128 + n div 64 mod 64), char_of (128 + n mod 64)])"

text \<open>The code point of a \<^verbatim>\<open>\u\<close> escape, a surrogate pair being one.\<close>

definition unicode_escape :: "string \<Rightarrow> (nat \<times> string) option" where
  "unicode_escape s =
     (case hex4 s of
        None \<Rightarrow> None
      | Some (hi, s1) \<Rightarrow>
          (case s1 of
             b # u # s2 \<Rightarrow>
               if 55296 \<le> hi \<and> hi \<le> 56319 \<and> b = CHR 0x5C \<and> u = CHR ''u'' then
                 (case hex4 s2 of
                    None \<Rightarrow> None
                  | Some (lo, s3) \<Rightarrow>
                      if 56320 \<le> lo \<and> lo \<le> 57343
                      then Some (65536 + 1024 * (hi - 55296) + (lo - 56320), s3)
                      else Some (hi, s1))
               else Some (hi, s1)
           | _ \<Rightarrow> Some (hi, s1)))"

definition escaped_char :: "char \<Rightarrow> char option" where
  "escaped_char c =
     (if c = CHR 0x22 \<or> c = CHR 0x5C \<or> c = CHR ''/'' then Some c
      else if c = CHR ''b'' then Some (CHR 0x08) else if c = CHR ''f'' then Some (CHR 0x0C)
      else if c = CHR ''n'' then Some (CHR 0x0A) else if c = CHR ''r'' then Some (CHR 0x0D)
      else if c = CHR ''t'' then Some (CHR 0x09) else None)"

text \<open>The rest of a string literal after its opening quote.  \<open>n\<close> bounds the number of characters.\<close>

fun parse_string :: "nat \<Rightarrow> string \<Rightarrow> (string \<times> string) option" where
  "parse_string 0 _ = None"
| "parse_string (Suc n) s =
     (case s of
        [] \<Rightarrow> None
      | c # s1 \<Rightarrow>
          if c = CHR 0x22 then Some ([], s1)
          else if (of_char c :: nat) < 32 then None
          else if c \<noteq> CHR 0x5C then
            map_option (\<lambda>(t, rest). (c # t, rest)) (parse_string n s1)
          else
            (case s1 of
               [] \<Rightarrow> None
             | e # s2 \<Rightarrow>
                 if e = CHR ''u'' then
                   (case unicode_escape s2 of
                      None \<Rightarrow> None
                    | Some (code, s3) \<Rightarrow>
                        map_option (\<lambda>(t, rest). (utf8 code @ t, rest)) (parse_string n s3))
                 else
                   (case escaped_char e of
                      None \<Rightarrow> None
                    | Some d \<Rightarrow> map_option (\<lambda>(t, rest). (d # t, rest)) (parse_string n s2))))"

text \<open>A number: its literal, whether it is a float, and the rest.\<close>

definition parse_number :: "string \<Rightarrow> (string \<times> bool \<times> string) option" where
  "parse_number s =
     (let (sign, s1) = (case s of c # t \<Rightarrow> if c = CHR ''-'' then ([c], t) else ([], s) | [] \<Rightarrow> ([], s));
          digits = takeWhile is_digit s1;
          (whole, s2) = (case digits of
             [] \<Rightarrow> ([], s1)
           | c # _ \<Rightarrow> if c = CHR ''0'' then ([c], tl s1) else (digits, dropWhile is_digit s1))
      in if whole = [] then None
         else
           let (frac, s3) = (case s2 of
                  c # t \<Rightarrow> if c = CHR ''.'' \<and> takeWhile is_digit t \<noteq> []
                            then (c # takeWhile is_digit t, dropWhile is_digit t) else ([], s2)
                | [] \<Rightarrow> ([], s2));
               (expo, s4) = (case s3 of
                  c # t \<Rightarrow>
                    if c = CHR ''e'' \<or> c = CHR ''E'' then
                      let (esign, t1) = (case t of
                            d # u \<Rightarrow> if d = CHR ''+'' \<or> d = CHR ''-'' then ([d], u) else ([], t)
                          | [] \<Rightarrow> ([], t))
                      in if takeWhile is_digit t1 \<noteq> []
                         then (c # esign @ takeWhile is_digit t1, dropWhile is_digit t1)
                         else ([], s3)
                    else ([], s3)
                | [] \<Rightarrow> ([], s3))
           in Some (sign @ whole @ frac @ expo, frac \<noteq> [] \<or> expo \<noteq> [], s4))"

definition number_value :: "(string \<Rightarrow> string) \<Rightarrow> string \<Rightarrow> bool \<Rightarrow> pyval" where
  "number_value float_repr literal is_float =
     (if is_float then PFloat (float_repr literal)
      else case literal of
        c # t \<Rightarrow> if c = CHR ''-'' then PInt (- int (read_nat t)) else PInt (int (read_nat literal))
      | [] \<Rightarrow> PInt 0)"

definition json_constants :: "(string \<times> pyval) list" where
  "json_constants =
    [(''null'', PNone), (''true'', PBool True), (''false'', PBool False),
     (''NaN'', PFloat ''nan''), (''Infinity'', PFloat ''inf''), (''-Infinity'', PFloat ''-inf'')]"

definition parse_constant :: "string \<Rightarrow> (pyval \<times> string) option" where
  "parse_constant s =
     (case find (\<lambda>(name, _). prefix name s) json_constants of
        None \<Rightarrow> None
      | Some (name, v) \<Rightarrow> Some (v, drop (length name) s))"

abbreviation skip_space :: "string \<Rightarrow> string" where
  "skip_space s \<equiv> dropWhile json_space s"

text \<open>
  The value that starts at \<open>s\<close>, the elements of an array after \<^verbatim>\<open>[\<close> or \<^verbatim>\<open>,\<close>, and the members of an
  object after \<^verbatim>\<open>{\<close> or \<^verbatim>\<open>,\<close>.  Every call uses one unit of \<open>n\<close>, and at most two calls pass without
  reading a character.  A key that comes again takes the later value, at its first place.
\<close>

fun parse_value :: "(string \<Rightarrow> string) \<Rightarrow> nat \<Rightarrow> string \<Rightarrow> (pyval \<times> string) option"
  and parse_elements :: "(string \<Rightarrow> string) \<Rightarrow> nat \<Rightarrow> string \<Rightarrow> (pyval list \<times> string) option"
  and parse_members ::
    "(string \<Rightarrow> string) \<Rightarrow> nat \<Rightarrow> string \<Rightarrow> ((string \<times> pyval) list \<times> string) option"
where
  "parse_value fr 0 _ = None"
| "parse_value fr (Suc n) s =
     (case s of
        [] \<Rightarrow> None
      | c # s1 \<Rightarrow>
          if c = CHR 0x22 then
            map_option (\<lambda>(t, rest). (PStr t, rest)) (parse_string (length s1 + 1) s1)
          else if c = CHR ''['' then
            (case skip_space s1 of
               d # s2 \<Rightarrow>
                 if d = CHR '']'' then Some (PList [], s2)
                 else map_option (\<lambda>(vs, rest). (PList vs, rest)) (parse_elements fr n (d # s2))
             | [] \<Rightarrow> None)
          else if c = CHR ''{'' then
            (case skip_space s1 of
               d # s2 \<Rightarrow>
                 if d = CHR ''}'' then Some (PDict [], s2)
                 else map_option (\<lambda>(kvs, rest). (PDict (dupdate [] kvs), rest))
                        (parse_members fr n (d # s2))
             | [] \<Rightarrow> None)
          else
            (case parse_constant s of
               Some r \<Rightarrow> Some r
             | None \<Rightarrow>
                 map_option (\<lambda>(lit, is_float, rest). (number_value fr lit is_float, rest))
                   (parse_number s)))"
| "parse_elements fr 0 _ = None"
| "parse_elements fr (Suc n) s =
     (case parse_value fr n s of
        None \<Rightarrow> None
      | Some (v, s1) \<Rightarrow>
          (case skip_space s1 of
             d # s2 \<Rightarrow>
               if d = CHR '']'' then Some ([v], s2)
               else if d = CHR '','' then
                 map_option (\<lambda>(vs, rest). (v # vs, rest)) (parse_elements fr n (skip_space s2))
               else None
           | [] \<Rightarrow> None))"
| "parse_members fr 0 _ = None"
| "parse_members fr (Suc n) s =
     (case s of
        q # s1 \<Rightarrow>
          if q \<noteq> CHR 0x22 then None
          else
            (case parse_string (length s1 + 1) s1 of
               None \<Rightarrow> None
             | Some (k, s2) \<Rightarrow>
                 (case skip_space s2 of
                    colon # s3 \<Rightarrow>
                      if colon \<noteq> CHR '':'' then None
                      else
                        (case parse_value fr n (skip_space s3) of
                           None \<Rightarrow> None
                         | Some (v, s4) \<Rightarrow>
                             (case skip_space s4 of
                                d # s5 \<Rightarrow>
                                  if d = CHR ''}'' then Some ([(k, v)], s5)
                                  else if d = CHR '','' then
                                    map_option (\<lambda>(kvs, rest). ((k, v) # kvs, rest))
                                      (parse_members fr n (skip_space s5))
                                  else None
                              | [] \<Rightarrow> None))
                  | [] \<Rightarrow> None))
      | [] \<Rightarrow> None)"

text \<open>\<open>None\<close> is a \<^verbatim>\<open>JSONDecodeError\<close>: no value, or text after the value.\<close>

definition json_loads :: "(string \<Rightarrow> string) \<Rightarrow> string \<Rightarrow> pyval option" where
  "json_loads float_repr s =
     (case parse_value float_repr (2 * length s + 2) (skip_space s) of
        None \<Rightarrow> None
      | Some (v, rest) \<Rightarrow> if skip_space rest = [] then Some v else None)"

section \<open>Writing\<close>

definition hex4_text :: "nat \<Rightarrow> string" where
  "hex4_text n =
     [hex_digit (n div 4096 mod 16), hex_digit (n div 256 mod 16), hex_digit (n div 16 mod 16),
      hex_digit (n mod 16)]"

text \<open>A code point past ASCII, with two surrogates past the basic plane.\<close>

definition u_escape :: "nat \<Rightarrow> string" where
  "u_escape n =
     (if n < 65536 then [CHR 0x5C, CHR ''u''] @ hex4_text n
      else [CHR 0x5C, CHR ''u''] @ hex4_text (55296 + (n - 65536) div 1024)
        @ [CHR 0x5C, CHR ''u''] @ hex4_text (56320 + (n - 65536) mod 1024))"

definition json_char :: "char \<Rightarrow> string" where
  "json_char c =
     (if c = CHR 0x22 \<or> c = CHR 0x5C then [CHR 0x5C, c]
      else if c = CHR 0x0A then [CHR 0x5C, CHR ''n'']
      else if c = CHR 0x0D then [CHR 0x5C, CHR ''r'']
      else if c = CHR 0x09 then [CHR 0x5C, CHR ''t'']
      else if c = CHR 0x08 then [CHR 0x5C, CHR ''b'']
      else if c = CHR 0x0C then [CHR 0x5C, CHR ''f'']
      else if (of_char c :: nat) < 32 \<or> 126 < (of_char c :: nat) then u_escape (of_char c)
      else [c])"

text \<open>
  The characters of a text: ASCII ones one by one, others by the bytes of their UTF-8 form (of two,
  three or four bytes, as the first one says).
\<close>

definition low_bits :: "char \<Rightarrow> nat" where
  "low_bits c = of_char c mod 64"

fun json_chars :: "string \<Rightarrow> string" where
  "json_chars (c # d # e # f # s) =
     (if (of_char c :: nat) < 192 then json_char c @ json_chars (d # e # f # s)
      else if (of_char c :: nat) < 224 then
        u_escape (64 * (of_char c mod 32) + low_bits d) @ json_chars (e # f # s)
      else if (of_char c :: nat) < 240 then
        u_escape (4096 * (of_char c mod 16) + 64 * low_bits d + low_bits e) @ json_chars (f # s)
      else
        u_escape (262144 * (of_char c mod 8) + 4096 * low_bits d + 64 * low_bits e + low_bits f)
          @ json_chars s)"
| "json_chars [c, d, e] =
     (if (of_char c :: nat) < 192 then json_char c @ json_chars [d, e]
      else if (of_char c :: nat) < 224 then
        u_escape (64 * (of_char c mod 32) + low_bits d) @ json_chars [e]
      else u_escape (4096 * (of_char c mod 16) + 64 * low_bits d + low_bits e))"
| "json_chars [c, d] =
     (if (of_char c :: nat) < 192 then json_char c @ json_chars [d]
      else u_escape (64 * (of_char c mod 32) + low_bits d))"
| "json_chars [c] = json_char c"
| "json_chars [] = []"

definition json_string :: "string \<Rightarrow> string" where
  "json_string s = [CHR 0x22] @ json_chars s @ [CHR 0x22]"

definition newline :: "nat \<Rightarrow> string" where
  "newline depth = CHR 0x0A # replicate (2 * depth) (CHR '' '')"

definition bracketed :: "string \<Rightarrow> nat \<Rightarrow> string list \<Rightarrow> string \<Rightarrow> string" where
  "bracketed l depth items r =
     (if items = [] then l @ r
      else l @ newline (Suc depth) @ join ('','' @ newline (Suc depth)) items @ newline depth @ r)"

fun sort_keys :: "pyval \<Rightarrow> pyval"
  and sort_keys_list :: "pyval list \<Rightarrow> pyval list"
  and sort_keys_items :: "(string \<times> pyval) list \<Rightarrow> (string \<times> pyval) list" where
  "sort_keys (PList xs) = PList (sort_keys_list xs)"
| "sort_keys (PDict d) = PDict (sort_key fst (sort_keys_items d))"
| "sort_keys v = v"
| "sort_keys_list [] = []"
| "sort_keys_list (x # xs) = sort_keys x # sort_keys_list xs"
| "sort_keys_items [] = []"
| "sort_keys_items ((k, v) # kvs) = (k, sort_keys v) # sort_keys_items kvs"

text \<open>The text of a value in the order its dictionaries have; \<open>None\<close> is a \<^verbatim>\<open>TypeError\<close>.\<close>

fun dump_value :: "nat \<Rightarrow> pyval \<Rightarrow> string"
  and dump_list :: "nat \<Rightarrow> pyval list \<Rightarrow> string list"
  and dump_items :: "nat \<Rightarrow> (string \<times> pyval) list \<Rightarrow> string list" where
  "dump_value i PNone = ''null''"
| "dump_value i (PBool b) = (if b then ''true'' else ''false'')"
| "dump_value i (PInt n) = show_int n"
| "dump_value i (PFloat t) =
     (if t = ''nan'' then ''NaN'' else if t = ''inf'' then ''Infinity''
      else if t = ''-inf'' then ''-Infinity'' else t)"
| "dump_value i (PStr s) = json_string s"
| "dump_value i (PList xs) = bracketed ''['' i (dump_list (Suc i) xs) '']''"
| "dump_value i (PDict d) = bracketed ''{'' i (dump_items (Suc i) d) ''}''"
| "dump_value i _ = []"
| "dump_list i [] = []"
| "dump_list i (x # xs) = dump_value i x # dump_list i xs"
| "dump_items i [] = []"
| "dump_items i ((k, v) # kvs) = (json_string k @ '': '' @ dump_value i v) # dump_items i kvs"

definition json_dumps :: "pyval \<Rightarrow> string option" where
  "json_dumps v = (if is_json v then Some (dump_value 0 (sort_keys v)) else None)"

end
