(* ===== verification/DeleteMain.thy ===== *)
theory DeleteMain
  imports DeleteExec Json
begin

text \<open>
  The entry point of \<^verbatim>\<open>scripts/openstack/delete-project-resources.py\<close>: loading or refreshing the
  inventory, the checks before anything is deleted, the dry run, the deletion and the verification
  after it, with the exit codes.
\<close>

section \<open>Arguments and reports\<close>

text \<open>The parsed command line.\<close>

record arguments =
  a_report :: "string option"
  a_project :: "string option"
  a_inventory_script :: string
  a_openstack_bin :: string
  a_interface :: "string option"
  a_region :: "string option"
  a_allow_inventory_errors :: bool
  a_allow_service_api_errors :: bool
  a_yes :: bool
  a_verify :: bool
  a_wait_seconds :: real
  a_poll_seconds :: real

text \<open>\<^verbatim>\<open>if value\<close> of an optional string.\<close>

definition given :: "string option \<Rightarrow> bool" where
  "given v = (case v of None \<Rightarrow> False | Some s \<Rightarrow> s \<noteq> [])"

definition load_report :: "'x cloud \<Rightarrow> string \<Rightarrow> ('x, pydict) dio" where
  "load_report c path =
     bind (if path = ''-'' then os_error (outside_call ReadStdin (read_stdin c))
           else os_error (outside_call (ReadFile path) (read_text c path))) (\<lambda>payload.
       case json_loads (float_repr c) payload of
         None \<Rightarrow> raise_exn (DeletePlanError
           ''inventory input is not JSON; run list-project-resources.py with --format json'')
       | Some report \<Rightarrow>
           (case report of
              PDict d \<Rightarrow> ret d
            | _ \<Rightarrow> raise_exn (DeletePlanError
                ''inventory JSON must contain an object at the top level'')))"

definition inventory_argv :: "'x cloud \<Rightarrow> arguments \<Rightarrow> string list" where
  "inventory_argv c a =
     [sys_executable c, a_inventory_script a, ''--project'',
      (case a_project a of None \<Rightarrow> [] | Some p \<Rightarrow> p), ''--format'', ''json'']
     @ (if \<not> (a_allow_inventory_errors a \<or> a_allow_service_api_errors a) then [''--strict''] else [])
     @ [''--openstack-bin'', a_openstack_bin a]
     @ (case a_interface a of Some i \<Rightarrow> if i = [] then [] else [''--interface'', i] | None \<Rightarrow> [])
     @ (case a_region a of Some r \<Rightarrow> if r = [] then [] else [''--region'', r] | None \<Rightarrow> [])"

definition run_inventory :: "'x cloud \<Rightarrow> arguments \<Rightarrow> ('x, pydict) dio" where
  "run_inventory c a =
     bind (run_process c (inventory_argv c a)) (\<lambda>completed.
       if returncode completed \<noteq> 0 then
         raise_exn (DeletePlanError (''project inventory failed: '' @
           (if strip (stderr completed) = [] then strip (stdout completed)
            else strip (stderr completed))))
       else
         case json_loads (float_repr c) (stdout completed) of
           None \<Rightarrow> raise_exn (DeletePlanError ''project inventory returned invalid JSON'')
         | Some report \<Rightarrow>
             (case report of
                PDict d \<Rightarrow> ret d
              | _ \<Rightarrow> raise_exn (DeletePlanError ''project inventory did not return a JSON object'')))"

text \<open>\<^verbatim>\<open>str(issue.get(k) or default)\<close>.\<close>

definition text_or :: "pydict \<Rightarrow> string \<Rightarrow> pyval \<Rightarrow> string" where
  "text_or issue k default_v = py_str (py_or (vget issue k) default_v)"

definition error_detail :: "pyval \<Rightarrow> string \<times> string" where
  "error_detail issue =
     (case issue of
        PDict d \<Rightarrow>
          (text_or d ''category'' (PStr ''inventory''),
           text_or d ''service'' (PStr ''unknown'') @ ''/'' @ text_or d ''resource'' (PStr ''unknown'')
             @ '': '' @ text_or d ''error'' issue)
      | _ \<Rightarrow> (''inventory'', py_str issue))"

definition report_error_details :: "pydict \<Rightarrow> (string \<times> string) list" where
  "report_error_details report =
     (case vget_or report ''errors'' (PList []) of
        PList errors \<Rightarrow> map error_detail (filter truthy errors)
      | _ \<Rightarrow> [(''inventory'', ''inventory report errors field is not a list'')])"

definition allowed_inventory_errors :: "arguments \<Rightarrow> (string \<times> string) list \<Rightarrow> (string \<times> string) list"
where
  "allowed_inventory_errors a details =
     (if a_allow_inventory_errors a then details
      else if a_allow_service_api_errors a then
        filter (\<lambda>issue. fst issue = ''service_api'') details
      else [])"

definition report_errors :: "(string \<times> string) list \<Rightarrow> string list" where
  "report_errors details = map (\<lambda>(_, message). message) details"

definition blocking_errors :: "arguments \<Rightarrow> (string \<times> string) list \<Rightarrow> (string \<times> string) list" where
  "blocking_errors a details =
     filter (\<lambda>issue. issue \<notin> set (allowed_inventory_errors a details)) details"

section \<open>The steps of the entry point\<close>

definition emit_all :: "event list \<Rightarrow> ('x, unit) dio" where
  "emit_all es = fold_io (\<lambda>e _. emit e) es ()"

definition warnings :: "arguments \<Rightarrow> string \<Rightarrow> (string \<times> string) list \<Rightarrow> event list" where
  "warnings a stage details =
     map (\<lambda>(category, message). Err (''WARNING: non-blocking '' @ category @ '' error'' @ stage
            @ '': '' @ message)) (allowed_inventory_errors a details)"

definition the_report :: "'x cloud \<Rightarrow> arguments \<Rightarrow> ('x, pydict) dio" where
  "the_report c a =
     (if given (a_project a) then run_inventory c a
      else case a_report a of
        Some path \<Rightarrow> load_report c path
      | None \<Rightarrow> raise_exn (TypeErr ''expected str, bytes or os.PathLike object, not NoneType''))"

definition incomplete_message :: "(string \<times> string) list \<Rightarrow> string" where
  "incomplete_message blocking =
     ''refusing to delete from an incomplete inventory; rerun the inventory with --strict and resolve these errors: ''
       @ join ''; '' (report_errors blocking)"

text \<open>The checks between the report and the plan: an operation list, or a refusal.\<close>

definition checked_plan :: "arguments \<Rightarrow> pydict \<Rightarrow> ('x, Operation list) dio" where
  "checked_plan a report =
     (let details = report_error_details report; blocking = blocking_errors a details
      in andthen (emit_all (warnings a [] details))
        (if blocking \<noteq> [] then raise_exn (DeletePlanError (incomplete_message blocking))
         else bind (lift_sum (plan_deletions report)) (\<lambda>(operations, issues).
           if issues \<noteq> []
           then raise_exn (DeletePlanError (''refusing to delete: '' @ join ''; '' issues))
           else ret operations)))"

definition plan_line :: "Operation \<Rightarrow> string" where
  "plan_line op =
     ''  '' @ r_service (o_resource op) @ ''/'' @ r_resource (o_resource op) @ '' ''
       @ r_identifier (o_resource op) @ '': '' @ join '' '' (o_argv op)"

definition dry_run :: "Operation list \<Rightarrow> ('x, int) dio" where
  "dry_run operations =
     andthen (emit_all (Out ''Dry run; pass --yes to execute the ordered deletion plan.''
                 # map (\<lambda>op. Out (plan_line op)) operations)) (ret 0)"

definition remaining_detail :: "Operation list \<Rightarrow> string list" where
  "remaining_detail operations =
     (if operations = [] then []
      else [''remaining resources: ''
              @ join '', '' (map (\<lambda>op. resource_path (o_resource op)) operations)])"

definition verify_deletion :: "'x cloud \<Rightarrow> arguments \<Rightarrow> ('x, int) dio" where
  "verify_deletion c a =
     (if \<not> given (a_project a)
      then raise_exn (DeletePlanError
        ''--verify requires --project so the inventory can be refreshed'')
      else bind (run_inventory c a) (\<lambda>verified.
        let details = report_error_details verified; blocking = blocking_errors a details
        in andthen (emit_all (warnings a '' during verification'' details))
          (bind (lift_sum (plan_deletions verified)) (\<lambda>(operations, issues).
            if blocking \<noteq> [] \<or> issues \<noteq> [] \<or> operations \<noteq> []
            then raise_exn (DeletePlanError (''post-delete verification failed: '' @ join ''; ''
              (report_errors blocking @ issues @ remaining_detail operations)))
            else andthen (emit (Out ''Verified that no project resources remain.'')) (ret 0)))))"

definition delete_and_verify :: "'x cloud \<Rightarrow> arguments \<Rightarrow> Operation list \<Rightarrow> ('x, int) dio" where
  "delete_and_verify c a operations =
     bind (execute_plan c (a_openstack_bin a) (a_wait_seconds a) (a_poll_seconds a) operations)
       (\<lambda>errors.
         if errors \<noteq> []
         then andthen (emit_all (map (\<lambda>e. Err (''ERROR: '' @ e)) errors)) (ret 3)
         else if a_verify a then verify_deletion c a
         else ret 0)"

definition main_body :: "'x cloud \<Rightarrow> arguments \<Rightarrow> ('x, int) dio" where
  "main_body c a =
     bind (the_report c a) (\<lambda>report.
     bind (checked_plan a report) (\<lambda>operations.
       if operations = [] then
         andthen (emit (Out ''No deletable project resources found.'')) (ret 0)
       else if \<not> a_yes a then dry_run operations
       else delete_and_verify c a operations))"

definition main_errors :: "del_error \<Rightarrow> ('x, int) dio" where
  "main_errors e =
     (case e of
        DeletePlanError m \<Rightarrow> andthen (emit (Err (''error: '' @ m))) (ret 2)
      | OSErr m \<Rightarrow> andthen (emit (Err (''error: '' @ m))) (ret 2)
      | _ \<Rightarrow> raise_exn e)"

definition main :: "'x cloud \<Rightarrow> arguments \<Rightarrow> ('x, int) dio" where
  "main c a = try_except (main_body c a) main_errors"

section \<open>What the entry point may do\<close>

definition source_events :: "'x cloud \<Rightarrow> arguments \<Rightarrow> event set" where
  "source_events c a =
     (if given (a_project a) then {Ran (inventory_argv c a)}
      else case a_report a of None \<Rightarrow> {}
        | Some path \<Rightarrow> (if path = ''-'' then {ReadStdin} else {ReadFile path}))"

definition print_events :: "event set" where
  "print_events = range Out \<union> range Err"

definition handled :: "del_error \<Rightarrow> bool" where
  "handled e \<longleftrightarrow> (\<exists>m. e = DeletePlanError m \<or> e = OSErr m)"

lemma handled_simps [simp]:
  "handled (DeletePlanError m)" "handled (OSErr m)"
  "\<not> handled (KeyErr k)" "\<not> handled (ValueErr m)" "\<not> handled (TypeErr m)"
  by (simp_all add: handled_def)

lemma steps_emit_all: "set es \<subseteq> A \<Longrightarrow> steps (logs A) P (emit_all es)"
proof (induction es)
  case (Cons e es)
  then show ?case
    unfolding emit_all_def fold_io.simps
    by (intro steps_bind preorder_logs steps_emit) (simp_all add: emit_all_def)
qed (simp add: emit_all_def steps_ret preorder_logs)

lemma emit_all_eq: "emit_all es w = Some (Inr (), w\<lparr>trace := trace w @ es\<rparr>)"
  by (induction es arbitrary: w) (simp_all add: emit_all_def ret_def bind_def emit_def)

lemma wp_emit_all [wp_simps]: "wp (emit_all es) Q E w = Q () (w\<lparr>trace := trace w @ es\<rparr>)"
  by (simp add: wp_def emit_all_eq)

lemma steps_os_error:
  assumes "steps (logs A) (\<lambda>_. True) m"
  shows "steps (logs A) handled (os_error m)"
  unfolding os_error_def using assms by (intro steps_intros) simp_all

lemma steps_run_inventory [steps_intros]:
  "Ran (inventory_argv c a) \<in> A \<Longrightarrow> steps (logs A) handled (run_inventory c a)"
  unfolding run_inventory_def run_process_def
  by (intro steps_intros steps_os_error) (auto intro!: steps_intros split: pyval.split)

lemma steps_the_report:
  assumes "\<And>m. P (TypeErr m) \<or> a_report a \<noteq> None \<or> given (a_project a)" "\<And>e. handled e \<Longrightarrow> P e"
  shows "steps (logs (source_events c a)) P (the_report c a)"
proof -
  have load: "steps (logs (source_events c a)) handled (load_report c path)"
    if "\<not> given (a_project a)" "a_report a = Some path" for path
    using that unfolding load_report_def
    by (intro steps_intros steps_os_error) (auto intro!: steps_intros simp: source_events_def split: pyval.split)
  have run: "steps (logs (source_events c a)) handled (run_inventory c a)" if "given (a_project a)"
    using that by (intro steps_intros) (simp add: source_events_def)
  show ?thesis
    using assms load run unfolding the_report_def
    by (cases "a_report a") (auto intro: steps_weaken steps_raise preorder_logs)
qed

lemma plan_deletions_handled: "plan_deletions report = Inl e \<Longrightarrow> handled e"
  by (auto simp: plan_deletions_eq resource_entries_def Let_def split: sum.splits pyval.splits)

lemma warnings_print: "set (warnings a stage details) \<subseteq> print_events"
  by (auto simp: warnings_def print_events_def)

lemma steps_checked_plan:
  "print_events \<subseteq> A \<Longrightarrow> steps (logs A) handled (checked_plan a report)"
  unfolding checked_plan_def Let_def
  by (intro steps_intros steps_emit_all order_trans [OF warnings_print])
    (auto dest: plan_deletions_handled)

lemma steps_dry_run: "print_events \<subseteq> A \<Longrightarrow> steps (logs A) P (dry_run operations)"
  unfolding dry_run_def by (intro steps_intros steps_emit_all) (auto simp: print_events_def)

lemma in_print_events [simp]: "Out m \<in> print_events" "Err m \<in> print_events"
  by (simp_all add: print_events_def)

lemma steps_main_errors:
  assumes "print_events \<subseteq> A"
  shows "steps (logs A) (\<lambda>e. \<not> handled e) (main_errors e)"
proof -
  have [simp]: "Err m \<in> A" for m using assms by auto
  show ?thesis
    unfolding main_errors_def by (cases e) (auto intro!: steps_intros)
qed

text \<open>C6: Without \<open>--yes\<close> nothing is deleted, whatever the other arguments and the report: the program ends,
  and all it does is read or refresh the inventory and print.\<close>

theorem no_yes_no_deletion:
  assumes "\<not> a_yes a"
  shows "\<exists>r w1 t. main c a w = Some (r, w1) \<and> trace w1 = trace w @ t \<and>
    set t \<subseteq> source_events c a \<union> print_events"
proof -
  let ?A = "source_events c a \<union> print_events"
  have "steps (logs ?A) (\<lambda>_. True) (the_report c a)"
    by (rule steps_logs_mono [OF steps_the_report]) auto
  then have "steps (logs ?A) (\<lambda>_. True) (main_body c a)"
    using assms unfolding main_body_def
    by (intro steps_intros steps_dry_run) (auto intro: steps_weaken [OF steps_checked_plan])
  then have "steps (logs ?A) (\<lambda>_. True) (main c a)"
    unfolding main_def
    by (intro steps_intros) (auto intro: steps_weaken [OF steps_main_errors])
  from steps_returns [OF this, of w] show ?thesis by (auto simp: logs_def)
qed

section \<open>Exit codes\<close>

lemma wp_of_steps: "steps R P m \<Longrightarrow> wp m (\<lambda>_ _. True) (\<lambda>e _. P e) w"
  unfolding steps_def by (blast intro: wp_mono)

definition exit_code :: "int \<Rightarrow> bool" where
  "exit_code n \<longleftrightarrow> n \<in> {0, 2, 3}"

lemma exit_codes [simp]: "exit_code 0" "exit_code 2" "exit_code 3"
  by (simp_all add: exit_code_def)

abbreviation exits :: "('x, int) dio \<Rightarrow> 'x dworld \<Rightarrow> bool" where
  "exits m w \<equiv> wp m (\<lambda>code _. exit_code code) (\<lambda>e _. handled e) w"

lemma verify_exits: "exits (verify_deletion c a) w"
proof -
  have inv: "wp (run_inventory c a) (\<lambda>_ _. True) (\<lambda>e _. handled e) w"
    by (rule wp_of_steps [OF steps_run_inventory [where A = UNIV]]) simp
  show ?thesis
    unfolding verify_deletion_def
    by (auto simp: wp_simps Let_def plan_deletions_handled intro!: wp_mono [OF inv]
        split: sum.split)
qed

lemma delete_and_verify_exits:
  assumes "0 < a_poll_seconds a"
  shows "exits (delete_and_verify c a operations) w"
proof -
  have "wp (execute_plan c (a_openstack_bin a) (a_wait_seconds a) (a_poll_seconds a) operations)
      (\<lambda>_ _. True) (\<lambda>e _. handled e) w"
    by (rule wp_mono [OF execute_plan_segments [OF assms]]) auto
  then show ?thesis
    unfolding delete_and_verify_def wp_bind
    by (rule wp_mono) (auto simp: wp_simps verify_exits)
qed


section \<open>Refusals\<close>

text \<open>Why a report is refused, if it is.\<close>

definition refusal :: "arguments \<Rightarrow> pydict \<Rightarrow> string option" where
  "refusal a report =
     (let blocking = blocking_errors a (report_error_details report)
      in if blocking \<noteq> [] then Some (incomplete_message blocking)
         else case plan_deletions report of
           Inl (DeletePlanError m) \<Rightarrow> Some m
         | Inl _ \<Rightarrow> None
         | Inr (_, issues) \<Rightarrow>
             if issues = [] then None else Some (''refusing to delete: '' @ join ''; '' issues))"

text \<open>C5: A report that is incomplete, has no resources object, or cannot be planned as a whole is refused
  before anything is deleted, even with \<open>--yes\<close>: after reading the report the program prints its
  warnings and the reason, and exits with 2.\<close>

theorem bad_inventory_refused:
  assumes "the_report c a w = Some (Inr report, w0)" and "refusal a report = Some m"
  shows "main c a w = Some (Inr 2, w0\<lparr>trace := trace w0 @
    warnings a [] (report_error_details report) @ [Err (''error: '' @ m)]\<rparr>)"
  using assms
  by (auto simp: main_def main_body_def checked_plan_def io_defs emit_all_eq main_errors_def emit_def
      Let_def refusal_def split: if_splits sum.splits del_error.splits)

section \<open>Verification\<close>

text \<open>C8: When \<open>--verify\<close> reports success, the refreshed inventory has no blocking error and lists no object at
  all, except of the kinds that go with their parent.\<close>

theorem verified_means_empty:
  assumes "verify_deletion c a w = Some (Inr 0, w1)"
  shows "\<exists>report w0. run_inventory c a w = Some (Inr report, w0) \<and>
    blocking_errors a (report_error_details report) = [] \<and>
    \<not> (\<exists>s k item. lists_object report s k item \<and>
       \<not> left_to_parent (canonical_service s) (canonical_resource k))"
proof -
  obtain report w0 where r: "run_inventory c a w = Some (Inr report, w0)"
    "blocking_errors a (report_error_details report) = []" "plan_deletions report = Inr ([], [])"
    using assms
    by (auto simp: verify_deletion_def io_defs emit_all_eq emit_def Let_def
        split: if_splits option.splits sum.splits prod.splits)
  with listed_is_planned [OF r(3)] show ?thesis by fastforce
qed

text \<open>\<open>--verify\<close> without \<open>--project\<close> is not rejected with the arguments: the whole plan of the report is
  executed first, and only then does the program exit with 2 and ask for \<open>--project\<close>.\<close>

theorem verify_without_project_deletes_first:
  assumes "\<not> given (a_project a)" and "a_verify a" and "a_yes a"
    and "the_report c a w = Some (Inr report, w0)"
    and "checked_plan a report w0 = Some (Inr ops, w1)" and "ops \<noteq> []"
    and "execute_plan c (a_openstack_bin a) (a_wait_seconds a) (a_poll_seconds a) ops w1
           = Some (Inr [], w2)"
  shows "main c a w = Some (Inr 2, w2\<lparr>trace := trace w2 @
    [Err ''error: --verify requires --project so the inventory can be refreshed'']\<rparr>)"
  using assms
  by (simp add: main_def main_body_def delete_and_verify_def verify_deletion_def io_defs
      main_errors_def emit_def)

section \<open>Example runs\<close>

definition demo_arguments :: "bool \<Rightarrow> bool \<Rightarrow> string \<Rightarrow> arguments" where
  "demo_arguments yes verify path =
     \<lparr>a_report = (if path = [] then None else Some path),
      a_project = (if path = [] then Some ''demo'' else None),
      a_inventory_script = ''list-project-resources.py'', a_openstack_bin = ''openstack'',
      a_interface = None, a_region = None, a_allow_inventory_errors = False,
      a_allow_service_api_errors = False, a_yes = yes, a_verify = verify,
      a_wait_seconds = 600, a_poll_seconds = 2\<rparr>"

definition demo_report :: pydict where
  "demo_report =
     [(''resources'', PDict [(''network'', PDict [(''networks'', PList [PDict [(''id'', PStr ''n1'')]])])])]"

definition demo_operation :: Operation where
  "demo_operation =
     \<lparr>o_phase = 140,
      o_resource = \<lparr>r_service = ''network'', r_resource = ''network'', r_identifier = ''n1'',
                    r_raw = [(''id'', PStr ''n1'')]\<rparr>,
      o_argv = [''network'', ''delete'', ''n1'']\<rparr>"

lemma demo_json:
  "json_loads (\<lambda>t. t) ''{}'' = Some (PDict [])"
  "json_loads (\<lambda>t. t) ''{\"resources\": {}}'' = Some (PDict [(''resources'', PDict [])])"
  "json_loads (\<lambda>t. t) ''{\"resources\": {\"network\": {\"networks\": [{\"id\": \"n1\"}]}}}''
     = Some (PDict demo_report)"
  by code_simp+

lemma demo_plan: "plan_deletions demo_report = Inr ([demo_operation], [])"
  by code_simp

lemma demo_plan_empty: "plan_deletions [(''resources'', PDict [])] = Inr ([], [])"
  by code_simp

definition after_reading :: "string \<Rightarrow> nat dworld" where
  "after_reading path = \<lparr>clock = 1, trace = [ReadFile path], ext = 1\<rparr>"

lemma demo_read:
  "the_report demo_cloud (demo_arguments yes verify ''empty.json'') demo_world
     = Some (Inr [], after_reading ''empty.json'')"
  "the_report demo_cloud (demo_arguments yes verify ''r.json'') demo_world
     = Some (Inr demo_report, after_reading ''r.json'')"
  by (simp_all add: the_report_def load_report_def demo_arguments_def given_def os_error_def io_defs
      outside_call_def demo_cloud_def demo_world_def demo_json after_reading_def)

lemma demo_checked:
  "checked_plan (demo_arguments yes verify path) demo_report w = Some (Inr [demo_operation], w)"
proof -
  have "report_error_details demo_report = []"
    by (simp add: report_error_details_def demo_report_def vget_or_def)
  then show ?thesis
    by (simp add: checked_plan_def demo_plan blocking_errors_def warnings_def
        allowed_inventory_errors_def emit_all_eq io_defs Let_def)
qed

theorem no_yes_no_deletion_witness:
  "\<exists>r w1 t. main demo_cloud (demo_arguments False True ''r.json'') demo_world = Some (r, w1) \<and>
     trace w1 = trace demo_world @ t \<and>
     set t \<subseteq> source_events demo_cloud (demo_arguments False True ''r.json'') \<union> print_events"
  by (rule no_yes_no_deletion) (simp add: demo_arguments_def)


theorem bad_inventory_refused_witness:
  "main demo_cloud (demo_arguments True True ''empty.json'') demo_world =
     Some (Inr 2, (after_reading ''empty.json'')\<lparr>trace := trace (after_reading ''empty.json'') @
       warnings (demo_arguments True True ''empty.json'') [] (report_error_details []) @
       [Err (''error: '' @ ''inventory report has no resources object'')]\<rparr>)"
  by (rule bad_inventory_refused [OF demo_read(1)])
    (simp add: refusal_def report_error_details_def vget_or_def blocking_errors_def plan_deletions_def
      resource_entries_def Let_def)

theorem verified_means_empty_witness:
  "\<exists>report w0. run_inventory demo_cloud (demo_arguments True True []) demo_world = Some (Inr report, w0) \<and>
    blocking_errors (demo_arguments True True []) (report_error_details report) = [] \<and>
    \<not> (\<exists>s k item. lists_object report s k item \<and>
       \<not> left_to_parent (canonical_service s) (canonical_resource k))"
proof -
  have "verify_deletion demo_cloud (demo_arguments True True []) demo_world =
    Some (Inr 0, \<lparr>clock = 1,
      trace = [Ran (inventory_argv demo_cloud (demo_arguments True True [])),
               Out ''Verified that no project resources remain.''], ext = 1\<rparr>)"
    by (simp add: verify_deletion_def run_inventory_def run_process_def os_error_def io_defs
        outside_call_def demo_cloud_def demo_world_def demo_arguments_def given_def inventory_argv_def
        demo_json demo_plan_empty Let_def report_error_details_def vget_or_def blocking_errors_def
        warnings_def allowed_inventory_errors_def emit_all_eq emit_def)
  then show ?thesis by (rule verified_means_empty)
qed

theorem verify_without_project_deletes_first_witness:
  "\<exists>w2. main demo_cloud (demo_arguments True True ''r.json'') demo_world =
     Some (Inr 2, w2\<lparr>trace := trace w2 @
       [Err ''error: --verify requires --project so the inventory can be refreshed'']\<rparr>) \<and>
     Ran [''openstack'', ''network'', ''delete'', ''n1''] \<in> set (trace w2)"
proof -
  let ?a = "demo_arguments True True ''r.json''"
  let ?w2 = "\<lparr>clock = 2, trace = [ReadFile ''r.json'', Out (deleting_line demo_operation),
    Ran [''openstack'', ''network'', ''delete'', ''n1'']], ext = 2\<rparr> :: nat dworld"
  have "execute_plan demo_cloud (a_openstack_bin ?a) (a_wait_seconds ?a) (a_poll_seconds ?a)
      [demo_operation] (after_reading ''r.json'') = Some (Inr [], ?w2)"
    by (simp add: execute_plan_def execute_operation_def run_openstack_def run_process_def
        os_error_def io_defs outside_call_def emit_def demo_cloud_def after_reading_def
        demo_operation_def demo_arguments_def Let_def)
  then have "main demo_cloud ?a demo_world = Some (Inr 2, ?w2\<lparr>trace := trace ?w2 @
       [Err ''error: --verify requires --project so the inventory can be refreshed'']\<rparr>)"
    by (intro verify_without_project_deletes_first [OF _ _ _ demo_read(2) demo_checked])
      (simp_all add: demo_arguments_def given_def)
  then show ?thesis by (intro exI [of _ ?w2]) simp
qed

end
