(* ===== verification/InvEndpoints.thy ===== *)
theory InvEndpoints
  imports Json
begin

text \<open>
  The endpoint half of \<^verbatim>\<open>scripts/openstack/list-project-resources.py\<close>: reading the Keystone catalogue
  of the SDK or the output of \<^verbatim>\<open>openstack endpoint list\<close>, the fallback from one to the other, and the
  choice of one endpoint per service.  The table of \<^verbatim>\<open>os_service_types\<close> is the parameter
  \<open>known_type\<close>; the catalogue, \<^verbatim>\<open>shutil.which\<close> and the process are parameters of the discovery.
\<close>

section \<open>Data\<close>

text \<open>The exceptions: the four classes of the program, and any other with its class name.\<close>

datatype inv_error =
    InventoryError string
  | ServiceAPIError string
  | UnsupportedClientError string
  | EndpointDiscoveryError string
  | OtherException string string

fun exc_text :: "inv_error \<Rightarrow> string" where
  "exc_text (InventoryError m) = m"
| "exc_text (ServiceAPIError m) = m"
| "exc_text (UnsupportedClientError m) = m"
| "exc_text (EndpointDiscoveryError m) = m"
| "exc_text (OtherException _ m) = m"

text \<open>\<^verbatim>\<open>isinstance(exc, InventoryError)\<close>.\<close>

fun is_inventory_error :: "inv_error \<Rightarrow> bool" where
  "is_inventory_error (OtherException _ _) = False"
| "is_inventory_error _ = True"

record Endpoint =
  endpoint_id :: string
  region :: string
  service_name :: string
  raw_service_type :: string
  service_type :: string
  interface :: string
  url :: string
  enabled :: bool

section \<open>Fields of a record\<close>

definition text_of :: "pyval \<Rightarrow> string" where
  "text_of v = (case v of PNone \<Rightarrow> [] | _ \<Rightarrow> py_str v)"

definition lowered :: "pydict \<Rightarrow> pydict" where
  "lowered record = dupdate [] (map (\<lambda>(k, v). (casefold k, v)) record)"

fun field :: "pydict \<Rightarrow> string list \<Rightarrow> pyval" where
  "field record [] = PNone"
| "field record (name # names) =
     (case dget record name of
        Some v \<Rightarrow> v
      | None \<Rightarrow>
          (case vget (lowered record) (casefold name) of
             PNone \<Rightarrow> field record names
           | v \<Rightarrow> v))"

definition boolean :: "pyval \<Rightarrow> bool \<Rightarrow> bool" where
  "boolean v default_b =
     (case v of
        PNone \<Rightarrow> default_b
      | PBool b \<Rightarrow> b
      | _ \<Rightarrow> casefold (strip (text_of v)) \<notin> {''0'', ''false'', ''no'', ''disabled''})"

definition normalize_interface :: "pyval \<Rightarrow> string" where
  "normalize_interface v =
     (let value = casefold (strip (text_of v))
      in case dget [(''publicurl'', ''public''), (''internalurl'', ''internal''),
                    (''adminurl'', ''admin'')] value of
           None \<Rightarrow> value
         | Some t \<Rightarrow> t)"

text \<open>
  \<open>known_type\<close> is \<^verbatim>\<open>os_service_types.ServiceTypes().get_service_type\<close>; it gives \<open>None\<close> for a type it
  does not know, and everywhere when the package is missing.
\<close>

definition canonical_service_type :: "(string \<Rightarrow> string option) \<Rightarrow> pyval \<Rightarrow> string" where
  "canonical_service_type known_type v =
     (let value = strip (text_of v)
      in if value = [] then value
         else case known_type value of
           Some canonical \<Rightarrow> if canonical \<noteq> [] then canonical else casefold value
         | None \<Rightarrow> casefold value)"

section \<open>The output of the command line\<close>

definition endpoint_from_record :: "(string \<Rightarrow> string option) \<Rightarrow> pydict \<Rightarrow> Endpoint option" where
  "endpoint_from_record known_type record =
     (let raw_type = field record [''Service Type'', ''service_type'', ''type''];
          address = field record [''URL'', ''url'', ''publicURL'', ''public_url'']
      in if \<not> truthy raw_type \<or> \<not> truthy address then None
         else Some
           \<lparr>endpoint_id = text_of (field record [''ID'', ''id'']),
            region = text_of (field record [''Region'', ''region'']),
            service_name = text_of (field record [''Service Name'', ''service_name'', ''name'']),
            raw_service_type = text_of raw_type,
            service_type = canonical_service_type known_type raw_type,
            interface = normalize_interface (field record [''Interface'', ''interface'']),
            url = text_of address,
            enabled = boolean (field record [''Enabled'', ''enabled'']) True\<rparr>)"

definition record_endpoints :: "(string \<Rightarrow> string option) \<Rightarrow> pyval list \<Rightarrow> Endpoint list" where
  "record_endpoints known_type records =
     List.map_filter (\<lambda>record.
       case record of
         PDict d \<Rightarrow>
           (case endpoint_from_record known_type d of
              Some e \<Rightarrow> if enabled e then Some e else None
            | None \<Rightarrow> None)
       | _ \<Rightarrow> None) records"

text \<open>
  \<open>loads\<close> is \<^verbatim>\<open>json.loads\<close> on a text, which fails with the message of its \<^verbatim>\<open>JSONDecodeError\<close>.
\<close>

definition parse_endpoint_list_json ::
  "(string \<Rightarrow> string option) \<Rightarrow> (string \<Rightarrow> string + pyval) \<Rightarrow> string \<Rightarrow> inv_error + Endpoint list" where
  "parse_endpoint_list_json known_type loads payload =
     (case loads payload of
        Inl exc \<Rightarrow> Inl (EndpointDiscoveryError
          (''openstack endpoint list returned invalid JSON: '' @ exc))
      | Inr (PList records) \<Rightarrow>
          (let endpoints = record_endpoints known_type records
           in if endpoints = []
              then Inl (EndpointDiscoveryError
                ''openstack endpoint list returned no enabled endpoints'')
              else Inr endpoints)
      | Inr _ \<Rightarrow> Inl (EndpointDiscoveryError ''openstack endpoint list JSON was not an array''))"

section \<open>The catalogue of the SDK\<close>

text \<open>The endpoints of a service: the old form of the catalogue maps \<^verbatim>\<open>publicURL\<close> and so on to addresses.\<close>

definition ends_with :: "string \<Rightarrow> string \<Rightarrow> bool" where
  "ends_with t s = suffix t s"

definition service_items :: "pyval \<Rightarrow> pyval" where
  "service_items v =
     (case v of
        PDict d \<Rightarrow>
          PList (map (\<lambda>(key, address). PDict [(''interface'', PStr key), (''url'', address)])
            (filter (\<lambda>(key, _). ends_with ''url'' (casefold key) \<or>
                       casefold key \<in> {''public'', ''internal'', ''admin''}) d))
      | _ \<Rightarrow> v)"

fun guess_interface :: "pydict \<Rightarrow> string list \<Rightarrow> string" where
  "guess_interface item [] = []"
| "guess_interface item (candidate # candidates) =
     (if truthy (field item [candidate, candidate @ ''URL'', candidate @ ''_url''])
      then candidate else guess_interface item candidates)"

definition item_endpoint ::
  "(string \<Rightarrow> string option) \<Rightarrow> pyval \<Rightarrow> string \<Rightarrow> string \<Rightarrow> pydict \<Rightarrow> Endpoint option" where
  "item_endpoint known_type raw_type name service_id item =
     (let stated = normalize_interface (field item [''interface'', ''Interface'']);
          iface = (if stated = [] then guess_interface item [''public'', ''internal'', ''admin'']
                   else stated);
          stated_url = field item [''url'', ''URL''];
          address = (if truthy stated_url then stated_url
                     else field item [iface @ ''URL'', iface @ ''_url''])
      in if \<not> truthy address then None
         else Some
           \<lparr>endpoint_id = (let i = text_of (field item [''id'', ''ID''])
                            in if i = [] then service_id else i),
            region = text_of (field item [''region'', ''Region'']),
            service_name = name,
            raw_service_type = text_of raw_type,
            service_type = canonical_service_type known_type raw_type,
            interface = iface,
            url = text_of address,
            enabled = boolean (field item [''enabled'', ''Enabled'']) True\<rparr>)"

text \<open>One service of the catalogue; \<open>Inl\<close> is the \<^verbatim>\<open>TypeError\<close> of a value that is not iterable.\<close>

definition service_endpoints ::
  "(string \<Rightarrow> string option) \<Rightarrow> pyval \<Rightarrow> string + Endpoint list" where
  "service_endpoints known_type service =
     (case service of
        PDict d \<Rightarrow>
          (let raw_type = field d [''type'', ''service_type'']
           in if \<not> truthy raw_type then Inr []
              else
                let items = service_items (vget_or d ''endpoints'' (PList []));
                    name = text_of (field d [''name'', ''service_name'']);
                    service_id = text_of (field d [''id'', ''service_id''])
                in case (if truthy items then py_iter items else Inr []) of
                     Inl e \<Rightarrow> Inl e
                   | Inr xs \<Rightarrow> Inr (List.map_filter (\<lambda>item.
                       case item of
                         PDict i \<Rightarrow> item_endpoint known_type raw_type name service_id i
                       | _ \<Rightarrow> None) xs))
      | _ \<Rightarrow> Inr [])"

fun all_endpoints :: "(string \<Rightarrow> string option) \<Rightarrow> pyval list \<Rightarrow> string + Endpoint list" where
  "all_endpoints known_type [] = Inr []"
| "all_endpoints known_type (service # services) =
     (case service_endpoints known_type service of
        Inl e \<Rightarrow> Inl e
      | Inr es \<Rightarrow>
          (case all_endpoints known_type services of
             Inl e \<Rightarrow> Inl e
           | Inr rest \<Rightarrow> Inr (es @ rest)))"

definition catalog_endpoints ::
  "(string \<Rightarrow> string option) \<Rightarrow> pyval \<Rightarrow> inv_error + Endpoint list" where
  "catalog_endpoints known_type catalog =
     (case py_iter catalog of
        Inl e \<Rightarrow> Inl (OtherException ''TypeError'' e)
      | Inr services \<Rightarrow>
          (case all_endpoints known_type services of
             Inl e \<Rightarrow> Inl (OtherException ''TypeError'' e)
           | Inr endpoints \<Rightarrow>
               (let usable = filter enabled endpoints
                in if usable = []
                   then Inl (EndpointDiscoveryError
                     ''the Keystone service catalog has no enabled endpoints'')
                   else Inr usable)))"

section \<open>Discovery\<close>

text \<open>What running a process with a timeout gives.\<close>

datatype process_outcome =
    NotThere
  | TimedOut
  | Finished completed

record discovery =
  known_type :: "string \<Rightarrow> string option"
  loads :: "string \<Rightarrow> string + pyval"
  service_catalog :: "inv_error + pyval"
  which_binary :: "string \<Rightarrow> string option"
  run_binary :: "string list \<Rightarrow> nat \<Rightarrow> process_outcome"

text \<open>\<open>FileNotFoundError\<close> is the class of the exception that the caller handles.\<close>

definition run_endpoint_command :: "discovery \<Rightarrow> string \<Rightarrow> nat \<Rightarrow> inv_error + Endpoint list" where
  "run_endpoint_command d binary timeout =
     (case run_binary d [binary, ''endpoint'', ''list'', ''-f'', ''json''] timeout of
        NotThere \<Rightarrow> Inl (OtherException ''FileNotFoundError'' binary)
      | TimedOut \<Rightarrow> Inl (EndpointDiscoveryError
          (binary @ '' endpoint list timed out after '' @ show_nat timeout @ '' seconds''))
      | Finished completed \<Rightarrow>
          if returncode completed \<noteq> 0 then
            (let detail = strip (if stderr completed \<noteq> [] then stderr completed
                                 else stdout completed)
             in Inl (EndpointDiscoveryError
                  (binary @ '' endpoint list failed with exit code ''
                     @ show_int (returncode completed)
                     @ (if detail = [] then [] else '': '' @ detail))))
          else parse_endpoint_list_json (known_type d) (loads d) (stdout completed))"

definition catalog_failure :: "inv_error \<Rightarrow> inv_error" where
  "catalog_failure e =
     (if is_inventory_error e then e
      else EndpointDiscoveryError
        (''could not read the Keystone service catalog with openstacksdk: '' @ exc_text e))"

definition discover_endpoints :: "discovery \<Rightarrow> string \<Rightarrow> inv_error + Endpoint list" where
  "discover_endpoints d binary =
     (case (case service_catalog d of
              Inl e \<Rightarrow> Inl e
            | Inr catalog \<Rightarrow> catalog_endpoints (known_type d) catalog) of
        Inr endpoints \<Rightarrow> Inr endpoints
      | Inl e \<Rightarrow>
          (let failure = exc_text (catalog_failure e);
               resolved = (case which_binary d binary of
                             Some b \<Rightarrow> if b = [] then binary else b | None \<Rightarrow> binary)
           in case run_endpoint_command d resolved 60 of
                Inr endpoints \<Rightarrow> Inr endpoints
              | Inl (EndpointDiscoveryError m) \<Rightarrow> Inl (EndpointDiscoveryError
                  (''openstacksdk endpoint discovery failed: '' @ failure
                     @ ''; CLI fallback also failed: '' @ m))
              | Inl (OtherException c m) \<Rightarrow>
                  if c = ''FileNotFoundError'' then Inl (EndpointDiscoveryError
                    (''openstacksdk endpoint discovery failed: '' @ failure
                       @ ''; CLI fallback '' @ repr_str binary @ '' is unavailable''))
                  else Inl (OtherException c m)
              | Inl other \<Rightarrow> Inl other))"

section \<open>Selection\<close>

definition IGNORED_SERVICE_TYPES :: "string list" where
  "IGNORED_SERVICE_TYPES =
    [''cloudformation'', ''gnocchi'', ''instance-ha'', ''lms'', ''metric'',
     ''nfv-orchestration'', ''panel'', ''rating'', ''resource-optimization'']"

definition is_ignored_endpoint :: "Endpoint \<Rightarrow> bool" where
  "is_ignored_endpoint e =
     list_ex (\<lambda>value. casefold (strip value) \<in> set IGNORED_SERVICE_TYPES)
       [service_type e, raw_service_type e, service_name e]"

text \<open>\<^verbatim>\<open>re.search(r"v(\d+)$", s)\<close>: \<^verbatim>\<open>$\<close> is the end, or the place before a final newline.\<close>

definition version_suffix :: "string \<Rightarrow> nat option" where
  "version_suffix s =
     (let t = (if s \<noteq> [] \<and> last s = CHR 0x0A then butlast s else s);
          digits = rev (takeWhile is_digit (rev t));
          before = rev (dropWhile is_digit (rev t))
      in if digits \<noteq> [] \<and> before \<noteq> [] \<and> last before = CHR ''v'' then Some (read_nat digits)
         else None)"

definition endpoint_rank :: "string \<Rightarrow> Endpoint \<Rightarrow> int \<times> int \<times> string \<times> string" where
  "endpoint_rank service e =
     ((if casefold (raw_service_type e) = casefold service then 0 else 1),
      - (case version_suffix (casefold (raw_service_type e)) of None \<Rightarrow> 0 | Some v \<Rightarrow> int v),
      raw_service_type e, url e)"

definition candidates :: "Endpoint list \<Rightarrow> string option \<Rightarrow> Endpoint list" where
  "candidates endpoints wanted_region =
     (let usable = filter (\<lambda>e. enabled e \<and> \<not> is_ignored_endpoint e) endpoints
      in case wanted_region of
           None \<Rightarrow> usable
         | Some r \<Rightarrow> if r = [] then usable else filter (\<lambda>e. region e = r) usable)"

definition pick_endpoint ::
  "string \<Rightarrow> string \<times> Endpoint list \<Rightarrow> inv_error + Endpoint" where
  "pick_endpoint iface = (\<lambda>(service, endpoints).
     let matching = filter (\<lambda>e. interface e = iface) endpoints
     in if matching = [] then
          Inl (EndpointDiscoveryError
            (''service '' @ repr_str service @ '' (''
               @ join '', '' (sort (remdups (map (\<lambda>e. if service_name e = [] then raw_service_type e
                                                       else service_name e) endpoints)))
               @ '') has no '' @ repr_str iface @ '' endpoint''))
        else Inr (hd (sort_key (endpoint_rank service) matching)))"

fun pick_all :: "string \<Rightarrow> (string \<times> Endpoint list) list \<Rightarrow> inv_error + Endpoint list" where
  "pick_all iface [] = Inr []"
| "pick_all iface (g # gs) =
     (case pick_endpoint iface g of
        Inl e \<Rightarrow> Inl e
      | Inr x \<Rightarrow> (case pick_all iface gs of Inl e \<Rightarrow> Inl e | Inr xs \<Rightarrow> Inr (x # xs)))"

definition select_endpoints ::
  "Endpoint list \<Rightarrow> string \<Rightarrow> string option \<Rightarrow> inv_error + Endpoint list" where
  "select_endpoints endpoints wanted_interface wanted_region =
     (let iface = normalize_interface (PStr wanted_interface);
          cs = candidates endpoints wanted_region
      in if cs = [] then
           Inl (EndpointDiscoveryError
             (''no enabled OpenStack endpoints match interface '' @ repr_str iface
                @ (case wanted_region of
                     Some r \<Rightarrow> if r = [] then [] else '' in region '' @ repr_str r
                   | None \<Rightarrow> [])))
         else pick_all iface (sort_key fst (group_by service_type cs)))"

section \<open>One endpoint per service\<close>

lemma pick_all_Inr:
  "pick_all iface gs = Inr xs \<longleftrightarrow> list_all2 (\<lambda>g x. pick_endpoint iface g = Inr x) gs xs"
proof (induction gs arbitrary: xs)
  case (Cons g gs)
  show ?case
    by (cases "pick_endpoint iface g"; cases "pick_all iface gs")
      (auto simp: list_all2_Cons1 Cons.IH [symmetric])
qed auto

lemma pick_all_Inl:
  "(\<exists>e. pick_all iface gs = Inl e) \<longleftrightarrow> (\<exists>g \<in> set gs. \<exists>e. pick_endpoint iface g = Inl e)"
  by (induction gs) (auto split: sum.splits)

lemma pick_endpoint_Inl:
  "(\<exists>e. pick_endpoint iface (s, es) = Inl e) \<longleftrightarrow> (\<forall>e \<in> set es. interface e \<noteq> iface)"
  by (auto simp: pick_endpoint_def Let_def filter_empty_conv)

lemma pick_endpoint_Inr:
  assumes "pick_endpoint iface (s, es) = Inr x"
  shows "x \<in> set es \<and> interface x = iface \<and>
    (\<forall>e \<in> set es. interface e = iface \<longrightarrow> endpoint_rank s x \<le> endpoint_rank s e)"
proof -
  let ?m = "filter (\<lambda>e. interface e = iface) es"
  from assms have "?m \<noteq> []" and x: "x = hd (sort_key (endpoint_rank s) ?m)"
    by (auto simp: pick_endpoint_def Let_def split: if_splits)
  then have "x \<in> set ?m" using pysort.first_mem [of ?m "endpoint_rank s"] by simp
  moreover have "endpoint_rank s x \<le> endpoint_rank s e" if "e \<in> set ?m" for e
    unfolding x using that by (rule pysort.first_minimal)
  ultimately show ?thesis by auto
qed

definition services_of :: "Endpoint list \<Rightarrow> (string \<times> Endpoint list) list" where
  "services_of cs = sort_key fst (group_by service_type cs)"

lemma services_of_mem:
  "(s, es) \<in> set (services_of cs) \<longleftrightarrow> es = filter (\<lambda>e. service_type e = s) cs \<and> es \<noteq> []"
proof
  assume "(s, es) \<in> set (services_of cs)"
  then have "(s, es) \<in> set (group_by service_type cs)" by (simp add: services_of_def)
  from group_by_mem [OF this] show "es = filter (\<lambda>e. service_type e = s) cs \<and> es \<noteq> []" .
next
  assume es: "es = filter (\<lambda>e. service_type e = s) cs \<and> es \<noteq> []"
  then have "dget (group_by service_type cs) s = Some es"
    by (auto simp: group_by_lookup Let_def)
  then show "(s, es) \<in> set (services_of cs)"
    by (auto simp: services_of_def dest: map_of_SomeD)
qed

lemma services_of_keys:
  "sorted (map fst (services_of cs))" "distinct (map fst (services_of cs))"
  "set (map fst (services_of cs)) = service_type ` set cs"
proof -
  show "sorted (map fst (services_of cs))"
    unfolding services_of_def by (rule pysort.ascending)
  have "mset (map fst (services_of cs)) = mset (dkeys (group_by service_type cs))"
    unfolding services_of_def by (simp only: mset_map pysort.perm)
  then show "distinct (map fst (services_of cs))"
    by (metis group_by_distinct mset_eq_imp_distinct_iff)
  show "set (map fst (services_of cs)) = service_type ` set cs"
    using group_by_keys [of service_type cs] by (simp add: services_of_def)
qed

lemma picked_services:
  assumes "list_all2 (\<lambda>g x. pick_endpoint iface g = Inr x) gs xs"
    and "\<And>s es. (s, es) \<in> set gs \<Longrightarrow> \<forall>e \<in> set es. service_type e = s"
  shows "map service_type xs = map fst gs"
  using assms
proof (induction rule: list_all2_induct)
  case (Cons g gs x xs)
  obtain s es where g: "g = (s, es)" by (cases g)
  with Cons.hyps(1) have "x \<in> set es" using pick_endpoint_Inr by blast
  with Cons g show ?case by (metis fst_conv list.map(2) list.set_intros(1,2))
qed simp

definition best_endpoint :: "Endpoint list \<Rightarrow> string \<Rightarrow> Endpoint \<Rightarrow> bool" where
  "best_endpoint cs iface e \<longleftrightarrow>
     e \<in> set cs \<and> interface e = iface \<and>
     (\<forall>e' \<in> set cs. service_type e' = service_type e \<and> interface e' = iface \<longrightarrow>
        endpoint_rank (service_type e) e \<le> endpoint_rank (service_type e) e')"

text \<open>C12: Exactly one endpoint is selected per service type that has a usable endpoint, in the order of the
  service types; it has the requested interface (and region), is enabled, is not of an excluded
  service, and no other such endpoint of its service has a smaller rank.\<close>

theorem select_endpoints_correct:
  assumes "select_endpoints endpoints iface reg = Inr selected"
  shows "sorted (map service_type selected) \<and> distinct (map service_type selected) \<and>
    set (map service_type selected) = service_type ` set (candidates endpoints reg) \<and>
    (\<forall>e \<in> set selected.
       best_endpoint (candidates endpoints reg) (normalize_interface (PStr iface)) e \<and>
       enabled e \<and> \<not> is_ignored_endpoint e)"
proof -
  let ?cs = "candidates endpoints reg" and ?i = "normalize_interface (PStr iface)"
  have picks: "list_all2 (\<lambda>g x. pick_endpoint ?i g = Inr x) (services_of ?cs) selected"
    using assms
    by (simp add: select_endpoints_def Let_def pick_all_Inr services_of_def split: if_splits)
  have types: "map service_type selected = map fst (services_of ?cs)"
    using picks by (rule picked_services) (auto simp: services_of_mem)
  have "best_endpoint ?cs ?i e" if mem: "e \<in> set selected" for e
  proof -
    from mem obtain n where "n < length selected" "selected ! n = e"
      unfolding in_set_conv_nth by blast
    with picks have "services_of ?cs ! n \<in> set (services_of ?cs)"
      and "pick_endpoint ?i (services_of ?cs ! n) = Inr e"
      by (auto simp: list_all2_conv_all_nth)
    then obtain s es where g: "(s, es) \<in> set (services_of ?cs)" "pick_endpoint ?i (s, es) = Inr e"
      by (metis surj_pair)
    then have "es = filter (\<lambda>e. service_type e = s) ?cs" by (simp add: services_of_mem)
    with pick_endpoint_Inr [OF g(2)] show ?thesis by (auto simp: best_endpoint_def)
  qed
  moreover have "enabled e \<and> \<not> is_ignored_endpoint e" if "e \<in> set ?cs" for e
    using that by (auto simp: candidates_def Let_def split: option.splits if_splits)
  ultimately show ?thesis
    using services_of_keys [of ?cs] unfolding types by (auto simp: best_endpoint_def)
qed

text \<open>The selection fails exactly when no endpoint is usable, or when some service with usable endpoints
  has none with the requested interface.\<close>

theorem select_endpoints_fails_iff:
  "(\<exists>e. select_endpoints endpoints iface reg = Inl e) \<longleftrightarrow>
     candidates endpoints reg = [] \<or>
     (\<exists>e \<in> set (candidates endpoints reg).
        filter (\<lambda>e'. service_type e' = service_type e \<and>
            interface e' = normalize_interface (PStr iface)) (candidates endpoints reg) = [])"
  (is "?l \<longleftrightarrow> _")
proof -
  let ?cs = "candidates endpoints reg" and ?i = "normalize_interface (PStr iface)"
  have "(\<exists>e. pick_all ?i (services_of ?cs) = Inl e) \<longleftrightarrow>
      (\<exists>s es. (s, es) \<in> set (services_of ?cs) \<and> (\<forall>e \<in> set es. interface e \<noteq> ?i))"
    unfolding pick_all_Inl Bex_def split_paired_Ex pick_endpoint_Inl ..
  then have "?l \<longleftrightarrow> ?cs = [] \<or> (\<exists>s es. (s, es) \<in> set (services_of ?cs) \<and> (\<forall>e \<in> set es. interface e \<noteq> ?i))"
    by (auto simp: select_endpoints_def Let_def services_of_def [symmetric])
  also have "\<dots> \<longleftrightarrow> ?cs = [] \<or> (\<exists>e \<in> set ?cs.
      filter (\<lambda>e'. service_type e' = service_type e \<and> interface e' = ?i) ?cs = [])"
    unfolding services_of_mem by (auto simp: filter_empty_conv)
  finally show ?thesis .
qed

section \<open>Discovery\<close>

lemma in_map_filter: "y \<in> set (List.map_filter f xs) \<longleftrightarrow> (\<exists>x \<in> set xs. f x = Some y)"
  by (induction xs) (auto simp: List.map_filter_simps split: option.splits)

lemma record_endpoints_enabled: "e \<in> set (record_endpoints known records) \<Longrightarrow> enabled e"
proof -
  assume "e \<in> set (record_endpoints known records)"
  then obtain x where "(case x of
       PDict d \<Rightarrow>
         (case endpoint_from_record known d of
            Some e \<Rightarrow> if enabled e then Some e else None
          | None \<Rightarrow> None)
     | _ \<Rightarrow> None) = Some e"
    by (auto simp: record_endpoints_def in_map_filter)
  then show "enabled e" by (cases x) (auto split: option.splits if_splits)
qed

lemma catalog_endpoints_Inr:
  "catalog_endpoints known catalog = Inr es \<Longrightarrow> es \<noteq> [] \<and> (\<forall>e \<in> set es. enabled e)"
  by (auto simp: catalog_endpoints_def Let_def split: sum.splits if_splits)

lemma run_endpoint_command_Inr:
  "run_endpoint_command d binary timeout = Inr es \<Longrightarrow> es \<noteq> [] \<and> (\<forall>e \<in> set es. enabled e)"
  by (auto simp: run_endpoint_command_def parse_endpoint_list_json_def Let_def
      split: process_outcome.splits sum.splits pyval.splits if_splits
      dest: record_endpoints_enabled)

lemma run_endpoint_command_Inl:
  "run_endpoint_command d binary timeout = Inl e \<Longrightarrow>
     (\<exists>m. e = EndpointDiscoveryError m) \<or> e = OtherException ''FileNotFoundError'' binary"
  by (auto simp: run_endpoint_command_def parse_endpoint_list_json_def Let_def
      split: process_outcome.splits sum.splits pyval.splits if_splits)

text \<open>Whatever the SDK, the executable and the JSON do, discovery gives a non-empty list of enabled
  endpoints or an \<open>EndpointDiscoveryError\<close> that tells about both attempts; no other exception
  escapes.\<close>

theorem discover_endpoints_total:
  "case discover_endpoints d binary of
     Inr endpoints \<Rightarrow> endpoints \<noteq> [] \<and> list_all enabled endpoints
   | Inl e \<Rightarrow> (\<exists>m. e = EndpointDiscoveryError (''openstacksdk endpoint discovery failed: '' @ m))"
proof -
  let ?catalog = "case service_catalog d of Inl e \<Rightarrow> Inl e
    | Inr catalog \<Rightarrow> catalog_endpoints (known_type d) catalog"
  let ?resolved = "case which_binary d binary of Some b \<Rightarrow> if b = [] then binary else b | None \<Rightarrow> binary"
  show ?thesis
  proof (cases ?catalog)
    case (Inr es)
    then have "es \<noteq> [] \<and> (\<forall>e \<in> set es. enabled e)"
      using catalog_endpoints_Inr by (auto split: sum.splits)
    with Inr show ?thesis by (simp add: discover_endpoints_def list_all_iff)
  next
    case failed: (Inl e)
    show ?thesis
    proof (cases "run_endpoint_command d ?resolved 60")
      case (Inr es)
      with failed run_endpoint_command_Inr [OF Inr] show ?thesis
        by (simp add: discover_endpoints_def Let_def list_all_iff)
    next
      case (Inl e')
      with failed run_endpoint_command_Inl [OF Inl] show ?thesis
        by (auto simp: discover_endpoints_def Let_def)
    qed
  qed
qed

section \<open>An example\<close>

definition demo_endpoint :: "string \<Rightarrow> string \<Rightarrow> string \<Rightarrow> Endpoint" where
  "demo_endpoint raw iface address =
     \<lparr>endpoint_id = address, region = ''R1'', service_name = ''cinder'', raw_service_type = raw,
      service_type = ''block-storage'', interface = iface, url = address, enabled = True\<rparr>"

definition demo_endpoints :: "Endpoint list" where
  "demo_endpoints =
     [demo_endpoint ''volumev2'' ''public'' ''u2'', demo_endpoint ''volumev3'' ''public'' ''u3'',
      demo_endpoint ''volumev3'' ''internal'' ''u1'']"

theorem select_endpoints_correct_witness:
  "select_endpoints demo_endpoints ''publicURL'' (Some ''R1'')
     = Inr [demo_endpoint ''volumev3'' ''public'' ''u3''] \<and>
   best_endpoint (candidates demo_endpoints (Some ''R1'')) ''public''
     (demo_endpoint ''volumev3'' ''public'' ''u3'')"
proof -
  have s: "select_endpoints demo_endpoints ''publicURL'' (Some ''R1'')
      = Inr [demo_endpoint ''volumev3'' ''public'' ''u3'']"
    by code_simp
  moreover have "normalize_interface (PStr ''publicURL'') = ''public''"
    by code_simp
  ultimately show ?thesis using select_endpoints_correct [OF s] by simp
qed

end
