(* ===== verification/InvResources.thy ===== *)
theory InvResources
  imports InvEndpoints
begin

text \<open>
  The pure helpers of \<^verbatim>\<open>scripts/openstack/list-project-resources.py\<close>: the tables of names, the error
  classification, the serialisation of SDK objects, the description of resource classes, and the
  rules of ownership.
\<close>

section \<open>Names and errors\<close>

definition GLOBAL_RESOURCE_NAMES :: "string list" where
  "GLOBAL_RESOURCE_NAMES =
    [''account'', ''agent'', ''archive_policy'', ''archive_policy_rule'', ''availability_zone'',
     ''availability_zone_profile'', ''capabilities'', ''cluster_template'', ''conductor'',
     ''datastore'', ''datastore_version'', ''domain'', ''endpoint'', ''extension'', ''flavor'',
     ''flavor_access'', ''group'', ''group_type'', ''host'', ''hypervisor'', ''image_import'',
     ''info'', ''limit'', ''limits'', ''migration'', ''policy_type'', ''profile_type'',
     ''provider'', ''policy'', ''quota'', ''quota_class_set'', ''quota_set'', ''region'',
     ''resource_class'', ''resource_filter'', ''resource_provider'', ''role'', ''schema'',
     ''server_migration'', ''service'', ''service_profile'', ''service_status'', ''stats'',
     ''stats_pools'', ''task'', ''tenant_usage'', ''type'', ''user'', ''usage'', ''version'',
     ''volume_type'', ''volume_type_access'', ''zone_export'']"

definition GLOBAL_LEGACY_MANAGER_NAMES :: "string list" where
  "GLOBAL_LEGACY_MANAGER_NAMES =
    [''archive_policies'', ''archive_policy_rules'', ''availability_zones'', ''capabilities'',
     ''datastores'', ''datastore_versions'', ''extensions'', ''flavors'', ''group_types'',
     ''hosts'', ''hypervisors'', ''images'', ''limits'', ''mservices'', ''policies'',
     ''policy_types'', ''profiles'', ''quotas'', ''regions'', ''registries'',
     ''resource_classes'', ''resource_filters'', ''resource_providers'', ''resource_type'',
     ''resource_types'', ''roles'', ''services'', ''stats'', ''tasks'', ''types'', ''users'',
     ''versions'', ''volume_type_accesses'', ''volume_types'']"

definition NON_DELETABLE_RESOURCE_NAMES :: "string list" where
  "NON_DELETABLE_RESOURCE_NAMES =
    [''network_ip_availability'', ''network_ip_availabilities'']"

definition NON_DELETABLE_RESOURCE_NAMES_BY_SERVICE :: "(string, string list) dict" where
  "NON_DELETABLE_RESOURCE_NAMES_BY_SERVICE =
    [(''application-container'',
      [''action'', ''actions'', ''container_action'', ''container_actions'', ''log'', ''logs'',
       ''stats'']),
     (''backup'',
      [''action'', ''actions'']),
     (''clustering'',
      [''action'', ''event'']),
     (''dns'',
      [''blacklist'', ''blacklists'', ''floatingip'', ''floatingips'', ''pool'', ''pools'',
       ''service_status'', ''service_statuses'', ''tld'', ''tlds'', ''tsigkey'', ''tsigkeys'',
       ''zone_export'', ''zone_exports'', ''zone_import'', ''zone_imports'']),
     (''image'',
      [''image_member'', ''image_members'', ''member'', ''members'']),
     (''load-balancer'',
      [''healthmonitor'', ''health_monitor'', ''listener'', ''member'', ''pool'']),
     (''orchestration'',
      [''resource'', ''resources''])]"

definition PROJECT_SCOPED_EXCEPTIONS :: "(string, string list) dict" where
  "PROJECT_SCOPED_EXCEPTIONS =
    [(''application-container'',
      [''container'', ''capsule'']),
     (''block-storage'',
      [''group'', ''group_snapshot'', ''volume_transfer'']),
     (''container-infrastructure-management'',
      [''cluster'']),
     (''compute'',
      []),
     (''database'',
      [''backup'', ''cluster'', ''configuration'', ''instance'', ''module'']),
     (''key-manager'',
      [''container'', ''order'', ''secret'']),
     (''orchestration'',
      [''stack'']),
     (''shared-file-system'',
      [''share'', ''share_group'', ''share_snapshot'', ''user_message'']),
     (''workflow'',
      [''execution'', ''workflow''])]"

definition non_deletable_resource :: "string \<Rightarrow> string \<Rightarrow> bool" where
  "non_deletable_resource service name \<longleftrightarrow>
     name \<in> set NON_DELETABLE_RESOURCE_NAMES \<or>
     name \<in> set (case dget NON_DELETABLE_RESOURCE_NAMES_BY_SERVICE service of
                     None \<Rightarrow> [] | Some names \<Rightarrow> names)"

definition exceptions_of :: "string \<Rightarrow> string list" where
  "exceptions_of service =
     (case dget PROJECT_SCOPED_EXCEPTIONS service of None \<Rightarrow> [] | Some names \<Rightarrow> names)"

text \<open>\<^verbatim>\<open>re.search(r"\bword\b", s)\<close>; the flag says whether a word character stands before \<open>s\<close>.\<close>

fun has_word_from :: "bool \<Rightarrow> string \<Rightarrow> string \<Rightarrow> bool" where
  "has_word_from in_word w [] = False"
| "has_word_from in_word w (c # cs) \<longleftrightarrow>
     (\<not> in_word \<and> prefix w (c # cs) \<and>
        (case drop (length w) (c # cs) of [] \<Rightarrow> True | d # _ \<Rightarrow> \<not> is_word d)) \<or>
     has_word_from (is_word c) w cs"

definition has_word :: "string \<Rightarrow> string \<Rightarrow> bool" where
  "has_word w s = has_word_from False w s"

definition is_missing_resource_error :: "inv_error \<Rightarrow> bool" where
  "is_missing_resource_error e \<longleftrightarrow>
     (let text = casefold (exc_text e)
      in has_word ''404'' text \<or> contains ''not found'' text \<or>
         contains ''could not be found'' text \<or> contains ''resource could not be found'' text)"

definition is_invalid_project_filter_error :: "inv_error \<Rightarrow> bool" where
  "is_invalid_project_filter_error e \<longleftrightarrow>
     (let text = casefold (exc_text e)
      in contains ''invalid filters'' text \<and>
         (has_word ''project_id'' text \<or> has_word ''tenant_id'' text))"

record issue =
  i_resource :: string
  i_category :: string
  i_error :: string

fun is_service_api_error :: "inv_error \<Rightarrow> bool" where
  "is_service_api_error (ServiceAPIError _) = True"
| "is_service_api_error _ = False"

definition provider_error :: "string \<Rightarrow> inv_error \<Rightarrow> issue" where
  "provider_error resource e =
     \<lparr>i_resource = resource,
      i_category = (if is_service_api_error e then ''service_api'' else ''inventory''),
      i_error = exc_text e\<rparr>"

section \<open>Serialisation\<close>

definition value_of :: "pyval \<Rightarrow> string \<Rightarrow> pyval" where
  "value_of resource key =
     (case resource of
        PDict d \<Rightarrow> vget d key
      | PObj _ attrs _ \<Rightarrow> vget attrs key
      | _ \<Rightarrow> PNone)"

text \<open>
  \<open>None\<close> is a \<^verbatim>\<open>RecursionError\<close>: an object with neither \<^verbatim>\<open>to_dict\<close> nor \<^verbatim>\<open>__dict__\<close> is wrapped as
  \<^verbatim>\<open>{"value": _jsonable(resource)}\<close>, which comes back to the same object.  \<open>object_dict\<close> goes through
  the \<^verbatim>\<open>to_dict\<close> results, then the \<^verbatim>\<open>_info\<close> mapping (\<open>info_items\<close>, the first binding of the name),
  then the public attributes.
\<close>

fun jsonable :: "pyval \<Rightarrow> pyval option"
  and jsonable_list :: "pyval list \<Rightarrow> pyval list option"
  and jsonable_items :: "(string \<times> pyval) list \<Rightarrow> (string \<times> pyval) list option"
  and public_items :: "(string \<times> pyval) list \<Rightarrow> (string \<times> pyval) list option"
  and info_items :: "(string \<times> pyval) list \<Rightarrow> (string \<times> pyval) list option option"
  and to_dict_items :: "pyval option list \<Rightarrow> (string \<times> pyval) list option option"
  and mapping_items :: "pyval \<Rightarrow> (string \<times> pyval) list option option" where
  "jsonable PNone = Some PNone"
| "jsonable (PBool b) = Some (PBool b)"
| "jsonable (PInt i) = Some (PInt i)"
| "jsonable (PFloat t) = Some (PFloat t)"
| "jsonable (PStr s) = Some (PStr s)"
| "jsonable (PBytes _) = None"
| "jsonable (PList xs) = map_option PList (jsonable_list xs)"
| "jsonable (PDict d) = map_option PDict (jsonable_items d)"
| "jsonable (PIso date _) = Some (PStr date)"
| "jsonable (PObj _ attrs dicts) =
     map_option PDict
       (case to_dict_items dicts of
          Some r \<Rightarrow> r
        | None \<Rightarrow> (case info_items attrs of Some r \<Rightarrow> r | None \<Rightarrow> public_items attrs))"
| "jsonable_list [] = Some []"
| "jsonable_list (x # xs) =
     (case (jsonable x, jsonable_list xs) of (Some y, Some ys) \<Rightarrow> Some (y # ys) | _ \<Rightarrow> None)"
| "jsonable_items [] = Some []"
| "jsonable_items ((k, v) # kvs) =
     (case (jsonable v, jsonable_items kvs) of (Some y, Some ys) \<Rightarrow> Some ((k, y) # ys) | _ \<Rightarrow> None)"
| "public_items [] = Some []"
| "public_items ((k, v) # kvs) =
     (if prefix ''_'' k then public_items kvs
      else case (jsonable v, public_items kvs) of
        (Some y, Some ys) \<Rightarrow> Some ((k, y) # ys) | _ \<Rightarrow> None)"
| "info_items [] = None"
| "info_items ((k, v) # kvs) = (if k = ''_info'' then mapping_items v else info_items kvs)"
| "to_dict_items [] = None"
| "to_dict_items (r # rs) =
     (case r of
        None \<Rightarrow> to_dict_items rs
      | Some v \<Rightarrow> (case mapping_items v of Some d \<Rightarrow> Some d | None \<Rightarrow> to_dict_items rs))"
| "mapping_items (PDict d) = Some (jsonable_items d)"
| "mapping_items _ = None"

definition resource_to_dict :: "pyval \<Rightarrow> pydict option" where
  "resource_to_dict resource =
     (case resource of
        PDict d \<Rightarrow> jsonable_items d
      | PObj _ _ _ \<Rightarrow> (case jsonable resource of Some (PDict d) \<Rightarrow> Some d | _ \<Rightarrow> None)
      | _ \<Rightarrow> map_option (\<lambda>v. [(''value'', v)]) (jsonable resource))"

section \<open>Resource classes\<close>

text \<open>
  What the program asks a resource class of the SDK for: its name and key, its path, the keys of its
  query mapping, the attributes it has, and whether it can be listed.
\<close>

record resource_class =
  class_name :: string
  resource_key_attr :: pyval
  base_path :: pyval
  query_mapping :: "string list"
  class_fields :: "string list"
  allow_list :: bool

record ResourceSpec =
  spec_name :: string
  spec_class :: resource_class
  placeholders :: "string list"

definition dedupe :: "'a list \<Rightarrow> 'a list" where
  "dedupe xs = dkeys (first_by (\<lambda>x. x) xs)"

text \<open>\<^verbatim>\<open>re.findall(r"%\(([^)]+)\)s", path)\<close>.\<close>

function path_fields :: "string \<Rightarrow> string list" where
  "path_fields s =
     (case s of
        c # d # rest \<Rightarrow>
          (let name = takeWhile (\<lambda>x. x \<noteq> CHR '')'') rest; after = dropWhile (\<lambda>x. x \<noteq> CHR '')'') rest
           in if c = CHR ''%'' \<and> d = CHR ''('' \<and> name \<noteq> [] \<and> prefix '')s'' after
              then name # path_fields (drop 2 after)
              else path_fields (d # rest))
      | _ \<Rightarrow> [])"
  by pat_completeness auto
termination
proof (relation "measure length", goal_cases)
  case (2 s c x21 d rest name after)
  have "length after \<le> length rest" using 2 by (simp add: length_dropWhile_le)
  with 2 show ?case by simp
qed auto

declare path_fields.simps [simp del]

definition resource_placeholders :: "resource_class \<Rightarrow> string list" where
  "resource_placeholders rc = dedupe (path_fields (text_of (base_path rc)))"

text \<open>The registry of a proxy: \<open>None\<close> when it has no mapping; the values that are no classes are left out.\<close>

definition registry :: "(string, resource_class option) dict option \<Rightarrow> (string, resource_class) dict"
where
  "registry r =
     (case r of
        None \<Rightarrow> []
      | Some entries \<Rightarrow> List.map_filter (\<lambda>(name, rc). case rc of
            Some k \<Rightarrow> if allow_list k then Some (name, k) else None
          | None \<Rightarrow> None) entries)"

definition project_fields :: "string list" where
  "project_fields = [''project_id'', ''tenant_id'', ''owner'', ''project'']"

definition has_project_field :: "resource_class \<Rightarrow> bool" where
  "has_project_field rc \<longleftrightarrow>
     list_ex (\<lambda>k. k \<in> set (query_mapping rc)) project_fields \<or>
     list_ex (\<lambda>k. k \<in> set (class_fields rc)) project_fields"

definition normalized_name :: "string \<Rightarrow> string" where
  "normalized_name v = drop_non_name (casefold v)"

text \<open>The suffix \<^verbatim>\<open>_id\<close> or else \<^verbatim>\<open>_name\<close> is taken off once.\<close>

definition without_suffix :: "string \<Rightarrow> string" where
  "without_suffix v =
     (if suffix ''_id'' v then take (length v - 3) v
      else if suffix ''_name'' v then take (length v - 5) v else v)"

definition parent_name :: "string \<Rightarrow> string" where
  "parent_name placeholder = normalized_name (without_suffix placeholder)"

definition resource_attr :: "pyval \<Rightarrow> string \<Rightarrow> pyval" where
  "resource_attr resource name =
     (case value_of resource name of
        PNone \<Rightarrow>
          if suffix ''_id'' name then value_of resource ''id''
          else if suffix ''_name'' name \<or>
            name \<in> {''container'', ''queue_name'', ''stack_name'', ''namespace_name''}
          then py_or (value_of resource ''name'') (value_of resource ''id'')
          else PNone
      | v \<Rightarrow> v)"

section \<open>Ownership\<close>

definition is_hex :: "char \<Rightarrow> bool" where
  "is_hex c = (hex_value c \<noteq> None)"

text \<open>
  \<^verbatim>\<open>/v\d+(?:\.\d+)?/([0-9a-f]{16,}(?:-[0-9a-f-]+)?)(?:/|$)\<close> at the start of a text, without regard to
  case.  Each run is as long as it can be: what follows it is outside its class, so no shorter run
  can match.
\<close>

definition link_end :: "string \<Rightarrow> bool" where
  "link_end s \<longleftrightarrow> s = [] \<or> hd s = CHR ''/'' \<or> s = [CHR 0x0A]"

definition project_in_link_at :: "string \<Rightarrow> string option" where
  "project_in_link_at s =
     (case s of
        a # v # s1 \<Rightarrow>
          if a \<noteq> CHR ''/'' \<or> lower_char v \<noteq> CHR ''v'' \<or> takeWhile is_digit s1 = [] then None
          else
            let s2 = dropWhile is_digit s1;
                s3 = (case s2 of
                  p # t \<Rightarrow> if p = CHR ''.'' \<and> takeWhile is_digit t \<noteq> [] then dropWhile is_digit t
                            else s2
                | [] \<Rightarrow> s2)
            in (case s3 of
                  b # s4 \<Rightarrow>
                    let run = takeWhile is_hex s4; s5 = dropWhile is_hex s4
                    in if b \<noteq> CHR ''/'' \<or> length run < 16 then None
                       else if link_end s5 then Some run
                       else (case s5 of
                         m # t \<Rightarrow>
                           let more = takeWhile (\<lambda>c. is_hex c \<or> c = CHR ''-'') t;
                               s6 = dropWhile (\<lambda>c. is_hex c \<or> c = CHR ''-'') t
                           in if m = CHR ''-'' \<and> more \<noteq> [] \<and> link_end s6 then Some (run @ m # more)
                              else None
                       | [] \<Rightarrow> None)
                | [] \<Rightarrow> None)
      | _ \<Rightarrow> None)"

fun project_in_link :: "string \<Rightarrow> string option" where
  "project_in_link [] = None"
| "project_in_link (c # s) =
     (case project_in_link_at (c # s) of Some p \<Rightarrow> Some p | None \<Rightarrow> project_in_link s)"

fun first_link_project :: "pyval list \<Rightarrow> string option" where
  "first_link_project [] = None"
| "first_link_project (link # links) =
     (let href = value_of link ''href''
      in case (if truthy href then project_in_link (text_of href) else None) of
           Some p \<Rightarrow> Some p
         | None \<Rightarrow> first_link_project links)"

text \<open>\<^verbatim>\<open>links\<close> may be one mapping; a text, or a value that is no collection, gives nothing.\<close>

definition link_project_value :: "pyval \<Rightarrow> string option" where
  "link_project_value resource =
     (case value_of resource ''links'' of
        PDict d \<Rightarrow> first_link_project [PDict d]
      | PList links \<Rightarrow> first_link_project links
      | _ \<Rightarrow> None)"

fun first_value :: "pyval \<Rightarrow> string list \<Rightarrow> pyval" where
  "first_value resource [] = PNone"
| "first_value resource (f # fs) =
     (case value_of resource f of PNone \<Rightarrow> first_value resource fs | v \<Rightarrow> v)"

definition is_none :: "pyval \<Rightarrow> bool" where
  "is_none v = (case v of PNone \<Rightarrow> True | _ \<Rightarrow> False)"

definition or_else :: "pyval \<Rightarrow> pyval \<Rightarrow> pyval" where
  "or_else a b = (if is_none a then b else a)"

definition project_value :: "pyval \<Rightarrow> pyval" where
  "project_value resource =
     (let ids = [''id'', ''project_id'', ''tenant_id'']
      in or_else (first_value resource [''project_id'', ''tenant_id'', ''tenant'', ''owner''])
        (or_else (case link_project_value resource of Some p \<Rightarrow> PStr p | None \<Rightarrow> PNone)
        (or_else (first_value (value_of resource ''project'') ids)
        (or_else (first_value (value_of (value_of resource ''location'') ''project'') ids)
          (value_of resource ''user_project_id'')))))"

definition belongs_to_project :: "pyval \<Rightarrow> string \<Rightarrow> bool" where
  "belongs_to_project resource project_id \<longleftrightarrow>
     is_none (project_value resource) \<or> text_of (project_value resource) = project_id"

text \<open>The collections seen so far, by name: what the program calls \<^verbatim>\<open>parents\<close>.\<close>

type_synonym collections = "(string, pyval list) dict"

definition collection_of :: "collections \<Rightarrow> string \<Rightarrow> pyval list" where
  "collection_of cs name = (case dget cs name of None \<Rightarrow> [] | Some xs \<Rightarrow> xs)"

definition filter_related_resources ::
  "string \<Rightarrow> string \<Rightarrow> pyval list \<Rightarrow> collections \<Rightarrow> pyval list" where
  "filter_related_resources service name objects parents =
     (if service = ''workflow'' \<and> name \<in> {''execution'', ''workflow_execution''} then
        let ids = map (\<lambda>w. text_of (value_of w ''id''))
              (filter (\<lambda>w. \<not> is_none (value_of w ''id'')) (collection_of parents ''workflow''))
        in filter (\<lambda>obj. text_of (value_of obj ''workflow_id'') \<in> set ids) objects
      else objects)"

text \<open>Serialising a collection: \<open>None\<close> when one of its objects cannot be serialised.\<close>

fun dicts_of :: "pyval list \<Rightarrow> pydict list option" where
  "dicts_of [] = Some []"
| "dicts_of (x # xs) =
     (case (resource_to_dict x, dicts_of xs) of (Some d, Some ds) \<Rightarrow> Some (d # ds) | _ \<Rightarrow> None)"

type_synonym results = "(string, pydict list) dict"

definition default_group_ids :: "pyval list \<Rightarrow> string list" where
  "default_group_ids groups =
     map (\<lambda>g. text_of (value_of g ''id''))
       (filter (\<lambda>g. casefold (text_of (value_of g ''name'')) = ''default'') groups)"

definition store_filtered ::
  "string \<Rightarrow> pyval list \<Rightarrow> collections \<times> results \<Rightarrow> (collections \<times> results) option" where
  "store_filtered name kept = (\<lambda>(cs, res).
     map_option (\<lambda>ds. (dset name kept cs, dset name ds res)) (dicts_of kept))"

definition exclude_default_security_group ::
  "collections \<times> results \<Rightarrow> (collections \<times> results) option" where
  "exclude_default_security_group st =
     (let groups = collection_of (fst st) ''security_group''; ids = default_group_ids groups
      in if ids = [] then Some st
         else case store_filtered ''security_group''
                     (filter (\<lambda>g. text_of (value_of g ''id'') \<notin> set ids) groups) st of
             None \<Rightarrow> None
           | Some st1 \<Rightarrow>
               (case dget (fst st1) ''security_group_rule'' of
                  None \<Rightarrow> Some st1
                | Some rules \<Rightarrow> store_filtered ''security_group_rule''
                    (filter (\<lambda>r. text_of (value_of r ''security_group_id'') \<notin> set ids) rules) st1))"

section \<open>Serialisation gives JSON\<close>

lemma jsonable_is_json:
  "jsonable v = Some j \<Longrightarrow> is_json j"
  "jsonable_list xs = Some js \<Longrightarrow> is_json_list js"
  "jsonable_items d = Some e \<Longrightarrow> is_json_items e"
  "public_items d = Some e \<Longrightarrow> is_json_items e"
  "info_items d = Some (Some e) \<Longrightarrow> is_json_items e"
  "to_dict_items rs = Some (Some e) \<Longrightarrow> is_json_items e"
  "mapping_items v = Some (Some e) \<Longrightarrow> is_json_items e"
  by (induction v and xs and d and d and d and rs and v
      arbitrary: j and js and e and e and e and e and e
      rule: jsonable_jsonable_list_jsonable_items_public_items_info_items_to_dict_items_mapping_items.induct)
    (auto split: option.splits if_splits)

lemma jsonable_json_id:
  "is_json v \<Longrightarrow> jsonable v = Some v"
  "is_json_list xs \<Longrightarrow> jsonable_list xs = Some xs"
  "is_json_items d \<Longrightarrow> jsonable_items d = Some d"
  by (induction v and xs and d rule: is_json_is_json_list_is_json_items.induct) auto

text \<open>C14: Serialising an SDK value gives a JSON value, which serialising again leaves as it is; it fails (with
  unbounded recursion) only on values that are no JSON.\<close>

theorem jsonable_normal_form:
  "case jsonable v of
     Some j \<Rightarrow> is_json j \<and> jsonable j = Some j
   | None \<Rightarrow> \<not> is_json v"
  using jsonable_is_json(1) [of v] jsonable_json_id(1) by (cases "jsonable v") auto

lemma bytes_never_serialised:
  "jsonable (PBytes b) = None" "resource_to_dict (PDict [(k, PBytes b)]) = None"
  by (simp_all add: resource_to_dict_def)

lemma resource_to_dict_json: "resource_to_dict v = Some d \<Longrightarrow> is_json_items d"
  using jsonable_is_json(1) [of v]
  by (cases v) (auto simp: resource_to_dict_def jsonable_is_json(3) split: option.splits pyval.splits)

section \<open>The default security group\<close>

definition is_default_group :: "pyval \<Rightarrow> bool" where
  "is_default_group g \<longleftrightarrow> casefold (text_of (value_of g ''name'')) = ''default''"

lemma default_group_ids_mem:
  "i \<in> set (default_group_ids groups) \<longleftrightarrow>
     (\<exists>g \<in> set groups. is_default_group g \<and> i = text_of (value_of g ''id''))"
  by (auto simp: default_group_ids_def is_default_group_def)

definition in_default_group :: "collections \<Rightarrow> string \<Rightarrow> pyval \<Rightarrow> bool" where
  "in_default_group cs key obj \<longleftrightarrow>
     (\<exists>g \<in> set (collection_of cs ''security_group'').
        is_default_group g \<and> text_of (value_of obj key) = text_of (value_of g ''id''))"

lemma store_filtered_Some:
  "store_filtered name kept (cs, res) = Some (cs1, res1) \<longleftrightarrow>
     (\<exists>ds. dicts_of kept = Some ds \<and> cs1 = dset name kept cs \<and> res1 = dset name ds res)"
  by (auto simp: store_filtered_def)

lemma collection_of_simps:
  "collection_of (dset k xs cs) name = (if name = k then xs else collection_of cs name)"
  "dget cs name = None \<Longrightarrow> collection_of cs name = []"
  "dget cs name = Some xs \<Longrightarrow> collection_of cs name = xs"
  by (simp_all add: collection_of_def dict_simps)

text \<open>Leaving out the default security group removes exactly the groups that share an identifier with a
  group named \<open>default\<close>, removes the rules of those groups, and touches no other collection.\<close>

theorem default_security_group_left_out:
  assumes "exclude_default_security_group (cs, res) = Some (cs1, res1)"
  shows "collection_of cs1 ''security_group'' =
      filter (\<lambda>g. \<not> in_default_group cs ''id'' g) (collection_of cs ''security_group'') \<and>
    collection_of cs1 ''security_group_rule'' =
      filter (\<lambda>r. \<not> in_default_group cs ''security_group_id'' r)
        (collection_of cs ''security_group_rule'') \<and>
    (\<forall>name. name \<noteq> ''security_group'' \<and> name \<noteq> ''security_group_rule'' \<longrightarrow>
       dget cs1 name = dget cs name \<and> dget res1 name = dget res name)"
proof -
  let ?groups = "collection_of cs ''security_group''"
  have ids: "text_of (value_of obj key) \<in> set (default_group_ids ?groups) \<longleftrightarrow>
      in_default_group cs key obj" for obj key
    by (simp add: default_group_ids_mem in_default_group_def)
  show ?thesis
  proof (cases "default_group_ids ?groups = []")
    case True
    then have "\<not> in_default_group cs key obj" for key obj
      using ids [of obj key] by simp
    with True assms show ?thesis by (simp add: exclude_default_security_group_def)
  next
    case False
    show ?thesis
      using assms False unfolding exclude_default_security_group_def Let_def fst_conv ids
      by (auto simp: store_filtered_Some collection_of_simps dict_simps split: option.splits)
  qed
qed

section \<open>Placeholders\<close>

lemma dedupe_set: "set (dedupe xs) = set xs" "distinct (dedupe xs)"
  unfolding dedupe_def by (simp_all only: first_by_keys first_by_distinct image_ident)

section \<open>An example\<close>

definition demo_groups :: collections where
  "demo_groups =
     [(''security_group'', [PDict [(''id'', PStr ''g1''), (''name'', PStr ''Default'')],
                            PDict [(''id'', PStr ''g2''), (''name'', PStr ''web'')]]),
      (''security_group_rule'', [PDict [(''id'', PStr ''r1''), (''security_group_id'', PStr ''g1'')]]),
      (''port'', [])]"

theorem default_security_group_left_out_witness:
  "\<exists>cs1 res1. exclude_default_security_group (demo_groups, []) = Some (cs1, res1) \<and>
     collection_of cs1 ''security_group'' =
       filter (\<lambda>g. \<not> in_default_group demo_groups ''id'' g) (collection_of demo_groups ''security_group'') \<and>
     collection_of cs1 ''security_group_rule'' = []"
proof -
  have "map_option (\<lambda>st. collection_of (fst st) ''security_group_rule'')
      (exclude_default_security_group (demo_groups, [])) = Some []"
    by code_simp
  then obtain cs1 res1 where st: "exclude_default_security_group (demo_groups, []) = Some (cs1, res1)"
    and "collection_of cs1 ''security_group_rule'' = []"
    by auto
  with default_security_group_left_out [OF st] show ?thesis by blast
qed

end
