(* ===== verification/InvBuiltin.thy ===== *)
theory InvBuiltin
  imports InvResources
begin

text \<open>
  The provider of \<^verbatim>\<open>scripts/openstack/list-project-resources.py\<close> that lists through an openstacksdk
  proxy (\<^verbatim>\<open>BuiltinSDKProvider\<close>).  The list call of the proxy is outside the program.  A provider
  keeps its error list when it raises, so the exceptions here carry it.
\<close>

section \<open>The proxy\<close>

datatype inv_event =
    SdkList string "(string \<times> pyval) list"
  | ManagerList string "pyval list" "(string \<times> pyval) list"
  | MakeClient string "(string \<times> pyval) list"
  | Connect "(string \<times> pyval) list"
  | ConnectAs string
  | GetProject string
  | FindProject string
  | Printed string
  | PrintedError string

record proxy =
  proxy_type :: string
  has_list :: bool
  resource_registry :: "(string, resource_class option) dict option"

text \<open>
  A service description of the SDK: its types, whether it has supported versions, and what importing
  its proxy modules and instantiating it for the connection gives.
\<close>

record description =
  description_type :: pyval
  all_types :: "pyval list"
  has_supported_versions :: bool
  proxy_of :: "inv_error + proxy"

text \<open>\<open>list_class\<close> is the proxy's \<^verbatim>\<open>_list\<close> with its result read to the end (\<open>[]\<close> for \<^verbatim>\<open>None\<close>).\<close>

record 'x sdk =
  list_class :: "resource_class \<Rightarrow> (string \<times> pyval) list \<Rightarrow> ('x, inv_error + pyval list) outside"

record Project =
  project_id :: string
  project_name :: string
  project_raw :: pyval

record builtin_provider =
  b_endpoint :: Endpoint
  b_proxy :: proxy
  b_resources :: "(string, resource_class) dict"

type_synonym 'x iworld = "(inv_event, 'x) world"
type_synonym ('x, 'a) lio = "('x iworld, inv_error, 'a) io"
type_synonym ('x, 'a) pio = "('x iworld, inv_error \<times> issue list, 'a) io"

definition description_matches ::
  "(string \<Rightarrow> string option) \<Rightarrow> description \<Rightarrow> Endpoint \<Rightarrow> bool" where
  "description_matches known description endpoint =
     (let values = text_of (description_type description)
            # canonical_service_type known (description_type description)
            # map text_of (all_types description)
      in list_ex (\<lambda>value. value \<noteq> [] \<and>
           (canonical_service_type known (PStr value) = service_type endpoint \<or>
            casefold value = casefold (raw_service_type endpoint))) values)"

definition BuiltinSDKProvider :: "Endpoint \<Rightarrow> description \<Rightarrow> inv_error + builtin_provider" where
  "BuiltinSDKProvider endpoint description =
     (if \<not> has_supported_versions description then
        Inl (UnsupportedClientError (''service '' @ repr_str (service_type endpoint)
          @ '' has an openstacksdk descriptor but no supported resource version''))
      else case proxy_of description of
        Inl e \<Rightarrow> Inl (InventoryError
          (''could not initialize the openstacksdk client for endpoint ''
             @ repr_str (service_type endpoint) @ '' ('' @ url endpoint @ ''): '' @ exc_text e))
      | Inr proxy \<Rightarrow>
          (let resources = registry (resource_registry proxy)
           in if resources = [] then
                Inl (UnsupportedClientError
                  (''openstacksdk has no listable resource registry for service ''
                     @ repr_str (service_type endpoint)))
              else Inr \<lparr>b_endpoint = endpoint, b_proxy = proxy, b_resources = resources\<rparr>))"

section \<open>Listing\<close>

definition list_all_of ::
  "'x sdk \<Rightarrow> proxy \<Rightarrow> resource_class \<Rightarrow> (string \<times> pyval) list \<Rightarrow> ('x, pyval list) lio" where
  "list_all_of c p rc kwargs =
     (if \<not> has_list p then
        raise_exn (UnsupportedClientError
          (''SDK proxy '' @ proxy_type p @ '' has no generic list method''))
      else try_except
        (outside_call (SdkList (class_name rc) kwargs) (list_class c rc kwargs))
        (\<lambda>e. let key = text_of (resource_key_attr rc);
                 name = (if key = [] then class_name rc else key)
             in raise_exn (ServiceAPIError
                  (''listing SDK resource '' @ repr_str name @ '' failed: '' @ exc_text e))))"

definition project_kwargs :: "resource_class \<Rightarrow> string \<Rightarrow> (string \<times> pyval) list" where
  "project_kwargs rc pid =
     (case find (\<lambda>key. key \<in> set (query_mapping rc)) project_fields of
        Some key \<Rightarrow> [(key, PStr pid)]
      | None \<Rightarrow> [])"

definition skipped_name :: "string \<Rightarrow> string \<Rightarrow> bool" where
  "skipped_name service name \<longleftrightarrow>
     name \<in> set GLOBAL_RESOURCE_NAMES \<and> name \<notin> set (exceptions_of service) \<or>
     non_deletable_resource service name"

definition spec_of :: "string \<times> resource_class \<Rightarrow> ResourceSpec" where
  "spec_of = (\<lambda>(name, rc).
     \<lparr>spec_name = name, spec_class = rc, placeholders = resource_placeholders rc\<rparr>)"

definition direct_specs :: "builtin_provider \<Rightarrow> ResourceSpec list" where
  "direct_specs p =
     (let service = service_type (b_endpoint p)
      in sort_key spec_name
           (filter (\<lambda>s. placeholders s = [] \<and>
               (has_project_field (spec_class s) \<or> spec_name s \<in> set (exceptions_of service)))
             (map spec_of
               (filter (\<lambda>(name, _). \<not> skipped_name service name) (b_resources p)))))"

definition nested_specs :: "builtin_provider \<Rightarrow> ResourceSpec list" where
  "nested_specs p =
     (let service = service_type (b_endpoint p)
      in sort_key (\<lambda>s. (length (placeholders s), spec_name s))
           (filter (\<lambda>s. \<not> (service = ''object-store'' \<and> spec_name s = ''object'') \<and>
               placeholders s \<noteq> [])
             (map spec_of
               (filter (\<lambda>(name, _). \<not> skipped_name service name) (b_resources p)))))"

definition list_with_fallback ::
  "'x sdk \<Rightarrow> proxy \<Rightarrow> resource_class \<Rightarrow> (string \<times> pyval) list \<Rightarrow> (string \<times> pyval) list
     \<Rightarrow> ('x, pyval list) lio" where
  "list_with_fallback c p rc kwargs project_kw =
     try_except (list_all_of c p rc kwargs)
       (\<lambda>e. if \<not> is_inventory_error e \<or> project_kw = [] \<or> \<not> is_invalid_project_filter_error e
            then raise_exn e
            else list_all_of c p rc (filter (\<lambda>(k, _). k \<notin> set (dkeys project_kw)) kwargs))"

text \<open>\<^verbatim>\<open>itertools.product\<close>, the last list varying fastest.\<close>

fun product_of :: "'a list list \<Rightarrow> 'a list list" where
  "product_of [] = [[]]"
| "product_of (xs # xss) = concat (map (\<lambda>x. map (\<lambda>ys. x # ys) (product_of xss)) xs)"

text \<open>The collections whose name is that of a placeholder's parent, in their order.\<close>

definition parent_matches :: "collections \<Rightarrow> string \<Rightarrow> pyval list list" where
  "parent_matches parents placeholder =
     map snd (filter (\<lambda>(name, _). normalized_name name = parent_name placeholder) parents)"

definition parent_options :: "collections \<Rightarrow> string list \<Rightarrow> pyval list list option" where
  "parent_options parents phs =
     (let options = map (parent_matches parents) phs
      in if list_ex (\<lambda>ms. ms = []) options then None
         else let firsts = map hd options
              in if list_ex (\<lambda>vs. vs = []) firsts then None else Some firsts)"

definition combination_kwargs :: "string list \<Rightarrow> pyval list \<Rightarrow> (string \<times> pyval) list" where
  "combination_kwargs phs combination =
     dupdate [] (map (\<lambda>(ph, parent). (ph, resource_attr parent ph)) (zip phs combination))"

definition list_combination ::
  "'x sdk \<Rightarrow> proxy \<Rightarrow> ResourceSpec \<Rightarrow> string \<Rightarrow> pyval list
     \<Rightarrow> pyval list \<times> (string \<times> string) list list
     \<Rightarrow> ('x, pyval list \<times> (string \<times> string) list list) lio" where
  "list_combination c p spec pid combination = (\<lambda>(objects, seen).
     let kwargs = combination_kwargs (placeholders spec) combination
     in if list_ex (\<lambda>(_, v). is_none v) kwargs then ret (objects, seen)
        else
          let project_kw = project_kwargs (spec_class spec) pid;
              all_kwargs = dupdate kwargs project_kw;
              key = sort (map (\<lambda>(k, v). (k, text_of v)) all_kwargs)
          in if key \<in> set seen then ret (objects, seen)
             else bind (list_with_fallback c p (spec_class spec) all_kwargs project_kw)
               (\<lambda>new. ret (objects @ new, seen @ [key])))"

definition list_spec ::
  "'x sdk \<Rightarrow> proxy \<Rightarrow> ResourceSpec \<Rightarrow> string \<Rightarrow> collections \<Rightarrow> ('x, pyval list) lio" where
  "list_spec c p spec pid parents =
     (if placeholders spec = [] then
        let project_kw = project_kwargs (spec_class spec) pid
        in bind (list_with_fallback c p (spec_class spec) project_kw project_kw)
             (\<lambda>objects. ret (filter (\<lambda>obj. belongs_to_project obj pid) objects))
      else case parent_options parents (placeholders spec) of
        None \<Rightarrow> ret []
      | Some options \<Rightarrow>
          bind (fold_io (list_combination c p spec pid) (product_of options) ([], []))
            (\<lambda>(objects, _). ret (filter (\<lambda>obj. belongs_to_project obj pid) objects)))"

section \<open>Collecting\<close>

record collected =
  c_errors :: "issue list"
  c_objects :: collections
  c_result :: results

definition recursion_error :: inv_error where
  "recursion_error = OtherException ''RecursionError'' ''maximum recursion depth exceeded''"

definition serialised :: "issue list \<Rightarrow> 'a option \<Rightarrow> ('x, 'a) pio" where
  "serialised errors r = (case r of None \<Rightarrow> raise_exn (recursion_error, errors) | Some a \<Rightarrow> ret a)"

text \<open>
  \<^verbatim>\<open>try: ... except InventoryError\<close>: a failure is noted under \<open>name\<close> unless it says that the resource
  is missing, raised again when \<open>strict\<close>, and otherwise an empty listing.
\<close>

definition attempt_listing ::
  "bool \<Rightarrow> string \<Rightarrow> ('x, pyval list) lio \<Rightarrow> issue list \<Rightarrow> ('x, pyval list \<times> issue list) pio" where
  "attempt_listing strict name m errors =
     try_except (bind m (\<lambda>objects. ret (objects, errors)))
       (\<lambda>e. if \<not> is_inventory_error e then raise_exn (e, errors)
            else
              let missing = is_missing_resource_error e;
                  noted = (if missing then errors else errors @ [provider_error name e])
              in if strict \<and> \<not> missing then raise_exn (e, noted) else ret ([], noted))"

definition store_listing :: "string \<Rightarrow> pyval list \<Rightarrow> collected \<Rightarrow> ('x, collected) pio" where
  "store_listing name objects st =
     bind (serialised (c_errors st) (dicts_of objects)) (\<lambda>ds.
       ret (st\<lparr>c_objects := dset name objects (c_objects st), c_result := dset name ds (c_result st)\<rparr>))"

definition collect_spec ::
  "'x sdk \<Rightarrow> builtin_provider \<Rightarrow> bool \<Rightarrow> string \<Rightarrow> ResourceSpec \<Rightarrow> collected \<Rightarrow> ('x, collected) pio"
where
  "collect_spec c p strict pid spec st =
     bind (attempt_listing strict (spec_name spec)
             (list_spec c (b_proxy p) spec pid (c_objects st)) (c_errors st)) (\<lambda>(objects, errors).
       store_listing (spec_name spec) objects (st\<lparr>c_errors := errors\<rparr>))"

definition start_collecting :: "string \<Rightarrow> Project \<Rightarrow> ('x, collected) pio" where
  "start_collecting service project =
     (let st = \<lparr>c_errors = [], c_objects = [], c_result = []\<rparr>
      in if service = ''identity'' then store_listing ''project'' [project_raw project] st
         else ret st)"

definition drop_default_group :: "string \<Rightarrow> collected \<Rightarrow> ('x, collected) pio" where
  "drop_default_group service st =
     (if service = ''network'' then
        bind (serialised (c_errors st)
                (exclude_default_security_group (c_objects st, c_result st))) (\<lambda>(cs, res).
          ret (st\<lparr>c_objects := cs, c_result := res\<rparr>))
      else ret st)"

definition filter_collection ::
  "string \<Rightarrow> string \<times> pyval list \<Rightarrow> collected \<Rightarrow> ('x, collected) pio" where
  "filter_collection service = (\<lambda>(name, objects) st.
     let kept = filter_related_resources service name objects (c_objects st);
         st1 = st\<lparr>c_objects := dset name kept (c_objects st)\<rparr>
     in if name \<in> set (dkeys (c_result st)) then store_listing name kept st1 else ret st1)"

text \<open>The objects of the containers of an object store.\<close>

definition list_container ::
  "'x sdk \<Rightarrow> builtin_provider \<Rightarrow> bool \<Rightarrow> resource_class \<Rightarrow> pyval \<Rightarrow> pydict list \<times> issue list
     \<Rightarrow> ('x, pydict list \<times> issue list) pio" where
  "list_container c p strict object_class container = (\<lambda>(found, errors).
     let name = resource_attr container ''container''
     in if is_none name then ret (found, errors)
        else
          bind (attempt_listing strict ''object''
                  (list_all_of c (b_proxy p) object_class [(''container'', name)]) errors)
            (\<lambda>(objects, errors1).
          bind (serialised errors1 (dicts_of objects)) (\<lambda>ds.
            ret (found @ map (dsetdefault ''container'' name) ds, errors1))))"

definition collect_object_store ::
  "'x sdk \<Rightarrow> builtin_provider \<Rightarrow> bool \<Rightarrow> collected \<Rightarrow> ('x, collected) pio" where
  "collect_object_store c p strict st =
     (case (dget (b_resources p) ''container'', dget (b_resources p) ''object'') of
        (Some container_class, Some object_class) \<Rightarrow>
          bind (case dget (c_objects st) ''container'' of
                  Some _ \<Rightarrow> ret st
                | None \<Rightarrow>
                    bind (attempt_listing strict ''container''
                            (list_all_of c (b_proxy p) container_class []) (c_errors st))
                      (\<lambda>(objects, errors).
                        store_listing ''container'' objects (st\<lparr>c_errors := errors\<rparr>)))
            (\<lambda>st1.
          bind (fold_io (list_container c p strict object_class)
                  (collection_of (c_objects st1) ''container'') ([], c_errors st1))
            (\<lambda>(found, errors).
              ret (st1\<lparr>c_errors := errors, c_result := dset ''object'' found (c_result st1)\<rparr>)))
      | _ \<Rightarrow>
          let e = UnsupportedClientError
                ''openstacksdk object-store proxy does not expose both container and object resources'';
              errors = c_errors st @ [provider_error ''object-store'' e]
          in if strict then raise_exn (e, errors) else ret (st\<lparr>c_errors := errors\<rparr>))"

text \<open>The nested resources: a round lists those whose parents are there; rounds go on while one does.\<close>

definition ready :: "collections \<Rightarrow> ResourceSpec \<Rightarrow> bool" where
  "ready objects spec =
     list_all (\<lambda>ph. list_ex (\<lambda>(name, values). normalized_name name = parent_name ph \<and> values \<noteq> [])
                      objects) (placeholders spec)"

definition nested_round ::
  "'x sdk \<Rightarrow> builtin_provider \<Rightarrow> bool \<Rightarrow> string \<Rightarrow> ResourceSpec list \<Rightarrow> collected
     \<Rightarrow> ('x, bool \<times> ResourceSpec list \<times> collected) pio" where
  "nested_round c p strict pid pending st =
     fold_io (\<lambda>spec (progressed, remaining, st).
       if \<not> ready (c_objects st) spec then ret (progressed, remaining @ [spec], st)
       else bind (collect_spec c p strict pid spec st) (\<lambda>st1. ret (True, remaining, st1)))
     pending (False, [], st)"

fun nested_loop ::
  "nat \<Rightarrow> 'x sdk \<Rightarrow> builtin_provider \<Rightarrow> bool \<Rightarrow> string \<Rightarrow> ResourceSpec list \<Rightarrow> collected
     \<Rightarrow> ('x, collected) pio" where
  "nested_loop 0 c p strict pid pending st = ret st"
| "nested_loop (Suc n) c p strict pid pending st =
     (if pending = [] then ret st
      else bind (nested_round c p strict pid pending st) (\<lambda>(progressed, remaining, st1).
        if \<not> progressed then ret st1 else nested_loop n c p strict pid remaining st1))"

definition collect_builtin ::
  "'x sdk \<Rightarrow> builtin_provider \<Rightarrow> Project \<Rightarrow> bool \<Rightarrow> ('x, results \<times> issue list) pio" where
  "collect_builtin c p project strict =
     (let service = service_type (b_endpoint p); pid = project_id project
      in bind (start_collecting service project) (\<lambda>st0.
         bind (fold_io (collect_spec c p strict pid) (direct_specs p) st0) (\<lambda>st1.
         bind (drop_default_group service st1) (\<lambda>st2.
         bind (fold_io (filter_collection service) (c_objects st2) st2) (\<lambda>st3.
         bind (if service = ''object-store'' then collect_object_store c p strict st3 else ret st3)
           (\<lambda>st4.
         bind (nested_loop (length (nested_specs p)) c p strict pid (nested_specs p) st4) (\<lambda>st5.
           ret (c_result st5, c_errors st5))))))))"

section \<open>Listing: what is raised, and ownership\<close>

lemma steps_list_all_of [steps_intros]:
  "steps (logs UNIV) is_inventory_error (list_all_of c p rc kwargs)"
  unfolding list_all_of_def by (intro steps_intros) simp_all

lemma steps_list_with_fallback [steps_intros]:
  "steps (logs UNIV) is_inventory_error (list_with_fallback c p rc kwargs project_kw)"
  unfolding list_with_fallback_def
  by (rule steps_try_except_kinds [where P' = is_inventory_error]) (auto intro!: steps_intros)

lemma steps_list_spec: "steps (logs UNIV) is_inventory_error (list_spec c p spec pid parents)"
  unfolding list_spec_def list_combination_def by (intro steps_intros)

lemma wp_total: "steps R P m \<Longrightarrow> (\<And>a w1. Q a w1) \<Longrightarrow> wp m Q (\<lambda>e _. P e) w"
  unfolding steps_def by (blast intro: wp_mono)

lemma wp_list_spec_owned:
  "wp (list_spec c p spec pid parents)
     (\<lambda>objects _. \<forall>obj \<in> set objects. belongs_to_project obj pid) (\<lambda>e _. is_inventory_error e) w"
proof -
  have "steps (logs UNIV) is_inventory_error
      (fold_io (list_combination c p spec pid) combos ([], []))" for combos
    unfolding list_combination_def by (intro steps_intros)
  then have *: "wp (fold_io (list_combination c p spec pid) combos ([], []))
      (\<lambda>a. wp (case a of (objects, _) \<Rightarrow> ret (filter (\<lambda>obj. belongs_to_project obj pid) objects))
         (\<lambda>objects _. \<forall>obj \<in> set objects. belongs_to_project obj pid) (\<lambda>e _. is_inventory_error e))
      (\<lambda>e _. is_inventory_error e) w" for combos
    by (rule wp_total) (auto simp: wp_simps split: prod.split)
  show ?thesis
    unfolding list_spec_def
    by (auto simp: Let_def wp_simps intro!: * wp_total [OF steps_list_with_fallback]
        split: option.split)
qed

text \<open>C13: Listing a resource always ends, every object it gives belongs to the project (or names none), and what
  it raises is an \<open>InventoryError\<close>, whatever the service raises.\<close>

theorem listed_objects_belong:
  "\<exists>r w1. list_spec c p spec pid parents w = Some (r, w1) \<and>
     (case r of
        Inr objects \<Rightarrow> list_all (\<lambda>obj. belongs_to_project obj pid) objects
      | Inl e \<Rightarrow> is_inventory_error e)"
proof -
  note wp = wp_list_spec_owned [of c p spec pid parents w]
  from wp_returns [OF wp] obtain r w1 where "list_spec c p spec pid parents w = Some (r, w1)" by blast
  with wp show ?thesis by (cases r) (auto simp: wp_def list_all_iff)
qed

section \<open>Best effort and strictness\<close>

text \<open>A strict collection that returns has noted no error.\<close>

definition complete_if :: "bool \<Rightarrow> issue list \<Rightarrow> bool" where
  "complete_if strict errors \<longleftrightarrow> (strict \<longrightarrow> errors = [])"

text \<open>
  What holds of the state between the steps: the names of \<open>K\<close> are in the result, and a strict run has
  no errors noted.  A best-effort run only ever raises the recursion error.
\<close>

definition collecting :: "bool \<Rightarrow> string set \<Rightarrow> collected \<Rightarrow> bool" where
  "collecting strict K st \<longleftrightarrow> K \<subseteq> set (dkeys (c_result st)) \<and> (strict \<longrightarrow> c_errors st = [])"

definition may_raise :: "bool \<Rightarrow> inv_error \<times> issue list \<Rightarrow> bool" where
  "may_raise strict e \<longleftrightarrow> strict \<or> fst e = recursion_error"

abbreviation collects :: "bool \<Rightarrow> string set \<Rightarrow> ('x, collected) pio \<Rightarrow> 'x iworld \<Rightarrow> bool" where
  "collects strict K m w \<equiv> wp m (\<lambda>st _. collecting strict K st) (\<lambda>e _. may_raise strict e) w"

lemma set_dset_keys [simp]: "fst ` set (dset k v d) = insert k (fst ` set d)"
  by (simp add: dset_def dom_update)

lemma wp_serialised:
  "(\<And>a. r = Some a \<Longrightarrow> Q a w) \<Longrightarrow> wp (serialised errors r) Q (\<lambda>e _. may_raise strict e) w"
  by (cases r) (simp_all add: serialised_def wp_simps may_raise_def)

lemma wp_attempt_listing:
  fixes w :: "'x iworld"
  assumes "steps (logs UNIV) is_inventory_error m" and "strict \<longrightarrow> errors = []"
    and "\<And>objects errs w1. strict \<longrightarrow> errs = [] \<Longrightarrow> Q (objects, errs) w1"
  shows "wp (attempt_listing strict name m errors) Q (\<lambda>e _. may_raise strict e) w"
  unfolding attempt_listing_def wp_try_except wp_bind wp_ret
proof (rule wp_mono [OF wp_total [OF assms(1), where Q = "\<lambda>_ _. True"]])
  fix e and w' :: "'x iworld" assume "is_inventory_error e"
  then show "wp (if \<not> is_inventory_error e then raise_exn (e, errors)
            else
              let missing = is_missing_resource_error e;
                  noted = (if missing then errors else errors @ [provider_error name e])
              in if strict \<and> \<not> missing then raise_exn (e, noted) else ret ([], noted))
         Q (\<lambda>e _. may_raise strict e) w'"
    using assms(2,3) by (simp add: wp_simps Let_def may_raise_def)
qed (use assms(2,3) in auto)

lemma store_listing_collects:
  "collecting strict K st \<Longrightarrow> collects strict (insert name K) (store_listing name objects st) w"
  unfolding store_listing_def wp_bind
  by (rule wp_serialised) (auto simp: wp_simps collecting_def)

lemma collecting_update [simp]:
  "collecting strict K (st\<lparr>c_objects := cs\<rparr>) = collecting strict K st"
  "collecting strict K st \<Longrightarrow> strict \<longrightarrow> errs = [] \<Longrightarrow> collecting strict K (st\<lparr>c_errors := errs\<rparr>)"
  "collecting strict K st \<Longrightarrow> strict \<longrightarrow> errs = [] \<Longrightarrow>
     collecting strict K (st\<lparr>c_errors := errs, c_result := dset k v (c_result st)\<rparr>)"
  by (auto simp: collecting_def)

lemma collecting_errors: "collecting strict K st \<Longrightarrow> strict \<longrightarrow> c_errors st = []"
  by (simp add: collecting_def)

lemma collects_mono: "collects strict K m w \<Longrightarrow> K' \<subseteq> K \<Longrightarrow> collects strict K' m w"
  by (erule wp_mono) (auto simp: collecting_def)

lemma collect_spec_collects:
  assumes "collecting strict K st"
  shows "collects strict (insert (spec_name spec) K) (collect_spec c p strict pid spec st) w"
  unfolding collect_spec_def wp_bind
  by (rule wp_attempt_listing [OF steps_list_spec])
    (use assms in \<open>auto dest: collecting_errors intro!: store_listing_collects\<close>)

lemma direct_specs_collect:
  fixes w :: "'x iworld"
  assumes "collecting strict {} st"
  shows "collects strict (spec_name ` set specs) (fold_io (collect_spec c p strict pid) specs st) w"
proof (rule wp_fold_io [where xs = specs
      and I = "\<lambda>done _ st _. collecting strict (spec_name ` set done) st"])
  fix "done" rest :: "ResourceSpec list" and st and spec :: ResourceSpec and w1 :: "'x iworld"
  assume "collecting strict (spec_name ` set done) st"
  then show "collects strict (spec_name ` set (done @ [spec]))
      (collect_spec c p strict pid spec st) w1"
    by (auto dest: collect_spec_collects)
qed (use assms in simp)

lemma start_collects: "collects strict {} (start_collecting service project) w"
proof (cases "service = ''identity''")
  case True
  have "collecting strict {} \<lparr>c_errors = [], c_objects = [], c_result = []\<rparr>"
    by (simp add: collecting_def)
  from collects_mono [OF store_listing_collects [OF this] empty_subsetI] True show ?thesis
    by (simp add: start_collecting_def Let_def)
qed (simp add: start_collecting_def wp_simps collecting_def)

lemma drop_default_group_collects:
  assumes "collecting strict K st"
  shows "collects strict K (drop_default_group service st) w"
  unfolding drop_default_group_def wp_bind
  using assms
  by (auto simp: wp_simps collecting_def exclude_default_security_group_def Let_def
      store_filtered_def intro!: wp_serialised split: if_splits option.splits prod.splits)

lemma filter_collections_collect:
  fixes w :: "'x iworld"
  assumes "collecting strict K st"
  shows "collects strict K (fold_io (filter_collection service) items st) w"
proof (rule wp_fold_io_inv)
  fix item st and w1 :: "'x iworld" assume st: "collecting strict K st"
  show "collects strict K (filter_collection service item st) w1"
    unfolding filter_collection_def case_prod_beta Let_def
    using st by (auto simp: wp_simps intro!: collects_mono [OF store_listing_collects])
qed (use assms in simp)

lemma object_store_collects:
  fixes w :: "'x iworld"
  assumes "collecting strict K st"
  shows "collects strict K (collect_object_store c p strict st) w"
proof (cases "\<exists>cc oc. dget (b_resources p) ''container'' = Some cc \<and> dget (b_resources p) ''object'' = Some oc")
  case False
  then show ?thesis
    using assms by (auto simp: collect_object_store_def Let_def wp_simps collecting_def may_raise_def
        split: option.splits)
next
  case True
  then obtain cc oc where classes: "dget (b_resources p) ''container'' = Some cc"
    "dget (b_resources p) ''object'' = Some oc" by blast
  have containers: "collects strict K (case dget (c_objects st) ''container'' of
                  Some _ \<Rightarrow> ret st
                | None \<Rightarrow>
                    bind (attempt_listing strict ''container''
                            (list_all_of c (b_proxy p) cc []) (c_errors st))
                      (\<lambda>(objects, errors).
                        store_listing ''container'' objects (st\<lparr>c_errors := errors\<rparr>))) w"
    using assms
    by (auto simp: wp_simps dest: collecting_errors split: option.split
        intro!: wp_attempt_listing steps_intros collects_mono [OF store_listing_collects])
  have objects: "wp (fold_io (list_container c p strict oc) cs ([], c_errors st1))
      (\<lambda>fe _. strict \<longrightarrow> snd fe = []) (\<lambda>e _. may_raise strict e) w1"
    if "strict \<longrightarrow> c_errors st1 = []" for cs and st1 :: collected and w1 :: "'x iworld"
  proof (rule wp_fold_io_inv)
    fix container :: pyval and fe :: "pydict list \<times> issue list" and w2 :: "'x iworld" assume "strict \<longrightarrow> snd fe = []"
    then show "wp (list_container c p strict oc container fe) (\<lambda>fe _. strict \<longrightarrow> snd fe = [])
        (\<lambda>e _. may_raise strict e) w2"
      by (cases fe)
        (auto simp: list_container_def Let_def wp_simps
          intro!: wp_attempt_listing steps_intros wp_serialised)
  qed (use that in simp)
  show ?thesis
    unfolding collect_object_store_def classes option.case prod.case wp_bind
    by (rule wp_mono [OF containers])
      (auto simp: wp_simps dest: collecting_errors intro!: wp_mono [OF objects])
qed

lemma nested_round_collects:
  fixes w :: "'x iworld"
  assumes "collecting strict K st"
  shows "wp (nested_round c p strict pid pending st)
    (\<lambda>s _. collecting strict K (snd (snd s))) (\<lambda>e _. may_raise strict e) w"
  unfolding nested_round_def
proof (rule wp_fold_io_inv)
  fix spec :: ResourceSpec and s :: "bool \<times> ResourceSpec list \<times> collected" and w1 :: "'x iworld"
  assume s: "collecting strict K (snd (snd s))"
  obtain pr rem st1 where eq: "s = (pr, rem, st1)" by (cases s)
  have "collects strict K (collect_spec c p strict pid spec st1) w1"
    using s eq by (intro collects_mono [OF collect_spec_collects [of strict K st1]]) auto
  with s eq show "wp (case s of (progressed, remaining, st) \<Rightarrow>
        if \<not> ready (c_objects st) spec then ret (progressed, remaining @ [spec], st)
        else bind (collect_spec c p strict pid spec st) (\<lambda>st1. ret (True, remaining, st1)))
      (\<lambda>s _. collecting strict K (snd (snd s))) (\<lambda>e _. may_raise strict e) w1"
    by (auto simp: wp_simps elim!: wp_mono)
qed (use assms in simp)

lemma nested_loop_collects:
  "collecting strict K st \<Longrightarrow> collects strict K (nested_loop n c p strict pid pending st) w"
proof (induction n arbitrary: pending st w)
  case (Suc n pending st w)
  have "wp (bind (nested_round c p strict pid pending st) (\<lambda>(progressed, remaining, st1).
        if \<not> progressed then ret st1 else nested_loop n c p strict pid remaining st1))
      (\<lambda>st _. collecting strict K st) (\<lambda>e _. may_raise strict e) w"
    unfolding wp_bind
    by (rule wp_mono [OF nested_round_collects [OF Suc.prems]])
      (auto simp: wp_simps Suc.IH)
  with Suc.prems show ?case by (simp add: wp_simps)
qed (simp add: wp_simps)

lemma collect_builtin_wp:
  "wp (collect_builtin c p project strict)
     (\<lambda>(res, errors) _. spec_name ` set (direct_specs p) \<subseteq> set (dkeys res) \<and> (strict \<longrightarrow> errors = []))
     (\<lambda>e _. may_raise strict e) w"
  unfolding collect_builtin_def Let_def wp_bind
  apply (rule wp_mono [OF start_collects])
   apply (rule wp_mono [OF direct_specs_collect], assumption)
    apply (rule wp_mono [OF drop_default_group_collects], assumption)
     apply (rule wp_mono [OF filter_collections_collect], assumption)
      apply (rule wp_mono [where Q = "\<lambda>st _. collecting strict (spec_name ` set (direct_specs p)) st"
          and E = "\<lambda>e _. may_raise strict e"])
        apply (simp add: object_store_collects wp_simps)
       apply (rule wp_mono [OF nested_loop_collects], assumption)
        apply (auto simp: wp_simps collecting_def)
  done

text \<open>Collecting always ends.  Whatever the listings of a service answer, a best-effort run raises nothing
  (except for an object that cannot be serialised) and its result has an entry for every direct
  resource; a strict run that returns has noted no error, so its inventory is complete.\<close>

theorem best_effort_collects_all:
  "\<exists>r w1. collect_builtin c p project strict w = Some (r, w1) \<and>
     (case r of
        Inr (res, errors) \<Rightarrow>
          spec_name ` set (direct_specs p) \<subseteq> set (dkeys res) \<and> complete_if strict errors
      | Inl (e, errors) \<Rightarrow> strict \<or> e = recursion_error)"
proof -
  note wp = collect_builtin_wp [of c p project strict w]
  from wp_returns [OF wp] obtain r w1
    where "collect_builtin c p project strict w = Some (r, w1)" by blast
  with wp show ?thesis
    by (cases r) (auto simp: wp_def may_raise_def complete_if_def split: prod.splits)
qed

section \<open>The nested rounds end\<close>

lemma steps_collect_spec: "steps (logs UNIV) (\<lambda>_. True) (collect_spec c p strict pid spec st)"
  unfolding collect_spec_def attempt_listing_def store_listing_def serialised_def Let_def
  by (intro steps_intros steps_weaken [OF steps_list_spec] TrueI)

lemma nested_round_lengths:
  fixes w :: "'x iworld"
  shows "wp (nested_round c p strict pid pending st)
    (\<lambda>s _. length (fst (snd s)) + (if fst s then 1 else 0) \<le> length pending) (\<lambda>_ _. True) w"
  unfolding nested_round_def
proof (rule wp_fold_io [where xs = pending
      and I = "\<lambda>done _ s _. length (fst (snd s)) + (if fst s then 1 else 0) \<le> length done"])
  fix "done" rest :: "ResourceSpec list" and spec :: ResourceSpec
    and s :: "bool \<times> ResourceSpec list \<times> collected" and w1 :: "'x iworld"
  assume s: "length (fst (snd s)) + (if fst s then 1 else 0) \<le> length done"
  obtain pr rem st1 where eq: "s = (pr, rem, st1)" by (cases s)
  have "wp (collect_spec c p strict pid spec st1) (\<lambda>_ _. True) (\<lambda>_ _. True) w1"
    by (rule wp_total [OF steps_collect_spec]) simp
  with s eq show "wp (case s of (progressed, remaining, st) \<Rightarrow>
        if \<not> ready (c_objects st) spec then ret (progressed, remaining @ [spec], st)
        else bind (collect_spec c p strict pid spec st) (\<lambda>st1. ret (True, remaining, st1)))
      (\<lambda>s _. length (fst (snd s)) + (if fst s then 1 else 0) \<le> length (done @ [spec]))
      (\<lambda>_ _. True) w1"
    by (auto simp: wp_simps elim!: wp_mono)
qed simp

lemma bind_cong_values:
  "(\<And>a w1. m w = Some (Inr a, w1) \<Longrightarrow> f a w1 = g a w1) \<Longrightarrow> bind m f w = bind m g w"
  by (auto simp: bind_def split: option.split sum.split)

lemma nested_loop_fuel:
  "length pending \<le> n \<Longrightarrow> length pending \<le> m \<Longrightarrow>
     nested_loop n c p strict pid pending st w = nested_loop m c p strict pid pending st w"
proof (induction n arbitrary: m pending st w)
  case 0
  then show ?case by (cases m) simp_all
next
  case (Suc n m pending st w)
  show ?case
  proof (cases "pending = []")
    case True
    then show ?thesis by (cases m) simp_all
  next
    case False
    with Suc.prems obtain k where m: "m = Suc k" by (cases m) auto
    have "nested_loop n c p strict pid remaining st1 w1 = nested_loop k c p strict pid remaining st1 w1"
      if "nested_round c p strict pid pending st w = Some (Inr (True, remaining, st1), w1)"
      for remaining st1 w1
    proof -
      have "length remaining < length pending"
        using wpD_value [OF nested_round_lengths that] by simp
      with Suc.prems m show ?thesis by (intro Suc.IH) simp_all
    qed
    with False m show ?thesis by (auto intro!: bind_cong_values)
  qed
qed

text \<open>The loop over the nested resources ends: it makes at most as many rounds as there are nested
  resources, and a larger bound changes nothing.\<close>

theorem nested_rounds_suffice:
  "nested_loop (length pending + extra) c p strict pid pending st =
     nested_loop (length pending) c p strict pid pending st"
  by (rule ext) (simp add: nested_loop_fuel)

end
