(* ===== verification/InvLegacy.thy ===== *)
theory InvLegacy
  imports InvBuiltin
begin

text \<open>
  The providers of \<^verbatim>\<open>scripts/openstack/list-project-resources.py\<close> that list through a legacy Python
  client (\<^verbatim>\<open>LegacySDKProvider\<close>): the choice of a plugin module, the API version, the managers of the
  client, their listings, and the conventional \<^verbatim>\<open>Client\<close> classes.  The modules, their clients and the
  calls of the managers are outside the program.
\<close>

section \<open>Clients\<close>

datatype parameter_kind =
    POSITIONAL_ONLY
  | POSITIONAL_OR_KEYWORD
  | VAR_POSITIONAL
  | KEYWORD_ONLY
  | VAR_KEYWORD

record parameter =
  parameter_name :: string
  has_default :: bool
  kind :: parameter_kind

text \<open>
  An attribute of a client: its \<^verbatim>\<open>list\<close> method, if it has one, by its signature (\<open>None\<close> when
  \<^verbatim>\<open>inspect.signature\<close> fails, which counts as no parameters).
\<close>

record manager =
  list_method :: "parameter list option option"

type_synonym client = "(string \<times> manager) list"

record legacy_module =
  mod_name :: string
  api_name :: "pyval option"
  api_versions :: pyval
  api_version_option :: pyval
  default_api_version :: pyval
  has_make_client :: bool

record connection =
  session :: pyval
  current_project_id :: pyval

text \<open>What a plugin's \<^verbatim>\<open>make_client\<close> sees.\<close>

record LegacyContext =
  lc_session :: pyval
  lc_region_name :: string
  lc_interface :: string
  lc_api_version :: "(string \<times> string) list"
  lc_endpoint :: string

text \<open>
  \<open>construct\<close> calls a \<^verbatim>\<open>Client\<close> class with keyword arguments: \<open>Inl None\<close> is a \<^verbatim>\<open>TypeError\<close>.
\<close>

record 'x clients =
  manager_list ::
    "string \<Rightarrow> pyval list \<Rightarrow> (string \<times> pyval) list \<Rightarrow> ('x, inv_error + pyval list) outside"
  make_client :: "legacy_module \<Rightarrow> LegacyContext \<Rightarrow> ('x, inv_error + client) outside"
  construct :: "string \<Rightarrow> (string \<times> pyval) list \<Rightarrow> ('x, (inv_error option) + client) outside"

record legacy_provider =
  l_endpoint :: Endpoint
  l_module :: string
  l_name :: string
  l_client :: client

section \<open>The choice of a module\<close>

text \<open>\<^verbatim>\<open>re.sub(r"client$", "", s)\<close>.\<close>

definition without_client :: "string \<Rightarrow> string" where
  "without_client s =
     (if suffix ''client'' s then take (length s - 6) s
      else if suffix (''client'' @ [CHR 0x0A]) s then take (length s - 7) s @ [CHR 0x0A] else s)"

definition legacy_root :: "legacy_module \<Rightarrow> string" where
  "legacy_root m = without_client (casefold (hd (split_on CHR ''.'' (mod_name m))))"

definition removesuffix :: "string \<Rightarrow> string \<Rightarrow> string" where
  "removesuffix t s = (if suffix t s then take (length s - length t) s else s)"

text \<open>\<open>project_name_of\<close> is \<^verbatim>\<open>os_service_types.ServiceTypes().get_project_name\<close>.\<close>

definition legacy_score ::
  "(string \<Rightarrow> string option) \<Rightarrow> (string \<Rightarrow> string option) \<Rightarrow> Endpoint \<Rightarrow> legacy_module \<Rightarrow> nat" where
  "legacy_score known project_name_of endpoint m =
     (let api = text_of (case api_name m of None \<Rightarrow> PStr [] | Some v \<Rightarrow> v);
          root = legacy_root m;
          s1 = (if api \<noteq> [] \<and> canonical_service_type known (PStr api) = service_type endpoint
                then 100 else 0);
          s2 = (if casefold api = casefold (raw_service_type endpoint) then max s1 110 else s1);
          name = removesuffix ''v3'' (removesuffix ''v2'' (casefold (service_name endpoint)));
          s3 = (if root \<noteq> [] \<and> root = name then max s2 90 else s2)
      in case project_name_of (raw_service_type endpoint) of
           None \<Rightarrow> s3
         | Some p \<Rightarrow> if p \<noteq> [] \<and> root = casefold p then max s3 80 else s3)"

text \<open>
  The parts of a version: a number is smaller than any text, as the pairs \<^verbatim>\<open>(0, int(part))\<close> and
  \<^verbatim>\<open>(1, part)\<close> of the source are.
\<close>

datatype version_part =
    VNum nat
  | VStr string

fun part_code :: "version_part \<Rightarrow> nat \<times> nat \<times> string" where
  "part_code (VNum n) = (0, n, [])"
| "part_code (VStr s) = (1, 0, s)"

lemma part_code_inject: "part_code a = part_code b \<longleftrightarrow> a = b"
  by (cases a; cases b) auto

instantiation version_part :: linorder
begin

definition less_eq_version_part :: "version_part \<Rightarrow> version_part \<Rightarrow> bool" where
  "less_eq_version_part a b \<longleftrightarrow> part_code a \<le> part_code b"

definition less_version_part :: "version_part \<Rightarrow> version_part \<Rightarrow> bool" where
  "less_version_part a b \<longleftrightarrow> part_code a < part_code b"

instance
proof
  fix a b c :: version_part
  show "a < b \<longleftrightarrow> a \<le> b \<and> \<not> b \<le> a"
    unfolding less_eq_version_part_def less_version_part_def by (rule less_le_not_le)
  show "a \<le> a" by (simp add: less_eq_version_part_def)
  show "a \<le> b \<Longrightarrow> b \<le> c \<Longrightarrow> a \<le> c"
    unfolding less_eq_version_part_def by (rule order_trans)
  show "a \<le> b \<Longrightarrow> b \<le> a \<Longrightarrow> a = b"
    unfolding less_eq_version_part_def part_code_inject [symmetric] by (rule order_antisym)
  show "a \<le> b \<or> b \<le> a"
    unfolding less_eq_version_part_def by (rule linear)
qed

end

definition version_key :: "string \<Rightarrow> version_part list" where
  "version_key v =
     map (\<lambda>part. if part \<noteq> [] \<and> list_all is_digit part then VNum (read_nat part) else VStr part)
       (split_on CHR ''.'' v)"

text \<open>\<open>environ\<close> is \<^verbatim>\<open>os.environ.get\<close>.\<close>

definition dash_to_underscore :: "string \<Rightarrow> string" where
  "dash_to_underscore s = map (\<lambda>c. if c = CHR ''-'' then CHR ''_'' else c) s"

definition plugin_api_version :: "(string \<Rightarrow> string option) \<Rightarrow> legacy_module \<Rightarrow> string" where
  "plugin_api_version environ m =
     (let option = text_of (api_version_option m);
          configured = (if option = [] then None else environ (dash_to_underscore (upper option)));
          fallback = text_of (default_api_version m)
      in case (case configured of Some v \<Rightarrow> if v = [] then None else Some v | None \<Rightarrow> None) of
           Some v \<Rightarrow> v
         | None \<Rightarrow>
             if fallback \<noteq> [] then fallback
             else case api_versions m of
               PDict d \<Rightarrow> if d = [] then ''1'' else last (sort_key version_key (dkeys d))
             | _ \<Rightarrow> ''1'')"

definition legacy_context ::
  "(string \<Rightarrow> string option) \<Rightarrow> Endpoint \<Rightarrow> connection \<Rightarrow> legacy_module \<Rightarrow> LegacyContext" where
  "legacy_context environ endpoint conn m =
     \<lparr>lc_session = session conn, lc_region_name = region endpoint,
      lc_interface = interface endpoint,
      lc_api_version =
        [(text_of (case api_name m of None \<Rightarrow> PStr (raw_service_type endpoint) | Some v \<Rightarrow> v),
          plugin_api_version environ m)],
      lc_endpoint = url endpoint\<rparr>"

definition LegacySDKProvider ::
  "'x clients \<Rightarrow> (string \<Rightarrow> string option) \<Rightarrow> Endpoint \<Rightarrow> connection \<Rightarrow> legacy_module
     \<Rightarrow> ('x, legacy_provider) lio" where
  "LegacySDKProvider k environ endpoint conn m =
     (if \<not> has_make_client m then
        raise_exn (UnsupportedClientError
          (''legacy client module '' @ repr_str (mod_name m) @ '' has no make_client function''))
      else bind
        (try_except
          (outside_call (MakeClient (mod_name m) [])
             (make_client k m (legacy_context environ endpoint conn m)))
          (\<lambda>e. raise_exn (InventoryError
             (''could not initialize legacy SDK '' @ repr_str (mod_name m) @ '' for endpoint ''
                @ repr_str (service_type endpoint) @ '' ('' @ url endpoint @ ''): '' @ exc_text e))))
        (\<lambda>cl. ret \<lparr>l_endpoint = endpoint, l_module = mod_name m,
                    l_name = mod_name m @ '' (legacy SDK)'', l_client = cl\<rparr>))"

text \<open>\<open>modules\<close> are the plugins that could be loaded, in the order of their entry points.\<close>

definition best_module ::
  "(string \<Rightarrow> string option) \<Rightarrow> (string \<Rightarrow> string option) \<Rightarrow> Endpoint \<Rightarrow> legacy_module list
     \<Rightarrow> legacy_module option" where
  "best_module known project_name_of endpoint modules =
     (let score = legacy_score known project_name_of endpoint;
          scored = filter (\<lambda>m. score m \<noteq> 0) modules
      in if scored = [] then None
         else Some (hd (sort_key (\<lambda>m. (- int (score m), mod_name m)) scored)))"

section \<open>Managers\<close>

definition required_parameters :: "parameter list \<Rightarrow> parameter list" where
  "required_parameters ps =
     filter (\<lambda>p. \<not> has_default p \<and> kind p \<noteq> VAR_POSITIONAL \<and> kind p \<noteq> VAR_KEYWORD) ps"

definition skipped_manager :: "string \<Rightarrow> string \<Rightarrow> bool" where
  "skipped_manager service name \<longleftrightarrow>
     prefix ''_'' name \<or> suffix ''_client'' name \<or> name \<in> set GLOBAL_RESOURCE_NAMES \<or>
     name \<in> set GLOBAL_LEGACY_MANAGER_NAMES \<or> non_deletable_resource service name"

definition listable_managers :: "legacy_provider \<Rightarrow> (string \<times> parameter list) list" where
  "listable_managers p =
     List.map_filter (\<lambda>(name, m).
       if skipped_manager (service_type (l_endpoint p)) name then None
       else case list_method m of
         None \<Rightarrow> None
       | Some signature \<Rightarrow> Some (name, case signature of None \<Rightarrow> [] | Some ps \<Rightarrow> ps))
     (sort_key fst (l_client p))"

definition direct_managers :: "legacy_provider \<Rightarrow> (string \<times> parameter list) list" where
  "direct_managers p = filter (\<lambda>(_, ps). required_parameters ps = []) (listable_managers p)"

definition nested_managers :: "legacy_provider \<Rightarrow> (string \<times> parameter list) list" where
  "nested_managers p = filter (\<lambda>(_, ps). required_parameters ps \<noteq> []) (listable_managers p)"

definition manager_kwargs :: "string \<Rightarrow> parameter list \<Rightarrow> string \<Rightarrow> (string \<times> pyval) list" where
  "manager_kwargs service ps pid =
     (let names = set (map parameter_name ps);
          by_id = (case find (\<lambda>key. key \<in> names) [''project_id'', ''tenant_id'', ''project''] of
             Some key \<Rightarrow> [(key, PStr pid)] | None \<Rightarrow> []);
          filtered = (if ''filters'' \<in> names \<and> by_id = []
             then [(''filters'', PDict [(''project_id'', PStr pid)])] else by_id);
          flags = map (\<lambda>key. (key, PBool False))
             (filter (\<lambda>key. key \<in> names) [''all_projects'', ''all_tenants'', ''all_projects_mode'']);
          kwargs = filtered @ flags
      in if service = ''application-container'' \<and> list_ex (\<lambda>p. kind p = VAR_KEYWORD) ps
         then dset ''project_id'' (PStr pid) kwargs else kwargs)"

definition rstrip_s :: "string \<Rightarrow> string" where
  "rstrip_s s = rev (dropWhile (\<lambda>c. c = CHR ''s'') (rev s))"

fun parent_values :: "string \<Rightarrow> collections \<Rightarrow> pyval list option" where
  "parent_values parameter [] = None"
| "parent_values parameter ((name, values) # rest) =
     (let parent = normalized_name (without_suffix parameter); manager_n = normalized_name name
      in if manager_n = parent \<or> rstrip_s manager_n = parent then Some values
         else parent_values parameter rest)"

definition parent_argument :: "pyval \<Rightarrow> string \<Rightarrow> pyval" where
  "parent_argument resource parameter =
     (if suffix ''_name'' parameter \<or>
         parameter \<in> {''container'', ''queue_name'', ''stack_name'', ''namespace_name''}
      then py_or (value_of resource ''name'') (value_of resource ''id'')
      else py_or (value_of resource ''id'') (value_of resource ''uuid''))"

section \<open>Collecting\<close>

definition noted :: "bool \<Rightarrow> string \<Rightarrow> inv_error \<Rightarrow> issue list \<Rightarrow> ('x, issue list) pio" where
  "noted strict name e errors =
     (let missing = is_missing_resource_error e;
          errors1 = (if missing then errors else errors @ [provider_error name e])
      in if strict \<and> \<not> missing then raise_exn (e, errors1) else ret errors1)"

definition legacy_call ::
  "'x clients \<Rightarrow> string \<Rightarrow> pyval list \<Rightarrow> (string \<times> pyval) list \<Rightarrow> ('x, inv_error + pyval list) pio"
where
  "legacy_call k name args kwargs =
     try_except
       (bind (outside_call (ManagerList name args kwargs) (manager_list k name args kwargs))
          (\<lambda>values. ret (Inr values)))
       (\<lambda>e :: inv_error. ret (Inl e))"

definition collect_manager ::
  "'x clients \<Rightarrow> legacy_provider \<Rightarrow> bool \<Rightarrow> string \<Rightarrow> string \<times> parameter list \<Rightarrow> collected
     \<Rightarrow> ('x, collected) pio" where
  "collect_manager k p strict pid = (\<lambda>(name, ps) st.
     let service = service_type (l_endpoint p)
     in bind (legacy_call k name [] (manager_kwargs service ps pid)) (\<lambda>answer.
          case answer of
            Inl e \<Rightarrow>
              bind (noted strict name (ServiceAPIError
                  (''listing legacy SDK resource '' @ repr_str name @ '' for service ''
                     @ repr_str service @ '' failed: '' @ exc_text e)) (c_errors st))
                (\<lambda>errors. ret (st\<lparr>c_errors := errors, c_objects := dset name [] (c_objects st)\<rparr>))
          | Inr all_values \<Rightarrow>
              let values = filter (\<lambda>v. belongs_to_project v pid) all_values
              in if values = [] then ret (st\<lparr>c_objects := dset name [] (c_objects st)\<rparr>)
                 else store_listing name values st))"

text \<open>
  The objects of a container, serialised one by one into what was found so far; the flag says that
  one of them cannot be, which the caller sees as an exception with the earlier ones kept.
\<close>

fun container_objects :: "pyval \<Rightarrow> pyval list \<Rightarrow> pyval list \<times> bool" where
  "container_objects container_name [] = ([], False)"
| "container_objects container_name (v # vs) =
     (case resource_to_dict v of
        None \<Rightarrow> ([], True)
      | Some d \<Rightarrow>
          (let (rest, failed) = container_objects container_name vs
           in (PDict (dsetdefault ''container'' container_name d) # rest, failed)))"

definition split_arguments ::
  "parameter list \<Rightarrow> pyval list \<Rightarrow> pyval list \<times> (string \<times> pyval) list" where
  "split_arguments required arguments =
     (map snd (filter (\<lambda>(p, _). kind p \<noteq> KEYWORD_ONLY) (zip required arguments)),
      map (\<lambda>(p, v). (parameter_name p, v))
        (filter (\<lambda>(p, _). kind p = KEYWORD_ONLY) (zip required arguments)))"

text \<open>One combination of parents: the values found, the names that could not be listed, the errors.\<close>

definition nested_combination ::
  "'x clients \<Rightarrow> legacy_provider \<Rightarrow> bool \<Rightarrow> string \<Rightarrow> parameter list \<Rightarrow> pyval list
     \<Rightarrow> pyval list \<times> string list \<times> issue list \<Rightarrow> ('x, pyval list \<times> string list \<times> issue list) pio"
where
  "nested_combination k p strict name required combination = (\<lambda>(found, unlisted, errors).
     let service = service_type (l_endpoint p);
         arguments = map (\<lambda>(q, resource). parent_argument resource (parameter_name q))
           (zip required combination);
         (args, kwargs) = split_arguments required arguments;
         failure = (\<lambda>e. InventoryError
           (''listing nested legacy SDK resource '' @ repr_str name @ '' for service ''
              @ repr_str service @ '' failed: '' @ exc_text e))
     in if list_ex is_none arguments then ret (found, unlisted @ [name], errors)
        else bind (legacy_call k name args kwargs) (\<lambda>answer.
          case answer of
            Inl e \<Rightarrow>
              bind (noted strict name (failure e) errors) (\<lambda>errors1. ret (found, unlisted, errors1))
          | Inr values \<Rightarrow>
              if service = ''object-store'' \<and> normalized_name name \<in> {''object'', ''objects''} then
                let (objects, failed) = container_objects
                      (parent_argument (hd combination) (parameter_name (hd required))) values
                in if failed then
                     bind (noted strict name (failure recursion_error) errors)
                       (\<lambda>errors1. ret (found @ objects, unlisted, errors1))
                   else ret (found @ objects, unlisted, errors)
              else ret (found @ values, unlisted, errors)))"

definition collect_nested_manager ::
  "'x clients \<Rightarrow> legacy_provider \<Rightarrow> bool \<Rightarrow> string \<times> parameter list \<Rightarrow> collected \<times> string list
     \<Rightarrow> ('x, collected \<times> string list) pio" where
  "collect_nested_manager k p strict = (\<lambda>(name, ps) (st, unlisted).
     let required = required_parameters ps;
         options = map (\<lambda>q. parent_values (parameter_name q) (c_objects st)) required
     in if list_ex (\<lambda>o1. o1 = None) options then ret (st, unlisted @ [name])
        else if list_ex (\<lambda>o1. o1 = Some []) options then
          ret (st\<lparr>c_objects := dset name [] (c_objects st)\<rparr>, unlisted)
        else bind (fold_io (nested_combination k p strict name required)
                     (product_of (map the options)) ([], unlisted, c_errors st))
          (\<lambda>(found, unlisted1, errors).
             let st1 = st\<lparr>c_errors := errors, c_objects := dset name found (c_objects st)\<rparr>
             in if found = [] then ret (st1, unlisted1)
                else bind (store_listing name found st1) (\<lambda>st2. ret (st2, unlisted1))))"

definition collect_legacy ::
  "'x clients \<Rightarrow> legacy_provider \<Rightarrow> Project \<Rightarrow> bool \<Rightarrow> ('x, results \<times> issue list) pio" where
  "collect_legacy k p project strict =
     (let direct = direct_managers p; nested = nested_managers p; pid = project_id project;
          service = service_type (l_endpoint p);
          none_listable = UnsupportedClientError
            (''legacy SDK '' @ repr_str (l_module p) @ '' exposes no listable project resources'');
          errors0 = (if direct = [] \<and> nested = [] then [provider_error ''(provider)'' none_listable]
                     else [])
      in if errors0 \<noteq> [] \<and> strict then raise_exn (none_listable, errors0)
         else bind (fold_io (collect_manager k p strict pid) direct
                      \<lparr>c_errors = errors0, c_objects = [], c_result = []\<rparr>) (\<lambda>st1.
           bind (fold_io (filter_collection service) (c_objects st1) st1) (\<lambda>st2.
           bind (fold_io (collect_nested_manager k p strict) nested (st2, [])) (\<lambda>(st3, unlisted).
             let names = sort (remdups unlisted);
                 e = UnsupportedClientError
                   (''legacy SDK '' @ repr_str (l_module p)
                      @ '' exposes nested list resources that could not be enumerated: ''
                      @ join '', '' names);
                 errors = c_errors st3 @ map (\<lambda>name. provider_error name e) names
             in if names = [] then ret (c_result st3, c_errors st3)
                else if strict then raise_exn (e, errors) else ret (c_result st3, errors)))))"

section \<open>Conventional client classes\<close>

text \<open>\<^verbatim>\<open>re.sub(r"v\d+$", "", s)\<close> of a text of letters and digits.\<close>

definition without_version :: "string \<Rightarrow> string" where
  "without_version s =
     (let before = rev (dropWhile is_digit (rev s))
      in if before \<noteq> s \<and> before \<noteq> [] \<and> last before = CHR ''v'' then butlast before else s)"

definition client_package_candidates ::
  "(string \<Rightarrow> string option) \<Rightarrow> Endpoint \<Rightarrow> string list" where
  "client_package_candidates project_name_of endpoint =
     (let seeds = [service_name endpoint, raw_service_type endpoint, service_type endpoint]
            @ (case project_name_of (raw_service_type endpoint) of
                 Some p \<Rightarrow> if p = [] then [] else [p] | None \<Rightarrow> []);
          values = map (\<lambda>seed. without_version (normalized_name seed)) seeds
      in sort (remdups (map (\<lambda>v. v @ ''client'') (filter (\<lambda>v. v \<noteq> []) values))))"

text \<open>
  \<open>package_modules\<close> gives the modules of a package that can be imported whose last name part is
  \<^verbatim>\<open>client\<close>; \<open>client_class\<close> the module and class names behind a module name.
\<close>

fun module_version_at :: "string \<Rightarrow> nat option" where
  "module_version_at [] = None"
| "module_version_at (c # s) =
     (let digits = takeWhile is_digit (drop 1 s); after = dropWhile is_digit (drop 1 s)
      in if c = CHR ''.'' \<and> prefix ''v'' s \<and> digits \<noteq> [] \<and> (after = [] \<or> prefix ''.'' after \<or> after = [CHR 0x0A])
         then Some (read_nat digits) else module_version_at s)"

definition module_rank :: "string \<Rightarrow> int \<times> string" where
  "module_rank name =
     ((case module_version_at name of Some v \<Rightarrow> - int v | None \<Rightarrow> 1), name)"

record packages =
  package_modules :: "string \<Rightarrow> string list option"
  client_class :: "string \<Rightarrow> (string \<times> string) option"

definition generic_client_classes ::
  "packages \<Rightarrow> (string \<Rightarrow> string option) \<Rightarrow> Endpoint \<Rightarrow> (string \<times> string) list" where
  "generic_client_classes pk project_name_of endpoint =
     dedupe (concat (map (\<lambda>package.
       case package_modules pk package of
         None \<Rightarrow> []
       | Some modules \<Rightarrow>
           List.map_filter (client_class pk)
             (sort_key module_rank (remdups (package # modules))))
       (client_package_candidates project_name_of endpoint)))"

definition client_attempts :: "Endpoint \<Rightarrow> connection \<Rightarrow> (string \<times> pyval) list list" where
  "client_attempts endpoint conn =
     [[(''session'', session conn), (''region_name'', PStr (region endpoint)),
       (''interface'', PStr (interface endpoint)), (''service_type'', PStr (raw_service_type endpoint))],
      [(''session'', session conn), (''region_name'', PStr (region endpoint)),
       (''endpoint_type'', PStr (interface endpoint)),
       (''service_type'', PStr (raw_service_type endpoint))],
      [(''session'', session conn), (''region_name'', PStr (region endpoint)),
       (''endpoint'', PStr (url endpoint))],
      [(''session'', session conn), (''endpoint'', PStr (url endpoint))],
      [(''session'', session conn)]]"

fun try_client ::
  "'x clients \<Rightarrow> Endpoint \<Rightarrow> string \<Rightarrow> (string \<times> pyval) list list \<Rightarrow> ('x, client option) lio" where
  "try_client k endpoint mod_n [] = ret None"
| "try_client k endpoint mod_n (kwargs # rest) =
     bind (try_except
        (bind (outside_call (MakeClient mod_n kwargs) (construct k mod_n kwargs))
           (\<lambda>cl. ret (Some cl)))
        (\<lambda>failed. case failed of
           None \<Rightarrow> ret None
         | Some e \<Rightarrow> raise_exn (InventoryError
             (''could not initialize Python SDK '' @ repr_str mod_n @ '' for endpoint ''
                @ repr_str (service_type endpoint) @ '' ('' @ url endpoint @ ''): '' @ exc_text e))))
       (\<lambda>answer. case answer of
          Some cl \<Rightarrow> ret (Some cl)
        | None \<Rightarrow> try_client k endpoint mod_n rest)"

fun generic_client_provider ::
  "'x clients \<Rightarrow> Endpoint \<Rightarrow> connection \<Rightarrow> (string \<times> string) list \<Rightarrow> ('x, legacy_provider option) lio"
where
  "generic_client_provider k endpoint conn [] = ret None"
| "generic_client_provider k endpoint conn ((mod_n, class_n) # rest) =
     bind (try_client k endpoint mod_n (client_attempts endpoint conn)) (\<lambda>answer.
       case answer of
         Some cl \<Rightarrow> ret (Some \<lparr>l_endpoint = endpoint, l_module = mod_n,
                               l_name = mod_n @ '' (Python SDK)'', l_client = cl\<rparr>)
       | None \<Rightarrow> generic_client_provider k endpoint conn rest)"

section \<open>The version and the module\<close>

text \<open>When neither the environment nor the plugin names a version, the newest version of its table is used,
  in the order where the parts of a version compare as numbers.\<close>

theorem plugin_api_version_newest:
  assumes "text_of (api_version_option m) = []" and "text_of (default_api_version m) = []"
    and "api_versions m = PDict d" and "v \<in> set (dkeys d)"
  shows "plugin_api_version env m \<in> set (dkeys d) \<and>
    version_key v \<le> version_key (plugin_api_version env m)"
proof -
  have "plugin_api_version env m = last (sort_key version_key (dkeys d))"
    using assms by (auto simp: plugin_api_version_def Let_def)
  moreover have "dkeys d \<noteq> []" using assms(4) by auto
  ultimately show ?thesis
    using pysort.last_mem [of "dkeys d" version_key] pysort.last_maximal [OF assms(4)] by simp
qed

lemma best_module_maximal:
  assumes "best_module known project_of endpoint modules = Some m"
  shows "m \<in> set modules \<and> legacy_score known project_of endpoint m \<noteq> 0 \<and>
    (\<forall>m' \<in> set modules. legacy_score known project_of endpoint m'
        \<le> legacy_score known project_of endpoint m)"
proof -
  let ?score = "legacy_score known project_of endpoint"
  let ?scored = "filter (\<lambda>m. ?score m \<noteq> 0) modules"
  let ?rank = "\<lambda>m. (- int (?score m), mod_name m)"
  from assms have ne: "?scored \<noteq> []" and m: "m = hd (sort_key ?rank ?scored)"
    by (auto simp: best_module_def Let_def split: if_splits)
  have "m \<in> set ?scored" unfolding m using ne by (rule pysort.first_mem)
  moreover have "?score m' \<le> ?score m" if "m' \<in> set modules" for m'
  proof (cases "?score m' = 0")
    case False
    with that have "m' \<in> set ?scored" by simp
    then have "?rank m \<le> ?rank m'" unfolding m by (rule pysort.first_minimal)
    then show ?thesis by (auto simp: less_eq_prod_def)
  qed simp
  ultimately show ?thesis by simp
qed

section \<open>Best effort and strictness\<close>

lemma steps_legacy_call [steps_intros]: "steps (logs UNIV) P (legacy_call k name args kwargs)"
  unfolding legacy_call_def by (intro steps_intros) simp_all

lemma wp_any: "steps R (\<lambda>_. False) m \<Longrightarrow> (\<And>a w1. Q a w1) \<Longrightarrow> wp m Q E w"
  unfolding steps_def by (blast intro: wp_mono)

lemma wp_legacy_call: "(\<And>a w1. Q a w1) \<Longrightarrow> wp (legacy_call k name args kwargs) Q E w"
  by (rule wp_any [OF steps_legacy_call])

lemma wp_noted:
  assumes "strict \<longrightarrow> errors = []" and "\<And>errs. strict \<longrightarrow> errs = [] \<Longrightarrow> Q errs w"
  shows "wp (noted strict name e errors) Q (\<lambda>e _. may_raise strict e) w"
  using assms by (auto simp: noted_def Let_def wp_simps may_raise_def)

lemma store_listing_keeps:
  "collecting strict {} st \<Longrightarrow> collects strict {} (store_listing name objects st) w"
  by (rule collects_mono [OF store_listing_collects]) auto

lemma collect_manager_collects:
  assumes "collecting strict {} st"
  shows "collects strict {} (collect_manager k p strict pid np st) w"
proof (cases np)
  case (Pair name ps)
  show ?thesis
    unfolding Pair collect_manager_def prod.case Let_def wp_bind
    by (rule wp_legacy_call)
      (use assms in \<open>auto simp: wp_simps dest: collecting_errors split: sum.split
        intro!: wp_noted store_listing_keeps\<close>)
qed

lemma nested_combination_collects:
  assumes "strict \<longrightarrow> snd (snd s) = []"
  shows "wp (nested_combination k p strict name required combination s)
    (\<lambda>s _. strict \<longrightarrow> snd (snd s) = []) (\<lambda>e _. may_raise strict e) w"
proof -
  obtain found unlisted errors where s: "s = (found, unlisted, errors)" by (cases s)
  show ?thesis
    unfolding s nested_combination_def prod.case Let_def split_arguments_def
    using assms s
    by (auto simp: wp_simps split: sum.split prod.split intro!: wp_legacy_call wp_noted)
qed

lemma collect_nested_manager_collects:
  fixes w :: "'x iworld"
  assumes "collecting strict {} (fst s)"
  shows "wp (collect_nested_manager k p strict np s) (\<lambda>s _. collecting strict {} (fst s))
    (\<lambda>e _. may_raise strict e) w"
proof -
  obtain st unlisted where s: "s = (st, unlisted)" by (cases s)
  obtain name ps where np: "np = (name, ps)" by (cases np)
  have combos: "wp (fold_io (nested_combination k p strict name required) combos
        ([], unlisted, c_errors st)) (\<lambda>s _. strict \<longrightarrow> snd (snd s) = [])
      (\<lambda>e _. may_raise strict e) w" for required combos
    by (rule wp_fold_io_inv) (use assms s collecting_errors in \<open>auto intro: nested_combination_collects\<close>)
  show ?thesis
    unfolding s np collect_nested_manager_def prod.case Let_def
    using assms s
    by (auto simp: wp_simps intro!: wp_mono [OF combos] wp_mono [OF store_listing_keeps] collecting_update(2))
qed


lemma collect_legacy_wp:
  fixes w :: "'x iworld"
  shows "wp (collect_legacy k p project strict) (\<lambda>(res, errors) _. strict \<longrightarrow> errors = [])
    (\<lambda>e _. may_raise strict e) w"
proof -
  have direct: "collects strict {} (fold_io (collect_manager k p strict pid) ms st) w1"
    if "collecting strict {} st" for pid ms st and w1 :: "'x iworld"
    by (rule wp_fold_io_inv) (use that in \<open>auto intro: collect_manager_collects\<close>)
  have filters: "collects strict {} (fold_io (filter_collection service) items st) w1"
    if "collecting strict {} st" for service items st and w1 :: "'x iworld"
    using that by (rule filter_collections_collect)
  have nested: "wp (fold_io (collect_nested_manager k p strict) ms (st, []))
      (\<lambda>s _. collecting strict {} (fst s)) (\<lambda>e _. may_raise strict e) w1"
    if "collecting strict {} st" for ms st and w1 :: "'x iworld"
    by (rule wp_fold_io_inv) (use that in \<open>auto intro: collect_nested_manager_collects\<close>)
  let ?none = "direct_managers p = [] \<and> nested_managers p = []"
  show ?thesis
  proof (cases "?none \<and> strict")
    case True
    then show ?thesis by (simp add: collect_legacy_def Let_def wp_simps may_raise_def)
  next
    case False
    define st0 where "st0 = \<lparr>c_errors = (if ?none then [provider_error ''(provider)''
        (UnsupportedClientError (''legacy SDK '' @ repr_str (l_module p)
           @ '' exposes no listable project resources''))] else []),
      c_objects = [], c_result = []\<rparr>"
    have start: "collecting strict {} st0" using False by (auto simp: collecting_def st0_def)
    have finish: "wp (let names = sort (remdups unlisted);
                 e = UnsupportedClientError
                   (''legacy SDK '' @ repr_str (l_module p)
                      @ '' exposes nested list resources that could not be enumerated: ''
                      @ join '', '' names);
                 errors = c_errors st @ map (\<lambda>name. provider_error name e) names
             in if names = [] then ret (c_result st, c_errors st)
                else if strict then raise_exn (e, errors) else ret (c_result st, errors))
          (\<lambda>(res, errors) _. strict \<longrightarrow> errors = []) (\<lambda>e _. may_raise strict e) w1"
      if "collecting strict {} st" for unlisted st and w1 :: "'x iworld"
      using collecting_errors [OF that] by (auto simp: Let_def wp_simps may_raise_def)
    from False have eq: "collect_legacy k p project strict =
        bind (fold_io (collect_manager k p strict (project_id project)) (direct_managers p) st0) (\<lambda>st1.
           bind (fold_io (filter_collection (service_type (l_endpoint p))) (c_objects st1) st1) (\<lambda>st2.
           bind (fold_io (collect_nested_manager k p strict) (nested_managers p) (st2, []))
             (\<lambda>(st3, unlisted).
             let names = sort (remdups unlisted);
                 e = UnsupportedClientError
                   (''legacy SDK '' @ repr_str (l_module p)
                      @ '' exposes nested list resources that could not be enumerated: ''
                      @ join '', '' names);
                 errors = c_errors st3 @ map (\<lambda>name. provider_error name e) names
             in if names = [] then ret (c_result st3, c_errors st3)
                else if strict then raise_exn (e, errors) else ret (c_result st3, errors))))"
      unfolding collect_legacy_def Let_def st0_def by auto
    show ?thesis
      unfolding eq wp_bind
      apply (rule wp_mono [OF direct [OF start]])
       apply (rule wp_mono [OF filters], assumption)
        apply (rule wp_mono [OF nested], assumption)
         apply (simp only: case_prod_beta finish)
      by simp_all
  qed
qed

text \<open>Collecting through a legacy client always ends; a best-effort run raises nothing (except for an object
  that cannot be serialised), and a strict run that returns has noted no error.\<close>

theorem legacy_collects_or_reports:
  "\<exists>r w1. collect_legacy k p project strict w = Some (r, w1) \<and>
     (case r of
        Inr (res, errors) \<Rightarrow> complete_if strict errors
      | Inl (e, errors) \<Rightarrow> strict \<or> e = recursion_error)"
proof -
  note wp = collect_legacy_wp [of k p project strict w]
  from wp_returns [OF wp] obtain r w1
    where "collect_legacy k p project strict w = Some (r, w1)" by blast
  with wp show ?thesis
    by (cases r) (auto simp: wp_def may_raise_def complete_if_def split: prod.splits)
qed

section \<open>An example\<close>

definition demo_module :: legacy_module where
  "demo_module =
     \<lparr>mod_name = ''zunclient.osc.plugin'', api_name = Some (PStr ''container''),
      api_versions = PDict [(''1.9'', PNone), (''1.40'', PNone), (''1.8'', PNone)],
      api_version_option = PNone, default_api_version = PNone, has_make_client = True\<rparr>"

theorem plugin_api_version_newest_witness:
  "plugin_api_version (\<lambda>_. None) demo_module = ''1.40'' \<and>
   version_key ''1.9'' \<le> version_key (plugin_api_version (\<lambda>_. None) demo_module)"
proof -
  have "plugin_api_version (\<lambda>_. None) demo_module = ''1.40''"
    by code_simp
  moreover have "version_key ''1.9'' \<le> version_key (plugin_api_version (\<lambda>_. None) demo_module)"
    using plugin_api_version_newest [of demo_module
        "[(''1.9'', PNone), (''1.40'', PNone), (''1.8'', PNone)]" "''1.9''" "\<lambda>_. None"]
    by (simp add: demo_module_def text_of_def)
  ultimately show ?thesis ..
qed

end
