(* ===== verification/InvMain.thy ===== *)
theory InvMain
  imports InvLegacy
begin

text \<open>
  The top of \<^verbatim>\<open>scripts/openstack/list-project-resources.py\<close>: the connection and the project, the choice
  of a provider for each endpoint, the inventory with its preflight, the table, and the entry point
  with its exit codes.
\<close>

section \<open>The world of the program\<close>

text \<open>
  Everything outside: the tables of \<^verbatim>\<open>os_service_types\<close>, the environment, the service descriptions the
  SDK has for a connection, the plugin modules that load, the conventional client packages, and the
  calls of the SDK.
\<close>

record 'x openstack =
  types_known :: "string \<Rightarrow> string option"
  types_project :: "string \<Rightarrow> string option"
  environ :: "string \<Rightarrow> string option"
  sdk_installed :: bool
  descriptions :: "connection \<Rightarrow> description list"
  plugin_modules :: "legacy_module list"
  client_packages :: packages
  discovery_of :: "connection \<Rightarrow> discovery"
  the_sdk :: "'x sdk"
  the_clients :: "'x clients"
  connect :: "(string \<times> pyval) list \<Rightarrow> ('x, inv_error + connection) outside"
  connect_as :: "connection \<Rightarrow> string \<Rightarrow> ('x, inv_error + connection) outside"
  get_project :: "string \<Rightarrow> ('x, inv_error + pyval) outside"
  find_project :: "string \<Rightarrow> ('x, inv_error + pyval) outside"

section \<open>Connection and project\<close>

definition open_connection ::
  "'x openstack \<Rightarrow> string \<Rightarrow> string option \<Rightarrow> ('x, connection) lio" where
  "open_connection o1 iface reg =
     (if \<not> sdk_installed o1 then
        raise_exn (InventoryError
          ''openstacksdk is required for project resolution and resource listing'')
      else
        let kwargs = [(''strict_proxies'', PBool True), (''interface'', PStr iface)]
              @ (case reg of Some r \<Rightarrow> if r = [] then [] else [(''region_name'', PStr r)] | None \<Rightarrow> [])
        in try_except (outside_call (Connect kwargs) (connect o1 kwargs))
             (\<lambda>e. raise_exn (InventoryError
                (''could not create the OpenStack SDK connection: '' @ exc_text e))))"

definition find_project_or_fail :: "'x openstack \<Rightarrow> string \<Rightarrow> ('x, pyval) lio" where
  "find_project_or_fail o1 name =
     try_except (outside_call (FindProject name) (find_project o1 name))
       (\<lambda>e. raise_exn (InventoryError
          (''could not resolve project '' @ repr_str name @ '': '' @ exc_text e)))"

definition resolve_project :: "'x openstack \<Rightarrow> string \<Rightarrow> ('x, Project) lio" where
  "resolve_project o1 name =
     bind (try_except (outside_call (GetProject name) (get_project o1 name))
             (\<lambda>_ :: inv_error. find_project_or_fail o1 name)) (\<lambda>first.
     bind (if is_none first then find_project_or_fail o1 name else ret first) (\<lambda>project.
       let pid = text_of (value_of project ''id''); found = text_of (value_of project ''name'')
       in if pid = [] then
            raise_exn (InventoryError
              (''project lookup for '' @ repr_str name @ '' returned no project ID''))
          else ret \<lparr>project_id = pid, project_name = (if found = [] then name else found),
                    project_raw = project\<rparr>))"

definition connection_as_project ::
  "'x openstack \<Rightarrow> connection \<Rightarrow> string \<Rightarrow> ('x, connection) lio" where
  "connection_as_project o1 conn pid =
     try_except (outside_call (ConnectAs pid) (connect_as o1 conn pid))
       (\<lambda>e. raise_exn (InventoryError
          (''could not create a connection scoped to project '' @ repr_str pid @ '': '' @ exc_text e)))"

definition as_project_connection ::
  "'x openstack \<Rightarrow> connection \<Rightarrow> Project \<Rightarrow> ('x, connection) lio" where
  "as_project_connection o1 conn project =
     (let current = text_of (current_project_id conn)
      in if current \<noteq> [] \<and> current = project_id project then ret conn
         else if current \<noteq> [] then ret conn
         else try_except (connection_as_project o1 conn (project_id project))
           (\<lambda>e. if is_inventory_error e then ret conn else raise_exn e))"

section \<open>The provider of an endpoint\<close>

datatype provider = Builtin builtin_provider | Legacy legacy_provider

fun provider_name :: "provider \<Rightarrow> string" where
  "provider_name (Builtin _) = ''openstacksdk''"
| "provider_name (Legacy p) = l_name p"

text \<open>The first description that works, else the error of the last one (\<open>None\<close>: there was none).\<close>

fun first_builtin ::
  "Endpoint \<Rightarrow> description list \<Rightarrow> inv_error option \<Rightarrow> inv_error option + builtin_provider" where
  "first_builtin endpoint [] last_error = Inl last_error"
| "first_builtin endpoint (d # ds) last_error =
     (case BuiltinSDKProvider endpoint d of
        Inr p \<Rightarrow> Inr p
      | Inl e \<Rightarrow> first_builtin endpoint ds (Some e))"

definition no_provider_message :: "Endpoint \<Rightarrow> string" where
  "no_provider_message e =
     ''endpoint '' @ repr_str (service_type e) @ '' ('' @ repr_str (raw_service_type e)
       @ '', service name '' @ repr_str (service_name e)
       @ '') has no list-capable Python client; checked ''
       @ ''openstacksdk service descriptors, installed openstack.cli.extension clients, ''
       @ ''and conventional Python Client modules''"

definition resolve_provider ::
  "'x openstack \<Rightarrow> Endpoint \<Rightarrow> connection \<Rightarrow> ('x, provider) lio" where
  "resolve_provider o1 endpoint conn =
     (let supported = filter (\<lambda>d. description_matches (types_known o1) d endpoint \<and>
                                has_supported_versions d) (descriptions o1 conn)
      in case first_builtin endpoint supported None of
           Inr p \<Rightarrow> ret (Builtin p)
         | Inl sdk_error \<Rightarrow>
             (case best_module (types_known o1) (types_project o1) endpoint (plugin_modules o1) of
                Some m \<Rightarrow>
                  bind (LegacySDKProvider (the_clients o1) (environ o1) endpoint conn m)
                    (\<lambda>p. ret (Legacy p))
              | None \<Rightarrow>
                  (case sdk_error of
                     Some e \<Rightarrow> raise_exn e
                   | None \<Rightarrow>
                       bind (generic_client_provider (the_clients o1) endpoint conn
                          (generic_client_classes (client_packages o1) (types_project o1) endpoint))
                         (\<lambda>answer. case answer of
                            Some p \<Rightarrow> ret (Legacy p)
                          | None \<Rightarrow>
                              raise_exn (UnsupportedClientError (no_provider_message endpoint))))))"

section \<open>The inventory\<close>

definition report_issue :: "string \<Rightarrow> string \<Rightarrow> string \<Rightarrow> string \<Rightarrow> pyval" where
  "report_issue service resource category text =
     PDict [(''service'', PStr service), (''resource'', PStr resource),
            (''category'', PStr category), (''error'', PStr text)]"

definition unscoped_services :: "string list" where
  "unscoped_services = [''application-container'', ''identity'', ''key-manager'']"

text \<open>The preflight: a provider for each endpoint, or an error text.\<close>

definition preflight ::
  "'x openstack \<Rightarrow> connection \<Rightarrow> connection \<Rightarrow> Endpoint
     \<Rightarrow> (Endpoint \<times> provider) list \<times> (string \<times> string) list
     \<Rightarrow> ('x, (Endpoint \<times> provider) list \<times> (string \<times> string) list) lio" where
  "preflight o1 conn target endpoint = (\<lambda>(providers, problems).
     try_except
       (bind (resolve_provider o1 endpoint
                (if service_type endpoint \<in> set unscoped_services then conn else target))
          (\<lambda>p. ret (providers @ [(endpoint, p)], problems)))
       (\<lambda>e. if is_inventory_error e then
              ret (providers, problems @ [(service_type endpoint,
                service_type endpoint @ '' ('' @ raw_service_type endpoint @ '', '' @ url endpoint
                  @ ''): '' @ exc_text e)])
            else raise_exn e))"

record inventory_state =
  v_resources :: "(string, results) dict"
  v_metadata :: "(string, pyval) dict"
  v_errors :: "pyval list"

definition metadata_of :: "Endpoint \<Rightarrow> provider \<Rightarrow> pyval" where
  "metadata_of e p =
     PDict [(''provider'', PStr (provider_name p)), (''service_name'', PStr (service_name e)),
            (''raw_service_type'', PStr (raw_service_type e)), (''interface'', PStr (interface e)),
            (''region'', PStr (region e)), (''url'', PStr (url e))]"

definition collect_from ::
  "'x openstack \<Rightarrow> Project \<Rightarrow> bool \<Rightarrow> provider \<Rightarrow> ('x, results \<times> issue list) pio" where
  "collect_from o1 project strict p =
     (case p of
        Builtin b \<Rightarrow> collect_builtin (the_sdk o1) b project strict
      | Legacy l \<Rightarrow> collect_legacy (the_clients o1) l project strict)"

definition inventory_endpoint ::
  "'x openstack \<Rightarrow> Project \<Rightarrow> bool \<Rightarrow> Endpoint \<times> provider \<Rightarrow> inventory_state
     \<Rightarrow> ('x, inventory_state) lio" where
  "inventory_endpoint o1 project strict = (\<lambda>(endpoint, p) st.
     let service = service_type endpoint
     in bind (try_except
          (bind (collect_from o1 project strict p) (\<lambda>(res, issues). ret (res, issues, [])))
          (\<lambda>(e, issues). if strict then raise_exn e
             else ret ([], issues, [report_issue service ''(provider)'' ''inventory'' (exc_text e)])))
        (\<lambda>(res, issues, failure).
          ret (st\<lparr>v_resources := dset service res (v_resources st),
                  v_metadata := dset service (metadata_of endpoint p) (v_metadata st),
                  v_errors := v_errors st @ failure
                    @ map (\<lambda>i. report_issue service (i_resource i) (i_category i) (i_error i)) issues\<rparr>)))"

definition endpoint_dict :: "Endpoint \<Rightarrow> pyval" where
  "endpoint_dict e =
     PDict [(''endpoint_id'', PStr (endpoint_id e)), (''region'', PStr (region e)),
            (''service_name'', PStr (service_name e)),
            (''raw_service_type'', PStr (raw_service_type e)),
            (''service_type'', PStr (service_type e)), (''interface'', PStr (interface e)),
            (''url'', PStr (url e)), (''enabled'', PBool (enabled e))]"

definition results_value :: "results \<Rightarrow> pyval" where
  "results_value res = PDict (map (\<lambda>(name, ds). (name, PList (map PDict ds))) res)"

definition report_of :: "Endpoint list \<Rightarrow> Project \<Rightarrow> inventory_state \<Rightarrow> pydict" where
  "report_of endpoints project st =
     [(''project'', PDict [(''id'', PStr (project_id project)), (''name'', PStr (project_name project))]),
      (''endpoints'', PList (map endpoint_dict endpoints)),
      (''providers'', PDict (v_metadata st)),
      (''resources'', PDict (map (\<lambda>(s, res). (s, results_value res)) (v_resources st))),
      (''errors'', PList (v_errors st))]"

definition preflight_message :: "(string \<times> string) list \<Rightarrow> string" where
  "preflight_message problems =
     (let sep = CHR 0x0A # ''- ''
      in ''service client preflight failed; no resources were listed:'' @ sep
           @ join sep (map snd problems))"

definition inventory ::
  "'x openstack \<Rightarrow> Endpoint list \<Rightarrow> connection \<Rightarrow> Project \<Rightarrow> bool \<Rightarrow> ('x, pydict) lio" where
  "inventory o1 every_endpoint conn project strict =
     (let endpoints = filter (\<lambda>e. \<not> is_ignored_endpoint e) every_endpoint
      in bind (as_project_connection o1 conn project) (\<lambda>target.
         bind (fold_io (preflight o1 conn target) endpoints ([], [])) (\<lambda>(providers, problems).
           if problems \<noteq> [] \<and> strict then raise_exn (InventoryError (preflight_message problems))
           else
             bind (fold_io (inventory_endpoint o1 project strict) providers
               \<lparr>v_resources = [], v_metadata = [],
                v_errors = map (\<lambda>(s, text). report_issue s ''(client)'' ''inventory'' text) problems\<rparr>)
               (\<lambda>st. ret (report_of endpoints project st)))))"

section \<open>The table\<close>

text \<open>The ellipsis of the source is one character; here it is its UTF-8 form.\<close>

definition ellipsis :: string where
  "ellipsis = [CHR 0xE2, CHR 0x80, CHR 0xA6]"

definition short_text :: "pyval \<Rightarrow> nat \<Rightarrow> string" where
  "short_text v width =
     (let t = text_of v in if length t \<le> width then t else take (width - 1) t @ ellipsis)"

definition pad40 :: "string \<Rightarrow> string" where
  "pad40 s = s @ replicate (40 - length s) (CHR '' '')"

definition object_row :: "pydict \<Rightarrow> string" where
  "object_row obj =
     (let first_of = (\<lambda>a b. vget_or obj a (vget_or obj b (PStr [])))
      in ''    '' @ pad40 (short_text (first_of ''id'' ''uuid'') 60) @ ''  ''
           @ pad40 (short_text (first_of ''name'' ''display_name'') 40) @ ''  ''
           @ short_text (first_of ''status'' ''state'') 20)"

definition table_header :: string where
  "table_header =
     ''    '' @ pad40 ''ID'' @ ''NAME'' @ replicate 38 (CHR '' '') @ ''STATUS''"

definition resource_lines :: "string \<times> pydict list \<Rightarrow> string list" where
  "resource_lines = (\<lambda>(name, objects).
     (''  '' @ name @ '': '' @ show_nat (length objects))
       # (if objects = [] then [] else table_header # map object_row objects))"

definition items_of :: "pyval \<Rightarrow> pydict" where
  "items_of v = (case v of PDict d \<Rightarrow> d | _ \<Rightarrow> [])"

definition dict_list :: "pyval \<Rightarrow> pydict list" where
  "dict_list v = (case v of PList xs \<Rightarrow> map items_of xs | _ \<Rightarrow> [])"

definition service_lines :: "pydict \<Rightarrow> string \<times> pyval \<Rightarrow> string list" where
  "service_lines providers = (\<lambda>(service, collections).
     (service @ '' ('' @ py_str (vget_or (items_of (vget providers service)) ''provider''
                                  (PStr ''unknown'')) @ '')'')
       # concat (map resource_lines (sort_key fst
           (map (\<lambda>(name, objects). (name, dict_list objects)) (items_of collections))))
       @ [[]])"

definition issue_line :: "pydict \<Rightarrow> string" where
  "issue_line issue =
     ''  '' @ py_str (vget_or issue ''service'' (PStr ''unknown'')) @ '' / ''
       @ py_str (vget_or issue ''resource'' (PStr ''unknown'')) @ '': ''
       @ py_str (vget_or issue ''error'' (PStr []))"

text \<open>\<^verbatim>\<open>render_table\<close> of a report that \<open>inventory\<close> made.\<close>

definition render_table :: "pydict \<Rightarrow> string" where
  "render_table report =
     (let project = items_of (vget report ''project'');
          resources = items_of (vget report ''resources'');
          some_objects = list_ex (\<lambda>(_, cs). list_ex (\<lambda>(_, xs). truthy xs) (items_of cs)) resources;
          body = (if \<not> some_objects then [''No project resources found.'']
                  else concat (map (service_lines (items_of (vget report ''providers'')))
                    (sort_key fst resources)));
          issues = dict_list (vget report ''errors'');
          errors = (if issues = [] then [] else ''Errors:'' # map issue_line issues)
      in rstrip_by is_space (join [CHR 0x0A]
           ([''Project: '' @ py_str (vget project ''name'') @ '' ('' @ py_str (vget project ''id'')
               @ '')'', []] @ body @ errors)))"

section \<open>The entry point\<close>

record inv_arguments =
  n_project :: string
  n_json :: bool
  n_interface :: string
  n_region :: "string option"
  n_openstack_bin :: string
  n_strict :: bool
  n_hide_errors :: bool
  n_debug :: bool

definition shown_report :: "bool \<Rightarrow> pydict \<Rightarrow> pydict" where
  "shown_report hide report = (if hide then filter (\<lambda>(k, _). k \<noteq> ''errors'') report else report)"

definition print_report :: "inv_arguments \<Rightarrow> pydict \<Rightarrow> ('x, int) lio" where
  "print_report a report =
     (let has_errors = truthy (vget report ''errors'');
          shown = shown_report (n_hide_errors a) report
      in bind (if n_json a then
                 (case json_dumps (PDict shown) of
                    Some text \<Rightarrow> ret text
                  | None \<Rightarrow> raise_exn (OtherException ''TypeError'' ''Object is not JSON serializable''))
               else ret (render_table shown)) (\<lambda>text.
         andthen (emit (Printed text)) (ret (if n_strict a \<and> has_errors then 2 else 0))))"

definition list_body ::
  "'x openstack \<Rightarrow> inv_arguments \<Rightarrow> ('x, int) lio" where
  "list_body o1 a =
     bind (open_connection o1 (n_interface a) (n_region a)) (\<lambda>conn.
     bind (lift_sum (discover_endpoints (discovery_of o1 conn) (n_openstack_bin a))) (\<lambda>found.
     bind (lift_sum (select_endpoints found (n_interface a) (n_region a))) (\<lambda>endpoints.
     bind (resolve_project o1 (n_project a)) (\<lambda>project.
     bind (inventory o1 endpoints conn project (n_strict a)) (print_report a)))))"

definition list_main ::
  "'x openstack \<Rightarrow> inv_arguments \<Rightarrow> ('x, int) lio" where
  "list_main o1 a =
     try_except (list_body o1 a)
       (\<lambda>e. if n_debug a then raise_exn e
            else andthen (emit (PrintedError
              (if is_inventory_error e then ''error: '' @ exc_text e
               else ''error: unexpected inventory failure: '' @ exc_text e))) (ret 2))"

section \<open>Preflight\<close>

lemma steps_try_client: "steps (logs UNIV) is_inventory_error (try_client k endpoint m attempts)"
  by (induction attempts) (auto intro!: steps_intros)

lemma steps_generic: "steps (logs UNIV) is_inventory_error (generic_client_provider k endpoint conn cs)"
proof (induction cs)
  case (Cons c cs)
  then show ?case by (cases c) (auto intro!: steps_intros steps_try_client)
qed (auto intro!: steps_intros)

lemma BuiltinSDKProvider_error: "BuiltinSDKProvider endpoint d = Inl e \<Longrightarrow> is_inventory_error e"
  by (auto simp: BuiltinSDKProvider_def Let_def split: if_splits sum.splits)

lemma first_builtin_error:
  "first_builtin endpoint ds last_e = Inl (Some e) \<Longrightarrow>
     (\<And>e. last_e = Some e \<Longrightarrow> is_inventory_error e) \<Longrightarrow> is_inventory_error e"
  by (induction ds arbitrary: last_e)
    (auto split: sum.splits dest: BuiltinSDKProvider_error)

lemma steps_LegacySDKProvider:
  "steps (logs UNIV) is_inventory_error (LegacySDKProvider k env endpoint conn m)"
  unfolding LegacySDKProvider_def by (intro steps_intros) simp_all

lemma steps_resolve_provider:
  "steps (logs UNIV) is_inventory_error (resolve_provider o1 endpoint conn)"
  unfolding resolve_provider_def Let_def
  by (auto intro!: steps_intros steps_LegacySDKProvider steps_generic
      split: sum.split option.split dest: first_builtin_error)

lemma steps_as_project_connection:
  "steps (logs UNIV) (\<lambda>_. False) (as_project_connection o1 conn project)"
proof -
  have "steps (logs UNIV) is_inventory_error (connection_as_project o1 conn pid)" for pid
    unfolding connection_as_project_def by (intro steps_intros) simp_all
  then show ?thesis
    unfolding as_project_connection_def Let_def
    by (auto intro!: steps_intros steps_try_except_kinds [where P' = is_inventory_error])
qed

section \<open>Every endpoint is accounted for\<close>

definition clients_or_problems ::
  "Endpoint list \<Rightarrow> (Endpoint \<times> provider) list \<times> (string \<times> string) list \<Rightarrow> bool" where
  "clients_or_problems es s \<longleftrightarrow>
     set es \<subseteq> fst ` set (fst s) \<union> {e. service_type e \<in> fst ` set (snd s)} \<and>
     (snd s = [] \<longrightarrow> map fst (fst s) = es)"

lemma preflight_wp:
  fixes w :: "'x iworld"
  shows "wp (fold_io (preflight o1 conn target) es ([], [])) (\<lambda>s _. clients_or_problems es s)
    (\<lambda>_ _. False) w"
proof (rule wp_fold_io [where xs = es and I = "\<lambda>done _ s _. clients_or_problems done s"])
  fix "done" rest :: "Endpoint list" and e :: Endpoint
    and s :: "(Endpoint \<times> provider) list \<times> (string \<times> string) list" and w1 :: "'x iworld"
  assume s: "clients_or_problems done s"
  obtain ps pr where eq: "s = (ps, pr)" by (cases s)
  have one: "wp (resolve_provider o1 e conn1) (\<lambda>_ _. True) (\<lambda>e _. is_inventory_error e) w1" for conn1
    using steps_resolve_provider by (rule wp_total) simp
  show "wp (preflight o1 conn target e s) (\<lambda>s _. clients_or_problems (done @ [e]) s) (\<lambda>_ _. False) w1"
    unfolding preflight_def eq prod.case wp_try_except wp_bind wp_ret
    by (rule wp_mono [OF one]) (use s eq in \<open>auto simp: wp_simps clients_or_problems_def\<close>)
qed (simp add: clients_or_problems_def)

lemma collect_from_wp:
  "wp (collect_from o1 project strict p) (\<lambda>(res, issues) _. strict \<longrightarrow> issues = []) (\<lambda>e _. True) w"
proof (cases p)
  case (Builtin b)
  show ?thesis
    unfolding collect_from_def Builtin provider.case
    by (rule wp_mono [OF collect_builtin_wp]) auto
next
  case (Legacy l)
  show ?thesis
    unfolding collect_from_def Legacy provider.case
    by (rule wp_mono [OF collect_legacy_wp]) auto
qed

definition gathered :: "bool \<Rightarrow> (Endpoint \<times> provider) list \<Rightarrow> pyval list \<Rightarrow> inventory_state \<Rightarrow> bool" where
  "gathered strict ps first_errors st \<longleftrightarrow>
     (\<forall>(e, p) \<in> set ps. service_type e \<in> fst ` set (v_resources st) \<and>
        service_type e \<in> fst ` set (v_metadata st)) \<and>
     prefix first_errors (v_errors st) \<and> (strict \<longrightarrow> v_errors st = first_errors)"

lemma gather_wp:
  fixes w :: "'x iworld"
  shows "wp (fold_io (inventory_endpoint o1 project strict) ps
      \<lparr>v_resources = [], v_metadata = [], v_errors = errors\<rparr>)
    (\<lambda>st _. gathered strict ps errors st) (\<lambda>e _. strict) w"
proof (rule wp_fold_io [where xs = ps and I = "\<lambda>done _ st _. gathered strict done errors st"])
  fix "done" rest :: "(Endpoint \<times> provider) list" and ep :: "Endpoint \<times> provider"
    and st :: inventory_state and w1 :: "'x iworld"
  assume st: "gathered strict done errors st"
  obtain e p where ep: "ep = (e, p)" by (cases ep)
  show "wp (inventory_endpoint o1 project strict ep st)
      (\<lambda>st _. gathered strict (done @ [ep]) errors st) (\<lambda>e _. strict) w1"
    unfolding inventory_endpoint_def ep prod.case Let_def wp_bind wp_try_except
    by (rule wp_mono [OF collect_from_wp])
      (use st in \<open>auto simp: wp_simps gathered_def\<close>)
qed (simp add: gathered_def)

definition report_services :: "pydict \<Rightarrow> string set" where
  "report_services report = fst ` set (items_of (vget report ''resources''))"

definition error_services :: "pydict \<Rightarrow> pyval set" where
  "error_services report =
     (case vget report ''errors'' of PList es \<Rightarrow> (\<lambda>e. value_of e ''service'') ` set es | _ \<Rightarrow> {})"

lemma report_of_fields:
  "report_services (report_of es project st) = fst ` set (v_resources st)"
  "vget (report_of es project st) ''errors'' = PList (v_errors st)"
  by (auto simp: report_services_def report_of_def items_of_def image_image case_prod_beta)

text \<open>A report in which every endpoint is listed, or (best effort) has an error.\<close>

definition accounted :: "bool \<Rightarrow> Endpoint list \<Rightarrow> pydict \<Rightarrow> bool" where
  "accounted strict es report \<longleftrightarrow>
     (\<forall>e \<in> set (filter (\<lambda>e. \<not> is_ignored_endpoint e) es). service_type e \<in> report_services report \<or>
        \<not> strict \<and> PStr (service_type e) \<in> error_services report) \<and>
     (strict \<longrightarrow> vget report ''errors'' = PList [])"

lemma gathered_accounts:
  assumes cp: "clients_or_problems es (ps, problems)"
    and g: "gathered strict ps (map (\<lambda>(s, text). report_issue s ''(client)'' ''inventory'' text) problems) st"
    and lenient: "\<not> (problems \<noteq> [] \<and> strict)" and e: "e \<in> set es"
  shows "service_type e \<in> fst ` set (v_resources st) \<or>
    \<not> strict \<and> PStr (service_type e) \<in> (\<lambda>e. value_of e ''service'') ` set (v_errors st)"
proof (cases "e \<in> fst ` set ps")
  case True
  with g show ?thesis by (auto simp: gathered_def)
next
  case False
  with cp e obtain msg where t: "(service_type e, msg) \<in> set problems"
    by (auto simp: clients_or_problems_def)
  with lenient have "\<not> strict" by auto
  moreover from g have "set (map (\<lambda>(s, text). report_issue s ''(client)'' ''inventory'' text)
      problems) \<subseteq> set (v_errors st)"
    unfolding gathered_def by (meson set_mono_prefix)
  with t have "report_issue (service_type e) ''(client)'' ''inventory'' msg \<in> set (v_errors st)"
    by force
  then have "PStr (service_type e) \<in> (\<lambda>e. value_of e ''service'') ` set (v_errors st)"
    by (force simp: report_issue_def value_of_def)
  ultimately show ?thesis by blast
qed

lemma inventory_wp:
  fixes w :: "'x iworld"
  shows "wp (inventory o1 es conn project strict) (\<lambda>report _. accounted strict es report)
    (\<lambda>_ _. strict) w"
proof -
  let ?es = "filter (\<lambda>e. \<not> is_ignored_endpoint e) es"
  let ?Q = "\<lambda>report _. (\<forall>e \<in> set ?es. service_type e \<in> report_services report \<or>
             \<not> strict \<and> PStr (service_type e) \<in> error_services report) \<and>
          (strict \<longrightarrow> vget report ''errors'' = PList [])"
  have last: "wp (if problems \<noteq> [] \<and> strict then raise_exn (InventoryError (preflight_message problems))
      else bind (fold_io (inventory_endpoint o1 project strict) ps
             \<lparr>v_resources = [], v_metadata = [],
              v_errors = map (\<lambda>(s, text). report_issue s ''(client)'' ''inventory'' text) problems\<rparr>)
           (\<lambda>st. ret (report_of ?es project st))) ?Q (\<lambda>_ _. strict) w1"
    if cp: "clients_or_problems ?es (ps, problems)" for ps problems w1
  proof (cases "problems \<noteq> [] \<and> strict")
    case False
    show ?thesis
      unfolding if_not_P [OF False] wp_bind wp_ret
    proof (rule wp_mono [OF gather_wp])
      fix st w2
      assume g: "gathered strict ps
        (map (\<lambda>(s, text). report_issue s ''(client)'' ''inventory'' text) problems) st"
      note accounts = gathered_accounts [OF cp g False]
      with g False accounts show "?Q (report_of ?es project st) w2"
        by (auto simp: report_of_fields error_services_def gathered_def)
    qed simp
  qed (simp add: wp_simps)
  show ?thesis
    unfolding accounted_def
    unfolding inventory_def Let_def wp_bind
  proof (rule wp_any [OF steps_as_project_connection])
    fix target w1
    show "wp (fold_io (preflight o1 conn target) ?es ([], []))
      (\<lambda>a. wp (case a of (providers, problems) \<Rightarrow>
          if problems \<noteq> [] \<and> strict then raise_exn (InventoryError (preflight_message problems))
          else bind (fold_io (inventory_endpoint o1 project strict) providers
             \<lparr>v_resources = [], v_metadata = [],
              v_errors = map (\<lambda>(s, text). report_issue s ''(client)'' ''inventory'' text) problems\<rparr>)
            (\<lambda>st. ret (report_of ?es project st))) ?Q (\<lambda>_ _. strict)) (\<lambda>_ _. strict) w1"
      by (rule wp_mono [OF preflight_wp]) (use last in auto)
  qed
qed


section \<open>Exit codes\<close>

lemma steps_open_connection: "steps (logs UNIV) (\<lambda>_. True) (open_connection o1 iface reg)"
  unfolding open_connection_def Let_def by (intro steps_intros) simp_all

lemma steps_resolve_project: "steps (logs UNIV) (\<lambda>_. True) (resolve_project o1 name)"
  unfolding resolve_project_def find_project_or_fail_def Let_def by (intro steps_intros) simp_all

text \<open>A strict run that succeeds has printed a report without errors.\<close>

definition printed_complete :: "inv_arguments \<Rightarrow> 'x iworld \<Rightarrow> bool" where
  "printed_complete a w \<longleftrightarrow>
     (\<exists>t report text. trace w = t @ [Printed text] \<and> vget report ''errors'' = PList [] \<and>
        (if n_json a then json_dumps (PDict (shown_report (n_hide_errors a) report)) = Some text
         else text = render_table (shown_report (n_hide_errors a) report)))"

lemma list_body_wp:
  fixes w :: "'x iworld"
  shows "wp (list_body o1 a) (\<lambda>code w1. code = 0 \<and> (n_strict a \<longrightarrow> printed_complete a w1))
    (\<lambda>_ _. True) w"
proof -
  let ?Q = "\<lambda>code w1. code = 0 \<and> (n_strict a \<longrightarrow> printed_complete a w1)"
  have final: "wp (print_report a report)
      ?Q (\<lambda>_ _. True) w1" if "accounted (n_strict a) es report" for es report and w1 :: "'x iworld"
  proof -
    have none: "n_strict a \<Longrightarrow> vget report ''errors'' = PList []"
      using that by (simp add: accounted_def)
    show ?thesis
      using none
      by (auto simp: print_report_def Let_def wp_simps printed_complete_def intro!: exI [of _ report]
          split: option.split)
  qed
  show ?thesis
    unfolding list_body_def wp_bind
    by (auto simp: wp_lift_sum split: sum.split intro!: final
        wp_total [OF steps_open_connection] wp_total [OF steps_resolve_project]
        wp_mono [OF inventory_wp])
qed

text \<open>Without \<open>--debug\<close> the program always ends, with exit code 0 or 2, and a strict run that ends with 0 has
  printed a report without errors.\<close>

theorem list_main_exit_codes:
  assumes "\<not> n_debug a"
  shows "\<exists>code w1. list_main o1 a w = Some (Inr code, w1) \<and> code \<in> {0, 2} \<and>
    (code = 0 \<and> n_strict a \<longrightarrow> printed_complete a w1)"
proof -
  have wp: "wp (list_main o1 a) (\<lambda>code w1. code \<in> {0, 2} \<and>
      (code = 0 \<and> n_strict a \<longrightarrow> printed_complete a w1)) (\<lambda>_ _. False) w"
    unfolding list_main_def wp_try_except
    by (rule wp_mono [OF list_body_wp]) (use assms in \<open>auto simp: wp_simps\<close>)
  from wp_returns [OF wp] obtain r w1 where "list_main o1 a w = Some (r, w1)" by blast
  with wp show ?thesis by (cases r) (auto simp: wp_def)
qed

section \<open>An example\<close>

text \<open>A cloud with one endpoint, for which neither the SDK nor a plugin has a client.\<close>

definition demo_catalog :: pyval where
  "demo_catalog =
     PList [PDict [(''type'', PStr ''volumev3''), (''name'', PStr ''cinder''),
       (''endpoints'', PList [PDict [(''id'', PStr ''e1''), (''interface'', PStr ''public''),
         (''region'', PStr ''R1''), (''url'', PStr ''u3'')]])]]"

definition demo_openstack :: "unit openstack" where
  "demo_openstack =
     \<lparr>types_known = (\<lambda>_. None), types_project = (\<lambda>_. None), environ = (\<lambda>_. None),
      sdk_installed = True, descriptions = (\<lambda>_. []), plugin_modules = [],
      client_packages = \<lparr>package_modules = (\<lambda>_. None), client_class = (\<lambda>_. None)\<rparr>,
      discovery_of = (\<lambda>_. \<lparr>known_type = (\<lambda>_. None), loads = (\<lambda>_. Inl ''''),
        service_catalog = Inr demo_catalog, which_binary = (\<lambda>_. None),
        run_binary = (\<lambda>_ _. NotThere)\<rparr>),
      the_sdk = \<lparr>list_class = (\<lambda>_ _ x. (Inr [], 0, x))\<rparr>,
      the_clients = \<lparr>manager_list = (\<lambda>_ _ _ x. (Inr [], 0, x)),
        make_client = (\<lambda>_ _ x. (Inl (InventoryError ''''), 0, x)),
        construct = (\<lambda>_ _ x. (Inl None, 0, x))\<rparr>,
      connect = (\<lambda>_ x. (Inr \<lparr>session = PNone, current_project_id = PNone\<rparr>, 0, x)),
      connect_as = (\<lambda>c _ x. (Inr c, 0, x)),
      get_project = (\<lambda>_ x. (Inr (PDict [(''id'', PStr ''p1'')]), 0, x)),
      find_project = (\<lambda>_ x. (Inr PNone, 0, x))\<rparr>"

definition demo_inv_arguments :: "bool \<Rightarrow> inv_arguments" where
  "demo_inv_arguments strict =
     \<lparr>n_project = ''demo'', n_json = True, n_interface = ''public'', n_region = None,
      n_openstack_bin = ''openstack'', n_strict = strict, n_hide_errors = False, n_debug = False\<rparr>"

theorem list_main_exit_codes_witness:
  "\<exists>code w1. list_main demo_openstack (demo_inv_arguments True) \<lparr>clock = 0, trace = [], ext = ()\<rparr>
       = Some (Inr code, w1) \<and> code \<in> {0, 2} \<and> (code = 0 \<longrightarrow> printed_complete (demo_inv_arguments True) w1)"
  using list_main_exit_codes [of "demo_inv_arguments True" demo_openstack
      "\<lparr>clock = 0, trace = [], ext = ()\<rparr>"]
  by (auto simp: demo_inv_arguments_def)

end
