(* ===== verification/JsonRound.thy ===== *)
theory JsonRound
  imports Json
begin

text \<open>
  Reading what was written: \<^verbatim>\<open>json.loads\<close> of the text that \<^verbatim>\<open>json.dumps(..., sort_keys=True)\<close> gives for a
  value is that value with its keys sorted.  It holds for values of ASCII texts without floats and
  with distinct keys, which the reports of the inventory are.
\<close>

section \<open>The values\<close>

definition ascii :: "string \<Rightarrow> bool" where
  "ascii s \<longleftrightarrow> list_all (\<lambda>c. (of_char c :: nat) < 128) s"

fun plain_value :: "pyval \<Rightarrow> bool"
  and plain_list :: "pyval list \<Rightarrow> bool"
  and plain_items :: "(string \<times> pyval) list \<Rightarrow> bool" where
  "plain_value (PFloat _) = False"
| "plain_value (PBytes _) = False"
| "plain_value (PIso _ _) = False"
| "plain_value (PObj _ _ _) = False"
| "plain_value (PStr s) = ascii s"
| "plain_value (PList xs) = plain_list xs"
| "plain_value (PDict d) = (distinct (map fst d) \<and> plain_items d)"
| "plain_value _ = True"
| "plain_list [] = True"
| "plain_list (x # xs) = (plain_value x \<and> plain_list xs)"
| "plain_items [] = True"
| "plain_items ((k, v) # kvs) = (ascii k \<and> plain_value v \<and> plain_items kvs)"

lemma plain_items_iff: "plain_items d \<longleftrightarrow> (\<forall>(k, v) \<in> set d. ascii k \<and> plain_value v)"
  by (induction d) auto

lemma plain_is_json:
  "plain_value v \<Longrightarrow> is_json v"
  "plain_list xs \<Longrightarrow> is_json_list xs"
  "plain_items d \<Longrightarrow> is_json_items d"
  by (induction v and xs and d rule: plain_value_plain_list_plain_items.induct) auto

lemma sort_keys_items_fst [simp]: "map fst (sort_keys_items d) = map fst d"
  by (induction d) auto

lemma sort_keys_plain:
  "plain_value v \<Longrightarrow> plain_value (sort_keys v)"
  "plain_list xs \<Longrightarrow> plain_list (sort_keys_list xs)"
  "plain_items d \<Longrightarrow> plain_items (sort_keys_items d)"
proof (induction v and xs and d rule: plain_value_plain_list_plain_items.induct)
  case (7 d)
  then have "plain_items (sort_keys_items d)" and "distinct (map fst (sort_keys_items d))" by simp_all
  then show ?case
    using distinct_map [of fst "sort_key fst (sort_keys_items d)"]
      distinct_map [of fst "sort_keys_items d"]
    by (simp add: plain_items_iff)
qed simp_all

section \<open>Texts\<close>

lemma hex_round: "n < 16 \<Longrightarrow> hex_value (hex_digit n) = Some n"
proof -
  have "list_all (\<lambda>n. hex_value (hex_digit n) = Some n) [0..<16]" by code_simp
  then show "n < 16 \<Longrightarrow> hex_value (hex_digit n) = Some n" by (simp add: list_all_iff)
qed

lemma hex_parts:
  fixes n :: nat
  assumes "n < 65536"
  shows "4096 * (n div 4096 mod 16) + 256 * (n div 256 mod 16) + 16 * (n div 16 mod 16) + n mod 16 = n"
  using assms mod_mult2_eq [of n 16 16] mod_mult2_eq [of n 256 16] mod_mult2_eq [of n 4096 16]
  by simp

lemma hex4_round:
  assumes "n < 65536"
  shows "hex4 (hex4_text n @ rest) = Some (n, rest)"
  unfolding hex4_text_def append_Cons append_Nil hex4.simps
  using hex_parts [OF assms] by (subst hex_round, simp)+ simp

lemma unicode_escape_ascii:
  assumes "n < 128"
  shows "unicode_escape (hex4_text n @ rest) = Some (n, rest)"
  using assms hex4_round [of n rest]
  by (cases rest; cases "tl rest") (auto simp: unicode_escape_def)

lemma utf8_ascii: "(of_char c :: nat) < 128 \<Longrightarrow> utf8 (of_char c) = [c]"
  by (simp add: utf8_def)

lemma json_chars_ascii:
  "ascii s \<Longrightarrow> json_chars s = concat (map json_char s)"
  by (induction s rule: json_chars.induct) (simp_all add: ascii_def)

lemma parse_string_char:
  assumes "(of_char c :: nat) < 128"
  shows "parse_string (Suc n) (json_char c @ s) = map_option (\<lambda>(t, rest). (c # t, rest)) (parse_string n s)"
proof (cases "(of_char c :: nat) < 32 \<or> 126 < (of_char c :: nat)")
  case True
  with assms show ?thesis
    by (auto simp: json_char_def escaped_char_def u_escape_def unicode_escape_ascii utf8_ascii)
next
  case False
  then show ?thesis by (auto simp: json_char_def escaped_char_def)
qed

declare parse_string.simps [simp del]

lemma parse_string_quote: "parse_string (Suc n) (CHR 0x22 # s) = Some ([], s)"
  by (simp add: parse_string.simps)

lemma parse_string_round:
  "ascii s \<Longrightarrow> length s < n \<Longrightarrow>
     parse_string n (concat (map json_char s) @ CHR 0x22 # rest) = Some (s, rest)"
proof (induction s arbitrary: n)
  case Nil
  then show ?case by (cases n) (simp_all add: parse_string_quote)
next
  case (Cons c s)
  then obtain m where n: "n = Suc m" by (cases n) simp_all
  with Cons show ?case
    by (simp add: parse_string_char ascii_def)
qed

lemma json_char_length: "1 \<le> length (json_char c)"
  by (simp add: json_char_def u_escape_def)

lemma chars_length: "length s \<le> length (concat (map json_char s))"
proof (induction s)
  case (Cons c s)
  with json_char_length [of c] show ?case by simp
qed simp

lemma read_json_string:
  assumes "ascii s"
  shows "\<exists>s1. json_string s @ rest = CHR 0x22 # s1 \<and> parse_string (length s1 + 1) s1 = Some (s, rest)"
proof -
  have "length s < length (concat (map json_char s) @ CHR 0x22 # rest) + 1"
    using chars_length [of s] by simp
  with assms show ?thesis
    by (simp add: json_string_def json_chars_ascii parse_string_round)
qed

section \<open>Numbers\<close>

text \<open>A text after a number that does not go on with it.\<close>

definition number_ends :: "string \<Rightarrow> bool" where
  "number_ends rest \<longleftrightarrow>
     (case rest of [] \<Rightarrow> True
      | c # _ \<Rightarrow> \<not> is_digit c \<and> c \<noteq> CHR ''.'' \<and> c \<noteq> CHR ''e'' \<and> c \<noteq> CHR ''E'')"

lemma show_nat_leading_zero: "hd (show_nat n) = CHR ''0'' \<Longrightarrow> show_nat n = ''0''"
proof (induction n rule: show_nat.induct)
  case (1 n)
  show ?case
  proof (cases "n < 10")
    case True
    with "1.prems" show ?thesis by (simp add: show_nat.simps [of n])
  next
    case False
    then have "hd (show_nat n) = hd (show_nat (n div 10))"
      by (simp add: show_nat.simps [of n] hd_append)
    with "1.IH" "1.prems" False have "show_nat (n div 10) = ''0''" by simp
    then have "read_nat (show_nat (n div 10)) = 0" by (simp add: read_nat_def digit_value_def)
    with False show ?thesis by simp
  qed
qed

lemma digits_split:
  assumes "number_ends rest"
  shows "takeWhile is_digit (show_nat n @ rest) = show_nat n"
    and "dropWhile is_digit (show_nat n @ rest) = rest"
proof -
  have all: "\<forall>c \<in> set (show_nat n). is_digit c" using show_nat_digits by blast
  have "takeWhile is_digit rest = [] \<and> dropWhile is_digit rest = rest"
    using assms by (cases rest) (auto simp: number_ends_def)
  with all show "takeWhile is_digit (show_nat n @ rest) = show_nat n"
    and "dropWhile is_digit (show_nat n @ rest) = rest"
    by (simp_all add: takeWhile_append2 dropWhile_append2)
qed

lemma parse_digits:
  assumes ends_rest: "number_ends rest" and sign: "sign = [] \<or> sign = [CHR ''-'']"
  shows "parse_number (sign @ show_nat n @ rest) = Some (sign @ show_nat n, False, rest)"
proof -
  obtain c t where digits: "show_nat n = c # t" by (cases "show_nat n") simp_all
  then have "is_digit c" using show_nat_digits [of c n] by simp
  then have c: "c \<noteq> CHR ''-''" by (auto simp: is_digit_def)
  have zero: "t = []" if "c = CHR ''0''" using show_nat_leading_zero [of n] digits that by simp
  note split = digits_split [OF ends_rest, of n, unfolded digits append_Cons]
  have tail: "rest = [] \<or> (\<exists>d r. rest = d # r \<and> \<not> is_digit d \<and> d \<noteq> CHR ''.'' \<and> d \<noteq> CHR ''e'' \<and> d \<noteq> CHR ''E'')"
    using ends_rest by (cases rest) (simp_all add: number_ends_def)
  have whole: "(case takeWhile is_digit (c # t @ rest) of
      [] \<Rightarrow> ([], c # t @ rest)
    | c' # _ \<Rightarrow> if c' = CHR ''0'' then ([c'], tl (c # t @ rest))
                else (takeWhile is_digit (c # t @ rest), dropWhile is_digit (c # t @ rest)))
    = (c # t, rest)"
    using zero unfolding split by simp
  from sign show ?thesis
  proof
    assume "sign = []"
    show ?thesis
      unfolding \<open>sign = []\<close> parse_number_def Let_def digits append_Cons append_Nil list.case if_not_P [OF c]
        prod.case whole
      using tail by auto
  next
    assume "sign = [CHR ''-'']"
    show ?thesis
      unfolding \<open>sign = [CHR ''-'']\<close> parse_number_def Let_def digits append_Cons append_Nil list.case if_P [OF refl]
        prod.case whole
      using tail by auto
  qed
qed

lemma digit_first:
  obtains c t where "show_nat n = c # t" and "is_digit c"
  using show_nat_digits [of _ n] by (cases "show_nat n") auto

lemma digit_code: "is_digit c \<Longrightarrow> 48 \<le> (of_char c :: nat) \<and> of_char c \<le> (57 :: nat)"
  by (simp add: is_digit_code)

definition starts_number :: "string \<Rightarrow> bool" where
  "starts_number s \<longleftrightarrow>
     (case s of [] \<Rightarrow> False
      | c # t \<Rightarrow> is_digit c \<or> c = CHR ''-'' \<and> (case t of [] \<Rightarrow> False | d # _ \<Rightarrow> is_digit d))"

lemma show_int_starts: "starts_number (show_int i @ rest)"
proof (cases "i < 0")
  case True
  obtain c t where "show_nat (nat (- i)) = c # t" and "is_digit c" by (rule digit_first)
  with True show ?thesis by (simp add: show_int_def starts_number_def)
next
  case False
  obtain c t where "show_nat (nat i) = c # t" and "is_digit c" by (rule digit_first)
  with False show ?thesis by (simp add: show_int_def starts_number_def)
qed

lemma number_value_round: "number_value fr (show_int i) False = PInt i"
proof (cases "i < 0")
  case True
  then show ?thesis by (simp add: number_value_def show_int_def)
next
  case False
  obtain c t where digits: "show_nat (nat i) = c # t" and "is_digit c" by (rule digit_first)
  then have "c \<noteq> CHR ''-''" by (auto simp: is_digit_def)
  with False digits read_show_nat [of "nat i"] show ?thesis
    by (simp add: number_value_def show_int_def)
qed

lemma parse_int:
  assumes "number_ends rest"
  shows "parse_number (show_int i @ rest) = Some (show_int i, False, rest)"
  using parse_digits [OF assms, of "[]" "nat i"] parse_digits [OF assms, of "[CHR ''-'']" "nat (- i)"]
  by (simp add: show_int_def)

lemma no_digit:
  "\<not> is_digit CHR 0x22" "\<not> is_digit CHR ''[''" "\<not> is_digit CHR ''{''" "\<not> is_digit CHR '' ''"
  "\<not> is_digit CHR 0x09" "\<not> is_digit CHR 0x0A" "\<not> is_digit CHR 0x0D" "\<not> is_digit CHR ''-''"
  "\<not> is_digit CHR ''n''" "\<not> is_digit CHR ''t''" "\<not> is_digit CHR ''f''" "\<not> is_digit CHR ''N''"
  "\<not> is_digit CHR ''I''"
  by code_simp+

lemma starts_number_other:
  assumes "starts_number s"
  shows "parse_constant s = None"
    and "\<exists>c t. s = c # t \<and> c \<noteq> CHR 0x22 \<and> c \<noteq> CHR ''['' \<and> c \<noteq> CHR ''{'' \<and> \<not> json_space c"
proof -
  from assms obtain c t where s: "s = c # t"
    and c: "is_digit c \<or> c = CHR ''-'' \<and> (\<exists>d u. t = d # u \<and> is_digit d)"
    by (auto simp: starts_number_def split: list.splits)
  show "parse_constant s = None"
  proof (cases "is_digit c")
    case True
    then have "CHR ''n'' \<noteq> c" "CHR ''t'' \<noteq> c" "CHR ''f'' \<noteq> c" "CHR ''N'' \<noteq> c" "CHR ''I'' \<noteq> c"
      "CHR ''-'' \<noteq> c" using no_digit by blast+
    then show ?thesis unfolding s by (simp add: parse_constant_def json_constants_def)
  next
    case False
    with c obtain d u where t: "c = CHR ''-''" "t = d # u" "is_digit d" by blast
    then have "CHR ''I'' \<noteq> d" using no_digit by blast
    with t show ?thesis unfolding s by (simp add: parse_constant_def json_constants_def)
  qed
  from c show "\<exists>c t. s = c # t \<and> c \<noteq> CHR 0x22 \<and> c \<noteq> CHR ''['' \<and> c \<noteq> CHR ''{'' \<and> \<not> json_space c"
    unfolding s by (auto simp: json_space_def no_digit)
qed

lemma parse_value_int:
  assumes "number_ends rest"
  shows "parse_value fr (Suc n) (show_int i @ rest) = Some (PInt i, rest)"
proof -
  note other = starts_number_other [OF show_int_starts, of i rest]
  from other(2) obtain c t where s: "show_int i @ rest = c # t"
    and c: "c \<noteq> CHR 0x22" "c \<noteq> CHR ''[''" "c \<noteq> CHR ''{''" by blast
  from other(1) parse_int [OF assms, of i] c number_value_round [of fr i] show ?thesis
    unfolding s parse_value.simps by simp
qed

section \<open>Values\<close>

lemma skip_newline [simp]: "skip_space (newline k @ s) = skip_space s"
proof -
  have "dropWhile json_space (replicate n (CHR '' '') @ s) = dropWhile json_space s" for n
    by (induction n) (simp_all add: json_space_def)
  then show ?thesis by (simp add: newline_def json_space_def)
qed

lemma number_ends_simps [simp]:
  "number_ends []" "number_ends (newline k @ s)" "number_ends (CHR '','' # s)"
  by (simp_all add: number_ends_def newline_def no_digit) code_simp

lemma json_string_first: "json_string s @ rest = CHR 0x22 # json_chars s @ CHR 0x22 # rest"
  by (simp add: json_string_def)

lemma skip_value:
  assumes "plain_value v"
  shows "skip_space (dump_value i v @ rest) = dump_value i v @ rest"
proof (cases v)
  case (PInt n)
  with starts_number_other(2) [OF show_int_starts, of n rest] show ?thesis by auto
qed (use assms in \<open>simp_all add: json_string_first json_space_def bracketed_def\<close>)

fun need :: "pyval \<Rightarrow> nat" and need_list :: "pyval list \<Rightarrow> nat"
  and need_items :: "(string \<times> pyval) list \<Rightarrow> nat" where
  "need (PList xs) = Suc (need_list xs)"
| "need (PDict d) = Suc (need_items d)"
| "need _ = 1"
| "need_list [] = 0"
| "need_list (x # xs) = Suc (max (need x) (need_list xs))"
| "need_items [] = 0"
| "need_items ((k, v) # kvs) = Suc (max (need v) (need_items kvs))"

lemma join_Cons_sep: "join sep (x # xs) = (if xs = [] then x else x @ sep @ join sep xs)"
  by (cases xs) simp_all

lemma dump_list_empty [simp]: "dump_list i xs = [] \<longleftrightarrow> xs = []" "dump_items i d = [] \<longleftrightarrow> d = []"
  by (cases xs; simp) (cases d; auto)

lemma need_length:
  "plain_value v \<Longrightarrow> need v \<le> length (dump_value i v)"
  "plain_list xs \<Longrightarrow> need_list xs \<le> length (join (CHR '','' # sep) (dump_list i xs)) + 1"
  "plain_items d \<Longrightarrow> need_items d \<le> length (join (CHR '','' # sep) (dump_items i d)) + 1"
proof (induction v and xs and d arbitrary: i sep and i sep and i sep
    rule: plain_value_plain_list_plain_items.induct)
  case (6 xs)
  then have "need_list xs \<le> length (join (CHR '','' # newline (Suc i)) (dump_list (Suc i) xs)) + 1"
    by simp
  then show ?case by (cases xs) (auto simp: bracketed_def)
next
  case (7 d)
  then have "need_items d \<le> length (join (CHR '','' # newline (Suc i)) (dump_items (Suc i) d)) + 1"
    by simp
  then show ?case by (cases d) (auto simp: bracketed_def)
next
  case (10 x xs)
  then have "need x \<le> length (dump_value i x)"
    and "need_list xs \<le> length (join (CHR '','' # sep) (dump_list i xs)) + 1" by simp_all
  then show ?case by (cases "xs = []") (simp_all add: join_Cons_sep)
next
  case (12 k v kvs)
  then have "need v \<le> length (dump_value i v)"
    and "need_items kvs \<le> length (join (CHR '','' # sep) (dump_items i kvs)) + 1" by simp_all
  then show ?case by (cases "kvs = []") (simp_all add: join_Cons_sep)
qed (simp_all add: json_string_def show_int_def Suc_le_eq)

declare parse_value.simps [simp del] parse_elements.simps [simp del] parse_members.simps [simp del]

lemma json_constant_words:
  "parse_value fr (Suc n) (''null'' @ rest) = Some (PNone, rest)"
  "parse_value fr (Suc n) (''true'' @ rest) = Some (PBool True, rest)"
  "parse_value fr (Suc n) (''false'' @ rest) = Some (PBool False, rest)"
  by (simp_all add: parse_value.simps parse_constant_def json_constants_def)

lemma parse_value_string:
  assumes "ascii s"
  shows "parse_value fr (Suc n) (json_string s @ rest) = Some (PStr s, rest)"
  using read_json_string [OF assms, of rest] by (auto simp: parse_value.simps)

lemma parse_value_open:
  assumes "skip_space s = d # s2" and "d \<noteq> CHR '']''" and "d \<noteq> CHR ''}''"
  shows "parse_value fr (Suc n) (CHR ''['' # s) =
      map_option (\<lambda>(vs, rest). (PList vs, rest)) (parse_elements fr n (skip_space s))"
    and "parse_value fr (Suc n) (CHR ''{'' # s) =
      map_option (\<lambda>(kvs, rest). (PDict (dupdate [] kvs), rest)) (parse_members fr n (skip_space s))"
  using assms by (simp_all add: parse_value.simps)

lemma parse_elements_step:
  assumes "parse_value fr n s = Some (v, s1)"
  shows "skip_space s1 = CHR '']'' # s2 \<Longrightarrow> parse_elements fr (Suc n) s = Some ([v], s2)"
    and "skip_space s1 = CHR '','' # s2 \<Longrightarrow> parse_elements fr (Suc n) s =
      map_option (\<lambda>(vs, rest). (v # vs, rest)) (parse_elements fr n (skip_space s2))"
  using assms by (simp_all add: parse_elements.simps)

lemma parse_members_step:
  assumes "ascii k" and "parse_value fr n (skip_space s) = Some (v, s1)"
  shows "skip_space s1 = CHR ''}'' # s2 \<Longrightarrow>
      parse_members fr (Suc n) (json_string k @ CHR '':'' # s) = Some ([(k, v)], s2)"
    and "skip_space s1 = CHR '','' # s2 \<Longrightarrow>
      parse_members fr (Suc n) (json_string k @ CHR '':'' # s) =
      map_option (\<lambda>(kvs, rest). ((k, v) # kvs, rest)) (parse_members fr n (skip_space s2))"
  using assms read_json_string [OF assms(1), of "CHR '':'' # s"]
  by (auto simp: parse_members.simps json_space_def)

lemma value_first:
  assumes "plain_value v"
  shows "\<exists>c t. dump_value i v @ rest = c # t \<and> c \<noteq> CHR '']'' \<and> c \<noteq> CHR ''}''"
proof (cases v)
  case (PInt n)
  have "\<exists>c t. show_int n = c # t \<and> (is_digit c \<or> c = CHR ''-'')"
    using show_int_starts [of n "[]"] by (auto simp: starts_number_def split: list.splits)
  moreover have "\<not> is_digit CHR '']''" "\<not> is_digit CHR ''}''" by code_simp+
  ultimately show ?thesis unfolding PInt dump_value.simps by fastforce
qed (use assms in \<open>simp_all add: json_string_first bracketed_def\<close>)

lemma body_first:
  assumes "xs \<noteq> []" and "plain_list xs"
  shows "\<exists>c t. join sep (dump_list i xs) @ rest = c # t \<and> c \<noteq> CHR '']'' \<and> c \<noteq> CHR ''}''"
    and "skip_space (join sep (dump_list i xs) @ rest) = join sep (dump_list i xs) @ rest"
proof -
  obtain x ys where xs: "xs = x # ys" and x: "plain_value x" using assms by (cases xs) auto
  let ?after = "(if ys = [] then rest else sep @ join sep (dump_list i ys) @ rest)"
  have body: "join sep (dump_list i xs) @ rest = dump_value i x @ ?after"
    by (simp add: xs join_Cons_sep)
  show "\<exists>c t. join sep (dump_list i xs) @ rest = c # t \<and> c \<noteq> CHR '']'' \<and> c \<noteq> CHR ''}''"
    unfolding body by (rule value_first [OF x])
  show "skip_space (join sep (dump_list i xs) @ rest) = join sep (dump_list i xs) @ rest"
    unfolding body by (rule skip_value [OF x])
qed

lemma members_first:
  assumes "d \<noteq> []"
  shows "\<exists>t. join sep (dump_items i d) @ rest = CHR 0x22 # t"
    and "skip_space (join sep (dump_items i d) @ rest) = join sep (dump_items i d) @ rest"
  using assms by (cases d; auto simp: join_Cons_sep json_string_first json_space_def)+

lemma dupdate_distinct:
  "distinct (map fst (d @ e)) \<Longrightarrow> dupdate d e = d @ e"
proof (induction e arbitrary: d)
  case (Cons kv e)
  obtain k v where kv: "kv = (k, v)" by (cases kv)
  have "k \<notin> set (map fst d)" using Cons.prems kv by auto
  then have "dset k v d = d @ [(k, v)]" by (induction d) (auto simp: dset_def)
  with Cons.IH [of "d @ [(k, v)]"] Cons.prems kv show ?case by (simp add: dupdate_def)
qed (simp add: dupdate_def)

lemma parse_dumped:
  "plain_value v \<Longrightarrow> need v \<le> n \<Longrightarrow> number_ends rest \<Longrightarrow>
     parse_value fr n (dump_value i v @ rest) = Some (v, rest)"
  "plain_list xs \<Longrightarrow> xs \<noteq> [] \<Longrightarrow> need_list xs \<le> n \<Longrightarrow>
     parse_elements fr n (join (CHR '','' # newline j) (dump_list i xs) @ newline k @ CHR '']'' # rest)
       = Some (xs, rest)"
  "plain_items d \<Longrightarrow> d \<noteq> [] \<Longrightarrow> need_items d \<le> n \<Longrightarrow>
     parse_members fr n (join (CHR '','' # newline j) (dump_items i d) @ newline k @ CHR ''}'' # rest)
       = Some (d, rest)"
proof (induction v and xs and d arbitrary: n i rest and n i j k rest and n i j k rest
    rule: plain_value_plain_list_plain_items.induct)
  case (5 s)
  then show ?case by (cases n) (simp_all add: parse_value_string)
next
  case (6 xs)
  then obtain m where n: "n = Suc m" by (cases n) simp_all
  show ?case
  proof (cases xs)
    case Nil
    then show ?thesis by (simp add: n parse_value.simps bracketed_def json_space_def)
  next
    case (Cons x ys)
    let ?body = "join (CHR '','' # newline (Suc i)) (dump_list (Suc i) xs) @ newline i @ CHR '']'' # rest"
    have "skip_space ?body = ?body" using 6 by (intro body_first) (simp_all add: Cons)
    moreover from 6 body_first(1) [of xs "CHR '','' # newline (Suc i)" "Suc i" "newline i @ CHR '']'' # rest"]
    obtain c t where "?body = c # t" "c \<noteq> CHR '']''" "c \<noteq> CHR ''}''"
      unfolding Cons by auto
    ultimately show ?thesis
      using parse_value_open(1) [of "newline (Suc i) @ ?body" c t fr m] 6 "6.IH" [of m "Suc i" "Suc i" i rest]
      by (simp add: n Cons bracketed_def)
  qed
next
  case (7 d)
  then obtain m where n: "n = Suc m" by (cases n) simp_all
  show ?case
  proof (cases d)
    case Nil
    then show ?thesis by (simp add: n parse_value.simps bracketed_def json_space_def)
  next
    case (Cons kv ys)
    let ?body = "join (CHR '','' # newline (Suc i)) (dump_items (Suc i) d) @ newline i @ CHR ''}'' # rest"
    have d: "d \<noteq> []" by (simp add: Cons)
    obtain t where t: "?body = CHR 0x22 # t" using members_first(1) [OF d] by blast
    have "skip_space ?body = ?body" by (rule members_first(2) [OF d])
    with t show ?thesis
      using parse_value_open(2) [of "newline (Suc i) @ ?body" "CHR 0x22" t fr m] 7
        "7.IH" [of m "Suc i" "Suc i" i rest] dupdate_distinct [of "[]" d]
      by (simp add: n Cons bracketed_def)
  qed
next
  case (10 x xs)
  then obtain m where n: "n = Suc m" by (cases n) simp_all
  let ?after = "(if xs = [] then newline k @ CHR '']'' # rest
    else CHR '','' # newline j @ join (CHR '','' # newline j) (dump_list i xs) @ newline k @ CHR '']'' # rest)"
  have v: "parse_value fr m (dump_value i x @ ?after) = Some (x, ?after)"
    using 10 n by (intro "10.IH"(1)) simp_all
  show ?case
  proof (cases xs)
    case Nil
    with parse_elements_step(1) [OF v, of rest] show ?thesis by (simp add: n json_space_def)
  next
    case (Cons y ys)
    have "skip_space (join (CHR '','' # newline j) (dump_list i xs) @ newline k @ CHR '']'' # rest)
        = join (CHR '','' # newline j) (dump_list i xs) @ newline k @ CHR '']'' # rest"
      using 10 by (intro body_first) (simp_all add: Cons)
    with parse_elements_step(2) [OF v] 10 n Cons "10.IH"(2) [of m i j k rest] show ?thesis
      by (simp add: join_Cons_sep json_space_def)
  qed
next
  case (12 key v kvs)
  then obtain m where n: "n = Suc m" by (cases n) simp_all
  let ?after = "(if kvs = [] then newline k @ CHR ''}'' # rest
    else CHR '','' # newline j @ join (CHR '','' # newline j) (dump_items i kvs) @ newline k @ CHR ''}'' # rest)"
  have "parse_value fr m (dump_value i v @ ?after) = Some (v, ?after)"
    using 12 n by (intro "12.IH"(1)) simp_all
  then have v: "parse_value fr m (skip_space (CHR '' '' # dump_value i v @ ?after)) = Some (v, ?after)"
    using 12 skip_value [of v i] by (simp add: json_space_def)
  have key: "ascii key" using 12 by simp
  show ?case
  proof (cases kvs)
    case Nil
    with parse_members_step(1) [OF key v, of rest] show ?thesis by (simp add: n json_space_def)
  next
    case (Cons y ys)
    have "skip_space (join (CHR '','' # newline j) (dump_items i kvs) @ newline k @ CHR ''}'' # rest)
        = join (CHR '','' # newline j) (dump_items i kvs) @ newline k @ CHR ''}'' # rest"
      by (rule members_first) (simp add: Cons)
    with parse_members_step(2) [OF key v] 12 n Cons "12.IH"(2) [of m i j k rest] show ?thesis
      by (simp add: join_Cons_sep json_space_def)
  qed
qed (auto simp: Suc_le_eq gr0_conv_Suc json_constant_words [simplified] parse_value_int)

text \<open>\<open>e\<close> is what the writer adds: nothing in a file, the newline of \<^verbatim>\<open>print\<close>.\<close>

lemma read_dumped:
  assumes "plain_value v" and ends: "number_ends e" and blank: "skip_space e = []"
  shows "\<exists>t. json_dumps v = Some t \<and> json_loads fr (t @ e) = Some (sort_keys v)"
proof -
  let ?t = "dump_value 0 (sort_keys v)"
  have plain: "plain_value (sort_keys v)" using assms(1) by (rule sort_keys_plain)
  have "need (sort_keys v) \<le> 2 * length (?t @ e) + 2"
    using need_length(1) [OF plain, of 0] by simp
  then have "parse_value fr (2 * length (?t @ e) + 2) (?t @ e) = Some (sort_keys v, e)"
    using parse_dumped(1) [OF plain] ends by blast
  then have "json_loads fr (?t @ e) = Some (sort_keys v)"
    unfolding json_loads_def skip_value [OF plain] using blank by simp
  with plain_is_json(1) [OF assms(1)] show ?thesis by (simp add: json_dumps_def)
qed

lemma read_printed:
  assumes "plain_value v"
  shows "\<exists>t. json_dumps v = Some t \<and> json_loads fr (t @ [CHR 0x0A]) = Some (sort_keys v)"
  using assms by (rule read_dumped) (code_simp, simp add: json_space_def)

section \<open>Dictionaries with sorted keys\<close>

lemma sort_keys_items_map: "sort_keys_items d = map (\<lambda>(k, v). (k, sort_keys v)) d"
  by (induction d) auto

lemma sort_keys_list_map: "sort_keys_list xs = map sort_keys xs"
  by (induction xs) auto

lemma map_of_sort_key:
  assumes "distinct (map fst d)"
  shows "map_of (sort_key fst d) = map_of d"
proof -
  have "distinct (map fst (sort_key fst d))"
    using assms by (simp add: distinct_map)
  with assms show ?thesis by (intro map_of_inject_set [THEN iffD2]) simp_all
qed

lemma sorted_get:
  assumes "distinct (map fst d)"
  shows "dget (sort_key fst (sort_keys_items d)) k = map_option sort_keys (dget d k)"
proof -
  have "dget (sort_key fst (sort_keys_items d)) = dget (sort_keys_items d)"
    using assms by (intro map_of_sort_key) simp
  then show ?thesis by (simp add: sort_keys_items_map map_of_map)
qed

lemma sort_key_Nil: "sort_key f xs = [] \<longleftrightarrow> xs = []"
  by (metis length_0_conv length_sort)



end
