(* ===== verification/EventLog.thy ===== *)
theory EventLog
  imports Prelude
begin

text \<open>
  Specifications of what a computation appends to the log: \<open>sends m Q E\<close> says that \<open>m\<close> returns from
  every world, that it keeps the log it found, and that the events it appends satisfy \<open>Q\<close> with its
  value or \<open>E\<close> with the exception it raises.
\<close>

definition sends ::
  "(('v, 'x) world, 'e, 'a) io \<Rightarrow> ('a \<Rightarrow> 'v list \<Rightarrow> bool) \<Rightarrow> ('e \<Rightarrow> 'v list \<Rightarrow> bool) \<Rightarrow> bool" where
  "sends m Q E \<longleftrightarrow>
     (\<forall>w. \<exists>r w1 tr. m w = Some (r, w1) \<and> trace w1 = trace w @ tr \<and>
        (case r of Inr a \<Rightarrow> Q a tr | Inl e \<Rightarrow> E e tr))"

named_theorems sends_intros \<open>rules for what a computation appends to the log\<close>

lemma sends_wp:
  "sends m Q E \<longleftrightarrow> (\<forall>w. wp m (\<lambda>a w1. \<exists>tr. trace w1 = trace w @ tr \<and> Q a tr)
     (\<lambda>e w1. \<exists>tr. trace w1 = trace w @ tr \<and> E e tr) w)"
proof -
  have "(\<exists>r w1 tr. m w = Some (r, w1) \<and> trace w1 = trace w @ tr \<and>
        (case r of Inr a \<Rightarrow> Q a tr | Inl e \<Rightarrow> E e tr)) \<longleftrightarrow>
     wp m (\<lambda>a w1. \<exists>tr. trace w1 = trace w @ tr \<and> Q a tr)
       (\<lambda>e w1. \<exists>tr. trace w1 = trace w @ tr \<and> E e tr) w" for w
    unfolding wp_def by (auto split: option.splits sum.splits prod.splits)
  then show ?thesis by (simp add: sends_def)
qed

lemma sends_mono:
  assumes "sends m Q E" and "\<And>a tr. Q a tr \<Longrightarrow> Q' a tr" and "\<And>e tr. E e tr \<Longrightarrow> E' e tr"
  shows "sends m Q' E'"
  using assms(1) unfolding sends_wp by (blast intro: wp_mono assms(2,3))

lemma sends_conj:
  assumes "sends m Q E" and "sends m Q' E'"
  shows "sends m (\<lambda>a tr. Q a tr \<and> Q' a tr) (\<lambda>e tr. E e tr \<and> E' e tr)"
  unfolding sends_wp
proof
  fix w
  show "wp m (\<lambda>a w1. \<exists>tr. trace w1 = trace w @ tr \<and> Q a tr \<and> Q' a tr)
      (\<lambda>e w1. \<exists>tr. trace w1 = trace w @ tr \<and> E e tr \<and> E' e tr) w"
    using wp_conj [OF assms(1) [unfolded sends_wp, rule_format] assms(2) [unfolded sends_wp, rule_format]]
    by (rule wp_mono) auto
qed

lemma sends_after:
  assumes "sends m (\<lambda>a t2. Q a (t1 @ t2)) (\<lambda>e t2. E e (t1 @ t2))" and "trace w1 = trace w @ t1"
  shows "wp m (\<lambda>a w2. \<exists>tr. trace w2 = trace w @ tr \<and> Q a tr) (\<lambda>e w2. \<exists>tr. trace w2 = trace w @ tr \<and> E e tr) w1"
  using assms(1) [unfolded sends_wp, rule_format, of w1]
  by (rule wp_mono) (use assms(2) in \<open>force+\<close>)

lemma sends_ret [sends_intros]: "Q a [] \<Longrightarrow> sends (ret a) Q E"
  by (simp add: sends_wp wp_simps)

lemma sends_raise [sends_intros]: "E e [] \<Longrightarrow> sends (raise_exn e) Q E"
  by (simp add: sends_wp wp_simps)

lemma sends_lift_sum [sends_intros]:
  "(\<And>a. r = Inr a \<Longrightarrow> Q a []) \<Longrightarrow> (\<And>e. r = Inl e \<Longrightarrow> E e []) \<Longrightarrow> sends (lift_sum r) Q E"
  by (auto simp: sends_wp wp_simps split: sum.split)

lemma sends_bind:
  assumes "sends m (\<lambda>a t1. sends (f a) (\<lambda>b t2. Q b (t1 @ t2)) (\<lambda>e t2. E e (t1 @ t2))) E"
  shows "sends (bind m f) Q E"
  unfolding sends_wp wp_bind
proof
  fix w
  show "wp m (\<lambda>a. wp (f a) (\<lambda>a w1. \<exists>tr. trace w1 = trace w @ tr \<and> Q a tr)
      (\<lambda>e w1. \<exists>tr. trace w1 = trace w @ tr \<and> E e tr)) (\<lambda>e w1. \<exists>tr. trace w1 = trace w @ tr \<and> E e tr) w"
    using assms [unfolded sends_wp [of m], rule_format, of w] by (rule wp_mono) (auto intro: sends_after)
qed

lemma sends_andthen:
  "sends m (\<lambda>_ t1. sends n (\<lambda>b t2. Q b (t1 @ t2)) (\<lambda>e t2. E e (t1 @ t2))) E \<Longrightarrow> sends (andthen m n) Q E"
  unfolding andthen_def by (rule sends_bind)

lemma sends_try_except:
  assumes "sends m Q (\<lambda>e t1. sends (h e) (\<lambda>b t2. Q b (t1 @ t2)) (\<lambda>e t2. E e (t1 @ t2)))"
  shows "sends (try_except m h) Q E"
  unfolding sends_wp wp_try_except
proof
  fix w
  show "wp m (\<lambda>a w1. \<exists>tr. trace w1 = trace w @ tr \<and> Q a tr)
      (\<lambda>e. wp (h e) (\<lambda>a w1. \<exists>tr. trace w1 = trace w @ tr \<and> Q a tr)
         (\<lambda>e w1. \<exists>tr. trace w1 = trace w @ tr \<and> E e tr)) w"
    using assms [unfolded sends_wp [of m], rule_format, of w] by (rule wp_mono) (auto intro: sends_after)
qed

lemma sends_try_finally:
  assumes "sends m (\<lambda>a t1. sends n (\<lambda>_ t2. Q a (t1 @ t2)) (\<lambda>e t2. E e (t1 @ t2)))
      (\<lambda>e t1. sends n (\<lambda>_ t2. E e (t1 @ t2)) (\<lambda>e t2. E e (t1 @ t2)))"
  shows "sends (try_finally m n) Q E"
  unfolding sends_wp wp_try_finally
proof
  fix w
  show "wp m (\<lambda>a. wp n (\<lambda>_ w1. \<exists>tr. trace w1 = trace w @ tr \<and> Q a tr)
         (\<lambda>e w1. \<exists>tr. trace w1 = trace w @ tr \<and> E e tr))
      (\<lambda>e. wp n (\<lambda>_ w1. \<exists>tr. trace w1 = trace w @ tr \<and> E e tr)
         (\<lambda>e w1. \<exists>tr. trace w1 = trace w @ tr \<and> E e tr)) w"
    using assms [unfolded sends_wp [of m], rule_format, of w] by (rule wp_mono) (auto intro: sends_after)
qed

lemmas sends_seq = sends_bind sends_andthen sends_try_except sends_try_finally

lemma sends_now [sends_intros]: "(\<And>t. Q t []) \<Longrightarrow> sends now Q E"
  by (simp add: sends_wp wp_simps)

lemma sends_emit [sends_intros]: "Q () [e] \<Longrightarrow> sends (emit e) Q E"
  by (simp add: sends_wp wp_simps)

lemma sends_outside_call [sends_intros]:
  assumes "\<And>x a. fst (f x) = Inr a \<Longrightarrow> Q a [e]" and "\<And>x err. fst (f x) = Inl err \<Longrightarrow> E err [e]"
  shows "sends (outside_call e f) Q E"
  unfolding sends_wp wp_outside_call Let_def
  using assms by (auto split: prod.split sum.split) (metis fst_conv)+

lemma sends_if [sends_intros]:
  "(b \<Longrightarrow> sends m Q E) \<Longrightarrow> (\<not> b \<Longrightarrow> sends n Q E) \<Longrightarrow> sends (if b then m else n) Q E"
  by simp

lemma sends_fold:
  fixes f :: "'i \<Rightarrow> 's \<Rightarrow> (('a, 'b) world, 'e, 's) io"
  assumes step: "\<And>done x rest s tr. xs = done @ x # rest \<Longrightarrow> I done s tr \<Longrightarrow>
      sends (f x s) (\<lambda>s1 t2. I (done @ [x]) s1 (tr @ t2)) (\<lambda>e t2. E e (tr @ t2))"
    and init: "I [] s []" and post: "\<And>s tr. I xs s tr \<Longrightarrow> Q s tr"
  shows "sends (fold_io f xs s) Q E"
  unfolding sends_wp
proof
  fix w :: "('a, 'b) world"
  show "wp (fold_io f xs s) (\<lambda>a w1. \<exists>tr. trace w1 = trace w @ tr \<and> Q a tr)
      (\<lambda>e w1. \<exists>tr. trace w1 = trace w @ tr \<and> E e tr) w"
  proof (rule wp_fold_io [where xs = xs and I = "\<lambda>done _ s w1. \<exists>tr. trace w1 = trace w @ tr \<and> I done s tr", THEN wp_mono])
    fix "done" rest x s1 and w1 :: "('a, 'b) world"
    assume "xs = done @ x # rest" and "\<exists>tr. trace w1 = trace w @ tr \<and> I done s1 tr"
    with step show "wp (f x s1) (\<lambda>s w1. \<exists>tr. trace w1 = trace w @ tr \<and> I (done @ [x]) s tr)
        (\<lambda>e w1. \<exists>tr. trace w1 = trace w @ tr \<and> E e tr) w1"
      by (blast intro: sends_after)
  qed (use init post in auto)
qed

lemma sends_steps:
  fixes m :: "(('a, 'b) world, 'e, 'i) io"
  assumes "steps (logs A) P m"
  shows "sends m (\<lambda>_ tr. set tr \<subseteq> A) (\<lambda>e tr. P e \<and> set tr \<subseteq> A)"
  unfolding sends_wp
proof
  fix w :: "('a, 'b) world"
  have "wp m (\<lambda>_. logs A w) (\<lambda>e w1. P e \<and> logs A w w1) w" using assms by (simp add: steps_def)
  then show "wp m (\<lambda>_ w1. \<exists>tr. trace w1 = trace w @ tr \<and> set tr \<subseteq> A)
      (\<lambda>e w1. \<exists>tr. trace w1 = trace w @ tr \<and> P e \<and> set tr \<subseteq> A) w"
    by (rule wp_mono) (auto simp: logs_def)
qed

text \<open>Polling until a deadline, with a positive pause that is logged as \<open>ev\<close>.\<close>

lemma sends_poll:
  fixes body :: "'s \<Rightarrow> (('a, 'b) world, 'e, 's + 'r) io"
  assumes p: "0 < p" and init: "I s []"
    and forward: "\<And>s. steps (logs UNIV) (\<lambda>_. True) (body s)"
    and step: "\<And>s tr. I s tr \<Longrightarrow> sends (body s)
      (\<lambda>res t2. case res of Inr r \<Rightarrow> Q (Inr r) (tr @ t2) | Inl s1 \<Rightarrow> I s1 (tr @ t2 @ [ev]))
      (\<lambda>e t2. E e (tr @ t2))"
    and stop: "\<And>s tr. I s tr \<Longrightarrow> Q (Inl s) tr"
  shows "sends (poll clock dl (py_sleep ev err p) body s) Q E"
  unfolding sends_wp
proof
  fix w0 :: "('a, 'b) world"
  let ?Q = "\<lambda>r w1. \<exists>tr. trace w1 = trace w0 @ tr \<and> Q r tr"
  let ?E = "\<lambda>e w1. \<exists>tr. trace w1 = trace w0 @ tr \<and> E e tr"
  let ?I = "\<lambda>s w1. \<exists>tr. trace w1 = trace w0 @ tr \<and> I s tr"
  show "wp (poll clock dl (py_sleep ev err p) body s) ?Q ?E w0"
  proof (rule sleeping.wp_poll [where I = ?I])
    fix s and w :: "('a, 'b) world"
    assume "?I s w"
    then obtain tr where tr: "trace w = trace w0 @ tr" "I s tr" by blast
    have "wp (body s) (\<lambda>_. logs UNIV w) (\<lambda>_ _. True) w"
      using forward [of s, unfolded steps_def, rule_format, of w] by (rule wp_mono) simp_all
    from wp_conj [OF this step [OF tr(2), unfolded sends_wp, rule_format, of w]]
    show "wp (body s) (\<lambda>res w1. clock w \<le> clock w1 \<and> (case res of Inr r \<Rightarrow> ?Q (Inr r) w1
        | Inl s1 \<Rightarrow> wp (py_sleep ev err p) (\<lambda>_. ?I s1) ?E w1)) ?E w"
      by (rule wp_mono) (use p tr(1) in \<open>auto simp: wp_py_sleep dest: logs_clock split: sum.splits\<close>)
  qed (use p init stop in auto)
qed

lemma sends_map_io:
  assumes "\<And>x. sends (f x) (\<lambda>_ tr. tr = g x) (\<lambda>_ tr. tr = g x)"
  shows "sends (map_io f xs) (\<lambda>ys tr. length ys = length xs \<and> tr = concat (map g xs))
     (\<lambda>_ tr. prefix tr (concat (map g xs)))"
proof (induction xs)
  case (Cons x xs)
  have tail: "sends (bind (map_io f xs) (\<lambda>ys. ret (y # ys)))
      (\<lambda>ys tr. length ys = length (x # xs) \<and> g x @ tr = concat (map g (x # xs)))
      (\<lambda>_ tr. prefix (g x @ tr) (concat (map g (x # xs))))" for y
    by (rule sends_bind, rule sends_mono [OF Cons.IH], rule sends_ret) simp_all
  show ?case
    unfolding map_io.simps
    by (rule sends_bind, rule sends_mono [OF assms], simp add: tail [simplified]) simp
qed (simp add: sends_ret)

text \<open>The same with the rounds counted: at most the timeout over the pause, rounded up.\<close>

lemma sends_poll_within:
  fixes body :: "'s \<Rightarrow> (('a, 'b) world, 'e, 's + 'r) io" and T p :: real
  defines "N \<equiv> nat \<lceil>T / p\<rceil>"
  assumes p: "0 < p" and init: "I 0 s []"
    and forward: "\<And>s. steps (logs UNIV) (\<lambda>_. True) (body s)"
    and step: "\<And>n s tr. I n s tr \<Longrightarrow> n < N \<Longrightarrow> sends (body s)
      (\<lambda>res t2. case res of Inr r \<Rightarrow> Q (Inr r) (tr @ t2) | Inl s1 \<Rightarrow> I (Suc n) s1 (tr @ t2 @ [ev]))
      (\<lambda>e t2. E e (tr @ t2))"
    and stop: "\<And>n s tr. I n s tr \<Longrightarrow> n \<le> N \<Longrightarrow> Q (Inl s) tr"
  shows "sends (bind now (\<lambda>start. poll clock (start + T) (py_sleep ev err p) body s)) Q E"
  unfolding sends_wp wp_bind wp_now
proof
  fix w0 :: "('a, 'b) world"
  let ?Q = "\<lambda>r w1. \<exists>tr. trace w1 = trace w0 @ tr \<and> Q r tr"
  let ?E = "\<lambda>e w1. \<exists>tr. trace w1 = trace w0 @ tr \<and> E e tr"
  let ?I = "\<lambda>n s w1. \<exists>tr. trace w1 = trace w0 @ tr \<and> I n s tr"
  have N: "nat \<lceil>(clock w0 + T - clock w0) / p\<rceil> = N" by (simp add: N_def)
  show "wp (poll clock (clock w0 + T) (py_sleep ev err p) body s) ?Q ?E w0"
  proof (rule sleeping.wp_poll_counted [where I = ?I and ?t0.0 = "clock w0"], unfold N)
    fix n s and w :: "('a, 'b) world"
    assume "?I n s w" and "n < N"
    then obtain tr where tr: "trace w = trace w0 @ tr" "I n s tr" by blast
    have "wp (body s) (\<lambda>_. logs UNIV w) (\<lambda>_ _. True) w"
      using forward [of s, unfolded steps_def, rule_format, of w] by (rule wp_mono) simp_all
    from wp_conj [OF this step [OF tr(2) \<open>n < N\<close>, unfolded sends_wp, rule_format, of w]]
    show "wp (body s) (\<lambda>res w1. clock w \<le> clock w1 \<and> (case res of Inr r \<Rightarrow> ?Q (Inr r) w1
        | Inl s1 \<Rightarrow> wp (py_sleep ev err p) (\<lambda>_. ?I (Suc n) s1) ?E w1)) ?E w"
      by (rule wp_mono) (use p tr(1) in \<open>auto simp: wp_py_sleep dest: logs_clock split: sum.splits\<close>)
  qed (use p init stop in auto)
qed

end
