(* ===== verification/TroveWorld.thy ===== *)
theory TroveWorld
  imports PyValue EventLog
begin

text \<open>
  What the MongoDB strategies of \<^verbatim>\<open>scripts/openstack/trove-mongodb/controller\<close> share: the exceptions, the
  records of instances and clusters, the log of the calls to Trove, to the guests and to the task
  manager, and the guest RPC table of \<^verbatim>\<open>guestagent.py\<close>.  Trove itself (its database, its quota and
  flavor checks, the messages to guests) is outside the program: every call is an event of the log
  whose answer the unknown outside gives.
\<close>

section \<open>Exceptions\<close>

text \<open>
  The exceptions that the strategies raise, those of the outside (class and text), and the timer of
  eventlet, which is no \<^verbatim>\<open>Exception\<close>; its flag says whether it is the timer the handler set.
\<close>

datatype trove_error =
    TroveError string
  | NumInstancesNotSupported nat
  | FlavorsNotEqual
  | VolumeSizesNotEqual
  | ShrinkInstanceInUse "string list" string
  | NotFound string
  | RuntimeFailure string
  | TimeoutExpired bool
  | OtherFailure string string

fun is_exception :: "trove_error \<Rightarrow> bool" where
  "is_exception (TimeoutExpired _) = False"
| "is_exception _ = True"

section \<open>Data\<close>

datatype task_status =
    NO_TASK
  | BUILDING_INITIAL
  | GROWING_CLUSTER
  | SHRINKING_CLUSTER

datatype failure_status =
    BUILDING_ERROR_SERVER
  | GROWING_ERROR
  | SHRINKING_ERROR

text \<open>A database record of an instance; \<open>[]\<close> stands for the absent shard of other roles.\<close>

record db_instance =
  i_id :: string
  i_type :: string
  i_shard_id :: string
  i_flavor_id :: pyval
  i_volume_size :: pyval

text \<open>The arguments of \<^verbatim>\<open>Instance.create\<close> that vary.\<close>

record instance_request =
  q_name :: pyval
  q_flavor :: pyval
  q_image :: pyval
  q_volume_size :: pyval
  q_availability_zone :: pyval
  q_nics :: pyval
  q_configuration :: pyval
  q_cluster_config :: pydict
  q_volume_type :: pyval
  q_modules :: pyval
  q_locality :: pyval
  q_region :: pyval

section \<open>The calls\<close>

datatype guest_method =
    InitializeReplicaSet "string list"
  | PrepPrimary
  | AddMembers "string list"
  | AddReplicaMembers "string list"
  | RemoveReplicaMembers "string list"
  | ReplicaSetStatus
  | AddConfigServers "string list"
  | AddShard string string
  | RemoveShard string
  | IsShardActive string
  | GetReplicaSetName
  | GetKey
  | ClusterComplete

datatype trove_event =
    ValidateAvailable
  | ValidateFlavors "pydict list"
  | AssertHomogeneous "pydict list"
  | ValidateNics "pydict list"
  | RequiredVolumeSize "pydict list"
  | CheckQuotas nat int
  | FindConfiguration string
  | ConfigurationNeedsRestart string
  | CreateClusterRow string pyval
  | GenerateUuid
  | LocalityHint
  | CreateInstance instance_request
  | SetTask task_status
  | CastCreate string
  | CastGrow string "string list"
  | FindInstances
  | LoadInstance string
  | VisibleAddresses string
  | Guest string guest_method
  | Detach string
  | DeleteInstance string
  | AllReady "string list"
  | ResetTask
  | StatusesOnFailure failure_status
  | RollingUpdate string bool
  | RollingRemove
  | RollingRestart
  | Notified
  | Slept
  | TimerPoint
  | FindShard string
  | DelayedRestart nat
  | UpgradeTo pyval
  | CastAddShard string string string

text \<open>
  The outside: calls for their effect, calls that give a text, a number, a value, a boolean, the
  records of the cluster's instances or one of them.
\<close>

record 'x trove =
  perform :: "trove_event \<Rightarrow> ('x, trove_error + unit) outside"
  give_text :: "trove_event \<Rightarrow> ('x, trove_error + string) outside"
  give_number :: "trove_event \<Rightarrow> ('x, trove_error + int) outside"
  give_value :: "trove_event \<Rightarrow> ('x, trove_error + pyval) outside"
  give_bool :: "trove_event \<Rightarrow> ('x, trove_error + bool) outside"
  give_instances :: "trove_event \<Rightarrow> ('x, trove_error + db_instance list) outside"
  give_instance :: "trove_event \<Rightarrow> ('x, trove_error + db_instance) outside"

type_synonym 'x tworld = "(trove_event, 'x) world"
type_synonym ('x, 'a) tio = "('x tworld, trove_error, 'a) io"

definition do_call :: "'x trove \<Rightarrow> trove_event \<Rightarrow> ('x, unit) tio" where
  "do_call t e = outside_call e (perform t e)"

definition ask_text :: "'x trove \<Rightarrow> trove_event \<Rightarrow> ('x, string) tio" where
  "ask_text t e = outside_call e (give_text t e)"

definition ask_number :: "'x trove \<Rightarrow> trove_event \<Rightarrow> ('x, int) tio" where
  "ask_number t e = outside_call e (give_number t e)"

definition ask_value :: "'x trove \<Rightarrow> trove_event \<Rightarrow> ('x, pyval) tio" where
  "ask_value t e = outside_call e (give_value t e)"

definition ask_bool :: "'x trove \<Rightarrow> trove_event \<Rightarrow> ('x, bool) tio" where
  "ask_bool t e = outside_call e (give_bool t e)"

definition ask_instances :: "'x trove \<Rightarrow> trove_event \<Rightarrow> ('x, db_instance list) tio" where
  "ask_instances t e = outside_call e (give_instances t e)"

definition ask_instance :: "'x trove \<Rightarrow> trove_event \<Rightarrow> ('x, db_instance) tio" where
  "ask_instance t e = outside_call e (give_instance t e)"

lemmas call_defs = do_call_def ask_text_def ask_number_def ask_value_def ask_bool_def ask_instances_def
  ask_instance_def

lemma steps_calls [steps_intros]:
  assumes "e \<in> A"
  shows "steps (logs A) (\<lambda>_. True) (do_call t e)" "steps (logs A) (\<lambda>_. True) (ask_text t e)"
    "steps (logs A) (\<lambda>_. True) (ask_number t e)" "steps (logs A) (\<lambda>_. True) (ask_value t e)"
    "steps (logs A) (\<lambda>_. True) (ask_bool t e)" "steps (logs A) (\<lambda>_. True) (ask_instances t e)"
    "steps (logs A) (\<lambda>_. True) (ask_instance t e)"
  using assms unfolding call_defs by (auto intro!: steps_outside_call)

definition nap :: "('x, unit) tio" where
  "nap = py_sleep Slept (OtherFailure ''ValueError'' ''sleep length must be non-negative'') 2"

lemma steps_nap [steps_intros]: "Slept \<in> A \<Longrightarrow> steps (logs A) P nap"
  unfolding nap_def by (rule steps_py_sleep) simp_all

lemma sends_calls [sends_intros]:
  assumes "\<And>x. E x [e]"
  shows "Q () [e] \<Longrightarrow> sends (do_call t e) Q E" "(\<And>s. Q2 s [e]) \<Longrightarrow> sends (ask_text t e) Q2 E"
    "(\<And>v. Q3 v [e]) \<Longrightarrow> sends (ask_value t e) Q3 E" "(\<And>i. Q4 i [e]) \<Longrightarrow> sends (ask_number t e) Q4 E"
    "(\<And>b. Q5 b [e]) \<Longrightarrow> sends (ask_bool t e) Q5 E"
    "(\<And>i. Q6 i [e]) \<Longrightarrow> sends (ask_instance t e) Q6 E"
  using assms unfolding call_defs by (auto intro!: sends_outside_call)

lemma sends_ask_instances:
  assumes "\<And>x. E x [e]" and "\<And>xs x. fst (give_instances t e x) = Inr xs \<Longrightarrow> Q xs [e]"
  shows "sends (ask_instances t e) Q E"
  using assms unfolding call_defs by (auto intro!: sends_outside_call)

lemma steps_nap_poll:
  assumes "Slept \<in> A" and "\<And>s. steps (logs A) P (body s)"
  shows "steps (logs A) P (poll clock dl nap body s)"
  unfolding nap_def
proof (rule sleeping.steps_poll)
  show "steps (logs A) P (py_sleep Slept (OtherFailure ''ValueError'' ''sleep length must be non-negative'') 2)"
    using assms(1) by (intro steps_py_sleep) simp_all
qed (use assms(2) in \<open>auto intro: preorder_logs logs_clock\<close>)

section \<open>The configuration\<close>

text \<open>
  The datastore options that are read.  The three defaults of numbers are values of the option file
  or those of \<^verbatim>\<open>getattr\<close>; \<open>int_of_float\<close> is \<^verbatim>\<open>int\<close> of a float, given by its \<^verbatim>\<open>repr\<close>.
\<close>

record trove_conf =
  cluster_secure :: bool
  num_config_servers :: pyval
  num_query_routers :: pyval
  config_volume :: pyval
  router_volume :: pyval
  add_members_timeout :: real
  mongodb_port :: int
  agent_high_timeout :: real
  agent_low_timeout :: real
  int_of_float :: "string \<Rightarrow> trove_error + int"

definition MIN_REPLICA_SET_MEMBERS :: nat where "MIN_REPLICA_SET_MEMBERS = 2"
definition REPLICA_SET_NAME :: string where "REPLICA_SET_NAME = ''rs0''"
definition CONFIG_SERVER_REPLICA_SET_NAME :: string where
  "CONFIG_SERVER_REPLICA_SET_NAME = ''configRS''"
definition MIN_CONFIG_SERVER_MEMBERS :: int where "MIN_CONFIG_SERVER_MEMBERS = 2"
definition MIN_QUERY_ROUTERS :: int where "MIN_QUERY_ROUTERS = 1"
definition SHARDED_TOPOLOGY :: string where "SHARDED_TOPOLOGY = ''sharded''"

section \<open>The guest RPC table\<close>

definition topology_timeout :: "trove_conf \<Rightarrow> real" where
  "topology_timeout c = max (agent_high_timeout c) (add_members_timeout c + 60)"

text \<open>The method name and the time limit of a call.\<close>

fun rpc_of :: "trove_conf \<Rightarrow> guest_method \<Rightarrow> string \<times> real" where
  "rpc_of c (InitializeReplicaSet _) = (''initialize_replica_set'', topology_timeout c)"
| "rpc_of c PrepPrimary = (''prep_primary'', topology_timeout c)"
| "rpc_of c (AddMembers _) = (''add_members'', topology_timeout c)"
| "rpc_of c (AddReplicaMembers _) = (''add_replica_members'', topology_timeout c)"
| "rpc_of c (RemoveReplicaMembers _) = (''remove_replica_members'', topology_timeout c)"
| "rpc_of c ReplicaSetStatus = (''replica_set_status'', agent_low_timeout c)"
| "rpc_of c (AddConfigServers _) = (''add_config_servers'', topology_timeout c)"
| "rpc_of c (AddShard _ _) = (''add_shard'', topology_timeout c)"
| "rpc_of c (RemoveShard _) = (''remove_shard'', topology_timeout c)"
| "rpc_of c (IsShardActive _) = (''is_shard_active'', agent_low_timeout c)"
| "rpc_of c GetKey = (''get_key'', agent_low_timeout c)"
| "rpc_of c GetReplicaSetName = (''get_replica_set_name'', agent_low_timeout c)"
| "rpc_of c ClusterComplete = (''cluster_complete'', topology_timeout c)"

section \<open>Answers of guests\<close>

text \<open>\<^verbatim>\<open>value in (None, 1)\<close>: \<^verbatim>\<open>True\<close> and \<^verbatim>\<open>1.0\<close> are equal to 1.\<close>

definition none_or_one :: "pyval \<Rightarrow> bool" where
  "none_or_one v \<longleftrightarrow> v = PNone \<or> v = PInt 1 \<or> v = PBool True \<or> v = PFloat ''1.0''"

definition answer_field :: "pyval \<Rightarrow> string \<Rightarrow> pyval option" where
  "answer_field answer k = (case answer of PDict d \<Rightarrow> Some (vget d k) | _ \<Rightarrow> None)"

definition refused :: "pyval \<Rightarrow> bool" where
  "refused answer = (case answer_field answer ''ok'' of None \<Rightarrow> False | Some v \<Rightarrow> \<not> none_or_one v)"

definition draining_done :: "pyval \<Rightarrow> bool" where
  "draining_done answer \<longleftrightarrow> answer_field answer ''state'' = Some (PStr ''completed'')"

definition stepped_down :: "pyval \<Rightarrow> bool" where
  "stepped_down answer = (case answer_field answer ''stepped_down'' of None \<Rightarrow> False | Some v \<Rightarrow> truthy v)"

text \<open>The first visible address with the port of MongoDB, as \<^verbatim>\<open>host:port\<close>.\<close>

definition address_text :: "trove_conf \<Rightarrow> pyval \<Rightarrow> string option" where
  "address_text c addresses =
     (case addresses of
        PList (PDict a # _) \<Rightarrow> Some (py_str (vget a ''address'') @ '':'' @ show_int (mongodb_port c))
      | _ \<Rightarrow> None)"

end
