(* ===== verification/TroveTopology.thy ===== *)
theory TroveTopology
  imports TroveWorld
begin

text \<open>
  The API strategy of \<^verbatim>\<open>trove-mongodb/controller/api.py\<close>: creating, growing and shrinking replica sets
  and sharded clusters, the grouping of new members into shards, and configuration changes.  Node
  descriptions are the dictionaries of the request.
\<close>

section \<open>The cluster object\<close>

text \<open>\<open>k_db_instances\<close> is the list of the instances' records that the object has loaded.\<close>

record cluster =
  k_id :: string
  k_name :: string
  k_db_instances :: "db_instance list"
  k_configuration_id :: pyval
  k_image_id :: pyval

definition lookup_type :: "db_instance list \<Rightarrow> string \<Rightarrow> db_instance list" where
  "lookup_type xs role = filter (\<lambda>i. i_type i = role) xs"

definition is_sharded :: "db_instance list \<Rightarrow> bool" where
  "is_sharded xs = list_ex (\<lambda>i. i_type i = ''config_server'' \<or> i_type i = ''query_router'') xs"

section \<open>Extended properties\<close>

definition topology_of :: "pydict \<Rightarrow> trove_error + string" where
  "topology_of ep =
     (let t = map (\<lambda>c. if c = CHR ''-'' then CHR ''_'' else c)
                (lower (py_str (vget_or ep ''topology'' (PStr ''replica_set''))))
      in if t = ''replica_set'' \<or> t = SHARDED_TOPOLOGY then Inr t
         else Inl (TroveError ''MongoDB topology must be replica_set or sharded''))"

text \<open>\<^verbatim>\<open>int(value)\<close>: \<open>Inr None\<close> is a \<^verbatim>\<open>TypeError\<close> or a \<^verbatim>\<open>ValueError\<close>, \<open>Inl\<close> any other exception.\<close>

definition py_int :: "trove_conf \<Rightarrow> pyval \<Rightarrow> trove_error + int option" where
  "py_int c v =
     (case v of
        PInt i \<Rightarrow> Inr (Some i)
      | PBool b \<Rightarrow> Inr (Some (if b then 1 else 0))
      | PStr s \<Rightarrow> Inr (read_int s)
      | PBytes s \<Rightarrow> Inr (read_int s)
      | PFloat x \<Rightarrow>
          (case int_of_float c x of
             Inr i \<Rightarrow> Inr (Some i)
           | Inl (OtherFailure cl m) \<Rightarrow>
               if cl = ''ValueError'' \<or> cl = ''TypeError'' then Inr None else Inl (OtherFailure cl m)
           | Inl e \<Rightarrow> Inl e)
      | _ \<Rightarrow> Inr None)"

definition integer_property ::
  "trove_conf \<Rightarrow> pydict \<Rightarrow> string \<Rightarrow> pyval \<Rightarrow> int \<Rightarrow> trove_error + int" where
  "integer_property c properties name fallback minimum =
     (case py_int c (vget_or properties name fallback) of
        Inl e \<Rightarrow> Inl e
      | Inr None \<Rightarrow> Inl (TroveError (''MongoDB extended property '' @ name @ '' must be an integer''))
      | Inr (Some v) \<Rightarrow>
          if v < minimum then
            Inl (TroveError (''MongoDB extended property '' @ name @ '' must be at least ''
              @ show_int minimum))
          else Inr v)"

section \<open>Instance requests\<close>

definition shard_member_config :: "string \<Rightarrow> string \<Rightarrow> string \<Rightarrow> pydict" where
  "shard_member_config cluster_id shard_id replica_set_name =
     [(''id'', PStr cluster_id), (''topology'', PStr SHARDED_TOPOLOGY),
      (''instance_type'', PStr ''member''), (''shard_id'', PStr shard_id),
      (''replica_set_name'', PStr replica_set_name),
      (''config_server_replica_set_name'', PStr CONFIG_SERVER_REPLICA_SET_NAME)]"

definition config_server_config :: "string \<Rightarrow> pydict" where
  "config_server_config cluster_id =
     [(''id'', PStr cluster_id), (''topology'', PStr SHARDED_TOPOLOGY),
      (''instance_type'', PStr ''config_server''),
      (''replica_set_name'', PStr CONFIG_SERVER_REPLICA_SET_NAME),
      (''config_server_replica_set_name'', PStr CONFIG_SERVER_REPLICA_SET_NAME)]"

definition query_router_config :: "string \<Rightarrow> pydict" where
  "query_router_config cluster_id =
     [(''id'', PStr cluster_id), (''topology'', PStr SHARDED_TOPOLOGY),
      (''instance_type'', PStr ''query_router''),
      (''config_server_replica_set_name'', PStr CONFIG_SERVER_REPLICA_SET_NAME)]"

definition replica_config :: "string \<Rightarrow> pydict" where
  "replica_config cluster_id =
     [(''id'', PStr cluster_id), (''topology'', PStr ''replica_set''),
      (''instance_type'', PStr ''member''), (''replica_set_name'', PStr REPLICA_SET_NAME)]"

text \<open>\<^verbatim>\<open>instance["flavor_id"]\<close>.\<close>

definition flavor_of :: "pydict \<Rightarrow> trove_error + pyval" where
  "flavor_of instance =
     (case dget instance ''flavor_id'' of
        Some v \<Rightarrow> Inr v | None \<Rightarrow> Inl (OtherFailure ''KeyError'' ''flavor_id''))"

text \<open>The request for a node of the API call; \<open>volume\<close>, \<open>nics\<close> and \<open>volume_type\<close> as the callers set them.\<close>

definition node_request ::
  "pyval \<Rightarrow> pyval \<Rightarrow> pyval \<Rightarrow> pyval \<Rightarrow> pyval \<Rightarrow> pydict \<Rightarrow> pyval \<Rightarrow> pyval \<Rightarrow> pydict
     \<Rightarrow> trove_error + instance_request" where
  "node_request name img volume nics configuration config volume_type locality instance =
     map_sum id (\<lambda>flavor.
       \<lparr>q_name = name, q_flavor = flavor, q_image = img, q_volume_size = volume,
        q_availability_zone = vget instance ''availability_zone'', q_nics = nics,
        q_configuration = configuration, q_cluster_config = config, q_volume_type = volume_type,
        q_modules = vget instance ''modules'', q_locality = locality,
        q_region = vget instance ''region_name''\<rparr>)
     (flavor_of instance)"

definition numbered :: "'a list \<Rightarrow> (nat \<times> 'a) list" where
  "numbered xs = zip [1..<Suc (length xs)] xs"

definition create_instance ::
  "'x trove \<Rightarrow> trove_error + instance_request \<Rightarrow> ('x, string) tio" where
  "create_instance t r = bind (lift_sum r) (\<lambda>q. ask_text t (CreateInstance q))"

section \<open>Creating a sharded cluster\<close>

definition validate_shard_members :: "'x trove \<Rightarrow> pydict list \<Rightarrow> ('x, unit) tio" where
  "validate_shard_members t members =
     (if length members < MIN_REPLICA_SET_MEMBERS then
        raise_exn (NumInstancesNotSupported MIN_REPLICA_SET_MEMBERS)
      else andthen (do_call t (ValidateFlavors members))
        (andthen (do_call t (AssertHomogeneous members)) (do_call t (ValidateNics members))))"

text \<open>The numbers of servers and their volumes: config servers, then query routers.\<close>

definition sharded_sizes :: "trove_conf \<Rightarrow> pydict \<Rightarrow> trove_error + (nat \<times> nat) \<times> int \<times> int" where
  "sharded_sizes c ep =
     (case integer_property c ep ''num_configsvr'' (num_config_servers c) MIN_CONFIG_SERVER_MEMBERS of
        Inl e \<Rightarrow> Inl e
      | Inr servers \<Rightarrow>
     (case integer_property c ep ''num_mongos'' (num_query_routers c) MIN_QUERY_ROUTERS of
        Inl e \<Rightarrow> Inl e
      | Inr routers \<Rightarrow>
     (case integer_property c ep ''configsvr_volume_size'' (config_volume c) 1 of
        Inl e \<Rightarrow> Inl e
      | Inr config_size \<Rightarrow>
     (case integer_property c ep ''mongos_volume_size'' (router_volume c) 1 of
        Inl e \<Rightarrow> Inl e
      | Inr router_size \<Rightarrow> Inr ((nat servers, nat routers), config_size, router_size)))))"

definition member_requests ::
  "string \<Rightarrow> pyval \<Rightarrow> pyval \<Rightarrow> pydict \<Rightarrow> pyval \<Rightarrow> pydict list
     \<Rightarrow> (trove_error + instance_request) list" where
  "member_requests name img configuration config locality instances =
     (let nics = vget (hd instances) ''nics'';
          volume = vget (hd instances) ''volume_size'';
          volume_type = vget (hd instances) ''volume_type''
      in map (\<lambda>(index, instance).
           node_request (vget_or instance ''name'' (PStr (name @ ''-rs1-'' @ show_nat index))) img volume
             (vget_or instance ''nics'' nics) configuration config volume_type locality instance)
         (numbered instances))"

text \<open>The \<open>n\<close> config servers or query routers, spread over the regions of the members.\<close>

definition server_requests ::
  "string \<Rightarrow> nat \<Rightarrow> pyval \<Rightarrow> pyval \<Rightarrow> int \<Rightarrow> pydict \<Rightarrow> pyval \<Rightarrow> pyval \<Rightarrow> pydict list
     \<Rightarrow> (trove_error + instance_request) list" where
  "server_requests name n img configuration volume config volume_type locality instances =
     (let regions = map (\<lambda>instance. vget instance ''region_name'') instances
      in map (\<lambda>index. map_sum id (\<lambda>flavor.
           \<lparr>q_name = PStr (name @ show_nat (Suc index)), q_flavor = flavor, q_image = img,
            q_volume_size = PInt volume, q_availability_zone = PNone,
            q_nics = vget (hd instances) ''nics'', q_configuration = configuration,
            q_cluster_config = config, q_volume_type = volume_type, q_modules = PNone,
            q_locality = locality, q_region = regions ! (index mod length regions)\<rparr>)
           (flavor_of (hd instances))) [0..<n])"

definition find_configuration :: "'x trove \<Rightarrow> pyval \<Rightarrow> ('x, pyval) tio" where
  "find_configuration t configuration =
     (if truthy configuration then
        andthen (do_call t (FindConfiguration (py_str configuration))) (ret configuration)
      else ret PNone)"

definition check_size ::
  "'x trove \<Rightarrow> nat \<Rightarrow> pydict list \<Rightarrow> ('x, unit) tio" where
  "check_size t n nodes =
     bind (ask_number t (RequiredVolumeSize nodes)) (\<lambda>total. do_call t (CheckQuotas n total))"

text \<open>Everything about the servers of a sharded cluster, once its row is there.\<close>

definition create_servers ::
  "'x trove \<Rightarrow> string \<Rightarrow> string \<Rightarrow> string \<Rightarrow> pydict \<Rightarrow> (nat \<times> nat) \<times> int \<times> int \<Rightarrow> pyval \<Rightarrow> pyval
     \<Rightarrow> pyval \<Rightarrow> pydict list \<Rightarrow> ('x, string list) tio" where
  "create_servers t name cluster_id shard_id ep sizes img configuration locality instances =
     (let ((servers, routers), config_size, router_size) = sizes;
          volume_type = vget (hd instances) ''volume_type''
      in map_io (create_instance t)
           (member_requests name img configuration
              (shard_member_config cluster_id shard_id ''rs1'') locality instances @
            server_requests (name @ ''-configsvr-'') servers img configuration config_size
              (config_server_config cluster_id) (vget_or ep ''configsvr_volume_type'' volume_type)
              locality instances @
            server_requests (name @ ''-mongos-'') routers img configuration router_size
              (query_router_config cluster_id) (vget_or ep ''mongos_volume_type'' volume_type)
              locality instances))"

definition create_sharded ::
  "trove_conf \<Rightarrow> 'x trove \<Rightarrow> string \<Rightarrow> pyval \<Rightarrow> pydict list \<Rightarrow> pydict \<Rightarrow> pyval \<Rightarrow> pyval \<Rightarrow> pyval
     \<Rightarrow> ('x, string) tio" where
  "create_sharded c t name datastore_image instances ep locality configuration image_id =
     (if cluster_secure c then
        raise_exn (TroveError
          ''The MongoDB sharded controller currently requires cluster_secure=false'')
      else
        bind (validate_shard_members t instances) (\<lambda>_.
        bind (lift_sum (sharded_sizes c ep)) (\<lambda>sizes.
          let ((servers, routers), config_size, router_size) = sizes;
              extra = replicate servers [(''volume_size'', PInt config_size)]
                @ replicate routers [(''volume_size'', PInt router_size)]
          in bind (check_size t (length instances + servers + routers) (instances @ extra)) (\<lambda>_.
             bind (find_configuration t configuration) (\<lambda>configuration_id.
             bind (ask_text t (CreateClusterRow name configuration_id)) (\<lambda>cluster_id.
             bind (ask_text t GenerateUuid) (\<lambda>shard_id.
             bind (create_servers t name cluster_id shard_id ep sizes (py_or image_id datastore_image)
                     configuration_id locality instances) (\<lambda>_.
             andthen (do_call t (CastCreate cluster_id)) (ret cluster_id)))))))))"

section \<open>Creating a replica set\<close>

definition replica_requests ::
  "string \<Rightarrow> string \<Rightarrow> pyval \<Rightarrow> pyval \<Rightarrow> pyval \<Rightarrow> pydict list \<Rightarrow> (trove_error + instance_request) list"
where
  "replica_requests name cluster_id img configuration locality instances =
     map (\<lambda>(index, instance).
       node_request (py_or (vget instance ''name'') (PStr (name @ ''-member-'' @ show_nat index))) img
         (vget instance ''volume_size'') (vget instance ''nics'') configuration
         (replica_config cluster_id) (vget instance ''volume_type'') locality instance)
     (numbered instances)"

definition create_instances ::
  "trove_conf \<Rightarrow> 'x trove \<Rightarrow> string \<Rightarrow> string \<Rightarrow> pyval \<Rightarrow> pydict list \<Rightarrow> pyval \<Rightarrow> pyval \<Rightarrow> bool \<Rightarrow> pyval
     \<Rightarrow> ('x, string list) tio" where
  "create_instances c t name cluster_id datastore_image instances locality configuration
       enforce_minimum image_id =
     (if cluster_secure c then
        raise_exn (TroveError
          ''The MongoDB replica-set controller currently requires cluster_secure=false'')
      else if enforce_minimum \<and> length instances < MIN_REPLICA_SET_MEMBERS then
        raise_exn (NumInstancesNotSupported MIN_REPLICA_SET_MEMBERS)
      else
        andthen (do_call t (ValidateFlavors instances))
        (andthen (do_call t (AssertHomogeneous instances))
        (andthen (do_call t (ValidateNics instances))
        (andthen (check_size t (length instances) instances)
          (map_io (create_instance t)
             (replica_requests name cluster_id (py_or image_id datastore_image) configuration
                locality instances))))))"

definition create ::
  "trove_conf \<Rightarrow> 'x trove \<Rightarrow> string \<Rightarrow> pyval \<Rightarrow> pydict list \<Rightarrow> pydict \<Rightarrow> pyval \<Rightarrow> pyval \<Rightarrow> pyval
     \<Rightarrow> ('x, string) tio" where
  "create c t name datastore_image instances ep locality configuration image_id =
     bind (lift_sum (topology_of ep)) (\<lambda>topology.
       if topology = SHARDED_TOPOLOGY then
         create_sharded c t name datastore_image instances ep locality configuration image_id
       else
         bind (find_configuration t configuration) (\<lambda>configuration_id.
         bind (ask_text t (CreateClusterRow name configuration_id)) (\<lambda>cluster_id.
         bind (create_instances c t name cluster_id datastore_image instances locality
                 configuration_id True image_id) (\<lambda>_.
         andthen (do_call t (CastCreate cluster_id)) (ret cluster_id)))))"

section \<open>Grouping new members into shards\<close>

text \<open>
  The groups are lists that the source appends to, found by name through the dictionary \<open>names\<close>: here
  \<open>names\<close> gives the number of a group.  A node without a name and a reference is left over (\<open>unnamed\<close>).
\<close>

definition named :: "pydict \<Rightarrow> bool" where
  "named item \<longleftrightarrow> truthy (vget item ''name'') \<or> truthy (vget item ''related_to'')"

definition group_key :: "pydict \<Rightarrow> pyval" where
  "group_key item = py_or (vget item ''related_to'') (vget item ''name'')"

record grouping =
  g_groups :: "pydict list list"
  g_names :: "(pyval, nat) dict"

definition join_group :: "pydict \<Rightarrow> grouping \<Rightarrow> nat \<times> grouping" where
  "join_group item st =
     (case dget (g_names st) (group_key item) of
        Some n \<Rightarrow> (n, st\<lparr>g_groups := (g_groups st)[n := g_groups st ! n @ [item]]\<rparr>)
      | None \<Rightarrow>
          (length (g_groups st),
           st\<lparr>g_groups := g_groups st @ [[item]],
              g_names := dset (group_key item) (length (g_groups st)) (g_names st)\<rparr>))"

definition group_item :: "pydict \<Rightarrow> grouping \<Rightarrow> trove_error + grouping" where
  "group_item item st =
     (let (n, st1) = join_group item st; name = vget item ''name''
      in if \<not> truthy name then Inr st1
         else if dget (g_names st1) name \<notin> {None, Some n} then
           Inl (TroveError ''Replica member names cannot belong to multiple MongoDB shards'')
         else Inr (st1\<lparr>g_names := dset name n (g_names st1)\<rparr>))"

fun group_items :: "pydict list \<Rightarrow> grouping \<Rightarrow> trove_error + grouping" where
  "group_items [] st = Inr st"
| "group_items (item # items) st =
     (if \<not> named item then group_items items st
      else case group_item item st of Inl e \<Rightarrow> Inl e | Inr st1 \<Rightarrow> group_items items st1)"

definition group_shard_instances :: "pydict list \<Rightarrow> trove_error + pydict list list" where
  "group_shard_instances instances =
     (if instances = [] then Inr []
      else if list_all (\<lambda>item. \<not> named item) instances then Inr [instances]
      else case group_items instances \<lparr>g_groups = [], g_names = []\<rparr> of
        Inl e \<Rightarrow> Inl e
      | Inr st \<Rightarrow>
          if list_ex (\<lambda>item. \<not> named item) instances then
            Inl (TroveError ''Named MongoDB replica members are required when related_to is used'')
          else Inr (g_groups st))"

section \<open>Growing\<close>

text \<open>The type of a node of the request.\<close>

definition node_type :: "pydict \<Rightarrow> trove_error + pyval" where
  "node_type node =
     (case vget node ''instance_type'' of
        PList [v] \<Rightarrow> Inr v
      | PList _ \<Rightarrow> Inl (TroveError ''Each MongoDB grow node must have exactly one type'')
      | v \<Rightarrow> Inr v)"

fun node_types :: "pydict list \<Rightarrow> trove_error + pyval list" where
  "node_types [] = Inr []"
| "node_types (node # nodes) =
     (case node_type node of
        Inl e \<Rightarrow> Inl e
      | Inr v \<Rightarrow> (case node_types nodes of Inl e \<Rightarrow> Inl e | Inr vs \<Rightarrow> Inr (v # vs)))"

definition member_types :: "pyval list" where
  "member_types = [PStr ''replica'', PStr ''member'', PNone]"

definition of_type :: "pyval list \<Rightarrow> pydict list \<Rightarrow> pyval list \<Rightarrow> pydict list" where
  "of_type wanted nodes types = map fst (filter (\<lambda>(_, ty). ty \<in> set wanted) (zip nodes types))"

definition unsupported_types :: "pyval list \<Rightarrow> pyval list" where
  "unsupported_types types =
     filter (\<lambda>ty. ty \<notin> set (PStr ''query_router'' # member_types)) types"

text \<open>The new members, the shards they form, and the new routers.  The types in the message are texts.\<close>

definition grow_plan ::
  "pydict list \<Rightarrow> trove_error + pydict list \<times> pydict list list \<times> pydict list" where
  "grow_plan instances =
     (case node_types instances of
        Inl e \<Rightarrow> Inl e
      | Inr types \<Rightarrow>
          if unsupported_types types \<noteq> [] then
            Inl (TroveError (''MongoDB sharded grow does not support node type(s): ''
              @ py_repr (PList (map PStr (sort (remdups (map py_str (unsupported_types types))))))))
          else
            (case group_shard_instances (of_type member_types instances types) of
               Inl e \<Rightarrow> Inl e
             | Inr groups \<Rightarrow> Inr (of_type member_types instances types, groups,
                 of_type [PStr ''query_router''] instances types)))"

definition validate_router :: "'x trove \<Rightarrow> pydict \<Rightarrow> ('x, unit) tio" where
  "validate_router t router =
     andthen (do_call t (ValidateFlavors [router])) (do_call t (ValidateNics [router]))"

text \<open>The number of the next shard: one more than the shards there are.\<close>

definition existing_shards :: "db_instance list \<Rightarrow> string list" where
  "existing_shards xs =
     remdups (map i_shard_id (filter (\<lambda>i. i_type i = ''member'' \<and> i_shard_id i \<noteq> []) xs))"

definition next_shard_number :: "db_instance list \<Rightarrow> nat" where
  "next_shard_number xs = length (existing_shards xs) + 1"

definition replica_set_name :: "nat \<Rightarrow> string" where
  "replica_set_name n = ''rs'' @ show_nat n"

definition grow_request ::
  "cluster \<Rightarrow> string \<Rightarrow> pyval \<Rightarrow> pydict \<Rightarrow> pyval \<Rightarrow> nat \<times> pydict \<Rightarrow> trove_error + instance_request" where
  "grow_request k base img config locality = (\<lambda>(index, item).
     node_request (vget_or item ''name'' (PStr (k_name k @ ''-'' @ base @ ''-'' @ show_nat index))) img
       (vget item ''volume_size'') (vget item ''nics'') (k_configuration_id k) config
       (vget item ''volume_type'') locality item)"

definition create_shard ::
  "'x trove \<Rightarrow> cluster \<Rightarrow> pyval \<Rightarrow> pyval \<Rightarrow> nat \<times> pydict list \<Rightarrow> string list \<Rightarrow> ('x, string list) tio" where
  "create_shard t k img locality = (\<lambda>(n, group) new_ids.
     bind (ask_text t GenerateUuid) (\<lambda>shard_id.
     bind (map_io (create_instance t)
             (map (grow_request k (replica_set_name n) img
                     (shard_member_config (k_id k) shard_id (replica_set_name n)) locality)
                (numbered group))) (\<lambda>ids. ret (new_ids @ ids))))"

definition create_sharded_instances ::
  "'x trove \<Rightarrow> cluster \<Rightarrow> pydict list \<Rightarrow> pyval \<Rightarrow> pyval \<Rightarrow> ('x, string list) tio" where
  "create_sharded_instances t k instances locality image_id =
     bind (lift_sum (grow_plan instances)) (\<lambda>(members, groups, routers).
     bind (fold_io (\<lambda>group _. validate_shard_members t group) groups ()) (\<lambda>_.
     bind (fold_io (\<lambda>router _. validate_router t router) routers ()) (\<lambda>_.
       if groups = [] \<and> routers = [] then
         raise_exn (TroveError ''No MongoDB nodes specified for grow'')
       else
         let img = py_or image_id (k_image_id k);
             first = next_shard_number (k_db_instances k)
         in bind (check_size t (length members + length routers) (members @ routers)) (\<lambda>_.
            bind (fold_io (create_shard t k img locality)
                    (zip [first..<first + length groups] groups) []) (\<lambda>new_ids.
            bind (map_io (create_instance t)
                    (map (grow_request k ''mongos'' img (query_router_config (k_id k)) locality)
                       (numbered routers))) (\<lambda>router_ids.
              ret (new_ids @ router_ids)))))))"

definition grow_sharded ::
  "'x trove \<Rightarrow> cluster \<Rightarrow> pydict list \<Rightarrow> pyval \<Rightarrow> ('x, unit) tio" where
  "grow_sharded t k instances image_id =
     andthen (do_call t ValidateAvailable)
     (bind (ask_value t LocalityHint) (\<lambda>locality.
      bind (try_except (create_sharded_instances t k instances locality image_id)
              (\<lambda>e. if is_exception e then andthen (do_call t (SetTask NO_TASK)) (raise_exn e)
                   else raise_exn e)) (\<lambda>new_ids.
      andthen (do_call t (SetTask GROWING_CLUSTER)) (do_call t (CastGrow (k_id k) new_ids)))))"

definition volume_of :: "pydict \<Rightarrow> pyval" where
  "volume_of instance = vget instance ''volume_size''"

fun validate_nodes :: "db_instance \<Rightarrow> pydict list \<Rightarrow> trove_error + unit" where
  "validate_nodes reference [] = Inr ()"
| "validate_nodes reference (instance # rest) =
     (case flavor_of instance of
        Inl e \<Rightarrow> Inl e
      | Inr flavor \<Rightarrow>
          if flavor \<noteq> i_flavor_id reference then Inl FlavorsNotEqual
          else if volume_of instance \<noteq> i_volume_size reference then Inl VolumeSizesNotEqual
          else validate_nodes reference rest)"

definition validate_growth :: "cluster \<Rightarrow> pydict list \<Rightarrow> trove_error + unit" where
  "validate_growth k instances =
     (if instances = [] then Inl (TroveError ''No instances specified for grow'')
      else case k_db_instances k of
        [] \<Rightarrow> Inl (TroveError ''MongoDB cluster has no members'')
      | reference # _ \<Rightarrow> validate_nodes reference instances)"

definition grow_replica_set ::
  "trove_conf \<Rightarrow> 'x trove \<Rightarrow> cluster \<Rightarrow> pydict list \<Rightarrow> pyval \<Rightarrow> ('x, unit) tio" where
  "grow_replica_set c t k instances image_id =
     andthen (do_call t ValidateAvailable)
     (bind (lift_sum (validate_growth k instances)) (\<lambda>_.
      andthen (do_call t (SetTask GROWING_CLUSTER))
      (bind (ask_value t LocalityHint) (\<lambda>locality.
       bind (create_instances c t (k_name k) (k_id k) (k_image_id k) instances locality
               (k_configuration_id k) False image_id) (\<lambda>new_ids.
         do_call t (CastGrow (k_id k) new_ids))))))"

definition grow ::
  "trove_conf \<Rightarrow> 'x trove \<Rightarrow> cluster \<Rightarrow> pydict list \<Rightarrow> pyval \<Rightarrow> ('x, unit) tio" where
  "grow c t k instances image_id =
     (if is_sharded (k_db_instances k) then grow_sharded t k instances image_id
      else grow_replica_set c t k instances image_id)"

section \<open>Shrinking\<close>

definition member_address :: "trove_conf \<Rightarrow> 'x trove \<Rightarrow> string \<Rightarrow> ('x, string) tio" where
  "member_address c t i =
     bind (ask_value t (VisibleAddresses i)) (\<lambda>addresses.
       case address_text c addresses of
         Some a \<Rightarrow> ret a
       | None \<Rightarrow> raise_exn (TroveError
           (''MongoDB cluster member '' @ i @ '' has no visible address'')))"

definition sharded_replica_set_name :: "'x trove \<Rightarrow> string \<Rightarrow> ('x, string) tio" where
  "sharded_replica_set_name t i =
     andthen (do_call t (LoadInstance i))
     (bind (ask_text t (Guest i GetReplicaSetName)) (\<lambda>name.
       if name = [] then
         raise_exn (TroveError (''MongoDB shard member '' @ i @ '' has no replica-set name''))
       else ret name))"

definition remove_shard_from_router ::
  "trove_conf \<Rightarrow> 'x trove \<Rightarrow> string \<Rightarrow> string \<Rightarrow> ('x, unit) tio" where
  "remove_shard_from_router c t router name =
     andthen (do_call t (LoadInstance router))
     (bind (ask_value t (Guest router (RemoveShard name))) (\<lambda>result.
      if refused result then
        raise_exn (TroveError (''MongoDB refused to remove shard '' @ name @ '': '' @ py_str result))
      else if draining_done result then ret ()
      else
        bind now (\<lambda>start.
        bind (poll clock (start + add_members_timeout c) nap
           (\<lambda>_. bind (ask_value t (Guest router (RemoveShard name))) (\<lambda>again.
                  ret (if draining_done again then Inr () else Inl ()))) ()) (\<lambda>answer.
        case answer of
          Inr _ \<Rightarrow> ret ()
        | Inl _ \<Rightarrow> raise_exn (TroveError
            (''MongoDB shard '' @ name @ '' did not finish draining''))))))"

text \<open>
  The checks of a request to shrink a sharded cluster: its answer is the shards to remove with their
  members, and the routers that stay.  A set of identifiers is a list without duplicates.
\<close>

definition ids_of :: "db_instance list \<Rightarrow> string list" where
  "ids_of xs = map i_id xs"

definition requested :: "string list \<Rightarrow> db_instance list \<Rightarrow> db_instance list" where
  "requested ids xs = filter (\<lambda>i. i_id i \<in> set ids) xs"

definition target_shards ::
  "string list \<Rightarrow> db_instance list \<Rightarrow> (string, db_instance list) dict" where
  "target_shards ids members = group_by i_shard_id (requested ids members)"

fun first_partial_shard ::
  "db_instance list \<Rightarrow> (string \<times> db_instance list) list \<Rightarrow> string option" where
  "first_partial_shard members [] = None"
| "first_partial_shard members ((shard, targets) # rest) =
     (if set (ids_of targets) \<noteq> set (ids_of (filter (\<lambda>m. i_shard_id m = shard) members))
      then Some shard else first_partial_shard members rest)"

definition shrink_plan ::
  "string list \<Rightarrow> db_instance list
     \<Rightarrow> trove_error + (string, db_instance list) dict \<times> db_instance list" where
  "shrink_plan ids xs =
     (let members = lookup_type xs ''member''; routers = lookup_type xs ''query_router'';
          unknown = filter (\<lambda>i. i \<notin> set (ids_of xs)) ids;
          config_ids = filter (\<lambda>i. i \<in> set (ids_of (lookup_type xs ''config_server''))) ids;
          router_ids = filter (\<lambda>i. i \<in> set (ids_of routers)) ids;
          targets = target_shards ids members
      in if ids = [] then Inl (TroveError ''No MongoDB nodes specified for shrink'')
         else if unknown \<noteq> [] then Inl (NotFound (hd unknown))
         else if config_ids \<noteq> [] then
           Inl (ShrinkInstanceInUse config_ids ''MongoDB config servers cannot be removed'')
         else if int (length routers) - int (length router_ids) < MIN_QUERY_ROUTERS then
           Inl (ShrinkInstanceInUse router_ids ''At least one MongoDB query router must remain'')
         else if set (map i_shard_id members) \<subseteq> set (dkeys targets) then
           Inl (TroveError ''A MongoDB sharded cluster must retain at least one shard'')
         else case first_partial_shard members targets of
           Some shard \<Rightarrow> Inl (TroveError
             (''MongoDB sharded shrink removes complete shards only; shard '' @ shard
                @ '' still has members''))
         | None \<Rightarrow> Inr (targets, filter (\<lambda>r. i_id r \<notin> set router_ids) routers))"

definition drain_shard ::
  "trove_conf \<Rightarrow> 'x trove \<Rightarrow> db_instance list \<Rightarrow> string \<times> db_instance list \<Rightarrow> ('x, unit) tio" where
  "drain_shard c t routers = (\<lambda>(_, targets).
     bind (sharded_replica_set_name t (i_id (hd targets))) (\<lambda>name.
       remove_shard_from_router c t (i_id (hd routers)) name))"

definition remove_instance :: "'x trove \<Rightarrow> string \<Rightarrow> ('x, unit) tio" where
  "remove_instance t i =
     andthen (do_call t (LoadInstance i))
       (andthen (do_call t (Detach i)) (do_call t (DeleteInstance i)))"

definition for_each :: "('a \<Rightarrow> ('x, unit) tio) \<Rightarrow> 'a list \<Rightarrow> ('x, unit) tio" where
  "for_each f xs = fold_io (\<lambda>x _. f x) xs ()"

definition shrink_sharded ::
  "trove_conf \<Rightarrow> 'x trove \<Rightarrow> string list \<Rightarrow> ('x, unit) tio" where
  "shrink_sharded c t removal_ids =
     andthen (do_call t ValidateAvailable)
     (bind (ask_instances t FindInstances) (\<lambda>xs.
      bind (lift_sum (shrink_plan (remdups removal_ids) xs)) (\<lambda>(targets, routers).
      andthen (do_call t (SetTask SHRINKING_CLUSTER))
      (try_finally
        (andthen (for_each (drain_shard c t routers) targets)
           (for_each (remove_instance t) (remdups removal_ids)))
        (do_call t (SetTask NO_TASK))))))"

text \<open>One pass over the candidates for the primary: whether one of them removed the members.\<close>

fun try_candidates ::
  "'x trove \<Rightarrow> string list \<Rightarrow> string list \<Rightarrow> ('x, bool) tio" where
  "try_candidates t addresses [] = ret False"
| "try_candidates t addresses (i # is) =
     bind (try_except
        (bind (ask_value t (Guest i (RemoveReplicaMembers addresses)))
           (\<lambda>result. ret (\<not> stepped_down result)))
        (\<lambda>e. if is_exception e then ret False else raise_exn e))
       (\<lambda>removed. if removed then ret True else try_candidates t addresses is)"

definition check_shrink :: "string list \<Rightarrow> db_instance list \<Rightarrow> trove_error + unit" where
  "check_shrink ids xs =
     (let unknown = filter (\<lambda>i. i \<notin> set (ids_of xs)) ids
      in if unknown \<noteq> [] then Inl (NotFound (hd unknown))
         else if int (card (set (ids_of xs))) - int (length ids) < int MIN_REPLICA_SET_MEMBERS then
           Inl (TroveError (''A MongoDB replica set must retain at least ''
             @ show_nat MIN_REPLICA_SET_MEMBERS @ '' members''))
         else Inr ())"

definition remove_replicas ::
  "trove_conf \<Rightarrow> 'x trove \<Rightarrow> string list \<Rightarrow> string list \<Rightarrow> ('x, unit) tio" where
  "remove_replicas c t remaining removal =
     andthen (for_each (\<lambda>i. do_call t (LoadInstance i)) (remaining @ removal))
     (bind (map_io (member_address c t) removal) (\<lambda>addresses.
      bind now (\<lambda>start.
      bind (poll clock (start + add_members_timeout c) nap
         (\<lambda>_. bind (try_candidates t addresses (remaining @ removal)) (\<lambda>removed.
                ret (if removed then Inr () else Inl ()))) ()) (\<lambda>answer.
      case answer of
        Inl _ \<Rightarrow> raise_exn (TroveError ''Unable to find a MongoDB replica-set primary'')
      | Inr _ \<Rightarrow>
          andthen (for_each (\<lambda>i. do_call t (Detach i)) removal)
            (for_each (\<lambda>i. do_call t (DeleteInstance i)) removal)))))"

definition shrink_replica_set ::
  "trove_conf \<Rightarrow> 'x trove \<Rightarrow> string list \<Rightarrow> ('x, unit) tio" where
  "shrink_replica_set c t removal_ids =
     andthen (do_call t ValidateAvailable)
     (bind (ask_instances t FindInstances) (\<lambda>xs.
      bind (lift_sum (check_shrink (remdups removal_ids) xs)) (\<lambda>_.
      andthen (do_call t (SetTask SHRINKING_CLUSTER))
      (try_finally
        (remove_replicas c t (ids_of (filter (\<lambda>i. i_id i \<notin> set removal_ids) xs))
           (ids_of (requested removal_ids xs)))
        (do_call t (SetTask NO_TASK))))))"

definition shrink ::
  "trove_conf \<Rightarrow> 'x trove \<Rightarrow> cluster \<Rightarrow> string list \<Rightarrow> ('x, unit) tio" where
  "shrink c t k removal_ids =
     (if is_sharded (k_db_instances k) then shrink_sharded c t removal_ids
      else shrink_replica_set c t removal_ids)"

section \<open>Configuration changes and the grow action\<close>

definition rolling_configuration_update :: "'x trove \<Rightarrow> string \<Rightarrow> bool \<Rightarrow> ('x, unit) tio" where
  "rolling_configuration_update t configuration_id apply_on_all =
     bind (ask_bool t (ConfigurationNeedsRestart configuration_id)) (\<lambda>requires_restart.
     andthen (do_call t (RollingUpdate configuration_id apply_on_all))
       (if requires_restart then do_call t RollingRestart else ret ()))"

definition configuration_attach :: "'x trove \<Rightarrow> string \<Rightarrow> ('x, unit) tio" where
  "configuration_attach t configuration_id = rolling_configuration_update t configuration_id True"

definition configuration_detach :: "'x trove \<Rightarrow> cluster \<Rightarrow> ('x, unit) tio" where
  "configuration_detach t k =
     (if \<not> truthy (k_configuration_id k) then ret ()
      else
        bind (ask_bool t (ConfigurationNeedsRestart (py_str (k_configuration_id k))))
          (\<lambda>requires_restart.
        andthen (do_call t RollingRemove)
          (if requires_restart then do_call t RollingRestart else ret ())))"

text \<open>
  The node of a grow request; \<open>id_from_href\<close> is Trove's function on links.  \<open>Inl\<close> is the \<^verbatim>\<open>KeyError\<close> of
  an absent flavor or size, or the error of \<^verbatim>\<open>int\<close>.
\<close>

definition optional_field :: "pydict \<Rightarrow> string \<Rightarrow> pydict" where
  "optional_field node k = (case dget node k of None \<Rightarrow> [] | Some v \<Rightarrow> [(k, v)])"

definition node_volume :: "trove_conf \<Rightarrow> pydict \<Rightarrow> trove_error + pydict" where
  "node_volume c node =
     (case dget node ''volume'' of
        None \<Rightarrow> Inr []
      | Some (PDict volume) \<Rightarrow>
          (case dget volume ''size'' of
             None \<Rightarrow> Inl (OtherFailure ''KeyError'' ''size'')
           | Some v \<Rightarrow>
               (case py_int c v of
                  Inl e \<Rightarrow> Inl e
                | Inr None \<Rightarrow> Inl (OtherFailure ''ValueError'' ''invalid size'')
                | Inr (Some i) \<Rightarrow> Inr [(''volume_size'', PInt i)]))
      | Some _ \<Rightarrow> Inl (OtherFailure ''TypeError'' ''volume is not an object''))"

definition split_types :: "pyval \<Rightarrow> pyval" where
  "split_types v = (case v of PStr s \<Rightarrow> PList (map PStr (split_on CHR '','' s)) | _ \<Rightarrow> v)"

definition parse_node ::
  "trove_conf \<Rightarrow> (pyval \<Rightarrow> pyval) \<Rightarrow> pydict \<Rightarrow> trove_error + pydict" where
  "parse_node c id_from_href node =
     (case dget node ''flavorRef'' of
        None \<Rightarrow> Inl (OtherFailure ''KeyError'' ''flavorRef'')
      | Some flavor \<Rightarrow>
          (case node_volume c node of
             Inl e \<Rightarrow> Inl e
           | Inr volume \<Rightarrow>
               Inr ([(''flavor_id'', id_from_href flavor)] @ optional_field node ''name'' @ volume
                 @ optional_field node ''modules'' @ optional_field node ''nics''
                 @ optional_field node ''availability_zone''
                 @ (case dget node ''type'' of None \<Rightarrow> []
                    | Some v \<Rightarrow> [(''instance_type'', split_types v)])
                 @ optional_field node ''related_to'')))"

definition grow_action ::
  "trove_conf \<Rightarrow> 'x trove \<Rightarrow> (pyval \<Rightarrow> pyval) \<Rightarrow> (pyval \<Rightarrow> trove_error + pyval) \<Rightarrow> cluster
     \<Rightarrow> pydict list \<Rightarrow> ('x, unit) tio" where
  "grow_action c t id_from_href glance_image_id k nodes =
     andthen (do_call t Notified)
     (bind (map_io (\<lambda>node. lift_sum (parse_node c id_from_href node)) nodes) (\<lambda>instances.
      bind (if truthy (k_image_id k) then ret (k_image_id k)
            else lift_sum (glance_image_id (k_image_id k))) (\<lambda>image_id.
      grow c t k instances image_id)))"

section \<open>A sample cloud\<close>

text \<open>A Trove in which every call succeeds, for concrete instances of the properties.\<close>

definition ready_trove :: "db_instance list \<Rightarrow> unit trove" where
  "ready_trove xs =
     \<lparr>perform = (\<lambda>_ x. (Inr (), 0, x)), give_text = (\<lambda>_ x. (Inr ''rs1'', 0, x)),
      give_number = (\<lambda>_ x. (Inr 1, 0, x)),
      give_value = (\<lambda>_ x. (Inr (PDict [(''state'', PStr ''completed'')]), 0, x)),
      give_bool = (\<lambda>_ x. (Inr True, 0, x)), give_instances = (\<lambda>_ x. (Inr xs, 0, x)),
      give_instance = (\<lambda>e x.
        ((case e of
            LoadInstance i \<Rightarrow>
              (case find (\<lambda>r. i_id r = i) xs of Some r \<Rightarrow> Inr r | None \<Rightarrow> Inl (NotFound i))
          | _ \<Rightarrow> Inl (NotFound [])), 0, x))\<rparr>"

definition sample_conf :: trove_conf where
  "sample_conf =
     \<lparr>cluster_secure = False, num_config_servers = PInt 3, num_query_routers = PInt 1,
      config_volume = PInt 10, router_volume = PInt 10, add_members_timeout = 300,
      mongodb_port = 27017, agent_high_timeout = 600, agent_low_timeout = 15,
      int_of_float = (\<lambda>_. Inr 0)\<rparr>"

definition sample_instance :: "string \<Rightarrow> string \<Rightarrow> string \<Rightarrow> db_instance" where
  "sample_instance i role shard =
     \<lparr>i_id = i, i_type = role, i_shard_id = shard, i_flavor_id = PStr ''m1'', i_volume_size = PInt 5\<rparr>"

definition two_shards :: "db_instance list" where
  "two_shards =
     [sample_instance ''c'' ''config_server'' [], sample_instance ''q'' ''query_router'' [],
      sample_instance ''a1'' ''member'' ''a'', sample_instance ''a2'' ''member'' ''a'',
      sample_instance ''b1'' ''member'' ''b'', sample_instance ''b2'' ''member'' ''b'']"

definition three_replicas :: "db_instance list" where
  "three_replicas = map (\<lambda>i. sample_instance i ''member'' []) [''m1'', ''m2'', ''m3'']"

end
