(* ===== verification/TroveShrink.thy ===== *)
theory TroveShrink
  imports TroveTopology
begin

text \<open>
  Shrinking a cluster: a request that is carried out leaves a usable cluster, the data of a shard is
  moved before its members are deleted, and the task status is always reset.
\<close>

section \<open>Shrinking a sharded cluster\<close>

text \<open>What a request must satisfy for the cluster to stay usable and its data to be moved.\<close>

definition safe_removal :: "string list \<Rightarrow> db_instance list \<Rightarrow> bool" where
  "safe_removal ids xs \<longleftrightarrow>
     set ids \<subseteq> set (ids_of xs) \<and>
     (\<forall>x \<in> set xs. i_type x = ''config_server'' \<longrightarrow> i_id x \<notin> set ids) \<and>
     (\<exists>x \<in> set xs. i_type x = ''query_router'' \<and> i_id x \<notin> set ids) \<and>
     (\<exists>x \<in> set xs. i_type x = ''member'' \<and> i_id x \<notin> set ids) \<and>
     (\<forall>x \<in> set xs. \<forall>y \<in> set xs. i_type x = ''member'' \<and> i_type y = ''member'' \<and>
        i_shard_id x = i_shard_id y \<and> i_id x \<in> set ids \<longrightarrow> i_id y \<in> set ids)"

lemma first_partial_shard_None:
  "first_partial_shard members targets = None \<longleftrightarrow>
     (\<forall>(s, ts) \<in> set targets. set (ids_of ts) = set (ids_of (filter (\<lambda>m. i_shard_id m = s) members)))"
proof (induction targets)
  case (Cons st targets)
  obtain s ts where "st = (s, ts)" by (cases st)
  with Cons show ?case by simp
qed simp

lemma router_remains:
  assumes "distinct (ids_of routers)" and "distinct ids"
    and "length (filter (\<lambda>i. i \<in> set (ids_of routers)) ids) < length routers"
  shows "\<exists>r \<in> set routers. i_id r \<notin> set ids"
proof (rule ccontr)
  assume "\<not> ?thesis"
  then have "set (ids_of routers) \<subseteq> set (filter (\<lambda>i. i \<in> set (ids_of routers)) ids)"
    by (auto simp: ids_of_def)
  then have "card (set (ids_of routers)) \<le> card (set (filter (\<lambda>i. i \<in> set (ids_of routers)) ids))"
    by (intro card_mono) simp_all
  then have "length (ids_of routers) \<le> length (filter (\<lambda>i. i \<in> set (ids_of routers)) ids)"
    using distinct_card [OF assms(1)] distinct_card [OF distinct_filter [OF assms(2)]] by metis
  with assms(3) show False by (simp add: ids_of_def)
qed

lemma shrink_plan_Inr:
  assumes "shrink_plan ids xs = Inr (targets, routers)"
  shows "ids \<noteq> []" "set ids \<subseteq> set (ids_of xs)"
    "\<forall>x \<in> set xs. i_type x = ''config_server'' \<longrightarrow> i_id x \<notin> set ids"
    "length (filter (\<lambda>i. i \<in> set (ids_of (lookup_type xs ''query_router''))) ids)
       < length (lookup_type xs ''query_router'')"
    "\<not> set (map i_shard_id (lookup_type xs ''member'')) \<subseteq> set (dkeys targets)"
    "targets = target_shards ids (lookup_type xs ''member'')"
    "first_partial_shard (lookup_type xs ''member'') targets = None"
    "routers = filter (\<lambda>r. i_id r \<notin> set ids) (lookup_type xs ''query_router'')"
proof -
  note defs = shrink_plan_def Let_def MIN_QUERY_ROUTERS_def
  show "ids \<noteq> []" "\<not> set (map i_shard_id (lookup_type xs ''member'')) \<subseteq> set (dkeys targets)"
    "targets = target_shards ids (lookup_type xs ''member'')"
    "first_partial_shard (lookup_type xs ''member'') targets = None"
    "length (filter (\<lambda>i. i \<in> set (ids_of (lookup_type xs ''query_router''))) ids)
       < length (lookup_type xs ''query_router'')"
    using assms unfolding defs by (simp_all split: if_splits option.splits)
  have "filter (\<lambda>i. i \<notin> set (ids_of xs)) ids = []"
    "filter (\<lambda>i. i \<in> set (ids_of (lookup_type xs ''config_server''))) ids = []"
    using assms unfolding defs by (simp_all split: if_splits)
  then show "set ids \<subseteq> set (ids_of xs)"
    "\<forall>x \<in> set xs. i_type x = ''config_server'' \<longrightarrow> i_id x \<notin> set ids"
    by (auto simp: filter_empty_conv ids_of_def lookup_type_def)
  have "routers = filter (\<lambda>r. i_id r \<notin>
      set (filter (\<lambda>i. i \<in> set (ids_of (lookup_type xs ''query_router''))) ids)) (lookup_type xs ''query_router'')"
    using assms unfolding defs by (simp split: if_splits option.splits)
  then show "routers = filter (\<lambda>r. i_id r \<notin> set ids) (lookup_type xs ''query_router'')"
    by (auto simp: ids_of_def intro!: filter_cong)
qed

lemma shrink_plan_safe:
  assumes plan: "shrink_plan ids xs = Inr (targets, routers)"
    and "distinct ids" and "distinct (ids_of xs)"
  shows "safe_removal ids xs" and "routers \<noteq> []" and "\<forall>r \<in> set routers. i_id r \<notin> set ids"
    and "\<forall>(s, ms) \<in> set targets. ms \<noteq> []"
proof -
  note p = shrink_plan_Inr [OF plan]
  let ?members = "lookup_type xs ''member''" and ?routers = "lookup_type xs ''query_router''"
  have "distinct (ids_of ?routers)"
    using assms(3) by (simp add: ids_of_def lookup_type_def distinct_map_filter)
  from router_remains [OF this assms(2) p(4)] obtain r where r: "r \<in> set ?routers" "i_id r \<notin> set ids"
    by blast
  then show "routers \<noteq> []" unfolding p(8) by (auto simp: filter_empty_conv)
  show "\<forall>r \<in> set routers. i_id r \<notin> set ids" unfolding p(8) by simp
  have targets: "ms = filter (\<lambda>m. i_shard_id m = s) (requested ids ?members) \<and> ms \<noteq> []"
    if "(s, ms) \<in> set targets" for s ms
    using that unfolding p(6) target_shards_def by (rule group_by_mem)
  then show "\<forall>(s, ms) \<in> set targets. ms \<noteq> []" by blast
  from p(5) obtain m where m: "m \<in> set ?members" "i_shard_id m \<notin> set (dkeys targets)" by auto
  have keys: "set (dkeys targets) = i_shard_id ` set (requested ids ?members)"
    unfolding p(6) target_shards_def by (rule group_by_keys)
  with m have kept: "i_id m \<notin> set ids" by (auto simp: requested_def)
  have whole: "i_id y \<in> set ids"
    if "x \<in> set ?members" "y \<in> set ?members" "i_shard_id x = i_shard_id y" "i_id x \<in> set ids" for x y
  proof -
    have "x \<in> set (requested ids ?members)" using that by (simp add: requested_def)
    with keys have "i_shard_id x \<in> set (dkeys targets)" by simp
    then obtain ms where mem: "(i_shard_id x, ms) \<in> set targets" by auto
    with p(7) have "set (ids_of ms) = set (ids_of (filter (\<lambda>m. i_shard_id m = i_shard_id x) ?members))"
      unfolding first_partial_shard_None by blast
    moreover have "i_id y \<in> set (ids_of (filter (\<lambda>m. i_shard_id m = i_shard_id x) ?members))"
      using that by (auto simp: ids_of_def)
    ultimately have "i_id y \<in> set (ids_of ms)" by simp
    with targets [OF mem] show ?thesis by (auto simp: ids_of_def requested_def)
  qed
  show "safe_removal ids xs"
    unfolding safe_removal_def
  proof (intro conjI)
    show "\<exists>x \<in> set xs. i_type x = ''query_router'' \<and> i_id x \<notin> set ids"
      using r by (auto simp: lookup_type_def)
    show "\<exists>x \<in> set xs. i_type x = ''member'' \<and> i_id x \<notin> set ids"
      using m(1) kept by (auto simp: lookup_type_def)
    show "\<forall>x \<in> set xs. \<forall>y \<in> set xs. i_type x = ''member'' \<and> i_type y = ''member'' \<and>
        i_shard_id x = i_shard_id y \<and> i_id x \<in> set ids \<longrightarrow> i_id y \<in> set ids"
      using whole by (auto simp: lookup_type_def)
  qed (use p(2,3) in auto)
qed

section \<open>Draining shards and removing instances\<close>

definition drain_events :: "trove_event set" where
  "drain_events = range LoadInstance \<union> (\<lambda>i. Guest i GetReplicaSetName) ` UNIV \<union>
     {e. \<exists>i name. e = Guest i (RemoveShard name)} \<union> {Slept}"

lemma in_drain_events [simp]:
  "LoadInstance i \<in> drain_events" "Guest i GetReplicaSetName \<in> drain_events"
  "Guest i (RemoveShard name) \<in> drain_events" "Slept \<in> drain_events"
  by (auto simp: drain_events_def)

text \<open>
  Each shard of the request was drained: a router that stays was asked to remove the replica set of
  its members.
\<close>

definition drained :: "db_instance list \<Rightarrow> (string, db_instance list) dict \<Rightarrow> trove_event list \<Rightarrow> bool" where
  "drained routers targets tr \<longleftrightarrow>
     (\<forall>(s, ms) \<in> set targets. Guest (i_id (hd ms)) GetReplicaSetName \<in> set tr \<and>
        (\<exists>name. Guest (i_id (hd routers)) (RemoveShard name) \<in> set tr))"

lemma sends_drain_shard:
  "sends (drain_shard c t routers (s, ms))
     (\<lambda>_ tr. set tr \<subseteq> drain_events \<and> drained routers [(s, ms)] tr) (\<lambda>_ tr. set tr \<subseteq> drain_events)"
proof -
  have rest: "steps (logs drain_events) (\<lambda>_. True)
      (if refused result then
        raise_exn (TroveError (''MongoDB refused to remove shard '' @ name @ '': '' @ py_str result))
      else if draining_done result then ret ()
      else
        bind now (\<lambda>start.
        bind (poll clock (start + add_members_timeout c) nap
           (\<lambda>_. bind (ask_value t (Guest router (RemoveShard name))) (\<lambda>again.
                  ret (if draining_done again then Inr () else Inl ()))) ()) (\<lambda>answer.
        case answer of
          Inr _ \<Rightarrow> ret ()
        | Inl _ \<Rightarrow> raise_exn (TroveError
            (''MongoDB shard '' @ name @ '' did not finish draining'')))))" for result name router
    by (intro steps_intros steps_nap_poll TrueI) simp_all
  show ?thesis
    unfolding drain_shard_def prod.case sharded_replica_set_name_def remove_shard_from_router_def
    by (intro sends_seq sends_if sends_intros sends_mono [OF sends_steps [OF rest]])
      (auto simp: drained_def)
qed

lemma sends_drains:
  "sends (for_each (drain_shard c t routers) targets)
     (\<lambda>_ tr. set tr \<subseteq> drain_events \<and> drained routers targets tr) (\<lambda>_ tr. set tr \<subseteq> drain_events)"
  unfolding for_each_def
proof (rule sends_fold [where I = "\<lambda>done _ tr. set tr \<subseteq> drain_events \<and> drained routers done tr"])
  fix "done" rest and st :: "string \<times> db_instance list" and tr :: "trove_event list"
  assume "set tr \<subseteq> drain_events \<and> drained routers done tr"
  then show "sends (drain_shard c t routers st)
      (\<lambda>_ t2. set (tr @ t2) \<subseteq> drain_events \<and> drained routers (done @ [st]) (tr @ t2))
      (\<lambda>e t2. set (tr @ t2) \<subseteq> drain_events)"
    by (cases st) (auto simp: drained_def intro!: sends_mono [OF sends_drain_shard])
qed (simp_all add: drained_def)

definition removal_log :: "string list \<Rightarrow> trove_event list" where
  "removal_log ids = concat (map (\<lambda>i. [LoadInstance i, Detach i, DeleteInstance i]) ids)"

lemma removal_log_append:
  "removal_log [] = []" "removal_log (i # ids) = removal_log [i] @ removal_log ids"
  "removal_log (ids @ js) = removal_log ids @ removal_log js"
  by (simp_all add: removal_log_def)

lemma sends_removals:
  "sends (for_each (remove_instance t) ids) (\<lambda>_ tr. tr = removal_log ids)
     (\<lambda>_ tr. prefix tr (removal_log ids))"
  unfolding for_each_def
proof (rule sends_fold [where I = "\<lambda>done _ tr. tr = removal_log done"])
  fix "done" rest :: "string list" and i and tr :: "trove_event list"
  assume "ids = done @ i # rest" and "tr = removal_log done"
  then show "sends (remove_instance t i) (\<lambda>_ t2. tr @ t2 = removal_log (done @ [i]))
     (\<lambda>_ t2. prefix (tr @ t2) (removal_log ids))"
    unfolding remove_instance_def by (intro sends_seq sends_intros) (simp_all add: removal_log_def)
qed (simp_all add: removal_log_def)

text \<open>
  The events between the announcement of a shrink and its end: first every shard is drained, and only
  then instances are removed, of the requested ones in order.  \<open>finished\<close> says that all of it happened.
\<close>

definition shard_shrink_log ::
  "bool \<Rightarrow> string list \<Rightarrow> db_instance list \<Rightarrow> (string, db_instance list) dict \<Rightarrow> trove_event list \<Rightarrow> bool"
where
  "shard_shrink_log finished ids routers targets tr \<longleftrightarrow>
     (\<exists>drains removals. tr = drains @ removals \<and> set drains \<subseteq> drain_events \<and>
        prefix removals (removal_log ids) \<and> (finished \<longrightarrow> removals = removal_log ids) \<and>
        (finished \<or> removals \<noteq> [] \<longrightarrow> drained routers targets drains))"

lemma sends_shard_shrink:
  "sends (andthen (for_each (drain_shard c t routers) targets) (for_each (remove_instance t) ids))
     (\<lambda>_. shard_shrink_log True ids routers targets) (\<lambda>_. shard_shrink_log False ids routers targets)"
proof (intro sends_andthen sends_mono [OF sends_drains] sends_mono [OF sends_removals])
  fix d r assume "set d \<subseteq> drain_events \<and> drained routers targets d"
  then show "r = removal_log ids \<Longrightarrow> shard_shrink_log True ids routers targets (d @ r)"
    and "prefix r (removal_log ids) \<Longrightarrow> shard_shrink_log False ids routers targets (d @ r)"
    unfolding shard_shrink_log_def by (intro exI [of _ d] exI [of _ r]; simp)+
next
  fix d assume "set d \<subseteq> drain_events"
  then show "shard_shrink_log False ids routers targets d"
    unfolding shard_shrink_log_def by (intro exI [of _ d] exI [of _ "[]"]) simp
qed

lemma shard_shrink_log_weaken:
  "shard_shrink_log True ids routers targets tr \<Longrightarrow> shard_shrink_log b ids routers targets tr"
  unfolding shard_shrink_log_def by auto

definition shrink_opening :: "trove_event list" where
  "shrink_opening = [ValidateAvailable, FindInstances, SetTask SHRINKING_CLUSTER]"

text \<open>What a shrink of a sharded cluster with the instances \<open>xs\<close> may log.\<close>

definition safe_sharded_shrink ::
  "bool \<Rightarrow> string list \<Rightarrow> db_instance list \<Rightarrow> trove_event list \<Rightarrow> bool" where
  "safe_sharded_shrink finished ids xs tr \<longleftrightarrow>
     (\<exists>targets routers mid. shrink_plan (remdups ids) xs = Inr (targets, routers) \<and>
        safe_removal ids xs \<and> routers \<noteq> [] \<and> set (ids_of routers) \<inter> set ids = {} \<and>
        shard_shrink_log finished (remdups ids) routers targets mid \<and>
        tr = shrink_opening @ mid @ [SetTask NO_TASK])"

lemma sends_shard_shrink_reset:
  "sends (try_finally
      (andthen (for_each (drain_shard c t routers) targets) (for_each (remove_instance t) ids))
      (do_call t (SetTask NO_TASK)))
     (\<lambda>_ tr. \<exists>mid. shard_shrink_log True ids routers targets mid \<and> tr = mid @ [SetTask NO_TASK])
     (\<lambda>_ tr. \<exists>mid. shard_shrink_log False ids routers targets mid \<and> tr = mid @ [SetTask NO_TASK])"
  by (intro sends_seq sends_mono [OF sends_shard_shrink] sends_intros) (blast dest: shard_shrink_log_weaken)+

lemma shrink_sharded_sends:
  assumes xs: "\<And>x. fst (give_instances t FindInstances x) = Inr xs" and "distinct (ids_of xs)"
  shows "sends (shrink_sharded c t ids) (\<lambda>_. safe_sharded_shrink True ids xs)
     (\<lambda>_ tr. prefix tr shrink_opening \<or> safe_sharded_shrink False ids xs tr)"
proof -
  let ?pre = "[ValidateAvailable, FindInstances]"
  have logged: "safe_sharded_shrink b ids xs (?pre @ SetTask SHRINKING_CLUSTER # mid @ [SetTask NO_TASK])"
    if plan: "shrink_plan (remdups ids) xs = Inr (targets, routers)"
      and "shard_shrink_log b (remdups ids) routers targets mid" for b mid targets routers
  proof -
    note safe = shrink_plan_safe [OF plan distinct_remdups assms(2)]
    have "safe_removal ids xs" using safe(1) unfolding safe_removal_def set_remdups .
    moreover have "set (ids_of routers) \<inter> set ids = {}" using safe(3) by (auto simp: ids_of_def)
    moreover have "?pre @ SetTask SHRINKING_CLUSTER # mid @ [SetTask NO_TASK] = shrink_opening @ mid @ [SetTask NO_TASK]"
      by (simp add: shrink_opening_def)
    ultimately show ?thesis
      unfolding safe_sharded_shrink_def using that safe(2) by blast
  qed
  have starts: "prefix [ValidateAvailable] shrink_opening" "prefix ?pre shrink_opening"
    "prefix (?pre @ [SetTask SHRINKING_CLUSTER]) shrink_opening"
    by (simp_all add: shrink_opening_def)
  have body: "sends (case plan of (targets, routers) \<Rightarrow>
      andthen (do_call t (SetTask SHRINKING_CLUSTER))
      (try_finally
        (andthen (for_each (drain_shard c t routers) targets)
           (for_each (remove_instance t) (remdups ids)))
        (do_call t (SetTask NO_TASK))))
      (\<lambda>_ tr. safe_sharded_shrink True ids xs (?pre @ tr))
      (\<lambda>_ tr. prefix (?pre @ tr) shrink_opening \<or> safe_sharded_shrink False ids xs (?pre @ tr))"
    if plan: "shrink_plan (remdups ids) xs = Inr plan" for plan
  proof -
    obtain targets routers where p: "plan = (targets, routers)" by (cases plan)
    show ?thesis
      unfolding p prod.case
      apply (intro sends_andthen sends_calls sends_mono [OF sends_shard_shrink_reset])
      subgoal using starts by simp
      subgoal using logged [OF plan [unfolded p]] by (elim exE conjE) simp
      subgoal using logged [OF plan [unfolded p]] by (elim exE conjE) simp
      done
  qed
  show ?thesis
    unfolding shrink_sharded_def
    apply (intro sends_andthen sends_bind sends_ask_instances sends_lift_sum sends_calls)
    subgoal using starts by simp
    subgoal using starts by simp
    subgoal for ys x plan using body [of plan] by (simp add: xs)
    subgoal using starts by simp
    done
qed

section \<open>Shrinking a replica set\<close>

lemma sends_for_each_call:
  "sends (for_each (\<lambda>i. do_call t (e i)) xs) (\<lambda>_ tr. tr = map e xs) (\<lambda>_ tr. prefix tr (map e xs))"
  unfolding for_each_def
proof (rule sends_fold [where I = "\<lambda>done _ tr. tr = map e done"])
  fix "done" x rest tr
  assume "xs = done @ x # rest" and "tr = map e done"
  then show "sends (do_call t (e x)) (\<lambda>_ t2. tr @ t2 = map e (done @ [x]))
     (\<lambda>_ t2. prefix (tr @ t2) (map e xs))"
    by (intro sends_calls) simp_all
qed simp_all

lemma sends_member_address:
  "sends (member_address c t i) (\<lambda>_ tr. tr = [VisibleAddresses i]) (\<lambda>_ tr. tr = [VisibleAddresses i])"
  unfolding member_address_def
  by (intro sends_bind sends_calls) (auto split: option.split intro!: sends_intros)

definition removal_asks :: "string list \<Rightarrow> string list \<Rightarrow> trove_event list \<Rightarrow> bool" where
  "removal_asks candidates addresses tr \<longleftrightarrow>
     set tr \<subseteq> insert Slept ((\<lambda>i. Guest i (RemoveReplicaMembers addresses)) ` set candidates)"

definition asked_last :: "string list \<Rightarrow> string list \<Rightarrow> trove_event list \<Rightarrow> bool" where
  "asked_last candidates addresses tr \<longleftrightarrow> tr \<noteq> [] \<and>
     (\<exists>i \<in> set candidates. last tr = Guest i (RemoveReplicaMembers addresses))"

lemma removal_asks_append:
  "removal_asks cs as [] " "removal_asks cs as (t1 @ t2) \<longleftrightarrow> removal_asks cs as t1 \<and> removal_asks cs as t2"
  "removal_asks cs as [Slept]" "i \<in> set cs \<Longrightarrow> removal_asks cs as [Guest i (RemoveReplicaMembers as)]"
  "asked_last cs as t2 \<Longrightarrow> asked_last cs as (t1 @ t2)"
  "asked_last cs as t2 \<Longrightarrow> asked_last cs as (e # t2)"
  "i \<in> set cs \<Longrightarrow> asked_last cs as [Guest i (RemoveReplicaMembers as)]"
  by (auto simp: removal_asks_def asked_last_def)

lemma sends_try_candidates:
  "set candidates \<subseteq> set cs \<Longrightarrow>
   sends (try_candidates t addresses candidates)
     (\<lambda>r tr. removal_asks cs addresses tr \<and> (r \<longrightarrow> asked_last cs addresses tr))
     (\<lambda>_ tr. removal_asks cs addresses tr)"
proof (induction candidates)
  case (Cons i candidates)
  let ?e = "Guest i (RemoveReplicaMembers addresses)"
  have i: "removal_asks cs addresses [?e]" "asked_last cs addresses [?e]"
    using Cons.prems by (simp_all add: removal_asks_append)
  have head: "sends (try_except (bind (ask_value t ?e) (\<lambda>result. ret (\<not> stepped_down result)))
      (\<lambda>e. if is_exception e then ret False else raise_exn e)) (\<lambda>_ tr. tr = [?e]) (\<lambda>_ tr. tr = [?e])"
    by (intro sends_seq sends_if sends_intros) simp_all
  have tail: "sends (if removed then ret True else try_candidates t addresses candidates)
      (\<lambda>r tr. removal_asks cs addresses (?e # tr) \<and> (r \<longrightarrow> asked_last cs addresses (?e # tr)))
      (\<lambda>_ tr. removal_asks cs addresses (?e # tr))" for removed
    using Cons.prems
    by (intro sends_if sends_ret sends_mono [OF Cons.IH])
      (use i removal_asks_append(2) [of cs addresses "[?e]"] removal_asks_append(6) in auto)
  show ?case
    unfolding try_candidates.simps by (intro sends_bind sends_mono [OF head]) (use i tail in simp_all)
qed (simp add: sends_ret removal_asks_append)

lemma steps_try_candidates: "steps (logs UNIV) (\<lambda>_. True) (try_candidates t addresses candidates)"
  by (induction candidates) (auto intro!: steps_intros)

lemma sends_find_primary:
  assumes "set candidates \<subseteq> set cs"
  shows "sends (poll clock dl nap
       (\<lambda>_. bind (try_candidates t addresses candidates) (\<lambda>removed.
              ret (if removed then Inr () else Inl ()))) ())
     (\<lambda>r tr. removal_asks cs addresses tr \<and> (r = Inr () \<longrightarrow> asked_last cs addresses tr))
     (\<lambda>_ tr. removal_asks cs addresses tr)"
  unfolding nap_def
proof (rule sends_poll [where I = "\<lambda>_ tr. removal_asks cs addresses tr"])
  fix u and tr :: "trove_event list"
  assume "removal_asks cs addresses tr"
  then show "sends (bind (try_candidates t addresses candidates) (\<lambda>removed. ret (if removed then Inr () else Inl ())))
      (\<lambda>res t2. case res of
          Inr r \<Rightarrow> removal_asks cs addresses (tr @ t2) \<and> (Inr r = Inr () \<longrightarrow> asked_last cs addresses (tr @ t2))
        | Inl s1 \<Rightarrow> removal_asks cs addresses (tr @ t2 @ [Slept]))
      (\<lambda>_ t2. removal_asks cs addresses (tr @ t2))"
    by (intro sends_bind sends_mono [OF sends_try_candidates [OF assms]] sends_ret)
      (auto simp: removal_asks_append)
qed (auto intro!: steps_intros steps_try_candidates simp: removal_asks_append)

definition replica_removal_log :: "string list \<Rightarrow> trove_event list" where
  "replica_removal_log ids = map Detach ids @ map DeleteInstance ids"

text \<open>
  The events between the announcement of a shrink and its end: members are looked up and asked to
  remove the others, and instances are removed only right after a member has been asked and has
  not stepped down.
\<close>

definition replica_shrink_log ::
  "bool \<Rightarrow> string list \<Rightarrow> string list \<Rightarrow> trove_event list \<Rightarrow> bool" where
  "replica_shrink_log finished remaining removal tr \<longleftrightarrow>
     (\<exists>lookups asks addresses removals. tr = lookups @ asks @ removals \<and>
        set lookups \<subseteq> LoadInstance ` set (remaining @ removal) \<union> VisibleAddresses ` set removal \<and>
        removal_asks (remaining @ removal) addresses asks \<and>
        prefix removals (replica_removal_log removal) \<and>
        (finished \<longrightarrow> removals = replica_removal_log removal) \<and>
        (finished \<or> removals \<noteq> [] \<longrightarrow>
           length addresses = length removal \<and> asked_last (remaining @ removal) addresses asks))"

lemma replica_shrink_logI:
  assumes "set lookups \<subseteq> LoadInstance ` set (remaining @ removal) \<union> VisibleAddresses ` set removal"
    and "removal_asks (remaining @ removal) addresses asks"
    and "prefix removals (replica_removal_log removal)"
    and "finished \<Longrightarrow> removals = replica_removal_log removal"
    and "finished \<or> removals \<noteq> [] \<Longrightarrow>
      length addresses = length removal \<and> asked_last (remaining @ removal) addresses asks"
  shows "replica_shrink_log finished remaining removal (lookups @ asks @ removals)"
  unfolding replica_shrink_log_def using assms by blast

lemma sends_replica_removals:
  "sends (andthen (for_each (\<lambda>i. do_call t (Detach i)) ids) (for_each (\<lambda>i. do_call t (DeleteInstance i)) ids))
     (\<lambda>_ tr. tr = replica_removal_log ids) (\<lambda>_ tr. prefix tr (replica_removal_log ids))"
  by (intro sends_andthen sends_mono [OF sends_for_each_call] sends_mono [OF sends_for_each_call])
    (auto simp: replica_removal_log_def intro: prefix_order.trans prefix_prefix)

section \<open>The shrink of a replica set as a whole\<close>

definition replica_lookups :: "string list \<Rightarrow> string list \<Rightarrow> trove_event list" where
  "replica_lookups remaining removal = map LoadInstance (remaining @ removal) @ map VisibleAddresses removal"

lemma replica_lookups_set:
  "prefix tr (replica_lookups remaining removal) \<Longrightarrow>
     set tr \<subseteq> LoadInstance ` set (remaining @ removal) \<union> VisibleAddresses ` set removal"
  using set_mono_prefix [of tr "replica_lookups remaining removal"] by (auto simp: replica_lookups_def)

lemma replica_stopped:
  assumes "prefix tr (replica_lookups remaining removal)"
  shows "replica_shrink_log False remaining removal tr"
  using replica_shrink_logI [OF replica_lookups_set [OF assms], of _ "[]" "[]" False] by (simp add: removal_asks_append)

lemma replica_asked:
  assumes "removal_asks (remaining @ removal) addresses tr"
  shows "replica_shrink_log False remaining removal (replica_lookups remaining removal @ tr)"
  using replica_shrink_logI [OF replica_lookups_set assms, of "replica_lookups remaining removal" "[]" False] by simp

lemma replica_removing:
  assumes "removal_asks (remaining @ removal) addresses asks" and "prefix removals (replica_removal_log removal)"
    and "b \<Longrightarrow> removals = replica_removal_log removal" and "length addresses = length removal"
    and "asked_last (remaining @ removal) addresses asks"
  shows "replica_shrink_log b remaining removal (replica_lookups remaining removal @ asks @ removals)"
  using replica_shrink_logI [OF replica_lookups_set assms(1,2), of "replica_lookups remaining removal" b] assms by simp

lemma sends_remove_found:
  assumes "length addresses = length removal"
  shows "sends (bind now (\<lambda>start.
      bind (poll clock (start + add_members_timeout c) nap
         (\<lambda>_. bind (try_candidates t addresses (remaining @ removal)) (\<lambda>removed.
                ret (if removed then Inr () else Inl ()))) ()) (\<lambda>answer.
      case answer of
        Inl _ \<Rightarrow> raise_exn (TroveError ''Unable to find a MongoDB replica-set primary'')
      | Inr _ \<Rightarrow>
          andthen (for_each (\<lambda>i. do_call t (Detach i)) removal)
            (for_each (\<lambda>i. do_call t (DeleteInstance i)) removal))))
      (\<lambda>_ tr. replica_shrink_log True remaining removal (replica_lookups remaining removal @ tr))
      (\<lambda>_ tr. replica_shrink_log False remaining removal (replica_lookups remaining removal @ tr))"
proof (rule sends_bind, rule sends_now, rule sends_bind, rule sends_mono [OF sends_find_primary])
  fix answer :: "unit + unit" and asks
  assume asks: "removal_asks (remaining @ removal) addresses asks \<and>
    (answer = Inr () \<longrightarrow> asked_last (remaining @ removal) addresses asks)"
  show "sends (case answer of Inl _ \<Rightarrow> raise_exn (TroveError ''Unable to find a MongoDB replica-set primary'')
    | Inr _ \<Rightarrow> andthen (for_each (\<lambda>i. do_call t (Detach i)) removal)
          (for_each (\<lambda>i. do_call t (DeleteInstance i)) removal))
    (\<lambda>_ tr. replica_shrink_log True remaining removal (replica_lookups remaining removal @ [] @ asks @ tr))
    (\<lambda>_ tr. replica_shrink_log False remaining removal (replica_lookups remaining removal @ [] @ asks @ tr))"
  proof (cases answer)
    case (Inr u)
    with asks assms show ?thesis
      by (auto intro!: sends_mono [OF sends_replica_removals] replica_removing [simplified])
  qed (use asks in \<open>auto intro!: sends_raise replica_asked [simplified]\<close>)
qed (auto intro!: replica_asked [simplified])

lemma sends_remove_replicas:
  "sends (remove_replicas c t remaining removal)
     (\<lambda>_. replica_shrink_log True remaining removal) (\<lambda>_. replica_shrink_log False remaining removal)"
  unfolding remove_replicas_def
proof (rule sends_andthen, rule sends_mono [OF sends_for_each_call], rule sends_bind,
    rule sends_mono [OF sends_map_io [OF sends_member_address]])
  fix u :: unit and loads addr :: "trove_event list" and addresses :: "string list"
  assume "loads = map LoadInstance (remaining @ removal)" and
    "length addresses = length removal \<and> addr = concat (map (\<lambda>i. [VisibleAddresses i]) removal)"
  then have lookups: "loads @ addr @ tr = replica_lookups remaining removal @ tr" and n: "length addresses = length removal" for tr
    by (simp_all add: replica_lookups_def)
  show "sends (bind now (\<lambda>start.
    bind (poll clock (start + add_members_timeout c) nap
       (\<lambda>_. bind (try_candidates t addresses (remaining @ removal)) (\<lambda>removed.
              ret (if removed then Inr () else Inl ()))) ()) (\<lambda>answer.
    case answer of
      Inl _ \<Rightarrow> raise_exn (TroveError ''Unable to find a MongoDB replica-set primary'')
    | Inr _ \<Rightarrow>
        andthen (for_each (\<lambda>i. do_call t (Detach i)) removal)
          (for_each (\<lambda>i. do_call t (DeleteInstance i)) removal))))
    (\<lambda>_ tr. replica_shrink_log True remaining removal (loads @ addr @ tr))
    (\<lambda>_ tr. replica_shrink_log False remaining removal (loads @ addr @ tr))"
    unfolding lookups by (rule sends_remove_found [OF n])
next
  fix u :: unit and e and loads addr :: "trove_event list"
  assume "loads = map LoadInstance (remaining @ removal)" and "prefix addr (concat (map (\<lambda>i. [VisibleAddresses i]) removal))"
  then show "replica_shrink_log False remaining removal (loads @ addr)" by (intro replica_stopped) (simp add: replica_lookups_def)
next
  fix e tr assume "prefix tr (map LoadInstance (remaining @ removal))"
  then show "replica_shrink_log False remaining removal tr"
    by (intro replica_stopped) (simp add: replica_lookups_def prefix_prefix del: map_append)
qed

definition safe_replica_shrink ::
  "bool \<Rightarrow> string list \<Rightarrow> db_instance list \<Rightarrow> trove_event list \<Rightarrow> bool" where
  "safe_replica_shrink finished ids xs tr \<longleftrightarrow>
     (set ids \<subseteq> set (ids_of xs) \<and> 2 \<le> card (set (ids_of xs) - set ids) \<and>
      (\<exists>mid. tr = shrink_opening @ mid @ [SetTask NO_TASK] \<and>
         replica_shrink_log finished (ids_of (filter (\<lambda>i. i_id i \<notin> set ids) xs))
           (ids_of (requested ids xs)) mid))"

lemma check_shrink_Inr:
  assumes "check_shrink (remdups ids) xs = Inr ()"
  shows "set ids \<subseteq> set (ids_of xs)" and "2 \<le> card (set (ids_of xs) - set ids)"
proof -
  have ok: "filter (\<lambda>i. i \<notin> set (ids_of xs)) (remdups ids) = []"
    "\<not> int (card (set (ids_of xs))) - int (length (remdups ids)) < int MIN_REPLICA_SET_MEMBERS"
    using assms unfolding check_shrink_def Let_def by (simp_all split: if_splits)
  from ok(1) show *: "set ids \<subseteq> set (ids_of xs)" by (auto simp: filter_empty_conv)
  have "length (remdups ids) = card (set ids)" by (simp add: length_remdups_card_conv)
  with ok(2) card_Diff_subset [OF finite_set *] show "2 \<le> card (set (ids_of xs) - set ids)"
    unfolding MIN_REPLICA_SET_MEMBERS_def by simp
qed

lemma replica_shrink_log_weaken:
  "replica_shrink_log True remaining removal tr \<Longrightarrow> replica_shrink_log b remaining removal tr"
  unfolding replica_shrink_log_def by auto

lemma sends_replica_shrink_reset:
  "sends (try_finally (remove_replicas c t remaining removal) (do_call t (SetTask NO_TASK)))
     (\<lambda>_ tr. \<exists>mid. replica_shrink_log True remaining removal mid \<and> tr = mid @ [SetTask NO_TASK])
     (\<lambda>_ tr. \<exists>mid. replica_shrink_log False remaining removal mid \<and> tr = mid @ [SetTask NO_TASK])"
  by (intro sends_seq sends_mono [OF sends_remove_replicas] sends_intros)
    (blast dest: replica_shrink_log_weaken)+

lemma shrink_replica_set_sends:
  assumes xs: "\<And>x. fst (give_instances t FindInstances x) = Inr xs"
  shows "sends (shrink_replica_set c t ids) (\<lambda>_. safe_replica_shrink True ids xs)
     (\<lambda>_ tr. prefix tr shrink_opening \<or> safe_replica_shrink False ids xs tr)"
proof -
  let ?pre = "[ValidateAvailable, FindInstances]"
  have logged: "safe_replica_shrink b ids xs (?pre @ SetTask SHRINKING_CLUSTER # mid @ [SetTask NO_TASK])"
    if "check_shrink (remdups ids) xs = Inr ()"
      and "replica_shrink_log b (ids_of (filter (\<lambda>i. i_id i \<notin> set ids) xs)) (ids_of (requested ids xs)) mid"
    for b mid
    unfolding safe_replica_shrink_def using check_shrink_Inr [OF that(1)] that(2)
    by (simp add: shrink_opening_def)
  have starts: "prefix [ValidateAvailable] shrink_opening" "prefix ?pre shrink_opening"
    "prefix (?pre @ [SetTask SHRINKING_CLUSTER]) shrink_opening"
    by (simp_all add: shrink_opening_def)
  show ?thesis
    unfolding shrink_replica_set_def
    apply (intro sends_andthen sends_bind sends_ask_instances sends_lift_sum sends_calls
        sends_mono [OF sends_replica_shrink_reset])
    subgoal using starts by simp
    subgoal using starts by simp
    subgoal using starts by simp
    subgoal using logged by (elim exE conjE) (simp add: xs)
    subgoal using logged by (elim exE conjE) (simp add: xs)
    subgoal using starts by simp
    done
qed

section \<open>Properties\<close>





end
