(* ===== verification/TroveCreate.thy ===== *)
theory TroveCreate
  imports TroveTopology
begin

text \<open>
  Creating and growing clusters: the nodes of a request are grouped into shards, what is created is
  what the quota was checked for, and how a failure leaves the cluster and its task status.
\<close>

section \<open>New members are partitioned into shards\<close>

text \<open>The names a node is known by.\<close>

definition node_names :: "pydict \<Rightarrow> pyval set" where
  "node_names item = {v \<in> {vget item ''name'', vget item ''related_to''}. truthy v}"

definition grouped :: "pydict list \<Rightarrow> grouping \<Rightarrow> bool" where
  "grouped items st \<longleftrightarrow>
     mset (concat (g_groups st)) = mset items \<and> [] \<notin> set (g_groups st) \<and>
     (\<forall>n < length (g_groups st). \<forall>x \<in> set (g_groups st ! n). \<forall>v \<in> node_names x.
        dget (g_names st) v = Some n) \<and>
     (\<forall>v n. dget (g_names st) v = Some n \<longrightarrow> n < length (g_groups st))"

lemma groupedD:
  assumes "grouped items st"
  shows "n < length (g_groups st) \<Longrightarrow> x \<in> set (g_groups st ! n) \<Longrightarrow> v \<in> node_names x \<Longrightarrow>
      dget (g_names st) v = Some n"
    and "dget (g_names st) v = Some n \<Longrightarrow> n < length (g_groups st)"
    and "mset (concat (g_groups st)) = mset items" and "[] \<notin> set (g_groups st)"
  using assms unfolding grouped_def by blast+

lemma mset_concat_update:
  "n < length xss \<Longrightarrow> mset (concat (xss[n := xss ! n @ ys])) = mset (concat xss) + mset ys"
proof (induction xss arbitrary: n)
  case (Cons xs xss)
  then show ?case by (cases n) auto
qed simp

lemma join_group_cases:
  assumes "join_group item st = (n, st1)"
  obtains (old) "dget (g_names st) (group_key item) = Some n" "g_names st1 = g_names st"
      "g_groups st1 = (g_groups st)[n := g_groups st ! n @ [item]]"
    | (new) "dget (g_names st) (group_key item) = None" "n = length (g_groups st)"
      "g_names st1 = dset (group_key item) n (g_names st)" "g_groups st1 = g_groups st @ [[item]]"
proof (cases "dget (g_names st) (group_key item)")
  case None
  with assms show ?thesis by (intro new) (auto simp: join_group_def)
next
  case (Some m)
  with assms have n: "m = n" and st1: "st1 = st\<lparr>g_groups := (g_groups st)[m := g_groups st ! m @ [item]]\<rparr>"
    unfolding join_group_def by auto
  show ?thesis by (rule old) (simp_all add: Some n st1)
qed

lemma join_group_all:
  assumes st: "grouped items st" and join: "join_group item st = (n, st1)"
  shows "mset (concat (g_groups st1)) = mset (item # items) \<and> [] \<notin> set (g_groups st1) \<and>
    n < length (g_groups st1) \<and> dget (g_names st1) (group_key item) = Some n \<and>
    (\<forall>m x v. m < length (g_groups st1) \<longrightarrow> x \<in> set (g_groups st1 ! m) \<longrightarrow> v \<in> node_names x \<longrightarrow>
       (x = item \<and> m = n) \<or> dget (g_names st1) v = Some m) \<and>
    (\<forall>v m. dget (g_names st1) v = Some m \<longrightarrow> m < length (g_groups st1))"
  using join
proof (cases rule: join_group_cases)
  case old
  have n: "n < length (g_groups st)" using groupedD(2) [OF st old(1)] .
  have "[] \<notin> set (g_groups st1)"
    using groupedD(4) [OF st] set_update_subset_insert [of "g_groups st" n "g_groups st ! n @ [item]"]
    unfolding old(3) by blast
  moreover have "mset (concat (g_groups st1)) = mset (item # items)"
    using groupedD(3) [OF st] n unfolding old(3) by (simp add: mset_concat_update)
  moreover have "(x = item \<and> m = n) \<or> dget (g_names st1) v = Some m"
    if "m < length (g_groups st1)" "x \<in> set (g_groups st1 ! m)" "v \<in> node_names x" for m x v
  proof (cases "m = n")
    case True
    with that n groupedD(1) [OF st n, of x v] show ?thesis unfolding old(2,3) by auto
  next
    case False
    with that groupedD(1) [OF st, of m x v] show ?thesis unfolding old(2,3) by simp
  qed
  moreover have "m < length (g_groups st1)" if "dget (g_names st1) v = Some m" for v m
    using groupedD(2) [OF st] that unfolding old(2,3) by simp
  ultimately show ?thesis using old(1,2,3) n by (simp; blast)
next
  case new
  have "mset (concat (g_groups st1)) = mset (item # items)" "[] \<notin> set (g_groups st1)"
    using groupedD(3,4) [OF st] unfolding new(4) by simp_all
  moreover have "(x = item \<and> m = n) \<or> dget (g_names st1) v = Some m"
    if m: "m < length (g_groups st1)" and x: "x \<in> set (g_groups st1 ! m)" and v: "v \<in> node_names x"
    for m x v
  proof (cases "m < length (g_groups st)")
    case True
    with x new have "x \<in> set (g_groups st ! m)" by (simp add: nth_append)
    with True v have "dget (g_names st) v = Some m" using groupedD(1) [OF st] by blast
    with new(1,3) show ?thesis by (auto simp: dict_simps)
  next
    case False
    with m x new show ?thesis by (auto simp: nth_append less_Suc_eq)
  qed
  moreover have "m < length (g_groups st1)" if "dget (g_names st1) v = Some m" for v m
    using groupedD(2) [OF st, of v m] that unfolding new(2,3,4)
    by (auto simp: dict_simps split: if_splits)
  ultimately show ?thesis using new by (simp add: dict_simps; blast)
qed

lemma join_group_grouped:
  assumes "grouped items st" and "join_group item st = (n, st1)"
  shows "mset (concat (g_groups st1)) = mset (item # items)" "[] \<notin> set (g_groups st1)"
    "n < length (g_groups st1)" "dget (g_names st1) (group_key item) = Some n"
    "\<And>m x v. m < length (g_groups st1) \<Longrightarrow> x \<in> set (g_groups st1 ! m) \<Longrightarrow> v \<in> node_names x \<Longrightarrow>
       (x = item \<and> m = n) \<or> dget (g_names st1) v = Some m"
    "\<And>v m. dget (g_names st1) v = Some m \<Longrightarrow> m < length (g_groups st1)"
  using join_group_all [OF assms] by blast+

lemma node_names_cases:
  assumes "named item"
  shows "node_names item \<subseteq> {group_key item} \<union> (if truthy (vget item ''name'') then {vget item ''name''} else {})"
  using assms by (auto simp: node_names_def group_key_def py_or_def named_def)

lemma group_item_grouped:
  assumes st: "grouped items st" and "named item" and item: "group_item item st = Inr st2"
  shows "grouped (item # items) st2"
proof -
  let ?name = "vget item ''name''"
  obtain n st1 where join: "join_group item st = (n, st1)" by (cases "join_group item st")
  note j = join_group_grouped [OF st join]
  show ?thesis
  proof (cases "truthy ?name")
    case False
    with item join have st2: "st2 = st1" by (simp add: group_item_def)
    have own: "node_names item \<subseteq> {group_key item}" using node_names_cases [OF \<open>named item\<close>] False by simp
    show ?thesis
      unfolding grouped_def st2
    proof (intro conjI allI impI ballI)
      fix m x v
      assume "m < length (g_groups st1)" "x \<in> set (g_groups st1 ! m)" "v \<in> node_names x"
      with j(5) [of m x v] own j(4) show "dget (g_names st1) v = Some m" by auto
    qed (use j in auto)
  next
    case True
    from item join True have ok: "dget (g_names st1) ?name \<in> {None, Some n}"
      and st2: "g_groups st2 = g_groups st1" "g_names st2 = dset ?name n (g_names st1)"
      by (auto simp: group_item_def Let_def split: if_splits)
    have own: "node_names item \<subseteq> {group_key item, ?name}" using node_names_cases [OF \<open>named item\<close>] True by auto
    show ?thesis
      unfolding grouped_def st2
    proof (intro conjI allI impI ballI)
      fix m x v
      assume *: "m < length (g_groups st1)" "x \<in> set (g_groups st1 ! m)" "v \<in> node_names x"
      show "dget (dset ?name n (g_names st1)) v = Some m"
        using j(5) [OF *] j(4) own ok * by (auto simp: dict_simps)
    next
      fix v m
      assume "dget (dset ?name n (g_names st1)) v = Some m"
      with j(3,6) show "m < length (g_groups st1)" by (auto simp: dict_simps split: if_splits)
    qed (use j in auto)
  qed
qed

lemma group_items_grouped:
  "grouped done st \<Longrightarrow> group_items items st = Inr st1 \<Longrightarrow>
     grouped (rev (filter named items) @ done) st1"
proof (induction items arbitrary: st "done")
  case (Cons item items)
  show ?case
  proof (cases "named item")
    case True
    with Cons.prems(2) obtain st2 where "group_item item st = Inr st2" "group_items items st2 = Inr st1"
      by (auto split: sum.splits)
    with Cons.IH [of "item # done" st2] group_item_grouped [OF Cons.prems(1) True] True
    show ?thesis by simp
  qed (use Cons in auto)
qed simp

lemma grow_groups_facts:
  assumes "group_shard_instances items = Inr groups"
  shows "mset (concat groups) = mset items \<and> [] \<notin> set groups \<and>
    (\<forall>i < length groups. \<forall>j < length groups. \<forall>x \<in> set (groups ! i). \<forall>y \<in> set (groups ! j).
       node_names x \<inter> node_names y \<noteq> {} \<longrightarrow> i = j)"
proof (cases "items = [] \<or> list_all (\<lambda>item. \<not> named item) items")
  case True
  with assms have "groups = [] \<and> items = [] \<or> groups = [items] \<and> items \<noteq> []"
    by (simp add: group_shard_instances_def split: if_splits)
  then show ?thesis by (elim disjE conjE) simp_all
next
  case False
  let ?final = "group_items items \<lparr>g_groups = [], g_names = []\<rparr>"
  have eq: "group_shard_instances items = (case ?final of Inl e \<Rightarrow> Inl e
      | Inr st \<Rightarrow>
          if list_ex (\<lambda>item. \<not> named item) items then
            Inl (TroveError ''Named MongoDB replica members are required when related_to is used'')
          else Inr (g_groups st))"
    using False unfolding group_shard_instances_def by simp
  obtain st where st: "?final = Inr st" using assms unfolding eq by (cases ?final) simp_all
  with assms have "\<not> list_ex (\<lambda>item. \<not> named item) items" and groups: "groups = g_groups st"
    unfolding eq by (simp_all split: if_splits)
  then have all: "filter named items = items" by (simp add: list_ex_iff filter_id_conv)
  have "grouped [] \<lparr>g_groups = [], g_names = []\<rparr>" by (simp add: grouped_def)
  from group_items_grouped [OF this st] all have g: "grouped (rev items) st" by simp
  have "i = j" if "i < length groups" "j < length groups" "x \<in> set (groups ! i)" "y \<in> set (groups ! j)"
    and common: "node_names x \<inter> node_names y \<noteq> {}" for i j x y
  proof -
    from common obtain v where "v \<in> node_names x" "v \<in> node_names y" by blast
    with that have "dget (g_names st) v = Some i" "dget (g_names st) v = Some j"
      unfolding groups by (blast intro: groupedD(1) [OF g])+
    then show "i = j" by simp
  qed
  moreover have "mset (concat groups) = mset items" "[] \<notin> set groups"
    using groupedD(3,4) [OF g] by (simp_all add: groups)
  ultimately show ?thesis by blast
qed

section \<open>Creating instances\<close>

definition q_role :: "instance_request \<Rightarrow> pyval" where
  "q_role q = vget (q_cluster_config q) ''instance_type''"

definition q_cluster :: "instance_request \<Rightarrow> pyval" where
  "q_cluster q = vget (q_cluster_config q) ''id''"

text \<open>The instances are requested one after the other, each at most once, in the order of \<open>rs\<close>.\<close>

definition requests_made :: "(trove_error + instance_request) list \<Rightarrow> trove_event list \<Rightarrow> bool" where
  "requests_made rs tr \<longleftrightarrow> (\<exists>qs. prefix (map Inr qs) rs \<and> tr = map CreateInstance qs)"

lemma sends_create_instances:
  "sends (map_io (create_instance t) rs)
     (\<lambda>ids tr. length ids = length rs \<and> (\<exists>qs. rs = map Inr qs \<and> tr = map CreateInstance qs))
     (\<lambda>_ tr. requests_made rs tr)"
proof (induction rs)
  case (Cons r rs)
  show ?case
  proof (cases r)
    case (Inl e)
    then show ?thesis
      by (auto simp: create_instance_def requests_made_def intro!: sends_seq sends_intros)
  next
    case (Inr q)
    have tail: "sends (bind (map_io (create_instance t) rs) (\<lambda>ys. ret (y # ys)))
        (\<lambda>ids tr. length ids = length (r # rs) \<and>
           (\<exists>qs. r # rs = map Inr qs \<and> CreateInstance q # tr = map CreateInstance qs))
        (\<lambda>_ tr. requests_made (r # rs) (CreateInstance q # tr))" for y
    proof (rule sends_bind, rule sends_mono [OF Cons.IH], rule sends_ret)
      fix ids :: "string list" and tr :: "trove_event list"
      assume "length ids = length rs \<and> (\<exists>qs. rs = map Inr qs \<and> tr = map CreateInstance qs)"
      then obtain qs where "length ids = length rs" "rs = map Inr qs" "tr = map CreateInstance qs" by blast
      then show "length (y # ids) = length (r # rs) \<and>
          (\<exists>qs. r # rs = map Inr qs \<and> CreateInstance q # tr @ [] = map CreateInstance qs)"
        using Inr by (intro conjI exI [of _ "q # qs"]) simp_all
    next
      fix e and tr :: "trove_event list" assume "requests_made rs tr"
      then obtain qs where "prefix (map Inr qs) rs" "tr = map CreateInstance qs"
        unfolding requests_made_def by blast
      then show "requests_made (r # rs) (CreateInstance q # tr)"
        unfolding requests_made_def using Inr by (intro exI [of _ "q # qs"]) simp
    qed
    have one: "requests_made (r # rs) [CreateInstance q]"
      unfolding requests_made_def using Inr by (intro exI [of _ "[q]"]) simp
    have head: "sends (create_instance t r) (\<lambda>_ tr. tr = [CreateInstance q]) (\<lambda>_ tr. tr = [CreateInstance q])"
      unfolding create_instance_def Inr by (intro sends_seq sends_intros) simp_all
    show ?thesis
      unfolding map_io.simps
      by (rule sends_bind, rule sends_mono [OF head], simp add: tail [simplified]) (simp add: one)
  qed
qed (simp add: sends_ret)

section \<open>Creating a sharded cluster\<close>

lemma requests_config:
  assumes "map Inr qs = rs" and "\<And>q. Inr q \<in> set rs \<Longrightarrow> q_cluster_config q = config"
  shows "map q_cluster_config qs = replicate (length rs) config"
  using assms by (auto intro!: replicate_eqI)

lemma node_request_config:
  "node_request name img volume nics conf config vt locality node = Inr q \<Longrightarrow> q_cluster_config q = config"
  by (auto simp: node_request_def map_sum_def split: sum.splits)

lemma member_requests_config:
  assumes "Inr q \<in> set (member_requests name img conf config locality nodes)"
  shows "q_cluster_config q = config"
  using assms unfolding member_requests_def Let_def by (auto dest: node_request_config [OF sym])

lemma server_requests_config:
  assumes "Inr q \<in> set (server_requests name n img conf volume config vt locality nodes)"
  shows "q_cluster_config q = config"
  using assms unfolding server_requests_def Let_def by (auto simp: map_sum_def split: sum.splits)

lemma length_requests [simp]:
  "length (numbered xs) = length xs"
  "length (member_requests name img conf config locality nodes) = length nodes"
  "length (server_requests name n img conf volume config vt locality nodes) = n"
  "length (replica_requests name cid img conf locality nodes) = length nodes"
  by (simp_all add: numbered_def member_requests_def server_requests_def replica_requests_def Let_def del: upt_Suc)

text \<open>The cluster configurations of the instances of a new sharded cluster.\<close>

definition sharded_configs :: "string \<Rightarrow> string \<Rightarrow> nat \<Rightarrow> nat \<Rightarrow> nat \<Rightarrow> pydict list" where
  "sharded_configs cluster_id shard members servers routers =
     replicate members (shard_member_config cluster_id shard ''rs1'') @
     replicate servers (config_server_config cluster_id) @
     replicate routers (query_router_config cluster_id)"

lemma server_configs:
  assumes "map Inr qs = member_requests name img conf (shard_member_config cid shard ''rs1'') locality nodes @
      server_requests n1 servers img conf v1 (config_server_config cid) vt1 locality nodes @
      server_requests n2 routers img conf v2 (query_router_config cid) vt2 locality nodes"
  shows "map q_cluster_config qs = sharded_configs cid shard (length nodes) servers routers"
proof -
  from assms [symmetric] obtain q1 q2 q3 where qs: "qs = q1 @ q2 @ q3"
    and "map Inr q1 = member_requests name img conf (shard_member_config cid shard ''rs1'') locality nodes"
    "map Inr q2 = server_requests n1 servers img conf v1 (config_server_config cid) vt1 locality nodes"
    "map Inr q3 = server_requests n2 routers img conf v2 (query_router_config cid) vt2 locality nodes"
    unfolding append_eq_map_conv by metis
  from requests_config [OF this(2) member_requests_config] requests_config [OF this(3) server_requests_config]
    requests_config [OF this(4) server_requests_config]
  show ?thesis by (simp add: qs sharded_configs_def)
qed

definition check_events :: "trove_event set" where
  "check_events = range ValidateFlavors \<union> range AssertHomogeneous \<union> range ValidateNics \<union>
     range RequiredVolumeSize \<union> (\<lambda>(n, vol). CheckQuotas n vol) ` UNIV \<union> range FindConfiguration"

lemma in_check_events [simp]:
  "ValidateFlavors ns \<in> check_events" "AssertHomogeneous ns \<in> check_events" "ValidateNics ns \<in> check_events"
  "RequiredVolumeSize ns \<in> check_events" "CheckQuotas n vol \<in> check_events" "FindConfiguration s \<in> check_events"
  by (auto simp: check_events_def)

text \<open>Checks that include the quota of \<open>n\<close> instances.\<close>

definition checked :: "nat \<Rightarrow> trove_event list \<Rightarrow> bool" where
  "checked n tr \<longleftrightarrow> set tr \<subseteq> check_events \<and> (\<exists>vol. CheckQuotas n vol \<in> set tr)"

lemma sends_validate_shard_members:
  "sends (validate_shard_members t members)
     (\<lambda>_ tr. 2 \<le> length members \<and> set tr \<subseteq> check_events) (\<lambda>_ tr. set tr \<subseteq> check_events)"
  unfolding validate_shard_members_def MIN_REPLICA_SET_MEMBERS_def
  by (intro sends_if sends_seq sends_intros) simp_all

lemma sends_check_size:
  "sends (check_size t n nodes) (\<lambda>_ tr. checked n tr) (\<lambda>_ tr. set tr \<subseteq> check_events)"
  unfolding check_size_def checked_def by (intro sends_seq sends_intros) auto

lemma sends_find_configuration:
  "sends (find_configuration t conf) (\<lambda>v tr. set tr \<subseteq> check_events \<and> v \<in> {conf, PNone}) (\<lambda>_ tr. set tr \<subseteq> check_events)"
  unfolding find_configuration_def by (intro sends_if sends_seq sends_intros) simp_all

lemma integer_property_minimum: "integer_property c ep name v m = Inr i \<Longrightarrow> m \<le> i"
  by (auto simp: integer_property_def split: sum.splits option.splits if_splits)

lemma sharded_sizes_minimum:
  assumes "sharded_sizes c ep = Inr ((servers, routers), config_size, router_size)"
  shows "2 \<le> servers" "1 \<le> routers" "1 \<le> config_size" "1 \<le> router_size"
  using assms unfolding sharded_sizes_def MIN_CONFIG_SERVER_MEMBERS_def MIN_QUERY_ROUTERS_def
  by (auto split: sum.splits dest!: integer_property_minimum)

definition row_created :: "string \<Rightarrow> trove_event list \<Rightarrow> bool" where
  "row_created name tr \<longleftrightarrow> set tr \<subseteq> check_events \<or>
     (\<exists>n check conf qs cid. checked n check \<and>
        prefix tr (check @ [CreateClusterRow name conf, GenerateUuid] @ map CreateInstance qs @ [CastCreate cid]))"

text \<open>
  A new sharded cluster: \<open>row_created\<close> describes a creation that failed, \<open>sharded_created\<close> one that
  succeeded with \<open>servers\<close> config servers and \<open>routers\<close> query routers.
\<close>

definition sharded_created ::
  "string \<Rightarrow> nat \<Rightarrow> string \<Rightarrow> trove_event list \<Rightarrow> bool" where
  "sharded_created name members cluster_id tr \<longleftrightarrow>
     (\<exists>servers routers shard check conf qs. 2 \<le> members \<and> 2 \<le> servers \<and> 1 \<le> routers \<and>
        checked (length qs) check \<and>
        map q_cluster_config qs = sharded_configs cluster_id shard members servers routers \<and>
        tr = check @ [CreateClusterRow name conf, GenerateUuid] @ map CreateInstance qs @
          [CastCreate cluster_id])"

lemma sends_create_servers:
  "sends (create_servers t name cid shard ep ((servers, routers), csize, rsize) img conf locality nodes)
     (\<lambda>_ tr. \<exists>qs. map q_cluster_config qs = sharded_configs cid shard (length nodes) servers routers \<and>
        tr = map CreateInstance qs)
     (\<lambda>_ tr. \<exists>qs. tr = map CreateInstance qs)"
  unfolding create_servers_def Let_def prod.case
  by (rule sends_mono [OF sends_create_instances])
    (auto simp: requests_made_def dest: server_configs [OF sym])

lemma row_createdI:
  "set tr \<subseteq> check_events \<Longrightarrow> row_created name tr"
  "checked n check \<Longrightarrow>
     prefix tr ([CreateClusterRow name conf, GenerateUuid] @ map CreateInstance qs @ [CastCreate cid]) \<Longrightarrow>
     row_created name (check @ tr)"
  unfolding row_created_def by (blast, metis same_prefix_prefix)

lemma sharded_configs_length:
  "map q_cluster_config qs = sharded_configs cid shard members servers routers \<Longrightarrow>
     length qs = members + servers + routers"
  by (drule arg_cong [where f = length]) (simp add: sharded_configs_def)

lemma sharded_createdI:
  assumes "2 \<le> members" "2 \<le> servers" "1 \<le> routers" "checked (members + servers + routers) check"
    and "map q_cluster_config qs = sharded_configs cid shard members servers routers"
    and "tr = [CreateClusterRow name conf, GenerateUuid] @ map CreateInstance qs @ [CastCreate cid]"
  shows "sharded_created name members cid (check @ tr)"
  unfolding sharded_created_def assms(6) using assms(1-5) sharded_configs_length [OF assms(5)] by metis

lemma sends_build_sharded:
  assumes "2 \<le> length nodes" "2 \<le> servers" "1 \<le> routers" "checked (length nodes + servers + routers) check"
  shows "sends (bind (ask_text t (CreateClusterRow name conf)) (\<lambda>cluster_id.
         bind (ask_text t GenerateUuid) (\<lambda>shard_id.
         bind (create_servers t name cluster_id shard_id ep ((servers, routers), csize, rsize)
             img conf locality nodes) (\<lambda>_.
         andthen (do_call t (CastCreate cluster_id)) (ret cluster_id)))))
      (\<lambda>cid tr. sharded_created name (length nodes) cid (check @ tr)) (\<lambda>_ tr. row_created name (check @ tr))"
    (is "sends ?m _ _")
proof -
  have "sends ?m
      (\<lambda>cid tr. \<exists>qs shard. map q_cluster_config qs = sharded_configs cid shard (length nodes) servers routers \<and>
         tr = [CreateClusterRow name conf, GenerateUuid] @ map CreateInstance qs @ [CastCreate cid])
      (\<lambda>_ tr. \<exists>qs cid. prefix tr ([CreateClusterRow name conf, GenerateUuid] @ map CreateInstance qs @ [CastCreate cid]))"
    apply (intro sends_bind sends_andthen sends_calls sends_mono [OF sends_create_servers] sends_ret)
    subgoal by simp
    subgoal by simp
    subgoal for cid shard u tr unfolding append.simps by (elim exE conjE) (metis prefix_order.refl)
    subgoal for cid shard u tr by (elim exE conjE, rule exI, rule exI [of _ shard]) simp
    subgoal for cid shard e tr
      apply (elim exE)
      subgoal for qs by (rule exI [of _ qs], rule exI [of _ cid]) simp
      done
    done
  then show ?thesis
    by (rule sends_mono)
      (use assms in \<open>blast intro: sharded_createdI row_createdI(2)\<close>)+
qed

lemma checked_append: "set t1 \<subseteq> check_events \<Longrightarrow> checked n t2 \<Longrightarrow> checked n (t1 @ t2)"
  by (auto simp: checked_def)

lemma sends_checked_sharded:
  assumes "2 \<le> length nodes" "2 \<le> servers" "1 \<le> routers" "set tr0 \<subseteq> check_events"
  shows "sends (bind (check_size t (length nodes + servers + routers) all_nodes) (\<lambda>_.
         bind (find_configuration t configuration) (\<lambda>configuration_id.
         bind (ask_text t (CreateClusterRow name configuration_id)) (\<lambda>cluster_id.
         bind (ask_text t GenerateUuid) (\<lambda>shard_id.
         bind (create_servers t name cluster_id shard_id ep ((servers, routers), csize, rsize)
             img configuration_id locality nodes) (\<lambda>_.
         andthen (do_call t (CastCreate cluster_id)) (ret cluster_id)))))))
      (\<lambda>cid tr. sharded_created name (length nodes) cid (tr0 @ tr)) (\<lambda>_ tr. row_created name (tr0 @ tr))"
proof (rule sends_bind, rule sends_mono [OF sends_check_size], rule sends_bind,
    rule sends_mono [OF sends_find_configuration])
  fix u :: unit and tr1 tr2 :: "trove_event list" and conf
  assume "checked (length nodes + servers + routers) tr1" and "set tr2 \<subseteq> check_events \<and> conf \<in> {configuration, PNone}"
  then have "checked (length nodes + servers + routers) (tr0 @ tr1 @ tr2)"
    using assms(4) by (auto simp: checked_def)
  from sends_build_sharded [OF assms(1-3) this]
  show "sends (bind (ask_text t (CreateClusterRow name conf)) (\<lambda>cluster_id.
         bind (ask_text t GenerateUuid) (\<lambda>shard_id.
         bind (create_servers t name cluster_id shard_id ep ((servers, routers), csize, rsize)
             img conf locality nodes) (\<lambda>_.
         andthen (do_call t (CastCreate cluster_id)) (ret cluster_id)))))
      (\<lambda>cid tr. sharded_created name (length nodes) cid (tr0 @ tr1 @ tr2 @ tr))
      (\<lambda>_ tr. row_created name (tr0 @ tr1 @ tr2 @ tr))" by simp
qed (use assms(4) in \<open>auto simp: checked_def intro!: row_createdI(1)\<close>)

lemma create_sharded_sends:
  "sends (create_sharded c t name img instances ep locality configuration image_id)
     (sharded_created name (length instances)) (\<lambda>_. row_created name)"
  unfolding create_sharded_def
  apply (rule sends_if, rule sends_raise, rule row_createdI(1), simp)
  apply (rule sends_bind, rule sends_mono [OF sends_validate_shard_members], rule sends_bind, rule sends_lift_sum)
  subgoal for u tr sizes
    apply (cases sizes)
    subgoal for counts csize rsize
      using sends_checked_sharded [of instances "fst counts" "snd counts" tr]
        sharded_sizes_minimum [of c ep "fst counts" "snd counts" csize rsize]
      by (cases counts) (simp add: Let_def)
    done
  by (simp_all add: row_createdI(1))

section \<open>Growing\<close>

text \<open>The instances that a log requests, in order.\<close>

fun created :: "trove_event list \<Rightarrow> instance_request list" where
  "created [] = []"
| "created (CreateInstance q # tr) = q # created tr"
| "created (_ # tr) = created tr"

lemma created_append [simp]: "created (t1 @ t2) = created t1 @ created t2"
  by (induction t1 rule: created.induct) simp_all

lemma created_map [simp]: "created (map CreateInstance qs) = qs"
  by (induction qs) simp_all

definition make_events :: "trove_event set" where
  "make_events = insert GenerateUuid (range CreateInstance)"

lemma in_make_events [simp]:
  "GenerateUuid \<in> make_events" "CreateInstance q \<in> make_events" "CreateInstance ` A \<subseteq> make_events"
  by (auto simp: make_events_def)

text \<open>The cluster configurations of new shards: one replica set per gr of nodes.\<close>

definition shard_configs :: "string \<Rightarrow> (nat \<times> pydict list) list \<Rightarrow> string list \<Rightarrow> pydict list" where
  "shard_configs cid groups shards =
     concat (map2 (\<lambda>(n, gr) shard. replicate (length gr) (shard_member_config cid shard (replica_set_name n)))
       groups shards)"

lemma shard_configs_append:
  "length shards = length groups \<Longrightarrow> shard_configs cid (groups @ [g]) (shards @ [s]) =
     shard_configs cid groups shards @ shard_configs cid [g] [s]"
  by (simp add: shard_configs_def)

lemma length_shard_configs:
  "length shards = length groups \<Longrightarrow>
     length (shard_configs cid groups shards) = sum_list (map (length \<circ> snd) groups)"
  unfolding shard_configs_def
  by (induction groups shards rule: list_induct2') (auto split: prod.split)

lemma grow_requests_config:
  assumes qs: "map (grow_request k base img config locality) nodes = map Inr qs"
  shows "map q_cluster_config qs = replicate (length nodes) config" and "length qs = length nodes"
proof -
  show "map q_cluster_config qs = replicate (length nodes) config"
    using requests_config [OF qs [symmetric], of config] unfolding length_map
    by (rule meta_mp) (auto simp: grow_request_def dest!: node_request_config [OF sym])
  show "length qs = length nodes" using arg_cong [OF qs, of length] by simp
qed

lemma sends_create_shard:
  "sends (create_shard t k img locality (n, gr) ids)
     (\<lambda>new_ids tr. \<exists>shard. set tr \<subseteq> make_events \<and> length new_ids = length ids + length gr \<and>
        map q_cluster_config (created tr) = shard_configs (k_id k) [(n, gr)] [shard])
     (\<lambda>_ tr. set tr \<subseteq> make_events)"
  unfolding create_shard_def prod.case
  apply (rule sends_bind, rule sends_calls)
  subgoal by simp
  subgoal for shard
    apply (rule sends_bind, rule sends_mono [OF sends_create_instances], rule sends_ret)
    subgoal by (elim conjE exE, rule exI [of _ shard]) (auto simp: shard_configs_def dest: grow_requests_config)
    subgoal by (auto simp: requests_made_def)
    done
  done

lemma sends_create_shards:
  "sends (fold_io (create_shard t k img locality) groups [])
     (\<lambda>ids tr. \<exists>shards. length shards = length groups \<and> set tr \<subseteq> make_events \<and>
        length ids = sum_list (map (length \<circ> snd) groups) \<and>
        map q_cluster_config (created tr) = shard_configs (k_id k) groups shards)
     (\<lambda>_ tr. set tr \<subseteq> make_events)"
proof (rule sends_fold [where I = "\<lambda>done ids tr. \<exists>shards. length shards = length done \<and>
    set tr \<subseteq> make_events \<and> length ids = sum_list (map (length \<circ> snd) done) \<and>
    map q_cluster_config (created tr) = shard_configs (k_id k) done shards"])
  fix "done" rest :: "(nat \<times> pydict list) list" and g :: "nat \<times> pydict list" and ids :: "string list" and tr :: "trove_event list"
  assume "\<exists>shards. length shards = length done \<and> set tr \<subseteq> make_events \<and>
    length ids = sum_list (map (length \<circ> snd) done) \<and>
    map q_cluster_config (created tr) = shard_configs (k_id k) done shards"
  then obtain shards where *: "length shards = length done" "set tr \<subseteq> make_events"
    "length ids = sum_list (map (length \<circ> snd) done)"
    "map q_cluster_config (created tr) = shard_configs (k_id k) done shards" by blast
  obtain n gr where g: "g = (n, gr)" by (cases g)
  show "sends (create_shard t k img locality g ids)
      (\<lambda>ids t2. \<exists>shards. length shards = length (done @ [g]) \<and> set (tr @ t2) \<subseteq> make_events \<and>
        length ids = sum_list (map (length \<circ> snd) (done @ [g])) \<and>
        map q_cluster_config (created (tr @ t2)) = shard_configs (k_id k) (done @ [g]) shards)
      (\<lambda>_ t2. set (tr @ t2) \<subseteq> make_events)"
    unfolding g
  proof (rule sends_mono [OF sends_create_shard])
    fix new_ids t2
    assume "\<exists>shard. set t2 \<subseteq> make_events \<and> length new_ids = length ids + length gr \<and>
        map q_cluster_config (created t2) = shard_configs (k_id k) [(n, gr)] [shard]"
    then obtain shard where **: "set t2 \<subseteq> make_events" "length new_ids = length ids + length gr"
      "map q_cluster_config (created t2) = shard_configs (k_id k) [(n, gr)] [shard]" by blast
    show "\<exists>shards. length shards = length (done @ [(n, gr)]) \<and> set (tr @ t2) \<subseteq> make_events \<and>
        length new_ids = sum_list (map (length \<circ> snd) (done @ [(n, gr)])) \<and>
        map q_cluster_config (created (tr @ t2)) = shard_configs (k_id k) (done @ [(n, gr)]) shards"
      using * ** by (intro exI [of _ "shards @ [shard]"]) (simp add: shard_configs_append)
  qed (use *(2) in simp)
qed (simp_all add: shard_configs_def)

section \<open>The outcome of a grow request\<close>

lemma group_shard_partition:
  assumes "group_shard_instances items = Inr groups"
  shows "sum_list (map length groups) = length items"
  using arg_cong [OF conjunct1 [OF grow_groups_facts [OF assms]], of size]
  by (simp add: length_concat)

text \<open>
  What a successful grow of a sharded cluster creates: complete shards of two members or more, numbered
  from the next free number, and the new routers; the quota was checked for exactly these.
\<close>

definition grown :: "cluster \<Rightarrow> string list \<Rightarrow> trove_event list \<Rightarrow> bool" where
  "grown k ids tr \<longleftrightarrow>
     (\<exists>check rest groups shards routers. tr = check @ rest \<and> checked (length ids) check \<and>
        set rest \<subseteq> make_events \<and> length shards = length groups \<and>
        list_all (\<lambda>g. 2 \<le> length g) groups \<and> (groups \<noteq> [] \<or> 0 < routers) \<and>
        length ids = length (created rest) \<and>
        map q_cluster_config (created rest) =
          shard_configs (k_id k)
            (zip [next_shard_number (k_db_instances k)..<
                  next_shard_number (k_db_instances k) + length groups] groups) shards @
          replicate routers (query_router_config (k_id k)))"

lemma sends_validate_groups:
  "sends (fold_io (\<lambda>g _. validate_shard_members t g) groups ())
     (\<lambda>_ tr. set tr \<subseteq> check_events \<and> list_all (\<lambda>g. 2 \<le> length g) groups) (\<lambda>_ tr. set tr \<subseteq> check_events)"
proof (rule sends_fold [where I = "\<lambda>done _ tr. set tr \<subseteq> check_events \<and> list_all (\<lambda>g. 2 \<le> length g) done"])
  fix "done" rest :: "pydict list list" and g and tr :: "trove_event list"
  assume "set tr \<subseteq> check_events \<and> list_all (\<lambda>g. 2 \<le> length g) done"
  then show "sends (validate_shard_members t g)
      (\<lambda>_ t2. set (tr @ t2) \<subseteq> check_events \<and> list_all (\<lambda>g. 2 \<le> length g) (done @ [g]))
      (\<lambda>_ t2. set (tr @ t2) \<subseteq> check_events)"
    by (intro sends_mono [OF sends_validate_shard_members]) auto
qed simp_all

lemma sends_validate_routers:
  "sends (fold_io (\<lambda>r _. validate_router t r) routers ())
     (\<lambda>_ tr. set tr \<subseteq> check_events) (\<lambda>_ tr. set tr \<subseteq> check_events)"
proof (rule sends_fold [where I = "\<lambda>done _ tr. set tr \<subseteq> check_events"])
  fix "done" rest :: "pydict list" and r and tr :: "trove_event list"
  assume "set tr \<subseteq> check_events"
  then show "sends (validate_router t r)
      (\<lambda>_ t2. set (tr @ t2) \<subseteq> check_events) (\<lambda>_ t2. set (tr @ t2) \<subseteq> check_events)"
    unfolding validate_router_def by (intro sends_seq sends_intros) simp_all
qed simp_all

definition grow_failed :: "trove_event list \<Rightarrow> bool" where
  "grow_failed tr \<longleftrightarrow> set tr \<subseteq> check_events \<union> make_events"

lemma sends_make_members:
  assumes "checked (length (concat groups) + length routers) check" and "list_all (\<lambda>g. 2 \<le> length g) groups"
    and "groups \<noteq> [] \<or> routers \<noteq> []"
  shows "sends (bind (fold_io (create_shard t k img locality)
        (zip [next_shard_number (k_db_instances k)..<next_shard_number (k_db_instances k) + length groups] groups) [])
        (\<lambda>new_ids. bind (map_io (create_instance t)
           (map (grow_request k ''mongos'' img (query_router_config (k_id k)) locality) (numbered routers)))
        (\<lambda>router_ids. ret (new_ids @ router_ids))))
      (\<lambda>ids tr. grown k ids (check @ tr)) (\<lambda>_ tr. grow_failed (check @ tr))"
    (is "sends (bind (fold_io _ ?zip []) _) _ _")
proof (rule sends_bind, rule sends_mono [OF sends_create_shards], rule sends_bind,
    rule sends_mono [OF sends_create_instances], rule sends_ret)
  have sizes: "sum_list (map (length \<circ> snd) ?zip) = length (concat groups)"
    by (simp add: length_concat flip: map_map)
  fix new_ids router_ids :: "string list" and tr1 tr2 :: "trove_event list"
  assume "\<exists>shards. length shards = length ?zip \<and> set tr1 \<subseteq> make_events \<and>
      length new_ids = sum_list (map (length \<circ> snd) ?zip) \<and>
      map q_cluster_config (created tr1) = shard_configs (k_id k) ?zip shards"
    and "length router_ids = length (map (grow_request k ''mongos'' img (query_router_config (k_id k)) locality)
        (numbered routers)) \<and>
      (\<exists>qs. map (grow_request k ''mongos'' img (query_router_config (k_id k)) locality) (numbered routers) = map Inr qs \<and>
        tr2 = map CreateInstance qs)"
  then obtain shards qs where s: "length shards = length groups" "set tr1 \<subseteq> make_events"
      "length new_ids = length (concat groups)" "map q_cluster_config (created tr1) = shard_configs (k_id k) ?zip shards"
    and q: "length router_ids = length routers"
      "map (grow_request k ''mongos'' img (query_router_config (k_id k)) locality) (numbered routers) = map Inr qs"
      "tr2 = map CreateInstance qs"
    unfolding sizes length_map length_requests by (elim exE conjE, intro that) simp_all
  have "length (created tr1) = length (concat groups)"
    using arg_cong [OF s(4), of length] length_shard_configs [of shards ?zip] s(1) sizes by simp
  then show "grown k (new_ids @ router_ids) (check @ tr1 @ tr2 @ [])"
    unfolding grown_def using s q assms grow_requests_config [OF q(2)]
    by (intro exI [of _ check] exI [of _ "tr1 @ tr2"] exI [of _ groups] exI [of _ shards] exI [of _ "length routers"])
      auto
qed (use assms(1) in \<open>auto simp: grow_failed_def checked_def requests_made_def\<close>)

lemma grow_plan_members:
  assumes "grow_plan instances = Inr (members, groups, routers)"
  shows "length (concat groups) = length members"
  using assms group_shard_partition unfolding grow_plan_def
  by (auto simp: length_concat split: sum.splits if_splits)

lemma sends_create_sharded_instances:
  "sends (create_sharded_instances t k instances locality image_id) (grown k) (\<lambda>_. grow_failed)"
  unfolding create_sharded_instances_def
proof (rule sends_bind, rule sends_lift_sum)
  fix plan assume plan: "grow_plan instances = Inr plan"
  obtain members groups routers where p: "plan = (members, groups, routers)" by (metis prod.exhaust)
  note len = grow_plan_members [OF plan [unfolded p]]
  show "sends (case plan of (members, groups, routers) \<Rightarrow>
     bind (fold_io (\<lambda>g _. validate_shard_members t g) groups ()) (\<lambda>_.
     bind (fold_io (\<lambda>router _. validate_router t router) routers ()) (\<lambda>_.
       if groups = [] \<and> routers = [] then
         raise_exn (TroveError ''No MongoDB nodes specified for grow'')
       else
         let img = py_or image_id (k_image_id k);
             first = next_shard_number (k_db_instances k)
         in bind (check_size t (length members + length routers) (members @ routers)) (\<lambda>_.
            bind (fold_io (create_shard t k img locality)
                    (zip [first..<first + length groups] groups) []) (\<lambda>new_ids.
            bind (map_io (create_instance t)
                    (map (grow_request k ''mongos'' img (query_router_config (k_id k)) locality)
                       (numbered routers))) (\<lambda>router_ids.
              ret (new_ids @ router_ids)))))))
      (\<lambda>ids tr. grown k ids ([] @ tr)) (\<lambda>_ tr. grow_failed ([] @ tr))"
    unfolding p prod.case Let_def
    apply (rule sends_bind, rule sends_mono [OF sends_validate_groups], rule sends_bind,
        rule sends_mono [OF sends_validate_routers], rule sends_if)
        apply (rule sends_raise)
        apply (simp add: grow_failed_def le_supI1)
       apply (rule sends_bind, rule sends_mono [OF sends_check_size])
    subgoal for u tr1 v tr2 y tr3
      using sends_make_members [of groups routers "tr1 @ tr2 @ tr3" t k "py_or image_id (k_image_id k)" locality]
      by (auto simp: len checked_def)
    by (auto simp: grow_failed_def)
qed (simp add: grow_failed_def)

section \<open>The task status after a grow\<close>

text \<open>A sharded cluster: the status is set to growing only when every new instance is requested.\<close>

definition sharded_grow_log :: "cluster \<Rightarrow> trove_event list \<Rightarrow> bool" where
  "sharded_grow_log k tr \<longleftrightarrow>
     (\<exists>ids made. grown k ids made \<and>
        tr = [ValidateAvailable, LocalityHint] @ made @ [SetTask GROWING_CLUSTER, CastGrow (k_id k) ids])"

definition sharded_grow_failure :: "cluster \<Rightarrow> trove_error \<Rightarrow> trove_event list \<Rightarrow> bool" where
  "sharded_grow_failure k e tr \<longleftrightarrow>
     prefix tr [ValidateAvailable, LocalityHint] \<or>
     (\<exists>mid. grow_failed mid \<and> tr = [ValidateAvailable, LocalityHint] @ mid @ [SetTask NO_TASK]) \<or>
     (\<not> is_exception e \<and> (\<exists>mid. grow_failed mid \<and> tr = [ValidateAvailable, LocalityHint] @ mid)) \<or>
     (\<exists>tr2. sharded_grow_log k tr2 \<and> (tr = tr2 \<or> tr = butlast tr2))"

lemma grow_sharded_sends:
  "sends (grow_sharded t k instances image_id) (\<lambda>_. sharded_grow_log k) (sharded_grow_failure k)"
proof -
  let ?pre = "[ValidateAvailable, LocalityHint]"
  have made: "sends (try_except (create_sharded_instances t k instances locality image_id)
        (\<lambda>e. if is_exception e then andthen (do_call t (SetTask NO_TASK)) (raise_exn e) else raise_exn e))
      (grown k) (\<lambda>e tr. (\<exists>mid. grow_failed mid \<and> tr = mid @ [SetTask NO_TASK]) \<or> (\<not> is_exception e \<and> grow_failed tr))"
    for locality
    by (intro sends_try_except sends_mono [OF sends_create_sharded_instances] sends_if sends_andthen
        sends_calls sends_raise) auto
  have log: "sharded_grow_log k (?pre @ made @ [SetTask GROWING_CLUSTER, CastGrow (k_id k) ids])"
    if "grown k ids made" for ids made
    unfolding sharded_grow_log_def using that by blast
  show ?thesis
    unfolding grow_sharded_def
    apply (intro sends_andthen sends_bind sends_calls sends_mono [OF made])
    subgoal by (simp add: sharded_grow_failure_def)
    subgoal by (simp add: sharded_grow_failure_def)
    subgoal for locality ids mid
      using log [of ids mid] by (auto simp: sharded_grow_failure_def butlast_append)
    subgoal for locality ids mid
      using log [of ids mid] by (auto simp: sharded_grow_failure_def)
    subgoal for locality ids mid using log [of ids mid] by simp
    subgoal by (auto simp: sharded_grow_failure_def)
    done
qed

lemma replica_requests_config:
  assumes "Inr q \<in> set (replica_requests name cid img conf locality nodes)"
  shows "q_cluster_config q = replica_config cid"
  using assms unfolding replica_requests_def by (auto dest: node_request_config [OF sym])

lemma sends_create_replicas:
  "sends (create_instances c t name cid img instances locality conf enforce image_id)
     (\<lambda>ids tr. \<exists>check qs. tr = check @ map CreateInstance qs \<and> checked (length qs) check \<and> length ids = length qs \<and>
        map q_cluster_config qs = replicate (length instances) (replica_config cid) \<and>
        (enforce \<longrightarrow> 2 \<le> length instances))
     (\<lambda>_. grow_failed)"
proof -
  let ?rs = "replica_requests name cid (py_or image_id img) conf locality instances"
  have config: "map q_cluster_config qs = replicate (length instances) (replica_config cid) \<and> length qs = length instances"
    if "?rs = map Inr qs" for qs
    using requests_config [OF that [symmetric] replica_requests_config] arg_cong [OF that, of length] by simp
  show ?thesis
    unfolding create_instances_def MIN_REPLICA_SET_MEMBERS_def
    apply (intro sends_if sends_andthen sends_calls sends_raise sends_mono [OF sends_check_size]
        sends_mono [OF sends_create_instances])
           apply (simp_all add: grow_failed_def le_supI1)
    subgoal for tr1 ids tr2
      apply (elim conjE exE)
      subgoal for qs
        by (rule exI [of _ "[ValidateFlavors instances, AssertHomogeneous instances, ValidateNics instances] @ tr1"],
            rule exI [of _ qs]) (use config [of qs] in \<open>auto simp: checked_def\<close>)
      done
    subgoal by (auto simp: checked_def requests_made_def)
    done
qed

text \<open>
  A replica set: its status says that it grows before anything is checked, and an exception from then
  on leaves it there.
\<close>

definition replica_grow_log :: "cluster \<Rightarrow> nat \<Rightarrow> trove_event list \<Rightarrow> bool" where
  "replica_grow_log k members tr \<longleftrightarrow>
     (\<exists>check qs ids. checked (length qs) check \<and> length ids = length qs \<and>
        map q_cluster_config qs = replicate members (replica_config (k_id k)) \<and>
        tr = [ValidateAvailable, SetTask GROWING_CLUSTER, LocalityHint] @ check @ map CreateInstance qs @
          [CastGrow (k_id k) ids])"

definition replica_grow_failure :: "trove_event list \<Rightarrow> bool" where
  "replica_grow_failure tr \<longleftrightarrow>
     prefix tr [ValidateAvailable] \<or>
     (\<exists>rest. tr = [ValidateAvailable, SetTask GROWING_CLUSTER] @ rest \<and> (\<forall>s. SetTask s \<notin> set rest))"

lemma no_task_change:
  "grow_failed tr \<Longrightarrow> SetTask s \<notin> set tr" "checked n tr \<Longrightarrow> SetTask s \<notin> set tr"
  by (auto simp: grow_failed_def checked_def check_events_def make_events_def)

lemma grow_replica_set_sends:
  "sends (grow_replica_set c t k instances image_id) (\<lambda>_. replica_grow_log k (length instances))
     (\<lambda>_. replica_grow_failure)"
  unfolding grow_replica_set_def
  apply (intro sends_andthen sends_bind sends_calls sends_lift_sum sends_mono [OF sends_create_replicas])
  subgoal by (simp add: replica_grow_failure_def)
  subgoal by (simp add: replica_grow_failure_def)
  subgoal by (simp add: replica_grow_failure_def)
  subgoal by (elim exE conjE) (auto simp: replica_grow_failure_def no_task_change)
  subgoal for u v ids tr
    unfolding replica_grow_log_def
    by (elim exE conjE, rule exI, rule exI, rule exI [of _ ids], intro conjI) (assumption | simp)+
  subgoal by (auto simp: replica_grow_failure_def no_task_change)
  subgoal by (simp add: replica_grow_failure_def)
  done

section \<open>Numbers of shards\<close>

lemma existing_shards_filter:
  "existing_shards (filter (\<lambda>i. i_shard_id i \<noteq> s) xs) = remove1 s (existing_shards xs)"
proof -
  have "filter (\<lambda>i. i_type i = ''member'' \<and> i_shard_id i \<noteq> []) (filter (\<lambda>i. i_shard_id i \<noteq> s) xs) =
      filter (\<lambda>i. i_shard_id i \<noteq> s) (filter (\<lambda>i. i_type i = ''member'' \<and> i_shard_id i \<noteq> []) xs)"
    unfolding filter_filter by (rule filter_cong) auto
  then have "existing_shards (filter (\<lambda>i. i_shard_id i \<noteq> s) xs) =
      filter (\<lambda>x. x \<noteq> s) (existing_shards xs)"
    unfolding existing_shards_def by (simp add: remdups_filter [symmetric] filter_map comp_def)
  also have "\<dots> = remove1 s (existing_shards xs)"
    by (subst distinct_remove1_removeAll) (simp_all add: existing_shards_def removeAll_filter_not_eq eq_commute)
  finally show ?thesis .
qed

lemma next_shard_number_without:
  assumes "s \<in> set (existing_shards xs)"
  shows "next_shard_number (filter (\<lambda>i. i_shard_id i \<noteq> s) xs) = length (existing_shards xs)"
proof -
  have "existing_shards xs \<noteq> []" using assms by auto
  with assms show ?thesis
    unfolding next_shard_number_def existing_shards_filter by (simp add: length_remove1)
qed

lemma existing_shards_set:
  "set (existing_shards xs) = {s. s \<noteq> [] \<and> (\<exists>i \<in> set xs. i_type i = ''member'' \<and> i_shard_id i = s)}"
  by (auto simp: existing_shards_def)

section \<open>Creating a replica set\<close>

lemma short_sharded_request:
  assumes "\<not> cluster_secure c" and "length instances < 2"
  shows "sends (create_sharded c t name img instances ep locality configuration image_id)
     (\<lambda>_ _. False) (\<lambda>e tr. e = NumInstancesNotSupported 2 \<and> tr = [])"
  using assms unfolding create_sharded_def validate_shard_members_def MIN_REPLICA_SET_MEMBERS_def
  by (simp add: sends_raise)

lemma short_replica_request:
  assumes "\<not> cluster_secure c" and "length instances < 2" and "\<not> truthy configuration"
    and "topology_of ep = Inr ''replica_set''"
    and "\<And>x. fst (give_text t (CreateClusterRow name PNone) x) = Inr cid"
  shows "sends (create c t name img instances ep locality configuration image_id)
     (\<lambda>_ _. False) (\<lambda>e tr. e = NumInstancesNotSupported 2 \<and> tr = [CreateClusterRow name PNone])"
proof -
  have row: "sends (ask_text t (CreateClusterRow name PNone)) (\<lambda>_ tr. tr = [CreateClusterRow name PNone]) (\<lambda>_ _. False)"
    unfolding call_defs by (rule sends_outside_call) (simp_all add: assms(5))
  show ?thesis
    unfolding create_def assms(4) find_configuration_def create_instances_def MIN_REPLICA_SET_MEMBERS_def
    apply (intro sends_bind sends_lift_sum)
    subgoal for topology
      using assms(1-3) by (auto simp: SHARDED_TOPOLOGY_def intro!: sends_bind sends_mono [OF row] sends_raise)
    by simp
qed

text \<open>The row of a new replica set comes before its checks.\<close>

definition replica_set_created :: "string \<Rightarrow> nat \<Rightarrow> string \<Rightarrow> trove_event list \<Rightarrow> bool" where
  "replica_set_created name members cluster_id tr \<longleftrightarrow>
     (\<exists>found conf check qs. set found \<subseteq> range FindConfiguration \<and> checked (length qs) check \<and> 2 \<le> members \<and>
        map q_cluster_config qs = replicate members (replica_config cluster_id) \<and>
        tr = found @ [CreateClusterRow name conf] @ check @ map CreateInstance qs @ [CastCreate cluster_id])"

lemma create_replica_set_sends:
  assumes "topology_of ep = Inr ''replica_set''"
  shows "sends (create c t name img instances ep locality configuration image_id)
     (replica_set_created name (length instances)) (\<lambda>_ _. True)"
proof -
  have found: "sends (find_configuration t configuration) (\<lambda>_ tr. set tr \<subseteq> range FindConfiguration) (\<lambda>_ _. True)"
    unfolding find_configuration_def by (intro sends_if sends_andthen sends_calls sends_ret) simp_all
  have rest: "sends (bind (find_configuration t configuration) (\<lambda>configuration_id.
         bind (ask_text t (CreateClusterRow name configuration_id)) (\<lambda>cluster_id.
         bind (create_instances c t name cluster_id img instances locality
                 configuration_id True image_id) (\<lambda>_.
         andthen (do_call t (CastCreate cluster_id)) (ret cluster_id)))))
      (replica_set_created name (length instances)) (\<lambda>_ _. True)"
    apply (intro sends_bind sends_andthen sends_mono [OF found] sends_calls sends_mono [OF sends_create_replicas] sends_ret)
         apply simp_all
    subgoal for conf tr1 cid ids tr2
      unfolding replica_set_created_def
      by (elim exE conjE, rule exI [of _ tr1], rule exI [of _ conf], rule exI, rule exI, intro conjI) (assumption | simp)+
    done
  show ?thesis
    unfolding create_def assms
    by (intro sends_bind sends_lift_sum) (use rest in \<open>simp_all add: SHARDED_TOPOLOGY_def\<close>)
qed

section \<open>Properties\<close>

text \<open>C18: Grouping the nodes of a grow request into shards loses and duplicates no node, makes no empty
shard, and puts two nodes that share a name or a reference into the same shard.\<close>

theorem grow_groups_partition:
  assumes "group_shard_instances items = Inr groups"
  shows "mset (concat groups) = mset items \<and> [] \<notin> set groups \<and>
    (\<forall>i < length groups. \<forall>j < length groups. \<forall>x \<in> set (groups ! i). \<forall>y \<in> set (groups ! j).
       node_names x \<inter> node_names y \<noteq> {} \<longrightarrow> i = j)"
  using assms by (rule grow_groups_facts)

theorem grow_groups_partition_witness:
  "mset (concat [[[(''name'', PStr ''a'')], [(''related_to'', PStr ''a'')]], [[(''name'', PStr ''b'')]]]) =
     mset [[(''name'', PStr ''a'')], [(''name'', PStr ''b'')], [(''related_to'', PStr ''a'')]]"
proof -
  have "group_shard_instances [[(''name'', PStr ''a'')], [(''name'', PStr ''b'')], [(''related_to'', PStr ''a'')]] =
      Inr [[[(''name'', PStr ''a'')], [(''related_to'', PStr ''a'')]], [[(''name'', PStr ''b'')]]]"
    by code_simp
  from grow_groups_partition [OF this] show ?thesis by (rule conjunct1)
qed

text \<open>C17: Creating a sharded cluster returns, whatever Trove answers. On success the log is checks, with
the quota of exactly the instances that are created, then the row of the cluster, then one request per
instance: the members of the request, in one shard, at least two config servers and at least one query
router, each with the configuration of its role in this cluster; and then the task manager is called.
On failure either only checks were made or the log is a part of such a log.\<close>

theorem create_sharded_complete:
  "sends (create_sharded c t name img instances ep locality configuration image_id)
     (sharded_created name (length instances)) (\<lambda>_. row_created name)"
  by (rule create_sharded_sends)

text \<open>Growing a sharded cluster returns, whatever Trove answers. On success the quota was checked
for exactly the instances that are then requested, each new shard has two members or more under one
shard id and replica-set name, and only then the status GROWING_CLUSTER is set and the task manager
called. An exception before that leaves the status NO_TASK, unless it is no Exception.\<close>

theorem grow_sharded_status:
  "sends (grow_sharded t k instances image_id) (\<lambda>_. sharded_grow_log k) (sharded_grow_failure k)"
  by (rule grow_sharded_sends)

text \<open>Growing a replica set returns, whatever Trove answers. On success the status GROWING_CLUSTER
is set, the quota is checked for exactly the replicas requested, and the task manager is called. An
exception after the first checks leaves the cluster with the status GROWING_CLUSTER: nothing resets it.\<close>

theorem grow_replica_set_status:
  "sends (grow_replica_set c t k instances image_id) (\<lambda>_. replica_grow_log k (length instances))
     (\<lambda>_. replica_grow_failure)"
  by (rule grow_replica_set_sends)

text \<open>The next shard after the removal of a shard gets the replica-set name that the last shard
added got, although that shard is still there.\<close>

theorem shard_name_reused:
  assumes "removed \<in> set (existing_shards xs)" and "added \<in> set (existing_shards xs)" and "removed \<noteq> added"
  shows "replica_set_name (next_shard_number (filter (\<lambda>i. i_shard_id i \<noteq> removed) xs)) =
      replica_set_name (next_shard_number (filter (\<lambda>i. i_shard_id i \<noteq> added) xs)) \<and>
    added \<in> set (existing_shards (filter (\<lambda>i. i_shard_id i \<noteq> removed) xs))"
  using assms by (simp add: next_shard_number_without existing_shards_filter)

theorem shard_name_reused_witness:
  "replica_set_name (next_shard_number (filter (\<lambda>i. i_shard_id i \<noteq> ''a'') two_shards)) =
      replica_set_name (next_shard_number (filter (\<lambda>i. i_shard_id i \<noteq> ''b'') two_shards)) \<and>
    ''b'' \<in> set (existing_shards (filter (\<lambda>i. i_shard_id i \<noteq> ''a'') two_shards))"
  by (rule shard_name_reused) (simp_all add: existing_shards_set two_shards_def sample_instance_def)

text \<open>A request with fewer than two members is rejected for both topologies, but differently: for
a sharded cluster before anything happens, for a replica set after the row of the cluster has been
created, which then stays.\<close>

theorem short_request_row:
  assumes "\<not> cluster_secure c" and "length instances < 2" and "\<not> truthy configuration"
    and "topology_of ep = Inr ''replica_set''"
    and "\<And>x. fst (give_text t (CreateClusterRow name PNone) x) = Inr cid"
  shows "sends (create_sharded c t name img instances ep locality configuration image_id)
      (\<lambda>_ _. False) (\<lambda>e tr. e = NumInstancesNotSupported 2 \<and> tr = []) \<and>
    sends (create c t name img instances ep locality configuration image_id)
      (\<lambda>_ _. False) (\<lambda>e tr. e = NumInstancesNotSupported 2 \<and> tr = [CreateClusterRow name PNone])"
  using short_sharded_request [OF assms(1,2)] short_replica_request [OF assms] by blast

theorem short_request_row_witness:
  "sends (create_sharded sample_conf (ready_trove []) ''db'' PNone [[]] [] PNone PNone PNone)
      (\<lambda>_ _. False) (\<lambda>e tr. e = NumInstancesNotSupported 2 \<and> tr = []) \<and>
    sends (create sample_conf (ready_trove []) ''db'' PNone [[]] [] PNone PNone PNone)
      (\<lambda>_ _. False) (\<lambda>e tr. e = NumInstancesNotSupported 2 \<and> tr = [CreateClusterRow ''db'' PNone])"
proof (rule short_request_row)
  show "topology_of [] = Inr ''replica_set''" by code_simp
qed (simp_all add: sample_conf_def ready_trove_def)

end
