(* ===== verification/TroveTask.thy ===== *)
theory TroveTask
  imports TroveTopology
begin

text \<open>
  The task manager strategy of \<^verbatim>\<open>trove-mongodb/controller/taskmanager.py\<close>: assembling a new cluster out of
  its instances, adding new members and shards, completing a shrink, each under one timer.

  The timer is eventlet's: it is raised in the handler when it yields, that is in a call to the outside
  or while it sleeps.  A sleep is a \<^const>\<open>nap\<close> next to the event \<^const>\<open>TimerPoint\<close>, at which a timer may be
  raised.
\<close>

section \<open>Members of a replica set\<close>

definition task_address :: "trove_conf \<Rightarrow> 'x trove \<Rightarrow> db_instance \<Rightarrow> ('x, string) tio" where
  "task_address c t member =
     bind (ask_value t (VisibleAddresses (i_id member))) (\<lambda>addresses.
       case address_text c addresses of
         Some a \<Rightarrow> ret a
       | None \<Rightarrow> raise_exn (RuntimeFailure
           (''MongoDB member '' @ i_id member @ '' has no visible address'')))"

text \<open>\<^verbatim>\<open>state in (1, 2)\<close>: numbers that are equal to 1 or 2.\<close>

definition primary_or_secondary :: "pyval \<Rightarrow> bool" where
  "primary_or_secondary v \<longleftrightarrow>
     v = PInt 1 \<or> v = PInt 2 \<or> v = PBool True \<or> v = PFloat ''1.0'' \<or> v = PFloat ''2.0''"

text \<open>The names of the members that are ready; \<open>None\<close> is an exception of the expression.\<close>

definition hashable :: "pyval \<Rightarrow> bool" where
  "hashable v = (case v of PList _ \<Rightarrow> False | PDict _ \<Rightarrow> False | _ \<Rightarrow> True)"

fun ready_names :: "pyval list \<Rightarrow> pyval list option" where
  "ready_names [] = Some []"
| "ready_names (PDict d # members) =
     (if primary_or_secondary (vget d ''state'') then
        (if hashable (vget d ''name'') then map_option ((#) (vget d ''name'')) (ready_names members)
         else None)
      else ready_names members)"
| "ready_names _ = None"

definition ready_members :: "pyval \<Rightarrow> pyval list option" where
  "ready_members status =
     (case status of
        PDict d \<Rightarrow>
          (case py_iter (vget_or d ''members'' (PList [])) of
             Inl _ \<Rightarrow> None
           | Inr members \<Rightarrow> ready_names members)
      | _ \<Rightarrow> None)"

definition all_ready :: "string list \<Rightarrow> pyval \<Rightarrow> bool" where
  "all_ready addresses status =
     (case ready_members status of
        None \<Rightarrow> False
      | Some ready \<Rightarrow> list_all (\<lambda>a. PStr a \<in> set ready) addresses)"

definition wait_round :: "'x trove \<Rightarrow> string \<Rightarrow> string list \<Rightarrow> ('x, unit + unit) tio" where
  "wait_round t guest addresses =
     bind (try_except
        (bind (ask_value t (Guest guest ReplicaSetStatus)) (\<lambda>status. ret (all_ready addresses status)))
        (\<lambda>e. if is_exception e then ret False else raise_exn e)) (\<lambda>ready.
       if ready then ret (Inr ())
       else andthen (do_call t TimerPoint) (ret (Inl ())))"

definition wait_for_replica_members ::
  "trove_conf \<Rightarrow> 'x trove \<Rightarrow> string \<Rightarrow> string list \<Rightarrow> ('x, unit) tio" where
  "wait_for_replica_members c t guest addresses =
     bind now (\<lambda>start.
     bind (poll clock (start + add_members_timeout c) nap (\<lambda>_. wait_round t guest addresses) ())
       (\<lambda>answer. case answer of
          Inr _ \<Rightarrow> ret ()
        | Inl _ \<Rightarrow> raise_exn (RuntimeFailure
            ''MongoDB replica-set members did not become ready in time'')))"

section \<open>Assembling a topology\<close>

definition initialize_replica_set ::
  "trove_conf \<Rightarrow> 'x trove \<Rightarrow> db_instance list \<Rightarrow> ('x, string list) tio" where
  "initialize_replica_set c t members =
     (case members of
        [] \<Rightarrow> raise_exn (RuntimeFailure ''MongoDB replica set has no members'')
      | first # _ \<Rightarrow>
          bind (map_io (task_address c t) members) (\<lambda>addresses.
          andthen (do_call t (Guest (i_id first) (InitializeReplicaSet addresses)))
          (andthen (wait_for_replica_members c t (i_id first) addresses) (ret addresses))))"

definition configure_query_routers ::
  "trove_conf \<Rightarrow> 'x trove \<Rightarrow> db_instance list \<Rightarrow> db_instance list \<Rightarrow> ('x, unit) tio" where
  "configure_query_routers c t routers config_servers =
     (if routers = [] then
        raise_exn (RuntimeFailure ''A sharded MongoDB cluster needs a query router'')
      else
        bind (map_io (task_address c t) config_servers) (\<lambda>config_addresses.
          if config_addresses = [] then
            raise_exn (RuntimeFailure ''A sharded MongoDB cluster needs config servers'')
          else
            for_each (\<lambda>router. do_call t (Guest (i_id router) (AddConfigServers config_addresses)))
              routers))"

definition add_new_shard ::
  "trove_conf \<Rightarrow> 'x trove \<Rightarrow> db_instance \<Rightarrow> db_instance list \<Rightarrow> ('x, string) tio" where
  "add_new_shard c t router members =
     bind (initialize_replica_set c t members) (\<lambda>addresses.
     bind (ask_text t (Guest (i_id (hd members)) GetReplicaSetName)) (\<lambda>name.
       if name = [] then raise_exn (RuntimeFailure ''MongoDB shard has no replica-set name'')
       else
         bind (ask_value t (Guest (i_id router) (AddShard name (hd addresses)))) (\<lambda>result.
           if refused result then
             raise_exn (RuntimeFailure
               (''MongoDB query router rejected shard '' @ name @ '': '' @ py_str result))
           else ret name)))"

text \<open>The distinct shards in the order of their first members, each with all its members.\<close>

definition shard_ids :: "db_instance list \<Rightarrow> string list" where
  "shard_ids members = rev (remdups (rev (map i_shard_id members)))"

definition add_new_shards ::
  "trove_conf \<Rightarrow> 'x trove \<Rightarrow> db_instance \<Rightarrow> db_instance list \<Rightarrow> ('x, unit) tio" where
  "add_new_shards c t router members =
     for_each (\<lambda>s. bind (add_new_shard c t router (filter (\<lambda>m. i_shard_id m = s) members)) (\<lambda>_. ret ()))
       (shard_ids members)"

definition complete_all :: "'x trove \<Rightarrow> db_instance list \<Rightarrow> ('x, unit) tio" where
  "complete_all t members = for_each (\<lambda>m. do_call t (Guest (i_id m) ClusterComplete)) members"

definition load_all :: "'x trove \<Rightarrow> string list \<Rightarrow> ('x, db_instance list) tio" where
  "load_all t ids = map_io (\<lambda>i. ask_instance t (LoadInstance i)) ids"

section \<open>The operations\<close>

text \<open>An operation returns \<^verbatim>\<open>False\<close> when the instances are not ready, and \<^verbatim>\<open>None\<close> (here \<open>True\<close>) otherwise.\<close>

definition assemble ::
  "trove_conf \<Rightarrow> 'x trove \<Rightarrow> db_instance list \<Rightarrow> ('x, unit) tio" where
  "assemble c t members =
     (if \<not> is_sharded members then
        bind (initialize_replica_set c t members) (\<lambda>_. ret ())
      else
        let config_servers = lookup_type members ''config_server'';
            query_routers = lookup_type members ''query_router'';
            shard_members = lookup_type members ''member''
        in bind (initialize_replica_set c t config_servers) (\<lambda>_.
           andthen (configure_query_routers c t query_routers config_servers)
             (add_new_shards c t (hd query_routers) shard_members)))"

definition create_operation :: "trove_conf \<Rightarrow> 'x trove \<Rightarrow> ('x, bool) tio" where
  "create_operation c t =
     bind (ask_instances t FindInstances) (\<lambda>found.
     bind (ask_bool t (AllReady (ids_of found))) (\<lambda>ready.
       if \<not> ready then ret False
       else
         bind (load_all t (ids_of found)) (\<lambda>members.
         andthen (assemble c t members)
         (andthen (complete_all t members) (ret True)))))"

definition extend_sharded ::
  "trove_conf \<Rightarrow> 'x trove \<Rightarrow> db_instance list \<Rightarrow> db_instance list \<Rightarrow> ('x, unit) tio" where
  "extend_sharded c t existing new_instances =
     (let config_servers = lookup_type existing ''config_server'';
          new_members = lookup_type new_instances ''member'';
          new_routers = lookup_type new_instances ''query_router'';
          query_routers = lookup_type existing ''query_router'' @ new_routers
      in andthen (if new_routers = [] then ret ()
                  else configure_query_routers c t new_routers config_servers)
           (if new_members = [] then ret ()
            else case query_routers of
                [] \<Rightarrow> raise_exn (RuntimeFailure ''A sharded MongoDB cluster needs a query router'')
              | router # _ \<Rightarrow> add_new_shards c t router new_members))"

definition extend_replica_set ::
  "trove_conf \<Rightarrow> 'x trove \<Rightarrow> db_instance \<Rightarrow> db_instance list \<Rightarrow> ('x, unit) tio" where
  "extend_replica_set c t first new_instances =
     bind (map_io (task_address c t) new_instances) (\<lambda>addresses.
     bind (ask_instance t (LoadInstance (i_id first))) (\<lambda>loaded.
     andthen (do_call t (Guest (i_id loaded) (AddReplicaMembers addresses)))
       (wait_for_replica_members c t (i_id loaded) addresses)))"

definition grow_operation :: "trove_conf \<Rightarrow> 'x trove \<Rightarrow> string list \<Rightarrow> ('x, bool) tio" where
  "grow_operation c t new_ids =
     bind (ask_bool t (AllReady new_ids)) (\<lambda>ready.
       if \<not> ready then ret False
       else
         bind (ask_instances t FindInstances) (\<lambda>found.
         bind (load_all t (filter (\<lambda>i. i \<notin> set new_ids) (ids_of found))) (\<lambda>existing.
         bind (load_all t new_ids) (\<lambda>new_instances.
           case existing of
             [] \<Rightarrow> raise_exn (RuntimeFailure ''MongoDB cluster has no existing member'')
           | first # _ \<Rightarrow>
               andthen
                 (if \<not> is_sharded (existing @ new_instances) then
                    extend_replica_set c t first new_instances
                  else extend_sharded c t existing new_instances)
                 (andthen (complete_all t new_instances) (ret True))))))"

text \<open>The inner function of \<^verbatim>\<open>shrink_cluster\<close> returns \<^verbatim>\<open>None\<close> on both paths.\<close>

definition shrink_operation :: "'x trove \<Rightarrow> string list \<Rightarrow> ('x, bool) tio" where
  "shrink_operation t instance_ids =
     bind (ask_instances t FindInstances) (\<lambda>found.
       if set instance_ids \<inter> set (ids_of found) \<noteq> {} then ret True else ret True)"

definition run_with_timeout ::
  "'x trove \<Rightarrow> ('x, bool) tio \<Rightarrow> failure_status \<Rightarrow> ('x, unit) tio" where
  "run_with_timeout t operation failure =
     try_except
       (bind operation (\<lambda>completed.
          if \<not> completed then do_call t (StatusesOnFailure failure) else do_call t ResetTask))
       (\<lambda>e. case e of
          TimeoutExpired own \<Rightarrow>
            if own then do_call t (StatusesOnFailure failure) else raise_exn e
        | _ \<Rightarrow> do_call t (StatusesOnFailure failure))"

definition create_cluster :: "trove_conf \<Rightarrow> 'x trove \<Rightarrow> ('x, unit) tio" where
  "create_cluster c t = run_with_timeout t (create_operation c t) BUILDING_ERROR_SERVER"

definition grow_cluster :: "trove_conf \<Rightarrow> 'x trove \<Rightarrow> string list \<Rightarrow> ('x, unit) tio" where
  "grow_cluster c t new_ids = run_with_timeout t (grow_operation c t new_ids) GROWING_ERROR"

definition add_shard_cluster :: "trove_conf \<Rightarrow> 'x trove \<Rightarrow> string \<Rightarrow> ('x, unit) tio" where
  "add_shard_cluster c t shard_id =
     bind (ask_instances t (FindShard shard_id)) (\<lambda>found. grow_cluster c t (ids_of found))"

definition shrink_cluster :: "'x trove \<Rightarrow> string list \<Rightarrow> ('x, unit) tio" where
  "shrink_cluster t instance_ids = run_with_timeout t (shrink_operation t instance_ids) SHRINKING_ERROR"

definition restart_cluster :: "'x trove \<Rightarrow> ('x, unit) tio" where
  "restart_cluster t = do_call t (DelayedRestart 5)"

definition upgrade_cluster :: "'x trove \<Rightarrow> pyval \<Rightarrow> ('x, unit) tio" where
  "upgrade_cluster t datastore_version = do_call t (UpgradeTo datastore_version)"

definition mongodb_add_shard_cluster :: "'x trove \<Rightarrow> string \<Rightarrow> string \<Rightarrow> string \<Rightarrow> ('x, unit) tio" where
  "mongodb_add_shard_cluster t cluster_id shard_id name = do_call t (CastAddShard cluster_id shard_id name)"

section \<open>What the steps log\<close>

definition wait_events :: "string \<Rightarrow> trove_event set" where
  "wait_events guest = {Guest guest ReplicaSetStatus, TimerPoint, Slept}"

text \<open>The status lists \<open>a\<close> as a primary or a secondary.\<close>

definition member_ready :: "pyval \<Rightarrow> string \<Rightarrow> bool" where
  "member_ready status a \<longleftrightarrow>
     (\<exists>d ms m. status = PDict d \<and> py_iter (vget_or d ''members'' (PList [])) = Inr ms \<and> PDict m \<in> set ms \<and>
        vget m ''name'' = PStr a \<and> primary_or_secondary (vget m ''state''))"

lemma ready_names_members:
  "ready_names ms = Some ready \<Longrightarrow> v \<in> set ready \<Longrightarrow>
     \<exists>m. PDict m \<in> set ms \<and> vget m ''name'' = v \<and> primary_or_secondary (vget m ''state'')"
  by (induction ms arbitrary: ready rule: ready_names.induct) (auto split: if_splits, blast+)

lemma all_ready_members: "all_ready addresses status \<Longrightarrow> list_all (member_ready status) addresses"
  unfolding all_ready_def ready_members_def member_ready_def list_all_iff
  by (auto split: option.splits pyval.splits sum.splits dest!: ready_names_members)

definition waited :: "'x trove \<Rightarrow> string \<Rightarrow> string list \<Rightarrow> trove_event list \<Rightarrow> bool" where
  "waited t guest addresses tr \<longleftrightarrow> set tr \<subseteq> wait_events guest \<and> tr \<noteq> [] \<and>
     last tr = Guest guest ReplicaSetStatus \<and>
     (\<exists>x status. fst (give_value t (Guest guest ReplicaSetStatus) x) = Inr status \<and> list_all (member_ready status) addresses)"

lemma sends_ask_status:
  assumes "\<And>x status. fst (give_value t e x) = Inr status \<Longrightarrow> Q status [e]" and "\<And>err. E err [e]"
  shows "sends (ask_value t e) Q E"
  unfolding call_defs using assms by (intro sends_outside_call) auto

lemma sends_wait_round:
  "sends (wait_round t guest addresses)
     (\<lambda>r tr. case r of Inr _ \<Rightarrow> waited t guest addresses tr | Inl _ \<Rightarrow> set tr \<subseteq> wait_events guest)
     (\<lambda>_ tr. set tr \<subseteq> wait_events guest)"
proof -
  let ?e = "Guest guest ReplicaSetStatus"
  have ask: "sends (try_except
        (bind (ask_value t ?e) (\<lambda>status. ret (all_ready addresses status)))
        (\<lambda>e. if is_exception e then ret False else raise_exn e))
      (\<lambda>ready tr. tr = [?e] \<and> (ready \<longrightarrow> waited t guest addresses [?e])) (\<lambda>_ tr. tr = [?e])"
    by (intro sends_try_except sends_bind sends_ask_status sends_ret sends_if sends_raise)
      (auto simp: waited_def wait_events_def dest: all_ready_members)
  show ?thesis
    unfolding wait_round_def
    by (intro sends_bind sends_mono [OF ask] sends_if sends_andthen sends_ret sends_calls)
      (auto simp: wait_events_def)
qed

lemma steps_wait_round: "steps (logs UNIV) (\<lambda>_. True) (wait_round t guest addresses)"
  unfolding wait_round_def by (intro steps_intros) simp_all

lemma sends_wait:
  "sends (wait_for_replica_members c t guest addresses) (\<lambda>_. waited t guest addresses)
     (\<lambda>_ tr. set tr \<subseteq> wait_events guest)"
proof -
  have rounds: "sends (poll clock dl nap (\<lambda>_. wait_round t guest addresses) ())
      (\<lambda>r tr. case r of Inr _ \<Rightarrow> waited t guest addresses tr | Inl _ \<Rightarrow> set tr \<subseteq> wait_events guest)
      (\<lambda>_ tr. set tr \<subseteq> wait_events guest)" for dl
    unfolding nap_def
  proof (rule sends_poll [where I = "\<lambda>_ tr. set tr \<subseteq> wait_events guest"])
    fix tr :: "trove_event list" assume tr: "set tr \<subseteq> wait_events guest"
    show "sends (wait_round t guest addresses)
        (\<lambda>res t2. case res of
            Inr r \<Rightarrow> case Inr r of Inr _ \<Rightarrow> waited t guest addresses (tr @ t2) | Inl _ \<Rightarrow> set (tr @ t2) \<subseteq> wait_events guest
          | Inl s1 \<Rightarrow> set (tr @ t2 @ [Slept]) \<subseteq> wait_events guest)
        (\<lambda>_ t2. set (tr @ t2) \<subseteq> wait_events guest)"
      by (rule sends_mono [OF sends_wait_round])
        (use tr in \<open>auto simp: waited_def wait_events_def split: sum.splits\<close>)
  qed (simp_all add: steps_wait_round)
  show ?thesis
    unfolding wait_for_replica_members_def
    by (rule sends_bind, rule sends_now, rule sends_bind, rule sends_mono [OF rounds])
      (auto split: sum.splits intro!: sends_intros)
qed

lemma sends_task_address:
  "sends (task_address c t m) (\<lambda>_ tr. tr = [VisibleAddresses (i_id m)]) (\<lambda>_ tr. tr = [VisibleAddresses (i_id m)])"
  unfolding task_address_def
  by (intro sends_bind sends_calls) (auto split: option.split intro!: sends_intros)

definition work_events :: "trove_event set" where
  "work_events = - ({ResetTask} \<union> range StatusesOnFailure)"

text \<open>A replica set is initialised through its first member, with the addresses of all of them.\<close>

definition initialized ::
  "'x trove \<Rightarrow> db_instance list \<Rightarrow> string list \<Rightarrow> trove_event list \<Rightarrow> bool" where
  "initialized t members addresses tr \<longleftrightarrow> members \<noteq> [] \<and> length addresses = length members \<and>
     (\<exists>waits. waited t (i_id (hd members)) addresses waits \<and>
        tr = map (\<lambda>m. VisibleAddresses (i_id m)) members @
          [Guest (i_id (hd members)) (InitializeReplicaSet addresses)] @ waits)"

lemma wait_work: "set tr \<subseteq> wait_events g \<Longrightarrow> set tr \<subseteq> work_events"
  by (auto simp: wait_events_def work_events_def)

lemma in_work_events [simp]:
  "VisibleAddresses i \<in> work_events" "Guest g m \<in> work_events" "LoadInstance i \<in> work_events"
  "FindInstances \<in> work_events" "AllReady ids \<in> work_events" "FindShard s \<in> work_events"
  "TimerPoint \<in> work_events" "Slept \<in> work_events"
  by (auto simp: work_events_def)

lemma sends_addresses:
  "sends (map_io (task_address c t) members)
     (\<lambda>addresses tr. length addresses = length members \<and> tr = map (\<lambda>m. VisibleAddresses (i_id m)) members)
     (\<lambda>_ tr. set tr \<subseteq> work_events)"
proof (rule sends_mono [OF sends_map_io [OF sends_task_address]])
  fix e :: trove_error and tr
  assume "prefix tr (concat (map (\<lambda>m. [VisibleAddresses (i_id m)]) members))"
  from set_mono_prefix [OF this] show "set tr \<subseteq> work_events" by auto
qed simp

lemma initialize_replica_set_alt:
  "initialize_replica_set c t members =
     (if members = [] then raise_exn (RuntimeFailure ''MongoDB replica set has no members'')
      else
        bind (map_io (task_address c t) members) (\<lambda>addresses.
        andthen (do_call t (Guest (i_id (hd members)) (InitializeReplicaSet addresses)))
        (andthen (wait_for_replica_members c t (i_id (hd members)) addresses) (ret addresses))))"
  by (simp add: initialize_replica_set_def split: list.split)

lemma sends_initialize:
  "sends (initialize_replica_set c t members) (initialized t members) (\<lambda>_ tr. set tr \<subseteq> work_events)"
  unfolding initialize_replica_set_alt
  apply (rule sends_if, rule sends_raise, simp, rule sends_bind, rule sends_mono [OF sends_addresses])
  subgoal for addresses tr
    apply (intro sends_andthen sends_calls sends_mono [OF sends_wait] sends_ret)
    subgoal by auto
    subgoal for u waits by (elim conjE) (simp add: initialized_def)
    subgoal by (auto dest: wait_work)
    done
  subgoal by simp
  done

section \<open>What the operations log\<close>

definition routers_configured ::
  "db_instance list \<Rightarrow> db_instance list \<Rightarrow> trove_event list \<Rightarrow> bool" where
  "routers_configured routers config_servers tr \<longleftrightarrow> routers \<noteq> [] \<and> config_servers \<noteq> [] \<and>
     (\<exists>addresses. length addresses = length config_servers \<and>
        tr = map (\<lambda>m. VisibleAddresses (i_id m)) config_servers @
          map (\<lambda>r. Guest (i_id r) (AddConfigServers addresses)) routers)"

lemma sends_each:
  "sends (for_each (\<lambda>x. do_call t (e x)) xs) (\<lambda>_ tr. tr = map e xs) (\<lambda>_ _. True)"
  unfolding for_each_def
  by (rule sends_fold [where I = "\<lambda>done _ tr. tr = map e done"]) (auto intro!: sends_calls)

lemma sends_configure_routers:
  "sends (configure_query_routers c t routers config_servers)
     (\<lambda>_. routers_configured routers config_servers) (\<lambda>_ _. True)"
  unfolding configure_query_routers_def
  apply (rule sends_if, rule sends_raise, simp, rule sends_bind, rule sends_mono [OF sends_addresses])
   apply (rule sends_if, rule sends_raise, simp, rule sends_mono [OF sends_each])
    apply (auto simp: routers_configured_def)
  done

text \<open>A shard is added: its replica set is initialised, then it is registered with the router.\<close>

definition shard_added ::
  "'x trove \<Rightarrow> db_instance \<Rightarrow> db_instance list \<Rightarrow> trove_event list \<Rightarrow> bool" where
  "shard_added t router members tr \<longleftrightarrow>
     (\<exists>addresses set_up name. initialized t members addresses set_up \<and> name \<noteq> [] \<and>
        tr = set_up @ [Guest (i_id (hd members)) GetReplicaSetName,
          Guest (i_id router) (AddShard name (hd addresses))])"

lemma sends_add_shard:
  "sends (add_new_shard c t router members) (\<lambda>_. shard_added t router members) (\<lambda>_ _. True)"
  unfolding add_new_shard_def
  by (intro sends_bind sends_mono [OF sends_initialize] sends_calls sends_if sends_raise sends_ret)
    (auto simp: shard_added_def)

definition shards_added ::
  "'x trove \<Rightarrow> db_instance \<Rightarrow> db_instance list list \<Rightarrow> trove_event list \<Rightarrow> bool" where
  "shards_added t router shards tr \<longleftrightarrow>
     (\<exists>trs. list_all2 (shard_added t router) shards trs \<and> tr = concat trs)"

definition shards_of :: "db_instance list \<Rightarrow> db_instance list list" where
  "shards_of members = map (\<lambda>s. filter (\<lambda>m. i_shard_id m = s) members) (shard_ids members)"

lemma sends_add_shards:
  "sends (add_new_shards c t router members) (\<lambda>_. shards_added t router (shards_of members)) (\<lambda>_ _. True)"
  unfolding add_new_shards_def for_each_def
proof (rule sends_fold [where I = "\<lambda>done _. shards_added t router
    (map (\<lambda>s. filter (\<lambda>m. i_shard_id m = s) members) done)"])
  fix "done" rest :: "string list" and s and tr :: "trove_event list"
  let ?g = "\<lambda>s. filter (\<lambda>m. i_shard_id m = s) members"
  assume "shards_added t router (map ?g done) tr"
  then obtain trs where trs: "list_all2 (shard_added t router) (map ?g done) trs" "tr = concat trs"
    by (auto simp: shards_added_def)
  show "sends (bind (add_new_shard c t router (?g s)) (\<lambda>_. ret ()))
      (\<lambda>_ t2. shards_added t router (map ?g (done @ [s])) (tr @ t2)) (\<lambda>_ _. True)"
  proof (rule sends_bind, rule sends_mono [OF sends_add_shard], rule sends_ret)
    fix name t2 assume "shard_added t router (?g s) t2"
    with trs(1) have "list_all2 (shard_added t router) (map ?g (done @ [s])) (trs @ [t2])"
      by (simp add: list_all2_appendI)
    with trs(2) show "shards_added t router (map ?g (done @ [s])) (tr @ t2 @ [])"
      unfolding shards_added_def by (intro exI [of _ "trs @ [t2]"]) simp
  qed
qed (simp_all add: shards_added_def shards_of_def)

text \<open>
  What assembling a cluster does, in order: a replica set initialises its members; a sharded cluster
  initialises its config servers, points every router at them, and then adds shard after shard
  through its first router.
\<close>

definition assembled :: "'x trove \<Rightarrow> db_instance list \<Rightarrow> trove_event list \<Rightarrow> bool" where
  "assembled t members tr \<longleftrightarrow>
     (if is_sharded members then
        (\<exists>addresses servers routers shards. tr = servers @ routers @ shards \<and>
           initialized t (lookup_type members ''config_server'') addresses servers \<and>
           routers_configured (lookup_type members ''query_router'')
             (lookup_type members ''config_server'') routers \<and>
           shards_added t (hd (lookup_type members ''query_router''))
             (shards_of (lookup_type members ''member'')) shards)
      else (\<exists>addresses. initialized t members addresses tr))"

lemma sends_assemble: "sends (assemble c t members) (\<lambda>_. assembled t members) (\<lambda>_ _. True)"
  unfolding assemble_def Let_def
  apply (rule sends_if)
  subgoal
    by (intro sends_bind sends_mono [OF sends_initialize] sends_ret) (auto simp: assembled_def)
  subgoal
    apply (intro sends_bind sends_andthen sends_mono [OF sends_initialize]
        sends_mono [OF sends_configure_routers] sends_mono [OF sends_add_shards])
    subgoal unfolding assembled_def by simp blast
    by simp_all
  done

definition cluster_built :: "'x trove \<Rightarrow> trove_event list \<Rightarrow> bool" where
  "cluster_built t tr \<longleftrightarrow>
     (\<exists>ids members work. length members = length ids \<and> assembled t members work \<and>
        tr = [FindInstances, AllReady ids] @ map LoadInstance ids @ work @
          map (\<lambda>m. Guest (i_id m) ClusterComplete) members)"

lemma sends_load_all:
  "sends (load_all t ids) (\<lambda>ms tr. length ms = length ids \<and> tr = map LoadInstance ids) (\<lambda>_ _. True)"
proof -
  have "sends (ask_instance t (LoadInstance i)) (\<lambda>_ tr. tr = [LoadInstance i]) (\<lambda>_ tr. tr = [LoadInstance i])" for i
    by (intro sends_calls) simp_all
  from sends_map_io [OF this] show ?thesis unfolding load_all_def by (rule sends_mono) simp_all
qed

lemma sends_create_operation:
  "sends (create_operation c t) (\<lambda>r tr. r \<longrightarrow> cluster_built t tr) (\<lambda>_ _. True)"
  unfolding create_operation_def complete_all_def
  apply (intro sends_bind sends_ask_instances sends_calls sends_if sends_ret sends_mono [OF sends_load_all]
      sends_andthen sends_mono [OF sends_assemble] sends_mono [OF sends_each])
  apply simp_all
  subgoal for found x members
    unfolding cluster_built_def by (intro exI [of _ "ids_of found"] exI [of _ members]) auto
  done

text \<open>What growing does: members of a replica set are added and awaited; a sharded cluster gets its new
  routers configured first and then its new shards, through a router that is configured.\<close>

definition extended ::
  "'x trove \<Rightarrow> db_instance list \<Rightarrow> db_instance list \<Rightarrow> trove_event list \<Rightarrow> bool" where
  "extended t existing fresh tr \<longleftrightarrow>
     (if is_sharded (existing @ fresh) then
        (\<exists>routers shards. tr = routers @ shards \<and>
           (if lookup_type fresh ''query_router'' = [] then routers = []
            else routers_configured (lookup_type fresh ''query_router'')
              (lookup_type existing ''config_server'') routers) \<and>
           (if lookup_type fresh ''member'' = [] then shards = []
            else lookup_type existing ''query_router'' @ lookup_type fresh ''query_router'' \<noteq> [] \<and>
              shards_added t (hd (lookup_type existing ''query_router'' @ lookup_type fresh ''query_router''))
                (shards_of (lookup_type fresh ''member'')) shards))
      else
        (\<exists>addresses (loaded :: db_instance) waits. length addresses = length fresh \<and> waited t (i_id loaded) addresses waits \<and>
           tr = map (\<lambda>m. VisibleAddresses (i_id m)) fresh @
             [LoadInstance (i_id (hd existing)), Guest (i_id loaded) (AddReplicaMembers addresses)] @ waits))"

lemma sends_extend_sharded:
  assumes "is_sharded (existing @ fresh)"
  shows "sends (extend_sharded c t existing fresh) (\<lambda>_. extended t existing fresh) (\<lambda>_ _. True)"
proof -
  let ?R = "lookup_type fresh ''query_router''" and ?M = "lookup_type fresh ''member''"
  let ?Q = "lookup_type existing ''query_router'' @ ?R"
  have routers: "sends (if ?R = [] then ret () else configure_query_routers c t ?R (lookup_type existing ''config_server''))
      (\<lambda>_ tr. if ?R = [] then tr = [] else routers_configured ?R (lookup_type existing ''config_server'') tr)
      (\<lambda>_ _. True)"
    by (intro sends_if sends_ret sends_mono [OF sends_configure_routers]) simp_all
  have shards: "sends (if ?M = [] then ret () else case ?Q of
        [] \<Rightarrow> raise_exn (RuntimeFailure ''A sharded MongoDB cluster needs a query router'')
      | router # _ \<Rightarrow> add_new_shards c t router ?M)
      (\<lambda>_ tr. if ?M = [] then tr = [] else ?Q \<noteq> [] \<and> shards_added t (hd ?Q) (shards_of ?M) tr) (\<lambda>_ _. True)"
    by (cases ?Q) (auto intro!: sends_intros sends_mono [OF sends_add_shards])
  show ?thesis
    unfolding extend_sharded_def Let_def
    apply (rule sends_andthen, rule sends_mono [OF routers], rule sends_mono [OF shards])
    subgoal for u tr v tr2
      unfolding extended_def using assms by (simp only: if_True) (intro exI [of _ tr] exI [of _ tr2] conjI; simp)
    by simp_all
qed

lemma sends_extend_replica_set:
  assumes "\<not> is_sharded (existing @ fresh)"
  shows "sends (extend_replica_set c t (hd existing) fresh) (\<lambda>_. extended t existing fresh) (\<lambda>_ _. True)"
  unfolding extend_replica_set_def
  apply (rule sends_bind, rule sends_mono [OF sends_addresses])
  subgoal for addresses tr
    apply (intro sends_bind sends_andthen sends_calls sends_mono [OF sends_wait])
    subgoal by simp
    subgoal by simp
    subgoal for loaded u waits
      using assms unfolding extended_def by (elim conjE) (simp, blast)
    by simp
  by simp

definition cluster_grown :: "'x trove \<Rightarrow> string list \<Rightarrow> trove_event list \<Rightarrow> bool" where
  "cluster_grown t new_ids tr \<longleftrightarrow>
     (\<exists>old_ids existing fresh work. existing \<noteq> [] \<and> set old_ids \<inter> set new_ids = {} \<and>
        length existing = length old_ids \<and> length fresh = length new_ids \<and> extended t existing fresh work \<and>
        tr = [AllReady new_ids, FindInstances] @ map LoadInstance (old_ids @ new_ids) @ work @
          map (\<lambda>m. Guest (i_id m) ClusterComplete) fresh)"

lemma sends_grow_operation:
  fixes t :: "'x trove"
  shows "sends (grow_operation c t new_ids) (\<lambda>r tr. r \<longrightarrow> cluster_grown t new_ids tr) (\<lambda>_ _. True)"
proof -
  have finish: "sends (case existing of
        [] \<Rightarrow> raise_exn (RuntimeFailure ''MongoDB cluster has no existing member'')
      | first # _ \<Rightarrow> andthen
          (if \<not> is_sharded (existing @ fresh) then extend_replica_set c t first fresh
           else extend_sharded c t existing fresh)
          (andthen (complete_all t fresh) (ret True)))
      (\<lambda>_ tr. existing \<noteq> [] \<and> (\<exists>work. extended t existing fresh work \<and>
         tr = work @ map (\<lambda>m. Guest (i_id m) ClusterComplete) fresh)) (\<lambda>_ _. True)" for existing fresh
  proof -
    have split: "(case existing of [] \<Rightarrow> m | first # _ \<Rightarrow> f first) = (if existing = [] then m else f (hd existing))"
      for m :: "('x, bool) tio" and f
      by (cases existing) simp_all
    have extend: "sends (if \<not> is_sharded (existing @ fresh) then extend_replica_set c t (hd existing) fresh
           else extend_sharded c t existing fresh) (\<lambda>_. extended t existing fresh) (\<lambda>_ _. True)"
      by (intro sends_if sends_extend_replica_set sends_extend_sharded) simp_all
    show ?thesis
      unfolding split complete_all_def
      by (intro sends_if sends_raise sends_andthen sends_mono [OF extend] sends_mono [OF sends_each] sends_ret)
        auto
  qed
  show ?thesis
    unfolding grow_operation_def
    apply (intro sends_bind sends_calls sends_if sends_ret sends_ask_instances sends_mono [OF sends_load_all]
        sends_mono [OF finish])
    apply simp_all
    subgoal for ready found y existing fresh r tr
      apply (elim conjE exE)
      subgoal for work
        unfolding cluster_grown_def
        by (rule impI, rule exI [of _ "filter (\<lambda>i. i \<notin> set new_ids) (ids_of found)"], rule exI [of _ existing],
            rule exI [of _ fresh], rule exI [of _ work]) auto
      done
    done
qed

section \<open>The outcome under the timer\<close>

lemma steps_waiting: "steps (logs work_events) (\<lambda>_. True) (wait_for_replica_members c t guest addresses)"
  unfolding wait_for_replica_members_def wait_round_def
  by (intro steps_intros steps_nap_poll) simp_all

lemma steps_initialize: "steps (logs work_events) (\<lambda>_. True) (initialize_replica_set c t members)"
  unfolding initialize_replica_set_alt task_address_def
  by (intro steps_intros steps_waiting) simp_all

lemma steps_routers: "steps (logs work_events) (\<lambda>_. True) (configure_query_routers c t routers servers)"
  unfolding configure_query_routers_def task_address_def for_each_def
  by (intro steps_intros) simp_all

lemma steps_shards: "steps (logs work_events) (\<lambda>_. True) (add_new_shards c t router members)"
  unfolding add_new_shards_def add_new_shard_def for_each_def
  by (intro steps_intros steps_initialize) simp_all

lemma steps_create_operation: "steps (logs work_events) (\<lambda>_. True) (create_operation c t)"
  unfolding create_operation_def assemble_def load_all_def complete_all_def for_each_def Let_def
  by (intro steps_intros steps_initialize steps_routers steps_shards) simp_all

lemma steps_grow_operation: "steps (logs work_events) (\<lambda>_. True) (grow_operation c t new_ids)"
  unfolding grow_operation_def extend_replica_set_def extend_sharded_def load_all_def complete_all_def
    for_each_def task_address_def Let_def
  by (intro steps_intros steps_waiting steps_routers steps_shards) simp_all

text \<open>
  The end of a task: \<open>work\<close> is what the operation did.  The task is reset only after \<open>finished work\<close>;
  otherwise the instances are marked with \<open>failure\<close>, and a failing reset or report is itself reported.
\<close>

definition task_log ::
  "failure_status \<Rightarrow> (trove_event list \<Rightarrow> bool) \<Rightarrow> trove_event list \<Rightarrow> bool" where
  "task_log failure finished tr \<longleftrightarrow>
     (\<exists>work. set work \<subseteq> work_events \<and>
        (tr = work @ [StatusesOnFailure failure] \<or>
         tr = work @ [StatusesOnFailure failure, StatusesOnFailure failure] \<or>
         (finished work \<and> (tr = work @ [ResetTask] \<or> tr = work @ [ResetTask, StatusesOnFailure failure]))))"

definition task_escape :: "failure_status \<Rightarrow> trove_error \<Rightarrow> trove_event list \<Rightarrow> bool" where
  "task_escape failure e tr \<longleftrightarrow> e = TimeoutExpired False \<or> (tr \<noteq> [] \<and> last tr = StatusesOnFailure failure)"

lemma sends_run:
  assumes op: "sends operation (\<lambda>r tr. r \<longrightarrow> finished tr) (\<lambda>_ _. True)"
    and work: "steps (logs work_events) (\<lambda>_. True) operation"
  shows "sends (run_with_timeout t operation failure) (\<lambda>_. task_log failure finished) (task_escape failure)"
proof -
  let ?report = "do_call t (StatusesOnFailure failure)"
  let ?handler = "\<lambda>e. case e of TimeoutExpired own \<Rightarrow> if own then ?report else raise_exn e | _ \<Rightarrow> ?report"
  have handled: "sends (?handler e) (\<lambda>_ t2. t2 = [StatusesOnFailure failure])
      (\<lambda>e2 t2. e2 = TimeoutExpired False \<or> t2 = [StatusesOnFailure failure])" for e
    by (cases e) (auto intro!: sends_intros)
  from sends_conj [OF op sends_steps [OF work]]
  have op: "sends operation (\<lambda>r tr. (r \<longrightarrow> finished tr) \<and> set tr \<subseteq> work_events) (\<lambda>_ tr. set tr \<subseteq> work_events)"
    by (rule sends_mono) simp_all
  have body: "sends (bind operation (\<lambda>completed. if \<not> completed then ?report else do_call t ResetTask))
      (\<lambda>_ tr. \<exists>work. set work \<subseteq> work_events \<and> (tr = work @ [StatusesOnFailure failure] \<or> finished work \<and> tr = work @ [ResetTask]))
      (\<lambda>_ tr. \<exists>work. set work \<subseteq> work_events \<and> (tr = work \<or> tr = work @ [StatusesOnFailure failure] \<or> finished work \<and> tr = work @ [ResetTask]))"
    by (rule sends_bind, rule sends_mono [OF op], rule sends_if) (auto intro!: sends_calls)
  show ?thesis
    unfolding run_with_timeout_def
    apply (rule sends_try_except, rule sends_mono [OF body])
    subgoal unfolding task_log_def by blast
    subgoal for e tr
      apply (elim exE conjE)
      subgoal for work
        apply (rule sends_mono [OF handled [of e]])
        subgoal unfolding task_log_def by (rule exI [of _ work]) auto
        subgoal unfolding task_escape_def by auto
        done
      done
    done
qed

lemma create_cluster_sends:
  "sends (create_cluster c t) (\<lambda>_. task_log BUILDING_ERROR_SERVER (cluster_built t)) (task_escape BUILDING_ERROR_SERVER)"
  unfolding create_cluster_def by (rule sends_run [OF sends_create_operation steps_create_operation])

lemma grow_cluster_sends:
  "sends (grow_cluster c t new_ids) (\<lambda>_. task_log GROWING_ERROR (cluster_grown t new_ids)) (task_escape GROWING_ERROR)"
  unfolding grow_cluster_def by (rule sends_run [OF sends_grow_operation steps_grow_operation])

lemma shrink_cluster_sends:
  assumes "\<And>x. fst (give_instances t FindInstances x) = Inr xs"
    and "\<And>x. fst (perform t ResetTask x) = Inr ()"
  shows "sends (shrink_cluster t ids) (\<lambda>_ tr. tr = [FindInstances, ResetTask]) (\<lambda>_ _. False)"
proof -
  have reset: "sends (do_call t ResetTask) (\<lambda>_ tr. tr = [ResetTask]) (\<lambda>_ _. False)"
    unfolding call_defs by (rule sends_outside_call) (simp_all add: assms(2))
  have find: "sends (ask_instances t FindInstances) (\<lambda>ys tr. tr = [FindInstances]) (\<lambda>_ _. False)"
    unfolding call_defs by (rule sends_outside_call) (simp_all add: assms(1))
  show ?thesis
    unfolding shrink_cluster_def run_with_timeout_def shrink_operation_def
    by (intro sends_try_except sends_bind sends_mono [OF find] sends_if sends_ret sends_mono [OF reset]) simp_all
qed

section \<open>The number of status calls\<close>

definition status_calls :: "trove_event list \<Rightarrow> nat" where
  "status_calls tr = length (filter (\<lambda>e. \<exists>g. e = Guest g ReplicaSetStatus) tr)"

lemma status_calls_simps [simp]:
  "status_calls [] = 0" "status_calls (t1 @ t2) = status_calls t1 + status_calls t2"
  "status_calls [Guest g ReplicaSetStatus] = 1" "status_calls [TimerPoint] = 0" "status_calls [Slept] = 0"
  by (simp_all add: status_calls_def)

lemma sends_wait_round_once:
  "sends (wait_round t guest addresses) (\<lambda>_ tr. status_calls tr = 1) (\<lambda>_ tr. status_calls tr = 1)"
proof -
  let ?e = "Guest guest ReplicaSetStatus"
  have ask: "sends (try_except
        (bind (ask_value t ?e) (\<lambda>status. ret (all_ready addresses status)))
        (\<lambda>e. if is_exception e then ret False else raise_exn e)) (\<lambda>_ tr. tr = [?e]) (\<lambda>_ tr. tr = [?e])"
    by (intro sends_try_except sends_bind sends_ask_status sends_ret sends_if sends_raise) simp_all
  show ?thesis
    unfolding wait_round_def
    by (intro sends_bind sends_mono [OF ask] sends_if sends_andthen sends_ret sends_calls)
      (simp_all add: status_calls_def)
qed

lemma sends_wait_bounded:
  "sends (wait_for_replica_members c t guest addresses)
     (\<lambda>_ tr. status_calls tr \<le> nat \<lceil>add_members_timeout c / 2\<rceil>)
     (\<lambda>_ tr. status_calls tr \<le> nat \<lceil>add_members_timeout c / 2\<rceil>)"
proof -
  let ?N = "nat \<lceil>add_members_timeout c / 2\<rceil>"
  have rounds: "sends (bind now (\<lambda>start. poll clock (start + add_members_timeout c) nap
        (\<lambda>_. wait_round t guest addresses) ())) (\<lambda>_ tr. status_calls tr \<le> ?N) (\<lambda>_ tr. status_calls tr \<le> ?N)"
    unfolding nap_def
    by (rule sends_poll_within [where I = "\<lambda>n _ tr. status_calls tr = n"])
      (auto simp: steps_wait_round split: sum.split intro!: sends_mono [OF sends_wait_round_once])
  have "wait_for_replica_members c t guest addresses =
      bind (bind now (\<lambda>start. poll clock (start + add_members_timeout c) nap (\<lambda>_. wait_round t guest addresses) ()))
        (\<lambda>answer. case answer of Inr _ \<Rightarrow> ret ()
          | Inl _ \<Rightarrow> raise_exn (RuntimeFailure ''MongoDB replica-set members did not become ready in time''))"
    unfolding wait_for_replica_members_def bind_assoc ..
  then show ?thesis
    by (simp only:) (rule sends_bind, rule sends_mono [OF rounds],
      auto split: sum.splits intro!: sends_intros)
qed

section \<open>Properties\<close>

text \<open>C20: Waiting for new members always ends, after at most half of the timeout's seconds, rounded up,
status calls; it ends without an exception only right after a status in which every expected address
was ready.\<close>

theorem wait_for_members_correct:
  "sends (wait_for_replica_members c t guest addresses)
     (\<lambda>_ tr. waited t guest addresses tr \<and> status_calls tr \<le> nat \<lceil>add_members_timeout c / 2\<rceil>)
     (\<lambda>_ tr. set tr \<subseteq> wait_events guest \<and> status_calls tr \<le> nat \<lceil>add_members_timeout c / 2\<rceil>)"
  by (rule sends_conj [OF sends_wait sends_wait_bounded])


text \<open>Growing a cluster always ends. Its task is reset only after all new instances were ready, the
existing members other than the new ones were found, the new members were added and awaited, or the new
routers configured and the new shards registered, and every new member told that the cluster is
complete; otherwise the instances are marked as failed.\<close>

theorem grow_cluster_outcome:
  "sends (grow_cluster c t new_ids) (\<lambda>_. task_log GROWING_ERROR (cluster_grown t new_ids))
     (task_escape GROWING_ERROR)"
  by (rule grow_cluster_sends)

text \<open>Completing a shrink resets the task whether or not removed instances are still found: the test
for them has no effect.\<close>

theorem shrink_cluster_always_resets:
  assumes "\<And>x. fst (give_instances t FindInstances x) = Inr xs"
    and "\<And>x. fst (perform t ResetTask x) = Inr ()"
  shows "sends (shrink_cluster t ids) (\<lambda>_ tr. tr = [FindInstances, ResetTask]) (\<lambda>_ _. False)"
  using assms by (rule shrink_cluster_sends)

theorem shrink_cluster_always_resets_witness:
  "sends (shrink_cluster (ready_trove three_replicas) [''m1'']) (\<lambda>_ tr. tr = [FindInstances, ResetTask])
     (\<lambda>_ _. False) \<and> ''m1'' \<in> set (ids_of three_replicas)"
  by (intro conjI shrink_cluster_always_resets)
    (simp_all add: ready_trove_def three_replicas_def sample_instance_def ids_of_def)

end
