(* ===== verification/MongoConfig.thy ===== *)
theory MongoConfig
  imports PyValue
begin

text \<open>
  The configuration manager of \<^verbatim>\<open>trove-mongodb/service.py\<close>: dotted option names become nested ones,
  obsolete options are removed, and the options of the user are merged over those of the guest.
  Options are dictionaries with text keys; deep copies leave values as they are.
\<close>

section \<open>Merging\<close>

function merge_options :: "pydict \<Rightarrow> pydict \<Rightarrow> pydict" where
  "merge_options target [] = target"
| "merge_options target ((k, v) # source) =
     merge_options
       (case v of
          PDict d \<Rightarrow>
            (case dget target k of
               Some (PDict e) \<Rightarrow> dset k (PDict (merge_options e d)) target
             | _ \<Rightarrow> dset k v target)
        | _ \<Rightarrow> dset k v target)
       source"
  by pat_completeness auto
termination
  by (relation "measure (\<lambda>(target, source). size (PDict source))") auto

section \<open>Normalising\<close>

text \<open>Storing at a path, whose inner dictionaries are made or replaced as needed.\<close>

fun set_path :: "string list \<Rightarrow> pyval \<Rightarrow> pydict \<Rightarrow> pydict" where
  "set_path [] v target = target"
| "set_path [k] v target = dset k v target"
| "set_path (k # ks) v target =
     dset k (PDict (set_path ks v (case dget target k of Some (PDict d) \<Rightarrow> d | _ \<Rightarrow> []))) target"

definition key_parts :: "string \<Rightarrow> string list" where
  "key_parts key = filter (\<lambda>part. part \<noteq> []) (split_on CHR ''.'' key)"

text \<open>\<open>None\<close> is the \<^verbatim>\<open>IndexError\<close> of \<^verbatim>\<open>parts[-1]\<close> for a key of dots only.\<close>

fun normalize_value :: "pyval \<Rightarrow> pyval option"
  and normalize_into :: "pydict \<Rightarrow> (string \<times> pyval) list \<Rightarrow> pydict option" where
  "normalize_value (PDict d) = map_option PDict (normalize_into [] d)"
| "normalize_value v = Some v"
| "normalize_into normalized [] = Some normalized"
| "normalize_into normalized ((key, v) # options) =
     (if CHR ''.'' \<notin> set key then
        (case normalize_value v of
           None \<Rightarrow> None
         | Some v1 \<Rightarrow> normalize_into (dset key v1 normalized) options)
      else if key_parts key = [] then None
      else normalize_into (set_path (key_parts key) v normalized) options)"

section \<open>Removing obsolete options\<close>

text \<open>\<open>put_or_drop\<close> stores a dictionary that has been changed in place, or removes it when it is empty.\<close>

definition put_or_drop :: "string \<Rightarrow> pydict \<Rightarrow> pydict \<Rightarrow> pydict" where
  "put_or_drop k inner outer = (if inner = [] then dpop k outer else dset k (PDict inner) outer)"

definition sanitize_storage :: "pydict \<Rightarrow> pydict" where
  "sanitize_storage storage =
     (let storage1 = dpop ''mmapv1'' storage
      in case dget storage1 ''journal'' of
        Some (PDict journal) \<Rightarrow> put_or_drop ''journal'' (dpop ''enabled'' journal) storage1
      | _ \<Rightarrow> storage1)"

definition sanitize_log :: "pydict \<Rightarrow> pydict" where
  "sanitize_log options =
     (case dget options ''systemLog'' of
        Some (PDict system_log) \<Rightarrow>
          (if dget system_log ''destination'' = Some (PStr ''stderr'') then
             put_or_drop ''systemLog'' (dpop ''destination'' system_log) options
           else options)
      | _ \<Rightarrow> options)"

definition sanitize :: "pydict \<Rightarrow> pydict" where
  "sanitize options =
     sanitize_log
       (case dget options ''storage'' of
          Some (PDict storage) \<Rightarrow> put_or_drop ''storage'' (sanitize_storage storage) options
        | _ \<Rightarrow> options)"

definition normalize :: "pydict \<Rightarrow> pydict option" where
  "normalize options = map_option sanitize (normalize_into [] options)"

section \<open>The configuration of a guest\<close>

text \<open>
  Outside are the YAML reader, \<^verbatim>\<open>int\<close> of a float (by its \<^verbatim>\<open>repr\<close>) and the \<^verbatim>\<open>repr\<close> of a float; sizes are
  real numbers.
\<close>

datatype config_error =
    Yaml string
  | PyError string string

record config_tools =
  yaml_load :: "string \<Rightarrow> config_error + pyval"
  float_int :: "string \<Rightarrow> config_error + int"
  float_text :: "real \<Rightarrow> string"

definition MONGODB_DATA_DIR :: string where "MONGODB_DATA_DIR = ''/data/db''"

definition cache_size_gb :: "int \<Rightarrow> real" where
  "cache_size_gb memory_mb = min (max (real_of_int memory_mb * (1 / 4) / 1024) (256 / 1000)) 2"

text \<open>The memory as a number: \<^verbatim>\<open>int\<close> with its \<^verbatim>\<open>TypeError\<close> and \<^verbatim>\<open>ValueError\<close> turned to 0, of a true value; a
  false one is compared with 0 as it is, which fails unless it is a number.\<close>

definition memory_number :: "config_tools \<Rightarrow> pyval \<Rightarrow> config_error + int" where
  "memory_number f memory_mb =
     (if truthy memory_mb then
        (case memory_mb of
           PInt i \<Rightarrow> Inr i
         | PBool b \<Rightarrow> Inr 1
         | PStr s \<Rightarrow> Inr (case read_int s of Some i \<Rightarrow> i | None \<Rightarrow> 0)
         | PBytes s \<Rightarrow> Inr (case read_int s of Some i \<Rightarrow> i | None \<Rightarrow> 0)
         | PFloat x \<Rightarrow>
             (case float_int f x of
                Inr i \<Rightarrow> Inr i
              | Inl (PyError cl m) \<Rightarrow>
                  if cl = ''ValueError'' \<or> cl = ''TypeError'' then Inr 0 else Inl (PyError cl m)
              | Inl e \<Rightarrow> Inl e)
         | _ \<Rightarrow> Inr 0)
      else
        (case memory_mb of
           PInt i \<Rightarrow> Inr 0
         | PBool b \<Rightarrow> Inr 0
         | PFloat x \<Rightarrow> Inr 0
         | v \<Rightarrow> Inl (PyError ''TypeError'' (''not supported between instances of '' @ type_name v))))"

definition base_options :: "config_tools \<Rightarrow> int \<Rightarrow> pydict" where
  "base_options f memory_mb =
     [(''storage'', PDict ([(''dbPath'', PStr MONGODB_DATA_DIR)] @
        (if 0 < memory_mb then
           [(''wiredTiger'', PDict [(''engineConfig'',
              PDict [(''cacheSizeGB'', PFloat (float_text f (cache_size_gb memory_mb)))])])]
         else [])))]"

text \<open>The options of the user, after reading a YAML text.\<close>

definition normalized_options :: "pyval \<Rightarrow> config_error + pydict" where
  "normalized_options v =
     (if \<not> truthy v then Inr []
      else case v of
        PDict d \<Rightarrow>
          (case normalize d of
             Some options \<Rightarrow> Inr options
           | None \<Rightarrow> Inl (PyError ''IndexError'' ''list index out of range''))
      | _ \<Rightarrow> Inl (PyError ''AttributeError'' (type_name v @ '' object has no attribute items'')))"

definition configuration_contents :: "config_tools \<Rightarrow> pyval \<Rightarrow> pyval \<Rightarrow> config_error + pydict" where
  "configuration_contents f contents memory_mb =
     (case (case contents of PStr txt \<Rightarrow> yaml_load f txt | _ \<Rightarrow> Inr contents) of
        Inl e \<Rightarrow> Inl e
      | Inr v \<Rightarrow>
          (case memory_number f memory_mb of
             Inl e \<Rightarrow> Inl e
           | Inr memory \<Rightarrow> map_sum id (merge_options (base_options f memory)) (normalized_options v)))"

section \<open>What an option path gives\<close>

fun option_at :: "pydict \<Rightarrow> string list \<Rightarrow> pyval option" where
  "option_at d [] = Some (PDict d)"
| "option_at d [k] = dget d k"
| "option_at d (k # ks) = (case dget d k of Some (PDict e) \<Rightarrow> option_at e ks | _ \<Rightarrow> None)"

text \<open>Dictionaries have distinct keys, at every level.\<close>

fun distinct_options :: "pyval \<Rightarrow> bool" and distinct_items :: "(string \<times> pyval) list \<Rightarrow> bool" where
  "distinct_options (PDict d) = (distinct (dkeys d) \<and> distinct_items d)"
| "distinct_options _ = True"
| "distinct_items [] = True"
| "distinct_items ((k, v) # d) = (distinct_options v \<and> distinct_items d)"

section \<open>Merging keeps what the user does not set\<close>

definition overlay :: "pyval \<Rightarrow> pyval option \<Rightarrow> pyval" where
  "overlay v old =
     (case v of
        PDict d \<Rightarrow> (case old of Some (PDict e) \<Rightarrow> PDict (merge_options e d) | _ \<Rightarrow> v)
      | _ \<Rightarrow> v)"

lemma merge_options_Cons:
  "merge_options target ((k, v) # source) = merge_options (dset k (overlay v (dget target k)) target) source"
  by (simp add: overlay_def split: pyval.split option.split)

lemma merge_lookup:
  "distinct (dkeys source) \<Longrightarrow>
     dget (merge_options target source) k =
       (case dget source k of None \<Rightarrow> dget target k | Some v \<Rightarrow> Some (overlay v (dget target k)))"
proof (induction source arbitrary: target)
  case (Cons kv source)
  obtain k1 v1 where kv: "kv = (k1, v1)" by (cases kv)
  have "dget source k1 = None" using Cons.prems kv by (simp add: map_of_eq_None_iff)
  with Cons kv show ?case
    unfolding kv merge_options_Cons by (auto simp: dict_simps split: option.split)
qed simp

lemma distinct_items_lookup: "distinct_items d \<Longrightarrow> dget d k = Some v \<Longrightarrow> distinct_options v"
  by (induction d) (auto split: if_splits)

lemma option_at_Cons:
  "ks \<noteq> [] \<Longrightarrow> option_at d (k # ks) = (case dget d k of Some (PDict e) \<Rightarrow> option_at e ks | _ \<Rightarrow> None)"
  by (cases ks) (auto split: option.split pyval.split)

lemma user_option_wins:
  "distinct_options (PDict source) \<Longrightarrow> ks \<noteq> [] \<Longrightarrow> option_at source ks = Some v \<Longrightarrow> \<not> is_mapping v \<Longrightarrow>
     option_at (merge_options target source) ks = Some v"
proof (induction ks arbitrary: source target)
  case (Cons k ks)
  then have look: "dget (merge_options target source) k =
      (case dget source k of None \<Rightarrow> dget target k | Some v \<Rightarrow> Some (overlay v (dget target k)))"
    by (simp add: merge_lookup)
  show ?case
  proof (cases "ks = []")
    case True
    with Cons.prems look show ?thesis by (auto simp: overlay_def split: pyval.split)
  next
    case False
    with Cons.prems(3) obtain d where d: "dget source k = Some (PDict d)" "option_at d ks = Some v"
      by (auto simp: option_at_Cons split: option.splits pyval.splits)
    have dd: "distinct_options (PDict d)" using Cons.prems(1) d(1) by (auto dest: distinct_items_lookup)
    show ?thesis
    proof (cases "\<exists>e. dget target k = Some (PDict e)")
      case True
      then obtain e where "dget target k = Some (PDict e)" by blast
      with look d Cons.IH [OF dd False d(2) Cons.prems(4), of e] False show ?thesis
        by (simp add: option_at_Cons overlay_def)
    next
      case none: False
      then have "overlay (PDict d) (dget target k) = PDict d"
        by (auto simp: overlay_def split: option.split pyval.split)
      with look d False show ?thesis by (simp add: option_at_Cons)
    qed
  qed
qed simp

text \<open>The user's options say nothing about a path: somewhere on it a key is missing.\<close>

fun silent_at :: "pydict \<Rightarrow> string list \<Rightarrow> bool" where
  "silent_at d [] = False"
| "silent_at d (k # ks) =
     (case dget d k of None \<Rightarrow> True | Some (PDict e) \<Rightarrow> silent_at e ks | _ \<Rightarrow> False)"

lemma base_option_kept:
  "distinct_options (PDict source) \<Longrightarrow> silent_at source ks \<Longrightarrow> option_at target ks = Some v \<Longrightarrow>
     option_at (merge_options target source) ks = Some v"
proof (induction ks arbitrary: source target)
  case (Cons k ks)
  then have look: "dget (merge_options target source) k =
      (case dget source k of None \<Rightarrow> dget target k | Some v \<Rightarrow> Some (overlay v (dget target k)))"
    by (simp add: merge_lookup)
  show ?case
  proof (cases "dget source k")
    case None
    with look Cons.prems(3) show ?thesis by (cases ks) simp_all
  next
    case (Some u)
    with Cons.prems(2) obtain d where d: "u = PDict d" "silent_at d ks" by (auto split: pyval.splits)
    then have "ks \<noteq> []" by auto
    with Cons.prems(3) obtain e where e: "dget target k = Some (PDict e)" "option_at e ks = Some v"
      by (auto simp: option_at_Cons split: option.splits pyval.splits)
    have "distinct_options (PDict d)" using Cons.prems(1) Some d(1) by (auto dest: distinct_items_lookup)
    from Cons.IH [OF this d(2) e(2)] look Some d(1) e(1) \<open>ks \<noteq> []\<close> show ?thesis
      by (simp add: option_at_Cons overlay_def)
  qed
qed simp

section \<open>Sanitising\<close>

lemma dpop_lookup [simp]: "dget (dpop k d) k' = (if k' = k then None else dget d k')"
  by (simp add: dpop_def delete_conv')

lemma dset_same: "dget d k = Some v \<Longrightarrow> dset k v d = d"
  unfolding dset_def by (induction d) auto

lemma dpop_absent: "dget d k = None \<Longrightarrow> dpop k d = d"
  by (simp add: dpop_def delete_id map_of_eq_None_iff)

lemma put_or_drop_lookup:
  "dget (put_or_drop k inner outer) k' =
     (if k' = k then (if inner = [] then None else Some (PDict inner)) else dget outer k')"
  by (simp add: put_or_drop_def dict_simps)

lemma put_or_drop_same: "dget outer k = Some (PDict inner) \<Longrightarrow> inner \<noteq> [] \<Longrightarrow> put_or_drop k inner outer = outer"
  by (simp add: put_or_drop_def dset_same)

definition clean_storage :: "pydict \<Rightarrow> bool" where
  "clean_storage d \<longleftrightarrow> dget d ''mmapv1'' = None \<and>
     (\<forall>j. dget d ''journal'' = Some (PDict j) \<longrightarrow> dget j ''enabled'' = None \<and> j \<noteq> [])"

lemma sanitize_storage_clean: "clean_storage (sanitize_storage d)"
  by (auto simp: clean_storage_def sanitize_storage_def Let_def put_or_drop_lookup split: option.split pyval.split if_splits)

lemma clean_storage_same: "clean_storage d \<Longrightarrow> sanitize_storage d = d"
  by (auto simp: clean_storage_def sanitize_storage_def Let_def dpop_absent put_or_drop_same split: option.split pyval.split)

text \<open>No option that a modern MongoDB rejects is left.\<close>

definition clean_options :: "pydict \<Rightarrow> bool" where
  "clean_options d \<longleftrightarrow>
     (\<forall>s. dget d ''storage'' = Some (PDict s) \<longrightarrow> clean_storage s \<and> s \<noteq> []) \<and>
     (\<forall>l. dget d ''systemLog'' = Some (PDict l) \<longrightarrow> dget l ''destination'' \<noteq> Some (PStr ''stderr''))"

lemma clean_options_same: "clean_options d \<Longrightarrow> sanitize d = d"
  unfolding sanitize_def sanitize_log_def clean_options_def
  by (auto simp: clean_storage_same put_or_drop_same split: option.split pyval.split)

lemma sanitize_log_clean:
  "dget (sanitize_log d) ''systemLog'' = Some (PDict l) \<Longrightarrow> dget l ''destination'' \<noteq> Some (PStr ''stderr'')"
  unfolding sanitize_log_def by (auto simp: put_or_drop_lookup split: option.splits pyval.splits if_splits)

lemma sanitize_log_other: "k \<noteq> ''systemLog'' \<Longrightarrow> dget (sanitize_log d) k = dget d k"
  unfolding sanitize_log_def by (auto simp: put_or_drop_lookup split: option.splits pyval.splits)

lemma sanitize_other: "k \<noteq> ''storage'' \<Longrightarrow> k \<noteq> ''systemLog'' \<Longrightarrow> dget (sanitize d) k = dget d k"
  unfolding sanitize_def by (auto simp: sanitize_log_other put_or_drop_lookup split: option.splits pyval.splits)

lemma sanitize_clean: "clean_options (sanitize d)"
proof -
  have "clean_storage s \<and> s \<noteq> []" if "dget (sanitize d) ''storage'' = Some (PDict s)" for s
    using that sanitize_storage_clean unfolding sanitize_def
    by (auto simp: sanitize_log_other put_or_drop_lookup split: option.splits pyval.splits if_splits)
  moreover have "dget l ''destination'' \<noteq> Some (PStr ''stderr'')"
    if "dget (sanitize d) ''systemLog'' = Some (PDict l)" for l
    using that unfolding sanitize_def by (rule sanitize_log_clean)
  ultimately show ?thesis by (simp add: clean_options_def)
qed

section \<open>Distinct keys\<close>

lemma distinct_items_iff: "distinct_items d \<longleftrightarrow> (\<forall>(k, v) \<in> set d. distinct_options v)"
  by (induction d) auto

lemma distinct_items_dset: "distinct_items d \<Longrightarrow> distinct_options v \<Longrightarrow> distinct_items (dset k v d)"
  unfolding dset_def by (induction d) auto

lemma distinct_dset:
  "distinct_options (PDict d) \<Longrightarrow> distinct_options v \<Longrightarrow> distinct_options (PDict (dset k v d))"
  by (simp add: distinct_items_dset pydict.distinct_store)

lemma distinct_dpop: "distinct_options (PDict d) \<Longrightarrow> distinct_options (PDict (dpop k d))"
proof -
  assume d: "distinct_options (PDict d)"
  have "distinct_items (AList.delete k d)"
    using d by (induction d) (auto split: if_splits)
  with d show ?thesis by (simp add: dpop_def distinct_delete)
qed

lemma distinct_lookup: "distinct_options (PDict d) \<Longrightarrow> dget d k = Some v \<Longrightarrow> distinct_options v"
  by (auto intro: distinct_items_lookup)

lemma distinct_put_or_drop:
  "distinct_options (PDict inner) \<Longrightarrow> distinct_options (PDict outer) \<Longrightarrow>
     distinct_options (PDict (put_or_drop k inner outer))"
  unfolding put_or_drop_def by (simp only: distinct_dset distinct_dpop split: if_split) simp

lemma distinct_set_path:
  "distinct_options (PDict d) \<Longrightarrow> distinct_options v \<Longrightarrow> distinct_options (PDict (set_path ks v d))"
proof (induction ks v d rule: set_path.induct)
  case (3 k k1 ks v d)
  have "distinct_options (PDict (case dget d k of Some (PDict e) \<Rightarrow> e | _ \<Rightarrow> []))"
    using distinct_lookup [OF 3(2), of k] by (auto split: option.split pyval.split)
  with 3 have "distinct_options (PDict (set_path (k1 # ks) v (case dget d k of Some (PDict e) \<Rightarrow> e | _ \<Rightarrow> [])))"
    by blast
  from distinct_dset [OF 3(2) this] show ?case unfolding set_path.simps .
qed (auto intro: distinct_items_dset simp: pydict.distinct_store)

lemma normalize_distinct:
  "distinct_options v \<Longrightarrow> normalize_value v = Some u \<Longrightarrow> distinct_options u"
  "distinct_options (PDict acc) \<Longrightarrow> distinct_items d \<Longrightarrow> normalize_into acc d = Some r \<Longrightarrow> distinct_options (PDict r)"
proof (induction v and acc d arbitrary: u and r rule: normalize_value_normalize_into.induct)
  case (1 d)
  then show ?case by (cases "normalize_into [] d") auto
next
  case (4 acc key v options)
  show ?case
  proof (cases "CHR ''.'' \<in> set key")
    case False
    with 4(6) obtain v1 where v1: "normalize_value v = Some v1" "normalize_into (dset key v1 acc) options = Some r"
      by (auto split: option.splits)
    have parts: "distinct_options v" "distinct_items options" using 4(5) by simp_all
    from 4(1) [OF False parts(1) v1(1)] have "distinct_options (PDict (dset key v1 acc))"
      using distinct_dset [OF 4(4)] by blast
    from 4(2) [OF False v1(1) this parts(2) v1(2)] show ?thesis .
  next
    case True
    with 4(6) have "key_parts key \<noteq> []" "normalize_into (set_path (key_parts key) v acc) options = Some r"
      by (auto split: if_splits)
    moreover have "distinct_options (PDict (set_path (key_parts key) v acc))"
      using 4(4,5) by (intro distinct_set_path) simp_all
    moreover have "distinct_items options" using 4(5) by simp
    ultimately show ?thesis using 4(3) True by blast
  qed
qed (simp_all)

lemma sanitize_distinct: "distinct_options (PDict d) \<Longrightarrow> distinct_options (PDict (sanitize d))"
proof -
  assume d: "distinct_options (PDict d)"
  have storage: "distinct_options (PDict (sanitize_storage s))" if "distinct_options (PDict s)" for s
    using that distinct_dpop [OF that, of "''mmapv1''"]
    unfolding sanitize_storage_def Let_def
    by (auto simp del: distinct_options.simps split: option.split pyval.split
        intro!: distinct_put_or_drop distinct_dpop dest: distinct_lookup)
  have inner: "distinct_options (PDict (case dget d ''storage'' of
      Some (PDict s) \<Rightarrow> put_or_drop ''storage'' (sanitize_storage s) d | _ \<Rightarrow> d))"
    using d by (auto simp del: distinct_options.simps split: option.split pyval.split
        intro!: distinct_put_or_drop storage dest: distinct_lookup)
  have "distinct_options (PDict (sanitize_log e))" if "distinct_options (PDict e)" for e
    using that unfolding sanitize_log_def
    by (auto simp del: distinct_options.simps split: option.split pyval.split
        intro!: distinct_put_or_drop distinct_dpop dest: distinct_lookup)
  from this [OF inner] show ?thesis unfolding sanitize_def .
qed

lemma normalized_distinct:
  assumes "distinct_options contents" and "normalized_options contents = Inr user"
  shows "distinct_options (PDict user)"
proof (cases "truthy contents")
  case True
  with assms(2) obtain d options where d: "contents = PDict d" "normalize_into [] d = Some options" "user = sanitize options"
    by (auto simp: normalized_options_def normalize_def split: pyval.splits option.splits)
  have "distinct_options (PDict options)"
    using normalize_distinct(2) [OF _ _ d(2)] assms(1) d(1) by simp
  then show ?thesis unfolding d(3) by (rule sanitize_distinct)
qed (use assms(2) in \<open>simp add: normalized_options_def\<close>)

section \<open>Properties\<close>

lemma configuration_layers:
  assumes "configuration_contents f contents memory = Inr result" and "is_mapping contents"
    and "distinct_options contents" and "normalized_options contents = Inr user"
  obtains n where "memory_number f memory = Inr n" "result = merge_options (base_options f n) user"
    "distinct_options (PDict user)"
proof -
  from assms(2) obtain d where d: "contents = PDict d" by (cases contents) simp_all
  from assms(1) obtain n where "memory_number f memory = Inr n" "result = merge_options (base_options f n) user"
    unfolding configuration_contents_def d pyval.case sum.case assms(4) [unfolded d]
    by (auto split: sum.splits)
  with normalized_distinct [OF assms(3,4)] show thesis by (intro that)
qed


definition plain_tools :: config_tools where
  "plain_tools =
     \<lparr>yaml_load = (\<lambda>_. Inr PNone), float_int = (\<lambda>_. Inr 0), float_text = (\<lambda>_. ''0.256'')\<rparr>"


text \<open>Removing the obsolete options leaves none of them, changes no other option, and does nothing the
second time.\<close>

theorem sanitize_clean_idempotent:
  "clean_options (sanitize d) \<and> sanitize (sanitize d) = sanitize d \<and>
   map_of (sanitize d) |` (- {''storage'', ''systemLog''}) = map_of d |` (- {''storage'', ''systemLog''})"
proof (intro conjI sanitize_clean clean_options_same)
  show "map_of (sanitize d) |` (- {''storage'', ''systemLog''}) = map_of d |` (- {''storage'', ''systemLog''})"
    by (rule ext) (simp add: restrict_map_def sanitize_other)
qed

text \<open>The size of the cache stays in the range that MongoDB and small guests accept.\<close>

lemma cache_size_bounds: "256 / 1000 \<le> cache_size_gb m" "cache_size_gb m \<le> 2"
  by (simp_all add: cache_size_gb_def)

text \<open>A nested option after a dotted one with the same first part replaces it; a key of dots and a missing
  memory size are not handled.\<close>

lemma dotted_option_lost:
  "normalize [(''a.b'', PInt 1), (''a'', PDict [(''c'', PInt 2)])] = Some [(''a'', PDict [(''c'', PInt 2)])]"
  "normalize [(''.'', PInt 1)] = None"
  by code_simp+

lemma missing_memory_raises:
  "configuration_contents f (PDict d) PNone =
     Inl (PyError ''TypeError'' ''not supported between instances of NoneType'')"
  by (simp add: configuration_contents_def memory_number_def)

end
