(* ===== verification/MongoGuest.thy ===== *)
theory MongoGuest
  imports MongoConfig EventLog Json
begin

text \<open>
  The guest agent of \<^verbatim>\<open>trove-mongodb\<close>: the application of \<^verbatim>\<open>service.py\<close>, which runs MongoDB in a container
  with the role that the cluster metadata gives it and changes its topology with \<^verbatim>\<open>mongosh\<close> scripts, and
  the manager of \<^verbatim>\<open>manager.py\<close> that dispatches the calls of the controller to it.

  The metadata of the cluster is part of the state; \<open>[]\<close> is both \<^verbatim>\<open>None\<close> and the empty dictionary, which
  the program does not distinguish.  Files, the container runtime and the status of Trove are outside.
\<close>

section \<open>The guest\<close>

datatype guest_error =
    GuestError string
  | Failure string string

fun error_text :: "guest_error \<Rightarrow> string" where
  "error_text (GuestError m) = m"
| "error_text (Failure cl m) = m"

record start_arguments =
  s_image :: string
  s_network :: string
  s_ports :: "(string \<times> int) list"
  s_volumes :: "(string \<times> string \<times> string) list"
  s_command :: "string list"

datatype guest_event =
    WriteFile string string
  | ProtectFile string
  | RemoveFile string
  | ReadFile string
  | EnsureDirectory string
  | Eth1Exists
  | StartContainer start_arguments
  | StopContainer
  | RemoveContainer
  | RestartContainer
  | WaitHealthy bool
  | Mongosh string string
  | ActualStatus
  | SetReady
  | SetStatus string
  | UpdateStatus
  | ResetConfiguration pydict
  | UserOverride pydict
  | GuestSlept

record 'x guest_os =
  g_do :: "guest_event \<Rightarrow> ('x, guest_error + unit) outside"
  g_text :: "guest_event \<Rightarrow> ('x, guest_error + string) outside"
  g_bool :: "guest_event \<Rightarrow> ('x, guest_error + bool) outside"

record guest_conf =
  g_port :: int
  g_members_timeout :: real
  g_mount_point :: string
  g_datastore_version :: string
  g_network_isolation :: bool
  g_host_nic_mode :: string
  g_bridge_mode :: string
  g_tools :: config_tools
  g_float_repr :: "string \<Rightarrow> string"

type_synonym 'x gworld = "(guest_event, pydict \<times> 'x) world"
type_synonym ('x, 'a) gio = "('x gworld, guest_error, 'a) io"

definition beside :: "('x, 'r) outside \<Rightarrow> (pydict \<times> 'x, 'r) outside" where
  "beside f = (\<lambda>(c, x). let (r, dt, x1) = f x in (r, dt, (c, x1)))"

definition guest_do :: "'x guest_os \<Rightarrow> guest_event \<Rightarrow> ('x, unit) gio" where
  "guest_do g e = outside_call e (beside (g_do g e))"

definition guest_text :: "'x guest_os \<Rightarrow> guest_event \<Rightarrow> ('x, string) gio" where
  "guest_text g e = outside_call e (beside (g_text g e))"

definition guest_bool :: "'x guest_os \<Rightarrow> guest_event \<Rightarrow> ('x, bool) gio" where
  "guest_bool g e = outside_call e (beside (g_bool g e))"

definition get_config :: "('x, pydict) gio" where
  "get_config w = Some (Inr (fst (ext w)), w)"

definition set_config :: "pydict \<Rightarrow> ('x, unit) gio" where
  "set_config c w = Some (Inr (), w\<lparr>ext := (c, snd (ext w))\<rparr>)"

definition guest_nap :: "('x, unit) gio" where
  "guest_nap = py_sleep GuestSlept (Failure ''ValueError'' ''sleep length must be non-negative'') 2"

section \<open>Cluster metadata\<close>

definition MONGODB_IMAGE_FILE :: string where "MONGODB_IMAGE_FILE = ''/etc/trove/mongodb-image''"
definition MONGODB_CONFIG_FILE :: string where "MONGODB_CONFIG_FILE = ''/etc/trove/mongodb.conf''"
definition MONGODB_CLUSTER_FILE :: string where
  "MONGODB_CLUSTER_FILE = ''/etc/trove/mongodb-cluster.json''"
definition MONGODB_KEY_FILE :: string where "MONGODB_KEY_FILE = ''/etc/trove/mongodb-keyfile''"

text \<open>\<open>None\<close> stands for an \<^verbatim>\<open>OSError\<close>.  A JSON text that is no dictionary is not one this program writes.\<close>

definition read_cluster_config :: "(string \<Rightarrow> string) \<Rightarrow> string option \<Rightarrow> pydict" where
  "read_cluster_config float_repr contents =
     (case contents of
        None \<Rightarrow> []
      | Some s \<Rightarrow> (case json_loads float_repr s of Some (PDict d) \<Rightarrow> d | _ \<Rightarrow> []))"

definition write_cluster_config :: "'x guest_os \<Rightarrow> ('x, unit) gio" where
  "write_cluster_config g =
     bind get_config (\<lambda>c.
       case json_dumps (PDict c) of
         None \<Rightarrow> raise_exn (Failure ''TypeError'' ''not JSON serializable'')
       | Some txt \<Rightarrow> guest_do g (WriteFile MONGODB_CLUSTER_FILE txt))"

definition configure_cluster :: "'x guest_os \<Rightarrow> pydict \<Rightarrow> ('x, unit) gio" where
  "configure_cluster g config =
     (if config = [] then
        andthen (set_config [])
          (try_except (guest_do g (RemoveFile MONGODB_CLUSTER_FILE)) (\<lambda>_. ret ()))
      else andthen (set_config config) (write_cluster_config g))"

definition instance_type :: "pydict \<Rightarrow> pyval" where
  "instance_type c = vget_or c ''instance_type'' (PStr ''member'')"

text \<open>Only lists are ever stored under this key.\<close>

definition config_server_hosts :: "pydict \<Rightarrow> string list" where
  "config_server_hosts c =
     (case py_iter (vget_or c ''config_servers'' (PList [])) of
        Inr hosts \<Rightarrow> map py_str hosts
      | Inl _ \<Rightarrow> [])"

definition config_server_replica_set :: "pydict \<Rightarrow> string" where
  "config_server_replica_set c =
     py_str (vget_or c ''config_server_replica_set_name'' (PStr ''configRS''))"

definition get_replica_set_name :: "pydict \<Rightarrow> pyval" where
  "get_replica_set_name c = vget c ''replica_set_name''"

definition get_key :: "pydict \<Rightarrow> pyval" where
  "get_key c = vget c ''key''"

definition is_router :: "pydict \<Rightarrow> bool" where
  "is_router c \<longleftrightarrow> instance_type c = PStr ''query_router''"

text \<open>The instance runs \<^verbatim>\<open>mongos\<close>.\<close>

definition runs_mongos :: "pydict \<Rightarrow> bool" where
  "runs_mongos c \<longleftrightarrow> is_router c \<and> config_server_hosts c \<noteq> []"

section \<open>Configuration\<close>

definition prepare_configuration ::
  "guest_conf \<Rightarrow> 'x guest_os \<Rightarrow> pyval \<Rightarrow> pyval \<Rightarrow> ('x, unit) gio" where
  "prepare_configuration conf g contents memory_mb =
     (case configuration_contents (g_tools conf) contents memory_mb of
        Inl (Yaml m) \<Rightarrow> raise_exn (Failure ''YAMLError'' m)
      | Inl (PyError cl m) \<Rightarrow> raise_exn (Failure cl m)
      | Inr options \<Rightarrow>
          (case normalize options of
             None \<Rightarrow> raise_exn (Failure ''IndexError'' ''list index out of range'')
           | Some normalized \<Rightarrow> guest_do g (ResetConfiguration normalized)))"

definition update_overrides :: "'x guest_os \<Rightarrow> pydict \<Rightarrow> ('x, unit) gio" where
  "update_overrides g overrides =
     (if overrides = [] then ret ()
      else case normalize overrides of
        None \<Rightarrow> raise_exn (Failure ''IndexError'' ''list index out of range'')
      | Some normalized \<Rightarrow> guest_do g (UserOverride normalized))"

section \<open>The container\<close>

text \<open>The image of the file, or the default, with a version when it has no tag and no digest.\<close>

definition with_version :: "guest_conf \<Rightarrow> string \<Rightarrow> string" where
  "with_version conf img =
     (if CHR '':'' \<notin> set (last (split_on CHR ''/'' img)) \<and> CHR ''@'' \<notin> set img then
        img @ '':'' @ (if g_datastore_version conf = [] then ''8.0'' else g_datastore_version conf)
      else img)"

definition mongo_image :: "guest_conf \<Rightarrow> 'x guest_os \<Rightarrow> ('x, string) gio" where
  "mongo_image conf g =
     bind (try_except
        (bind (guest_text g (ReadFile MONGODB_IMAGE_FILE)) (\<lambda>contents.
           ret (if strip contents = [] then ''mongo'' else strip contents)))
        (\<lambda>e. case e of
           Failure cl m \<Rightarrow> if cl = ''OSError'' then ret ''mongo'' else raise_exn e
         | _ \<Rightarrow> raise_exn e))
       (\<lambda>img. ret (with_version conf img))"

definition data_dir :: "guest_conf \<Rightarrow> string" where
  "data_dir conf = (if g_mount_point conf = [] then ''/var/lib/mongodb'' else g_mount_point conf)"

definition network_mode :: "guest_conf \<Rightarrow> 'x guest_os \<Rightarrow> pydict \<Rightarrow> ('x, string) gio" where
  "network_mode conf g c =
     (if c \<noteq> [] then ret ''host''
      else if g_network_isolation conf then
        bind (guest_bool g Eth1Exists) (\<lambda>there.
          ret (if there then g_host_nic_mode conf else g_bridge_mode conf))
      else ret (g_bridge_mode conf))"

definition server_command :: "guest_conf \<Rightarrow> pydict \<Rightarrow> string list" where
  "server_command conf c =
     (if runs_mongos c then
        [''mongos'', ''--configdb'',
         config_server_replica_set c @ ''/'' @ join '','' (config_server_hosts c),
         ''--bind_ip_all'', ''--port'', show_int (g_port conf)]
      else
        [''mongod'', ''--config'', ''/etc/mongod.conf'', ''--dbpath'', MONGODB_DATA_DIR,
         ''--bind_ip_all'', ''--port'', show_int (g_port conf)] @
        (if truthy (get_replica_set_name c)
            \<and> instance_type c \<in> {PStr ''member'', PStr ''config_server''} then
           [''--replSet'', py_str (get_replica_set_name c)]
         else []) @
        (if instance_type c = PStr ''config_server'' then [''--configsvr'']
         else if instance_type c = PStr ''member'' \<and> vget c ''topology'' = PStr ''sharded'' then
           [''--shardsvr'']
         else []))"

definition container_command :: "guest_conf \<Rightarrow> 'x guest_os \<Rightarrow> pydict \<Rightarrow> ('x, string list) gio" where
  "container_command conf g c =
     (if truthy (get_key c) then
        andthen (guest_do g (WriteFile MONGODB_KEY_FILE (py_str (get_key c))))
          (andthen (guest_do g (ProtectFile MONGODB_KEY_FILE))
             (ret (server_command conf c @ [''--keyFile'', ''/etc/mongodb-keyfile''])))
      else ret (server_command conf c))"

text \<open>Paths on the guest with where they are mounted and how.\<close>

definition container_volumes :: "pydict \<Rightarrow> string \<Rightarrow> (string \<times> string \<times> string) list" where
  "container_volumes c dir =
     (if runs_mongos c then []
      else [(dir, MONGODB_DATA_DIR, ''rw''), (MONGODB_CONFIG_FILE, ''/etc/mongod.conf'', ''ro'')]) @
     (if truthy (get_key c) then [(MONGODB_KEY_FILE, ''/etc/mongodb-keyfile'', ''ro'')] else [])"

definition start_db :: "guest_conf \<Rightarrow> 'x guest_os \<Rightarrow> bool \<Rightarrow> ('x, unit) gio" where
  "start_db conf g update_db =
     bind get_config (\<lambda>c.
     andthen (guest_do g (EnsureDirectory (data_dir conf)))
     (bind (mongo_image conf g) (\<lambda>img.
      bind (network_mode conf g c) (\<lambda>network.
      andthen
       (try_except
          (bind (container_command conf g c) (\<lambda>command.
             guest_do g (StartContainer
               \<lparr>s_image = img, s_network = network,
                s_ports = (if network = ''host'' then []
                           else [(show_int (g_port conf) @ ''/tcp'', g_port conf)]),
                s_volumes = container_volumes c (data_dir conf), s_command = command\<rparr>)))
          (\<lambda>_. raise_exn (GuestError ''Failed to start MongoDB container'')))
       (bind (guest_bool g (WaitHealthy update_db)) (\<lambda>healthy.
          if healthy then ret ()
          else raise_exn (GuestError ''MongoDB container did not become healthy'')))))))"

definition restart :: "'x guest_os \<Rightarrow> ('x, unit) gio" where
  "restart g =
     andthen
       (try_except (guest_do g RestartContainer)
          (\<lambda>_. raise_exn (GuestError ''Failed to restart MongoDB container'')))
       (bind (guest_bool g (WaitHealthy False)) (\<lambda>healthy.
          if healthy then ret ()
          else raise_exn (GuestError ''MongoDB container did not become healthy after restart'')))"

definition apply_overrides :: "'x guest_os \<Rightarrow> pydict \<Rightarrow> ('x, unit) gio" where
  "apply_overrides g overrides = andthen (update_overrides g overrides) (restart g)"

definition replace_container :: "guest_conf \<Rightarrow> 'x guest_os \<Rightarrow> ('x, unit) gio" where
  "replace_container conf g =
     andthen (try_except (guest_do g StopContainer) (\<lambda>_. ret ()))
       (andthen (try_except (guest_do g RemoveContainer) (\<lambda>_. ret ()))
          (start_db conf g False))"

section \<open>Scripts\<close>

text \<open>\<^verbatim>\<open>json.dumps(value, separators=(",", ":"))\<close> of a value that JSON has.\<close>

fun compact :: "pyval \<Rightarrow> string"
  and compact_list :: "pyval list \<Rightarrow> string list"
  and compact_items :: "(string \<times> pyval) list \<Rightarrow> string list" where
  "compact (PList xs) = ''['' @ join '','' (compact_list xs) @ '']''"
| "compact (PDict d) = ''{'' @ join '','' (compact_items d) @ ''}''"
| "compact v = dump_value 0 v"
| "compact_list [] = []"
| "compact_list (x # xs) = compact x # compact_list xs"
| "compact_items [] = []"
| "compact_items ((k, v) # d) = (json_string k @ '':'' @ compact v) # compact_items d"

definition compact_hosts :: "string list \<Rightarrow> string" where
  "compact_hosts hosts = compact (PList (map PStr hosts))"

definition initiate_script :: "pydict \<Rightarrow> string" where
  "initiate_script config =
     ''const config = '' @ compact (PDict config) @ ''; '' @
     ''try { rs.status(); print(JSON.stringify({already: true})); } '' @
     ''catch (e) { print(JSON.stringify(rs.initiate(config))); }''"

definition add_script :: "string list \<Rightarrow> string" where
  "add_script hosts =
     ''const hosts = '' @ compact_hosts hosts @ ''; '' @
     ''for (const host of hosts) { '' @
     ''try { rs.add(host); } catch (e) { '' @
     ''if (e.codeName !== 'NewReplicaSetConfigurationIncompatible' && '' @
     ''e.codeName !== 'AlreadyInitialized') throw e; } } '' @
     ''print(JSON.stringify({ok: 1, hosts: hosts}));''"

definition step_down_script :: string where
  "step_down_script =
     ''try { rs.stepDown(60, 15); } catch (e) {} '' @
     ''print(JSON.stringify({ok: 1, stepped_down: true}));''"

definition remove_script :: "string list \<Rightarrow> string" where
  "remove_script hosts =
     ''const hosts = '' @ compact_hosts hosts @ ''; '' @
     ''for (const host of hosts) { '' @
     ''try { rs.remove(host); } catch (e) { '' @
     ''if (e.codeName !== 'MemberNotFound') throw e; } } '' @
     ''print(JSON.stringify({ok: 1, removed: true, hosts: hosts}));''"

definition status_script :: string where
  "status_script =
     ''JSON.stringify(rs.status(), (key, value) => '' @
     ''key === 'lastHeartbeat' || key === 'lastHeartbeatRecv' ? '' @
     ''undefined : value)''"

definition add_shard_script :: "string \<Rightarrow> string \<Rightarrow> string" where
  "add_shard_script name member =
     ''const connection = '' @ json_string (name @ ''/'' @ member) @ ''; '' @
     ''const name = '' @ json_string name @ ''; '' @
     ''const existing = db.adminCommand({listShards: 1}); '' @
     ''const found = (existing.shards || []).some((shard) => '' @
     ''shard._id === name); '' @
     ''print(JSON.stringify(found ? {ok: 1, already: true} : '' @
     ''db.adminCommand({addShard: connection})));''"

definition remove_shard_script :: "string \<Rightarrow> string" where
  "remove_shard_script name =
     ''const name = '' @ json_string name @ ''; '' @
     ''const result = db.adminCommand({listShards: 1}); '' @
     ''const found = (result.shards || []).some((shard) => '' @
     ''shard._id === name); '' @
     ''print(JSON.stringify(found ? '' @
     ''db.adminCommand({removeShard: name}) : '' @
     ''{ok: 1, state: 'completed', already: true}));''"

definition shard_active_script :: "string \<Rightarrow> string" where
  "shard_active_script name =
     ''const result = db.adminCommand({listShards: 1}); '' @
     ''print(JSON.stringify((result.shards || []).some((shard) => '' @
     ''shard._id === '' @ json_string name @ '')));''"

definition run_mongosh :: "'x guest_os \<Rightarrow> string \<Rightarrow> string \<Rightarrow> ('x, string) gio" where
  "run_mongosh g host script = bind (guest_text g (Mongosh host script)) (\<lambda>out. ret (strip out))"

definition localhost :: string where "localhost = ''127.0.0.1''"

text \<open>\<^verbatim>\<open>json.loads\<close> of the output.\<close>

definition loads :: "guest_conf \<Rightarrow> string \<Rightarrow> guest_error + pyval" where
  "loads conf out =
     (case json_loads (g_float_repr conf) out of
        Some v \<Rightarrow> Inr v
      | None \<Rightarrow> Inl (Failure ''JSONDecodeError'' ''invalid JSON''))"

text \<open>The host of an address: in brackets, or before the only colon.\<close>

definition mongosh_host :: "pyval \<Rightarrow> string" where
  "mongosh_host v =
     (let host = py_str (py_or v (PStr []))
      in if prefix ''['' host \<and> CHR '']'' \<in> set host then takeWhile (\<lambda>c. c \<noteq> CHR '']'') (tl host)
         else if count_list host CHR '':'' = 1 then takeWhile (\<lambda>c. c \<noteq> CHR '':'') host
         else host)"

section \<open>Replica sets\<close>

definition replica_hello :: "guest_conf \<Rightarrow> 'x guest_os \<Rightarrow> ('x, pyval) gio" where
  "replica_hello conf g =
     bind (run_mongosh g localhost ''JSON.stringify(db.hello())'') (\<lambda>out.
       case loads conf out of
         Inr v \<Rightarrow> ret v
       | Inl _ \<Rightarrow> raise_exn (GuestError
           (''MongoDB did not return replica-set hello data: '' @ out)))"

definition ends_with :: "string \<Rightarrow> string \<Rightarrow> bool" where
  "ends_with s tail \<longleftrightarrow> prefix (rev tail) (rev s)"

definition primary_round :: "'x guest_os \<Rightarrow> ('x, unit + unit) gio" where
  "primary_round g =
     try_except
       (bind (run_mongosh g localhost ''JSON.stringify(rs.status().myState)'') (\<lambda>result.
          ret (if ends_with (rstrip_by is_space result) ''1'' then Inr () else Inl ())))
       (\<lambda>_. ret (Inl ()))"

definition wait_for_primary :: "guest_conf \<Rightarrow> 'x guest_os \<Rightarrow> ('x, unit) gio" where
  "wait_for_primary conf g =
     bind (bind now (\<lambda>start.
        poll clock (start + g_members_timeout conf) guest_nap (\<lambda>_. primary_round g) ())) (\<lambda>answer.
       case answer of
         Inr _ \<Rightarrow> ret ()
       | Inl _ \<Rightarrow> raise_exn (GuestError ''MongoDB replica set did not elect a primary in time''))"

definition member_documents :: "string list \<Rightarrow> pyval list" where
  "member_documents members =
     map (\<lambda>(i, m). PDict [(''_id'', PInt (int i)), (''host'', PStr m)]) (enumerate 0 members)"

definition replica_config_document :: "pydict \<Rightarrow> string list \<Rightarrow> pydict" where
  "replica_config_document c members =
     [(''_id'', get_replica_set_name c), (''members'', PList (member_documents members))] @
     (if instance_type c = PStr ''config_server'' then [(''configsvr'', PBool True)] else [])"

definition transient_markers :: "string list" where
  "transient_markers =
     [''quorum check failed'', ''No route to host'', ''Connection refused'', ''Connection timed out'',
      ''No host described in new configuration'']"

definition transient :: "guest_error \<Rightarrow> bool" where
  "transient e \<longleftrightarrow> list_ex (\<lambda>marker. contains marker (error_text e)) transient_markers"

text \<open>The loop state is the last transient error.\<close>

definition initialize_round ::
  "guest_conf \<Rightarrow> 'x guest_os \<Rightarrow> string \<Rightarrow> ('x, guest_error option + unit) gio" where
  "initialize_round conf g script =
     try_except
       (andthen (run_mongosh g localhost script)
          (andthen (wait_for_primary conf g) (ret (Inr ()))))
       (\<lambda>e. if transient e then ret (Inl (Some e)) else raise_exn e)"

definition initialize_replica_set ::
  "guest_conf \<Rightarrow> 'x guest_os \<Rightarrow> string list \<Rightarrow> ('x, bool) gio" where
  "initialize_replica_set conf g members =
     bind get_config (\<lambda>c.
       if \<not> truthy (get_replica_set_name c) then
         raise_exn (GuestError ''MongoDB replica-set metadata is not configured'')
       else
         bind (bind now (\<lambda>start.
            poll clock (start + g_members_timeout conf) guest_nap
              (\<lambda>_. initialize_round conf g (initiate_script (replica_config_document c members))) None))
           (\<lambda>answer. case answer of
              Inr _ \<Rightarrow> ret True
            | Inl last_error \<Rightarrow> raise_exn (GuestError
                (''MongoDB replica set did not become reachable in time: '' @
                 (case last_error of None \<Rightarrow> ''None'' | Some e \<Rightarrow> error_text e)))))"

definition prep_primary :: "('x, bool) gio" where
  "prep_primary = ret True"

definition add_replica_members :: "'x guest_os \<Rightarrow> string list \<Rightarrow> ('x, bool) gio" where
  "add_replica_members g members =
     andthen (run_mongosh g localhost (add_script members)) (ret True)"

definition add_members :: "'x guest_os \<Rightarrow> string list \<Rightarrow> ('x, bool) gio" where
  "add_members g members = add_replica_members g members"

definition host_matches :: "pyval \<Rightarrow> string \<Rightarrow> bool" where
  "host_matches left right \<longleftrightarrow>
     py_str (py_or left (PStr [])) = right \<or> mongosh_host left = mongosh_host (PStr right)"

definition primary_of :: "pydict \<Rightarrow> pyval" where
  "primary_of hello =
     (if truthy (vget hello ''isWritablePrimary'') then py_or (vget hello ''me'') (vget hello ''primary'')
      else vget hello ''primary'')"

definition removal_script :: "pyval \<Rightarrow> string list \<Rightarrow> string" where
  "removal_script primary_host hosts =
     (if list_ex (host_matches primary_host) hosts then step_down_script else remove_script hosts)"

definition remove_replica_members ::
  "guest_conf \<Rightarrow> 'x guest_os \<Rightarrow> string list \<Rightarrow> ('x, pyval) gio" where
  "remove_replica_members conf g hosts =
     bind (replica_hello conf g) (\<lambda>hello.
       case hello of
         PDict d \<Rightarrow>
           (if \<not> truthy (primary_of d) then
              raise_exn (GuestError ''MongoDB replica set has no elected primary'')
            else
              bind (run_mongosh g (mongosh_host (primary_of d)) (removal_script (primary_of d) hosts))
                (\<lambda>out. ret
                   (case loads conf out of
                      Inr v \<Rightarrow> v
                    | Inl _ \<Rightarrow> PDict [(''ok'', PInt 1), (''removed'', PBool True),
                        (''hosts'', PList (map PStr hosts))])))
       | v \<Rightarrow> raise_exn (Failure ''AttributeError'' (type_name v @ '' object has no attribute get'')))"

definition replica_set_status :: "guest_conf \<Rightarrow> 'x guest_os \<Rightarrow> ('x, pyval) gio" where
  "replica_set_status conf g =
     bind (run_mongosh g localhost status_script) (\<lambda>out. lift_sum (loads conf out))"

section \<open>Sharding\<close>

definition add_config_servers :: "guest_conf \<Rightarrow> 'x guest_os \<Rightarrow> string list \<Rightarrow> ('x, bool) gio" where
  "add_config_servers conf g hosts =
     bind get_config (\<lambda>c.
       if \<not> is_router c then
         raise_exn (GuestError ''Config-server addresses can only be applied to a query router'')
       else if hosts = [] then
         raise_exn (GuestError ''At least one config server is required for mongos'')
       else
         andthen (set_config (dset ''config_servers'' (PList (map PStr hosts)) c))
           (andthen (write_cluster_config g) (andthen (replace_container conf g) (ret True))))"

definition router_script ::
  "guest_conf \<Rightarrow> 'x guest_os \<Rightarrow> string \<Rightarrow> string \<Rightarrow> ('x, pyval) gio" where
  "router_script conf g refusal script =
     bind get_config (\<lambda>c.
       if \<not> runs_mongos c then raise_exn (GuestError refusal)
       else bind (run_mongosh g localhost script) (\<lambda>out. lift_sum (loads conf out)))"

definition add_shard :: "guest_conf \<Rightarrow> 'x guest_os \<Rightarrow> string \<Rightarrow> string \<Rightarrow> ('x, pyval) gio" where
  "add_shard conf g name member =
     router_script conf g ''MongoDB shard registration requires a configured mongos''
       (add_shard_script name member)"

definition remove_shard :: "guest_conf \<Rightarrow> 'x guest_os \<Rightarrow> string \<Rightarrow> ('x, pyval) gio" where
  "remove_shard conf g name =
     router_script conf g ''MongoDB shard removal requires a configured mongos''
       (remove_shard_script name)"

definition is_shard_active :: "guest_conf \<Rightarrow> 'x guest_os \<Rightarrow> string \<Rightarrow> ('x, pyval) gio" where
  "is_shard_active conf g name =
     router_script conf g ''MongoDB shard status requires a configured mongos''
       (shard_active_script name)"

definition cluster_complete :: "'x guest_os \<Rightarrow> ('x, bool) gio" where
  "cluster_complete g =
     bind (guest_text g ActualStatus) (\<lambda>status.
       if status \<noteq> ''HEALTHY'' then
         raise_exn (GuestError (''MongoDB container is not healthy after cluster setup: '' @ status))
       else andthen (guest_do g SetReady) (andthen (guest_do g (SetStatus status)) (ret True)))"

section \<open>The manager\<close>

text \<open>\<open>installed\<close> and \<open>status\<close> are what Trove's status object holds.\<close>

definition update_status :: "'x guest_os \<Rightarrow> bool \<Rightarrow> string \<Rightarrow> ('x, unit) gio" where
  "update_status g installed status =
     (if \<not> installed then
        bind get_config (\<lambda>c.
          if c \<noteq> [] \<and> status = ''INSTANCE_READY'' then guest_do g (SetStatus ''INSTANCE_READY'') else ret ())
      else guest_do g UpdateStatus)"

definition do_prepare ::
  "guest_conf \<Rightarrow> 'x guest_os \<Rightarrow> pyval list \<Rightarrow> pyval \<Rightarrow> pyval \<Rightarrow> pydict \<Rightarrow> pydict \<Rightarrow> ('x, unit) gio" where
  "do_prepare conf g provisioning contents memory_mb overrides cluster_config =
     (if list_ex truthy provisioning then
        raise_exn (Failure ''RuntimeError'' (''The injected MongoDB adapter does not yet support packages, '' @
          ''database/user provisioning, backups, or restore snapshots.''))
      else
        andthen (prepare_configuration conf g contents memory_mb)
          (andthen (configure_cluster g cluster_config)
             (andthen (update_overrides g overrides) (start_db conf g False))))"

end
