(* ===== verification/GuestTopology.thy ===== *)
theory GuestTopology
  imports MongoGuest JsonRound
begin

text \<open>
  What the guest agent guarantees: the metadata it writes gives the same process after a restart, a query
  router becomes \<^verbatim>\<open>mongos\<close> with the hosts it was given, a replica set is initialised until this member is
  its primary, members are removed through the primary, and a guest is prepared before it is started.
\<close>

section \<open>Rules\<close>

lemma wp_get_config [wp_simps]: "wp get_config Q E w = Q (fst (ext w)) w"
  by (simp add: wp_def get_config_def)

lemma wp_set_config [wp_simps]: "wp (set_config c) Q E w = Q () (w\<lparr>ext := (c, snd (ext w))\<rparr>)"
  by (simp add: wp_def set_config_def)

text \<open>The world after an event that took \<open>dt\<close> and left \<open>x\<close> outside.\<close>

definition after :: "guest_event \<Rightarrow> real \<Rightarrow> 'x \<Rightarrow> 'x gworld \<Rightarrow> 'x gworld" where
  "after e dt x w =
     w\<lparr>clock := clock w + max 0 dt, trace := trace w @ [e], ext := (fst (ext w), x)\<rparr>"

lemma after_simps [simp]:
  "trace (after e dt x w) = trace w @ [e]" "ext (after e dt x w) = (fst (ext w), x)"
  "clock w \<le> clock (after e dt x w)"
  by (simp_all add: after_def)

lemma wp_guest_do [wp_simps]:
  "wp (guest_do g e) Q E w =
     (case g_do g e (snd (ext w)) of (r, dt, x) \<Rightarrow>
        (case r of Inl err \<Rightarrow> E err (after e dt x w) | Inr a \<Rightarrow> Q a (after e dt x w)))"
  and wp_guest_text [wp_simps]:
  "wp (guest_text g e) Q' E w =
     (case g_text g e (snd (ext w)) of (r, dt, x) \<Rightarrow>
        (case r of Inl err \<Rightarrow> E err (after e dt x w) | Inr a \<Rightarrow> Q' a (after e dt x w)))"
  and wp_guest_bool [wp_simps]:
  "wp (guest_bool g e) Q'' E w =
     (case g_bool g e (snd (ext w)) of (r, dt, x) \<Rightarrow>
        (case r of Inl err \<Rightarrow> E err (after e dt x w) | Inr a \<Rightarrow> Q'' a (after e dt x w)))"
  by (cases "ext w"; simp add: guest_do_def guest_text_def guest_bool_def beside_def wp_outside_call
      Let_def after_def split: prod.split sum.split)+

lemma steps_config [steps_intros]:
  "steps (logs A) P get_config" "steps (logs A) P (set_config c)"
  by (simp_all add: steps_def wp_simps logs_def)

lemma steps_guest [steps_intros]:
  "e \<in> A \<Longrightarrow> steps (logs A) (\<lambda>_. True) (guest_do g e)"
  "e \<in> A \<Longrightarrow> steps (logs A) (\<lambda>_. True) (guest_text g e)"
  "e \<in> A \<Longrightarrow> steps (logs A) (\<lambda>_. True) (guest_bool g e)"
  by (simp_all add: guest_do_def guest_text_def guest_bool_def steps_intros)

lemma steps_guest_nap [steps_intros]:
  "GuestSlept \<in> A \<Longrightarrow> steps (logs A) (\<lambda>_. True) guest_nap"
  by (simp add: guest_nap_def steps_py_sleep)

lemma steps_mongosh [steps_intros]:
  "Mongosh host script \<in> A \<Longrightarrow> steps (logs A) (\<lambda>_. True) (run_mongosh g host script)"
  by (simp add: run_mongosh_def steps_intros)

lemma wp_run_mongosh [wp_simps]:
  "wp (run_mongosh g host script) Q E w =
     (case g_text g (Mongosh host script) (snd (ext w)) of (r, dt, x) \<Rightarrow>
        (case r of Inl err \<Rightarrow> E err (after (Mongosh host script) dt x w)
         | Inr out \<Rightarrow> Q (strip out) (after (Mongosh host script) dt x w)))"
  by (simp add: run_mongosh_def wp_simps split: prod.split sum.split)

section \<open>The metadata on disk\<close>

text \<open>Values without a dictionary inside, which sorting the keys leaves as they are.\<close>

definition flat_metadata :: "pydict \<Rightarrow> bool" where
  "flat_metadata c \<longleftrightarrow> plain_value (PDict c) \<and> (\<forall>(k, v) \<in> set c. sort_keys v = v)"

lemma sort_strings: "sort_keys_list (map PStr xs) = map PStr xs"
  by (induction xs) simp_all

lemma plain_strings: "plain_list (map PStr xs) = list_all ascii xs"
  by (induction xs) simp_all

lemma flat_sorted:
  assumes "flat_metadata c"
  shows "sort_keys (PDict c) = PDict (sort_key fst c)"
proof -
  have "(\<forall>(k, v) \<in> set c. sort_keys v = v) \<Longrightarrow> sort_keys_items c = c"
    by (induction c) auto
  with assms show ?thesis by (simp add: flat_metadata_def)
qed

text \<open>The process that a role runs, of which the metadata decides nothing else.\<close>

definition process :: "guest_conf \<Rightarrow> pydict \<Rightarrow> string list \<times> (string \<times> string \<times> string) list" where
  "process conf c = (server_command conf c, container_volumes c (data_dir conf))"

definition same_metadata :: "pydict \<Rightarrow> pydict \<Rightarrow> bool" where
  "same_metadata c d \<longleftrightarrow> map_of c = map_of d \<and> (c = [] \<longleftrightarrow> d = [])"

lemma same_metadata_process:
  "same_metadata c d \<Longrightarrow> process conf c = process conf d"
  unfolding process_def server_command_def container_volumes_def runs_mongos_def is_router_def
    instance_type_def config_server_hosts_def config_server_replica_set_def get_replica_set_name_def
    get_key_def vget_def vget_or_def same_metadata_def
  by simp

lemma read_written:
  assumes "flat_metadata c"
  shows "\<exists>written. json_dumps (PDict c) = Some written \<and> read_cluster_config fr (Some written) = sort_key fst c \<and>
    same_metadata (sort_key fst c) c"
proof -
  have plain: "plain_value (PDict c)" and distinct: "distinct (map fst c)"
    using assms by (simp_all add: flat_metadata_def)
  obtain written where "json_dumps (PDict c) = Some written"
    and "json_loads fr written = Some (PDict (sort_key fst c))"
    using read_dumped [OF plain, of "[]" fr] flat_sorted [OF assms] by (auto simp: number_ends_def)
  moreover have "sort_key fst c = [] \<longleftrightarrow> c = []" by (rule sort_key_Nil)
  ultimately show ?thesis
    using map_of_sort_key [OF distinct] by (simp add: read_cluster_config_def same_metadata_def)
qed

text \<open>The metadata that the guest writes is what it reads after a restart of the agent: the process it then
  runs, its command and its volumes, is the one of the metadata it was given.\<close>

theorem metadata_survives_restart:
  assumes "flat_metadata config" and "config \<noteq> []"
  shows "\<exists>r w1 written. configure_cluster g config w = Some (r, w1) \<and>
    trace w1 = trace w @ [WriteFile MONGODB_CLUSTER_FILE written] \<and> fst (ext w1) = config \<and>
    (\<forall>conf. process conf (read_cluster_config (g_float_repr conf) (Some written)) = process conf config)"
proof -
  obtain written where dumped: "json_dumps (PDict config) = Some written"
    using read_written [OF assms(1), of id] by blast
  have same: "process conf (read_cluster_config fr (Some written)) = process conf config" for conf fr
    using read_written [OF assms(1), of fr] dumped same_metadata_process [of _ config conf] by auto
  have "wp (configure_cluster g config)
      (\<lambda>_ w1. trace w1 = trace w @ [WriteFile MONGODB_CLUSTER_FILE written] \<and> fst (ext w1) = config)
      (\<lambda>_ w1. trace w1 = trace w @ [WriteFile MONGODB_CLUSTER_FILE written] \<and> fst (ext w1) = config) w"
    using assms(2) by (simp add: configure_cluster_def write_cluster_config_def dumped wp_simps split: prod.split sum.split)
  then show ?thesis using same unfolding wp_def by (auto split: option.splits sum.splits)
qed

section \<open>A router becomes \<^verbatim>\<open>mongos\<close>\<close>

lemma wp_silent [wp_simps]:
  "wp (try_except (guest_do g e) (\<lambda>_. ret ())) Q E w =
     (case g_do g e (snd (ext w)) of (r, dt, x) \<Rightarrow> Q () (after e dt x w))"
  by (auto simp: wp_simps split: prod.split sum.split)

text \<open>What starting the container does when it succeeds.\<close>

definition key_events :: "pydict \<Rightarrow> guest_event list" where
  "key_events c = (if truthy (get_key c) then
     [WriteFile MONGODB_KEY_FILE (py_str (get_key c)), ProtectFile MONGODB_KEY_FILE] else [])"

definition key_option :: "pydict \<Rightarrow> string list" where
  "key_option c = (if truthy (get_key c) then [''--keyFile'', ''/etc/mongodb-keyfile''] else [])"

definition clustered_arguments :: "guest_conf \<Rightarrow> string \<Rightarrow> pydict \<Rightarrow> start_arguments" where
  "clustered_arguments conf img c =
     \<lparr>s_image = with_version conf img, s_network = ''host'', s_ports = [],
      s_volumes = container_volumes c (data_dir conf),
      s_command = server_command conf c @ key_option c\<rparr>"

definition started :: "guest_conf \<Rightarrow> bool \<Rightarrow> pydict \<Rightarrow> guest_event list \<Rightarrow> bool" where
  "started conf update_db c tr \<longleftrightarrow>
     (\<exists>img. tr = [EnsureDirectory (data_dir conf), ReadFile MONGODB_IMAGE_FILE] @ key_events c @
        [StartContainer (clustered_arguments conf img c), WaitHealthy update_db])"

lemma mongo_image_wp:
  "wp (mongo_image conf g) (\<lambda>img w1. (\<exists>i. img = with_version conf i) \<and> fst (ext w1) = fst (ext w) \<and>
      trace w1 = trace w @ [ReadFile MONGODB_IMAGE_FILE]) (\<lambda>_ _. True) w"
  unfolding mongo_image_def
  by (auto simp: wp_simps split: prod.split sum.split guest_error.split)

lemma container_command_wp:
  "wp (container_command conf g c) (\<lambda>command w1. command = server_command conf c @ key_option c \<and>
      fst (ext w1) = fst (ext w) \<and> trace w1 = trace w @ key_events c) (\<lambda>_ _. True) w"
  unfolding container_command_def
  by (auto simp: wp_simps key_events_def key_option_def split: prod.split sum.split)

lemma start_db_wp:
  assumes "fst (ext w) \<noteq> []"
  shows "wp (start_db conf g update_db)
    (\<lambda>_ w1. fst (ext w1) = fst (ext w) \<and> (\<exists>tr. trace w1 = trace w @ tr \<and> started conf update_db (fst (ext w)) tr))
    (\<lambda>_ _. True) w"
proof -
  let ?c = "fst (ext w)"
  let ?start = "\<lambda>i. try_except (bind (container_command conf g ?c) (\<lambda>command.
      guest_do g (StartContainer \<lparr>s_image = with_version conf i, s_network = ''host'', s_ports = [],
         s_volumes = container_volumes ?c (data_dir conf), s_command = command\<rparr>)))
      (\<lambda>_. raise_exn (GuestError ''Failed to start MongoDB container''))"
  have start: "wp (?start i) (\<lambda>_ w2. fst (ext w2) = fst (ext w1) \<and>
      trace w2 = trace w1 @ key_events ?c @ [StartContainer (clustered_arguments conf i ?c)]) (\<lambda>_ _. True) w1" for i w1
    unfolding wp_try_except wp_bind
    by (rule wp_mono [OF container_command_wp])
      (auto simp: wp_simps clustered_arguments_def split: prod.split sum.split)
  show ?thesis
    unfolding start_db_def wp_bind wp_get_config wp_andthen wp_guest_do
    apply (clarsimp split: prod.split sum.split)
    apply (rule wp_mono [OF mongo_image_wp])
     apply (clarsimp simp: network_mode_def assms wp_ret)
     apply (rule wp_mono [OF start])
      apply (auto simp: wp_simps started_def split: prod.split sum.split)
    done
qed

lemma set_dset: "set (dset k v d) \<subseteq> insert (k, v) (set d)"
  by (induction d) (auto simp: dset_def)

lemma flat_dset:
  assumes "flat_metadata c" and "ascii k" and "plain_value v" and "sort_keys v = v"
  shows "flat_metadata (dset k v c)"
proof -
  have "distinct (map fst (dset k v c))"
    using assms(1) pydict.distinct_store [of c k v] by (simp add: flat_metadata_def)
  with assms set_dset [of k v c] show ?thesis
    by (auto simp: flat_metadata_def plain_items_iff)
qed

definition with_config_servers :: "string list \<Rightarrow> pydict \<Rightarrow> pydict" where
  "with_config_servers hosts c = dset ''config_servers'' (PList (map PStr hosts)) c"

lemma configured_router:
  assumes "is_router c" and "hosts \<noteq> []"
  shows "runs_mongos (with_config_servers hosts c)"
    and "config_server_hosts (with_config_servers hosts c) = hosts"
    and "config_server_replica_set (with_config_servers hosts c) = config_server_replica_set c"
proof -
  let ?c = "with_config_servers hosts c"
  have get: "dget ?c k = (if k = ''config_servers'' then Some (PList (map PStr hosts)) else dget c k)" for k
    by (simp add: with_config_servers_def dict_simps)
  show hosts: "config_server_hosts ?c = hosts"
    unfolding config_server_hosts_def vget_or_def get by (simp add: comp_def)
  show "runs_mongos ?c"
    using assms unfolding runs_mongos_def is_router_def instance_type_def hosts vget_or_def get by simp
  show "config_server_replica_set ?c = config_server_replica_set c"
    unfolding config_server_replica_set_def vget_or_def get by simp
qed

text \<open>Running on without a change of the metadata.\<close>

definition keeps :: "'x gworld \<Rightarrow> 'x gworld \<Rightarrow> bool" where
  "keeps w w1 \<longleftrightarrow> logs UNIV w w1 \<and> fst (ext w1) = fst (ext w)"

lemma preorder_keeps [steps_intros]: "preorder_rel keeps"
  unfolding preorder_rel_def keeps_def by (auto intro: logs_trans)

lemma keeps_after [simp]: "keeps w (after e dt x w)"
  by (simp add: keeps_def logs_def)

lemma steps_keeps [steps_intros]:
  "steps keeps (\<lambda>_. True) get_config" "steps keeps (\<lambda>_. True) (guest_do g e)"
  "steps keeps (\<lambda>_. True) (guest_text g e)" "steps keeps (\<lambda>_. True) (guest_bool g e)"
  by (auto simp: steps_def wp_simps keeps_def logs_def split: prod.split sum.split)

lemma steps_keeps_start: "steps keeps (\<lambda>_. True) (start_db conf g update_db)"
  unfolding start_db_def mongo_image_def network_mode_def container_command_def
  by (intro steps_intros; auto split: guest_error.split intro!: steps_intros)

text \<open>Giving a query router its config servers returns: the hosts are part of the metadata and of the file,
  from which a restarted agent runs the same process, before the container is touched; on success the
  old container was stopped and removed and one that runs \<^verbatim>\<open>mongos\<close> over exactly these hosts was
  started and waited for.\<close>

theorem router_becomes_mongos:
  assumes meta: "flat_metadata (fst (ext w))" and router: "is_router (fst (ext w))"
    and hosts: "hosts \<noteq> []" "list_all ascii hosts"
  shows "let c = with_config_servers hosts (fst (ext w)) in
    \<exists>r w1 written tr. add_config_servers conf g hosts w = Some (r, w1) \<and> fst (ext w1) = c \<and>
      trace w1 = trace w @ WriteFile MONGODB_CLUSTER_FILE written # tr \<and>
      process conf (read_cluster_config (g_float_repr conf) (Some written)) = process conf c \<and>
      (\<forall>b. r = Inr b \<longrightarrow> b \<and>
         (\<exists>start. tr = [StopContainer, RemoveContainer] @ start \<and> started conf False c start)) \<and>
      (\<forall>img. \<exists>rest. s_command (clustered_arguments conf img c) =
         [''mongos'', ''--configdb'', config_server_replica_set (fst (ext w)) @ ''/'' @ join '','' hosts] @ rest)"
proof -
  let ?c = "with_config_servers hosts (fst (ext w))"
  have flat: "flat_metadata ?c"
    unfolding with_config_servers_def
    by (rule flat_dset [OF meta]) (use hosts(2) in \<open>simp_all add: ascii_def plain_strings sort_strings\<close>)
  obtain written where dumped: "json_dumps (PDict ?c) = Some written"
    and same: "process conf (read_cluster_config (g_float_repr conf) (Some written)) = process conf ?c"
    using read_written [OF flat, of "g_float_repr conf"] same_metadata_process [of _ ?c conf] by auto
  have nonempty: "?c \<noteq> []"
    using configured_router(2) [OF router hosts(1)] hosts(1) by (auto simp: config_server_hosts_def vget_or_def)
  let ?R = "\<lambda>r w1. fst (ext w1) = ?c \<and> (\<exists>tr. trace w1 = trace w @ WriteFile MONGODB_CLUSTER_FILE written # tr \<and>
      (\<forall>b. r = Inr b \<longrightarrow> b \<and>
         (\<exists>start. tr = [StopContainer, RemoveContainer] @ start \<and> started conf False ?c start)))"
  have start: "wp (start_db conf g False)
      (\<lambda>_ w2. fst (ext w2) = ?c \<and> (\<exists>tr. trace w2 = trace w1 @ tr \<and> started conf False ?c tr))
      (\<lambda>_ w2. fst (ext w2) = ?c \<and> (\<exists>tr. trace w2 = trace w1 @ tr)) w1" if "fst (ext w1) = ?c" for w1
  proof -
    have "wp (start_db conf g False) (\<lambda>_. keeps w1) (\<lambda>_. keeps w1) w1"
      using steps_keeps_start [of conf g False] by (simp add: steps_def)
    from wp_conj [OF this start_db_wp] that nonempty show ?thesis
      by (auto elim!: wp_mono simp: keeps_def logs_def)
  qed
  have "wp (add_config_servers conf g hosts) (\<lambda>b. ?R (Inr b)) (\<lambda>e. ?R (Inl e)) w"
    unfolding add_config_servers_def wp_bind wp_get_config
    by (auto simp: router hosts write_cluster_config_def replace_container_def wp_simps dumped
        with_config_servers_def [symmetric] split: prod.split sum.split
        intro!: wp_mono [OF start])
  from wp_result [of _ ?R, OF this]
  obtain r w1 where r: "add_config_servers conf g hosts w = Some (r, w1)" "?R r w1" by blast
  have command: "\<exists>rest. s_command (clustered_arguments conf img ?c) =
      [''mongos'', ''--configdb'', config_server_replica_set (fst (ext w)) @ ''/'' @ join '','' hosts] @ rest" for img
    using configured_router [OF router hosts(1)] by (simp add: clustered_arguments_def server_command_def)
  from r command same show ?thesis unfolding Let_def by blast
qed

section \<open>Initialising a replica set\<close>

abbreviation (input) state_query :: guest_event where
  "state_query \<equiv> Mongosh localhost ''JSON.stringify(rs.status().myState)''"

text \<open>The last event asked for the state of this member, and the answer was that it is the primary.\<close>

definition elected :: "'x guest_os \<Rightarrow> 'x gworld \<Rightarrow> bool" where
  "elected g w1 \<longleftrightarrow> (\<exists>tr out x dt. trace w1 = tr @ [state_query] \<and>
     g_text g state_query x = (Inr out, dt, snd (ext w1)) \<and> ends_with (rstrip_by is_space (strip out)) ''1'')"

text \<open>Events of \<open>A\<close> have been logged since \<open>w\<close>, at most \<open>n\<close> times \<open>e\<close>, and the metadata is the same.\<close>

definition since :: "'x gworld \<Rightarrow> guest_event set \<Rightarrow> guest_event \<Rightarrow> nat \<Rightarrow> 'x gworld \<Rightarrow> bool" where
  "since w A e n w1 \<longleftrightarrow> clock w \<le> clock w1 \<and> fst (ext w1) = fst (ext w) \<and>
     (\<exists>tr. trace w1 = trace w @ tr \<and> set tr \<subseteq> A \<and> count_list tr e \<le> n)"

lemma since_refl [simp]: "since w A e n w"
  by (simp add: since_def)

lemma since_after:
  "since w A e n w1 \<Longrightarrow> e1 \<in> A \<Longrightarrow> since w A e (if e1 = e then Suc n else n) (after e1 dt x w1)"
  by (fastforce simp: since_def after_def)

lemma since_slept:
  "since w A e n w1 \<Longrightarrow> GuestSlept \<in> A \<Longrightarrow> e \<noteq> GuestSlept \<Longrightarrow>
     since w A e n (w1\<lparr>clock := clock w1 + 2, trace := trace w1 @ [GuestSlept]\<rparr>)"
  by (fastforce simp: since_def)

lemma since_mono: "since w A e n w1 \<Longrightarrow> n \<le> m \<Longrightarrow> since w A e m w1"
  by (fastforce simp: since_def)

lemma wp_guest_nap [wp_simps]:
  "wp guest_nap Q E w = Q () (w\<lparr>clock := clock w + 2, trace := trace w @ [GuestSlept]\<rparr>)"
  by (simp add: guest_nap_def wp_py_sleep)

lemma primary_round_wp:
  assumes "since w0 A e n w" and "state_query \<in> A" and "e \<noteq> state_query"
  shows "wp (primary_round g) (\<lambda>res w1. clock w \<le> clock w1 \<and> since w0 A e n w1 \<and>
      (\<forall>u. res = Inr u \<longrightarrow> elected g w1)) (\<lambda>_ _. False) w"
  using since_after [OF assms(1,2)] assms(3)
  by (auto simp: primary_round_def wp_simps elected_def split: prod.split sum.split)

lemma wait_for_primary_wp:
  assumes start: "since w0 A e n w" and A: "state_query \<in> A" "GuestSlept \<in> A"
    and e: "e \<noteq> state_query" "e \<noteq> GuestSlept"
  shows "wp (wait_for_primary conf g) (\<lambda>_ w1. since w0 A e n w1 \<and> elected g w1)
     (\<lambda>_. since w0 A e n) w"
proof -
  let ?Q = "\<lambda>res w1. since w0 A e n w1 \<and> (\<forall>u. res = Inr u \<longrightarrow> elected g w1)"
  have "wp (poll clock dl guest_nap (\<lambda>_. primary_round g) ()) ?Q (\<lambda>_. since w0 A e n) w" for dl
    unfolding guest_nap_def
  proof (rule sleeping.wp_poll [where I = "\<lambda>_. since w0 A e n"])
    fix s :: unit and w assume s: "since w0 A e n w"
    show "wp (primary_round g) (\<lambda>res w1. clock w \<le> clock w1 \<and> (case res of Inr r \<Rightarrow> ?Q (Inr r) w1
        | Inl s1 \<Rightarrow> wp (py_sleep GuestSlept (Failure ''ValueError'' ''sleep length must be non-negative'') 2)
            (\<lambda>_. since w0 A e n) (\<lambda>_. since w0 A e n) w1)) (\<lambda>_. since w0 A e n) w"
      by (rule wp_mono [OF primary_round_wp [OF s A(1) e(1)]])
        (auto simp: wp_py_sleep since_slept A(2) e(2) split: sum.split)
  qed (use start in auto)
  then show ?thesis
    unfolding wait_for_primary_def wp_bind wp_now
    by (rule wp_mono) (auto simp: wp_simps split: sum.split)
qed

lemma initiate_is_no_query: "Mongosh localhost (initiate_script config) \<noteq> state_query"
  by (simp add: initiate_script_def)

text \<open>One attempt; \<open>e\<close> is the event of the initiation.\<close>

lemma initialize_round_wp:
  assumes e: "e = Mongosh localhost (initiate_script config)"
    and s: "since w0 A e n w" and A: "A = {e, state_query, GuestSlept}"
  shows "wp (initialize_round conf g (initiate_script config))
     (\<lambda>res w1. clock w \<le> clock w1 \<and> since w0 A e (Suc n) w1 \<and>
        (case res of Inr _ \<Rightarrow> elected g w1 | Inl s \<Rightarrow> (\<exists>err. s = Some err \<and> transient err)))
     (\<lambda>err w1. since w0 A e (Suc n) w1 \<and> \<not> transient err) w"
proof -
  have ne: "e \<noteq> state_query" "e \<noteq> GuestSlept"
    using initiate_is_no_query by (simp_all add: e)
  have sent: "since w0 A e (Suc n) (after e dt x w)" for dt x
    using since_after [OF s, of e] by (simp add: A)
  have wait: "wp (wait_for_primary conf g)
      (\<lambda>_ w1. clock w \<le> clock w1 \<and> since w0 A e (Suc n) w1 \<and> elected g w1)
      (\<lambda>_ w1. clock w \<le> clock w1 \<and> since w0 A e (Suc n) w1) (after e dt x w)" for dt x
  proof -
    have A': "state_query \<in> A" "GuestSlept \<in> A" by (simp_all add: A)
    show ?thesis
      using wp_conj [OF wait_for_primary_wp [OF since_refl A' ne] wait_for_primary_wp [OF sent A' ne]]
      by (rule wp_mono) (auto simp: since_def after_def)
  qed
  show ?thesis
    unfolding initialize_round_def wp_try_except wp_andthen
    by (auto simp: wp_simps e [symmetric] sent split: prod.split sum.split
        intro!: wp_mono [OF wait])
qed


section \<open>Removing members\<close>

definition hello_query :: guest_event where
  "hello_query = Mongosh localhost ''JSON.stringify(db.hello())''"

text \<open>What \<^verbatim>\<open>db.hello()\<close> answers in the world \<open>w\<close>.\<close>

definition hello_answer :: "guest_conf \<Rightarrow> 'x guest_os \<Rightarrow> 'x gworld \<Rightarrow> pydict \<Rightarrow> bool" where
  "hello_answer conf g w d \<longleftrightarrow> (\<exists>out dt x. g_text g hello_query (snd (ext w)) = (Inr out, dt, x) \<and>
     json_loads (g_float_repr conf) (strip out) = Some (PDict d))"

lemma step_down_removes_nothing: "step_down_script \<noteq> remove_script hosts"
  by (simp add: step_down_script_def remove_script_def)

lemma removal_script_removes:
  "removal_script p hosts = remove_script hosts \<longleftrightarrow> (\<forall>h \<in> set hosts. \<not> host_matches p h)"
  using step_down_removes_nothing [of hosts] by (auto simp: removal_script_def list_ex_iff)

lemma replica_hello_wp:
  "wp (replica_hello conf g)
     (\<lambda>v w1. trace w1 = trace w @ [hello_query] \<and> (\<forall>d. v = PDict d \<longrightarrow> hello_answer conf g w d))
     (\<lambda>_ w1. trace w1 = trace w @ [hello_query]) w"
  unfolding replica_hello_def wp_bind wp_run_mongosh hello_query_def [symmetric]
  by (auto simp: wp_simps loads_def hello_answer_def split: prod.split sum.split option.split)

text \<open>Members are removed through the elected primary alone, after it was asked for and with one command;
  the primary itself is never removed, it steps down instead.\<close>

theorem remove_replica_members_primary:
  fixes w :: "'x gworld"
  shows "\<exists>r w1 tr. remove_replica_members conf g hosts w = Some (r, w1) \<and> trace w1 = trace w @ tr \<and>
     (tr = [hello_query] \<and> (\<exists>err. r = Inl err) \<or>
      (\<exists>d script. hello_answer conf g w d \<and> truthy (primary_of d) \<and>
         tr = [hello_query, Mongosh (mongosh_host (primary_of d)) script] \<and>
         (script = remove_script hosts \<longleftrightarrow> (\<forall>h \<in> set hosts. \<not> host_matches (primary_of d) h)) \<and>
         (script = step_down_script \<longleftrightarrow> (\<exists>h \<in> set hosts. host_matches (primary_of d) h))))"
proof -
  let ?R = "\<lambda>r (w1 :: 'x gworld). \<exists>tr. trace w1 = trace w @ tr \<and>
     (tr = [hello_query] \<and> (\<exists>err. r = Inl err) \<or>
      (\<exists>d. hello_answer conf g w d \<and> truthy (primary_of d) \<and>
         tr = [hello_query, Mongosh (mongosh_host (primary_of d)) (removal_script (primary_of d) hosts)]))"
  have rest: "wp (bind (run_mongosh g (mongosh_host (primary_of d)) (removal_script (primary_of d) hosts)) (\<lambda>out. ret (f out)))
      (\<lambda>v. ?R (Inr v)) (\<lambda>e. ?R (Inl e)) w1"
    if "trace w1 = trace w @ [hello_query]" "hello_answer conf g w d" "truthy (primary_of d)" for d and w1 :: "'x gworld" and f :: "string \<Rightarrow> pyval"
    using that by (auto simp: wp_simps split: prod.split sum.split)
  have "wp (remove_replica_members conf g hosts) (\<lambda>v. ?R (Inr v)) (\<lambda>e. ?R (Inl e)) w"
    unfolding remove_replica_members_def wp_bind [of "replica_hello conf g"]
  proof (rule wp_mono [OF replica_hello_wp])
    fix v and w1 :: "'x gworld"
    assume v: "trace w1 = trace w @ [hello_query] \<and> (\<forall>d. v = PDict d \<longrightarrow> hello_answer conf g w d)"
    show "wp (case v of PDict d \<Rightarrow>
           (if \<not> truthy (primary_of d) then
              raise_exn (GuestError ''MongoDB replica set has no elected primary'')
            else
              bind (run_mongosh g (mongosh_host (primary_of d)) (removal_script (primary_of d) hosts))
                (\<lambda>out. ret
                   (case loads conf out of
                      Inr v \<Rightarrow> v
                    | Inl _ \<Rightarrow> PDict [(''ok'', PInt 1), (''removed'', PBool True),
                        (''hosts'', PList (map PStr hosts))])))
       | v \<Rightarrow> raise_exn (Failure ''AttributeError'' (type_name v @ '' object has no attribute get'')))
      (\<lambda>v. ?R (Inr v)) (\<lambda>e. ?R (Inl e)) w1"
    proof (cases v)
      case (PDict d)
      with v show ?thesis using rest [of w1 d] by (simp add: wp_raise)
    qed (use v in \<open>simp_all add: wp_raise\<close>)
  qed simp
  from wp_result [of _ ?R, OF this] obtain r w1 where
    r: "remove_replica_members conf g hosts w = Some (r, w1)" "?R r w1" by blast
  have scripts: "removal_script p hosts = step_down_script \<longleftrightarrow> (\<exists>h \<in> set hosts. host_matches p h)" for p
    using step_down_removes_nothing [of hosts] by (auto simp: removal_script_def list_ex_iff)
  from r(2) consider "trace w1 = trace w @ [hello_query]" "\<exists>err. r = Inl err"
    | d where "trace w1 = trace w @ [hello_query, Mongosh (mongosh_host (primary_of d)) (removal_script (primary_of d) hosts)]"
        "hello_answer conf g w d" "truthy (primary_of d)" by blast
  then show ?thesis
  proof cases
    case 1
    with r(1) show ?thesis by (intro exI [of _ r] exI [of _ w1] exI [of _ "[hello_query]"]) simp
  next
    case (2 d)
    show ?thesis
      by (rule exI [of _ r], rule exI [of _ w1],
          rule exI [of _ "[hello_query, Mongosh (mongosh_host (primary_of d)) (removal_script (primary_of d) hosts)]"],
          intro conjI disjI2 exI [of _ d] exI [of _ "removal_script (primary_of d) hosts"] r(1) 2 refl
            removal_script_removes scripts)
  qed
qed

section \<open>Preparing a guest\<close>

text \<open>The container is not started, or the configuration and the metadata were written before.\<close>

definition prepared :: "pydict \<Rightarrow> guest_event list \<Rightarrow> bool" where
  "prepared c tr \<longleftrightarrow> (\<forall>a. StartContainer a \<notin> set tr) \<or>
     (\<exists>options rest. tr = ResetConfiguration options #
        (if c = [] then RemoveFile MONGODB_CLUSTER_FILE
         else WriteFile MONGODB_CLUSTER_FILE (the (json_dumps (PDict c)))) # rest)"

lemma sends_get_config [sends_intros]: "(\<And>c. Q c []) \<Longrightarrow> sends get_config Q E"
  by (simp add: sends_wp wp_simps)

lemma sends_set_config [sends_intros]: "Q () [] \<Longrightarrow> sends (set_config c) Q E"
  by (simp add: sends_wp wp_simps)

lemma sends_guest [sends_intros]:
  "(\<And>a. Q a [e]) \<Longrightarrow> (\<And>err. E err [e]) \<Longrightarrow> sends (guest_do g e) Q E"
  "(\<And>a. Q' a [e]) \<Longrightarrow> (\<And>err. E err [e]) \<Longrightarrow> sends (guest_text g e) Q' E"
  "(\<And>a. Q'' a [e]) \<Longrightarrow> (\<And>err. E err [e]) \<Longrightarrow> sends (guest_bool g e) Q'' E"
  by (simp_all add: guest_do_def guest_text_def guest_bool_def sends_outside_call)

lemma sends_keeps: "steps keeps (\<lambda>_. True) m \<Longrightarrow> sends m (\<lambda>_ _. True) (\<lambda>_ _. True)"
  unfolding steps_def sends_wp by (fastforce elim!: wp_mono simp: keeps_def logs_def)

lemma start_db_sends:
  "sends (start_db conf g update_db)
     (\<lambda>_ tr. (\<exists>a. StartContainer a \<in> set tr) \<and> last tr = WaitHealthy update_db) (\<lambda>_ _. True)"
proof -
  have "steps keeps (\<lambda>_. True) (mongo_image conf g)" "steps keeps (\<lambda>_. True) (network_mode conf g c)"
    "steps keeps (\<lambda>_. True) (container_command conf g c)" for c
    unfolding mongo_image_def network_mode_def container_command_def
    by (intro steps_intros; auto split: guest_error.split intro!: steps_intros)+
  note quiet = this [THEN sends_keeps]
  show ?thesis
    unfolding start_db_def
    by (intro sends_seq sends_intros sends_mono [OF quiet(1)] sends_mono [OF quiet(2)] sends_mono [OF quiet(3)])
      auto
qed

lemma write_cluster_config_wp:
  "wp (write_cluster_config g) Q E w =
     (case json_dumps (PDict (fst (ext w))) of
        None \<Rightarrow> E (Failure ''TypeError'' ''not JSON serializable'') w
      | Some written \<Rightarrow> wp (guest_do g (WriteFile MONGODB_CLUSTER_FILE written)) Q E w)"
  by (simp add: write_cluster_config_def wp_simps split: option.split)

lemma sends_configure_cluster:
  "sends (configure_cluster g c)
     (\<lambda>_ tr. tr = [if c = [] then RemoveFile MONGODB_CLUSTER_FILE
        else WriteFile MONGODB_CLUSTER_FILE (the (json_dumps (PDict c)))])
     (\<lambda>_ tr. \<forall>a. StartContainer a \<notin> set tr)"
  unfolding sends_wp configure_cluster_def
  by (auto simp: wp_simps write_cluster_config_wp split: prod.split sum.split option.split)

text \<open>Preparing an instance refuses packages, databases, users, backups and snapshots before it does
  anything.  Otherwise the container is started only after the configuration and then the metadata of
  the cluster were written, and success means that a started container was waited for.\<close>

theorem prepare_before_start:
  "sends (do_prepare conf g provisioning contents memory_mb overrides cluster_config)
     (\<lambda>_ tr. prepared cluster_config tr \<and> \<not> list_ex truthy provisioning \<and>
        (\<exists>a. StartContainer a \<in> set tr) \<and> last tr = WaitHealthy False)
     (\<lambda>_ tr. prepared cluster_config tr \<and> (list_ex truthy provisioning \<longrightarrow> tr = []))"
proof (cases "list_ex truthy provisioning")
  case True
  then show ?thesis by (simp add: do_prepare_def sends_raise prepared_def)
next
  case False
  have config: "sends (prepare_configuration conf g contents memory_mb)
      (\<lambda>_ tr. \<exists>options. tr = [ResetConfiguration options]) (\<lambda>_ tr. \<forall>a. StartContainer a \<notin> set tr)"
    unfolding prepare_configuration_def
    by (auto split: sum.split option.split config_error.split intro!: sends_intros)
  have over: "sends (update_overrides g overrides) (\<lambda>_ _. True) (\<lambda>_ _. True)"
    unfolding update_overrides_def by (auto split: option.split intro!: sends_intros)
  show ?thesis
    unfolding do_prepare_def using False
    apply simp
    apply (rule sends_andthen, rule sends_mono [OF config])
     apply clarsimp
     apply (rule sends_andthen, rule sends_mono [OF sends_configure_cluster])
      apply (rule sends_andthen, rule sends_mono [OF over])
       apply (rule sends_mono [OF start_db_sends])
        apply (auto simp: prepared_def last_append)
    done
qed

section \<open>A guest\<close>

text \<open>A guest whose calls succeed and whose member is the primary of its replica set.\<close>

definition demo_guest :: "unit guest_os" where
  "demo_guest =
     \<lparr>g_do = \<lambda>_ x. (Inr (), 0, x),
      g_text = \<lambda>e x. (Inr (if e = hello_query then
          compact (PDict [(''isWritablePrimary'', PBool True), (''me'', PStr ''10.0.0.1:27017'')]) else ''1''), 0, x),
      g_bool = \<lambda>_ x. (Inr True, 0, x)\<rparr>"

definition demo_guest_conf :: guest_conf where
  "demo_guest_conf =
     \<lparr>g_port = 27017, g_members_timeout = 300, g_mount_point = [], g_datastore_version = ''8.0'',
      g_network_isolation = False, g_host_nic_mode = ''host'', g_bridge_mode = ''bridge'',
      g_tools = plain_tools, g_float_repr = id\<rparr>"

definition demo_guest_world :: "pydict \<Rightarrow> unit gworld" where
  "demo_guest_world c = \<lparr>clock = 0, trace = [], ext = (c, ())\<rparr>"

lemma demo_guest_world_simps [simp]:
  "trace (demo_guest_world c) = []" "fst (ext (demo_guest_world c)) = c"
  by (simp_all add: demo_guest_world_def)

theorem metadata_survives_restart_witness:
  "\<exists>r w1 written. configure_cluster demo_guest [(''instance_type'', PStr ''config_server'')]
       (demo_guest_world []) = Some (r, w1) \<and> trace w1 = [WriteFile MONGODB_CLUSTER_FILE written] \<and>
     process demo_guest_conf (read_cluster_config (g_float_repr demo_guest_conf) (Some written)) =
       process demo_guest_conf [(''instance_type'', PStr ''config_server'')]"
proof -
  have "flat_metadata [(''instance_type'', PStr ''config_server'')]"
    unfolding flat_metadata_def by (rule conjI; code_simp)
  from metadata_survives_restart [OF this, of demo_guest "demo_guest_world []"] show ?thesis by auto
qed

theorem router_becomes_mongos_witness:
  "\<exists>r w1 written tr. add_config_servers demo_guest_conf demo_guest [''10.0.0.7'']
       (demo_guest_world [(''instance_type'', PStr ''query_router'')]) = Some (r, w1) \<and>
     trace w1 = WriteFile MONGODB_CLUSTER_FILE written # tr \<and>
     fst (ext w1) = [(''instance_type'', PStr ''query_router''), (''config_servers'', PList [PStr ''10.0.0.7''])]"
proof -
  let ?c = "[(''instance_type'', PStr ''query_router'')]"
  have meta: "flat_metadata (fst (ext (demo_guest_world ?c)))"
    unfolding flat_metadata_def demo_guest_world_simps by (rule conjI; code_simp)
  have router: "is_router (fst (ext (demo_guest_world ?c)))"
    unfolding demo_guest_world_simps by code_simp
  have hosts: "[''10.0.0.7''] \<noteq> []" "list_all ascii [''10.0.0.7'']" by (simp, code_simp)
  have config: "with_config_servers [''10.0.0.7''] ?c =
      [(''instance_type'', PStr ''query_router''), (''config_servers'', PList [PStr ''10.0.0.7''])]"
    by code_simp
  from router_becomes_mongos [OF meta router hosts, of demo_guest_conf demo_guest] show ?thesis
    unfolding Let_def demo_guest_world_simps config append_Nil by blast
qed


theorem remove_replica_members_primary_witness:
  "\<exists>r w1 tr. remove_replica_members demo_guest_conf demo_guest [''10.0.0.1:27017''] (demo_guest_world []) =
       Some (r, w1) \<and> trace w1 = tr \<and> (\<forall>host. Mongosh host (remove_script [''10.0.0.1:27017'']) \<notin> set tr)"
proof -
  let ?d = "[(''isWritablePrimary'', PBool True), (''me'', PStr ''10.0.0.1:27017'')]"
  let ?hosts = "[''10.0.0.1:27017'']"
  have "json_loads id (strip (compact (PDict ?d))) = Some (PDict ?d)" by code_simp
  then have d: "hello_answer demo_guest_conf demo_guest (demo_guest_world []) d \<longleftrightarrow> d = ?d" for d
    by (auto simp: hello_answer_def demo_guest_def demo_guest_conf_def)
  have same: "host_matches (primary_of ?d) ''10.0.0.1:27017''" by code_simp
  have hello: "Mongosh host (remove_script ?hosts) \<noteq> hello_query" for host
    by (simp add: remove_script_def hello_query_def)
  from remove_replica_members_primary [of demo_guest_conf demo_guest ?hosts "demo_guest_world []"]
  show ?thesis using same hello unfolding d by (auto simp: demo_guest_world_simps)
qed

theorem prepare_before_start_witness:
  "\<exists>err w1. do_prepare demo_guest_conf demo_guest [PList [], PStr ''package''] PNone (PInt 512) [] []
     (demo_guest_world []) = Some (Inl err, w1) \<and> trace w1 = []"
proof -
  have refused: "list_ex truthy [PList [], PStr ''package'']" by code_simp
  obtain r w1 tr where "do_prepare demo_guest_conf demo_guest [PList [], PStr ''package''] PNone (PInt 512) [] []
      (demo_guest_world []) = Some (r, w1)" and "trace w1 = tr"
    and "case r of Inr _ \<Rightarrow> False | Inl _ \<Rightarrow> tr = []"
    using prepare_before_start [of demo_guest_conf demo_guest "[PList [], PStr ''package'']" PNone "PInt 512" "[]" "[]",
      unfolded sends_def, rule_format, of "demo_guest_world []"] refused
    by (elim exE) (simp split: sum.splits)
  then show ?thesis by (cases r) auto
qed

end
