(* ===== verification/Capsule.thy ===== *)
theory Capsule
  imports EventLog PyValue
begin

text \<open>
  The Senlin profile \<^verbatim>\<open>zun-capsule-profile/capsule.py\<close>: one Zun capsule per node of a cluster.  The requests
  to Zun and the connection are outside; a response is its status code, whether it has content, what
  its \<^verbatim>\<open>json()\<close> gives and what its \<^verbatim>\<open>raise_for_status()\<close> raises.  The capsule ids are those Zun made, without
  characters that \<^verbatim>\<open>urljoin\<close> interprets.
\<close>

section \<open>Errors and requests\<close>

text \<open>\<open>Answered m http_status status_code\<close> is an exception of a library, with the attributes it has:
  \<open>PNone\<close> for no \<^verbatim>\<open>http_status\<close>, and \<open>None\<close> for no \<^verbatim>\<open>response\<close>.\<close>

datatype capsule_error =
    InvalidSpec string
  | ResourceNotFound string string
  | CreationFailed string pyval
  | DeletionFailed pyval string
  | PyFailure string string
  | Answered string pyval "pyval option"

fun failure_text :: "capsule_error \<Rightarrow> string" where
  "failure_text (InvalidSpec m) = m"
| "failure_text (ResourceNotFound kind i) = kind @ '' '' @ i"
| "failure_text (CreationFailed m _) = m"
| "failure_text (DeletionFailed _ m) = m"
| "failure_text (PyFailure _ m) = m"
| "failure_text (Answered m _ _) = m"

record response =
  p_status :: int
  p_empty :: bool
  p_json :: "capsule_error + pyval"
  p_raises :: "capsule_error option"

datatype capsule_event =
    Connect
  | GetEndpoint pyval pyval
  | GetRequest string
  | PostRequest string pyval
  | DeleteRequest string
  | CapsuleSlept

record 'x zun =
  z_connect :: "('x, capsule_error + pyval \<times> pyval) outside"
  z_endpoint :: "capsule_event \<Rightarrow> ('x, capsule_error + pyval) outside"
  z_http :: "capsule_event \<Rightarrow> ('x, capsule_error + response) outside"

record capsule_node =
  n_name :: pyval
  n_id :: pyval
  n_cluster_id :: pyval
  n_physical_id :: pyval

type_synonym 'x cworld = "(capsule_event, 'x) world"
type_synonym ('x, 'a) cio = "('x cworld, capsule_error, 'a) io"

definition ask_zun :: "'x zun \<Rightarrow> capsule_event \<Rightarrow> ('x, response) cio" where
  "ask_zun z e = outside_call e (z_http z e)"

definition CREATE_TIMEOUT :: real where "CREATE_TIMEOUT = 600"
definition DELETE_TIMEOUT :: real where "DELETE_TIMEOUT = 300"
definition POLL_INTERVAL :: real where "POLL_INTERVAL = 2"
definition READY_STATES :: "string list" where "READY_STATES = [''Running'', ''Succeeded'']"
definition FAILED_STATES :: "string list" where "FAILED_STATES = [''Failed'', ''Error'', ''Unknown'']"

definition capsule_nap :: "('x, unit) cio" where
  "capsule_nap =
     py_sleep CapsuleSlept (PyFailure ''ValueError'' ''sleep length must be non-negative'') POLL_INTERVAL"

section \<open>Templates\<close>

text \<open>\<^verbatim>\<open>v.get(k) or d\<close> of a dictionary.\<close>

definition field_or_else :: "pydict \<Rightarrow> string \<Rightarrow> pyval \<Rightarrow> pyval" where
  "field_or_else d k v = py_or (vget d k) v"

definition has_image :: "pyval \<Rightarrow> bool" where
  "has_image container = (case container of PDict d \<Rightarrow> truthy (vget d ''image'') | _ \<Rightarrow> False)"

definition validate_spec :: "pydict \<Rightarrow> capsule_error + unit" where
  "validate_spec template =
     (case field_or_else template ''spec'' (PDict []) of
        PDict spec \<Rightarrow>
          (let containers = field_or_else spec ''containers'' (PList [])
           in if \<not> truthy containers then Inl (InvalidSpec ''template.spec.containers must not be empty'')
              else case containers of
                PList cs \<Rightarrow>
                  if list_all has_image cs then Inr ()
                  else Inl (InvalidSpec ''every capsule container needs an image'')
              | _ \<Rightarrow> Inl (InvalidSpec ''every capsule container needs an image''))
      | _ \<Rightarrow> Inl (InvalidSpec ''template.spec must be a mapping''))"

definition validate_metadata :: "pydict \<Rightarrow> capsule_error + unit" where
  "validate_metadata template =
     (case field_or_else template ''metadata'' (PDict []) of
        PDict metadata \<Rightarrow>
          (if is_mapping (field_or_else metadata ''labels'' (PDict [])) then Inr ()
           else Inl (InvalidSpec ''template.metadata.labels must be a mapping''))
      | _ \<Rightarrow> Inl (InvalidSpec ''template.metadata must be a mapping''))"

definition do_validate :: "pyval \<Rightarrow> capsule_error + unit" where
  "do_validate template =
     (case template of
        PDict t \<Rightarrow>
          (if vget t ''kind'' \<noteq> PStr ''capsule'' then Inl (InvalidSpec (''template.kind must be '' @ repr_str ''capsule''))
           else case validate_spec t of
             Inl e \<Rightarrow> Inl e
           | Inr _ \<Rightarrow> validate_metadata t)
      | _ \<Rightarrow> Inl (InvalidSpec (''template.kind must be '' @ repr_str ''capsule'')))"

definition identity :: "capsule_node \<Rightarrow> string \<times> string" where
  "identity node = (py_str (py_or (n_cluster_id node) (PStr [])), py_str (py_or (n_id node) (PStr [])))"

text \<open>Texts are UTF-8 bytes: a character that is not ASCII has one byte that does not continue it.  (Lower-casing
  is that of ASCII: the two characters outside whose lower case is ASCII are not treated.)\<close>

definition continues :: "char \<Rightarrow> bool" where
  "continues c \<longleftrightarrow> 128 \<le> (of_char c :: nat) \<and> of_char c < (192 :: nat)"

definition capsule_name :: "string \<Rightarrow> string" where
  "capsule_name name =
     strip_by (\<lambda>c. c = CHR ''-'')
       (map (\<lambda>c. if is_name_char c then c else CHR ''-'') (filter (\<lambda>c. \<not> continues c) (lower name)))"

definition node_labels :: "capsule_node \<Rightarrow> pydict" where
  "node_labels node =
     (case identity node of (cluster_id, node_id) \<Rightarrow>
        [(''yggdrasil_senlin_cluster_id'', PStr cluster_id),
         (''yggdrasil_senlin_node_id'', PStr node_id)])"

definition attribute_missing :: "pyval \<Rightarrow> string \<Rightarrow> capsule_error" where
  "attribute_missing v name =
     PyFailure ''AttributeError'' (type_name v @ '' object has no attribute '' @ name)"

definition make_metadata :: "capsule_node \<Rightarrow> pydict \<Rightarrow> capsule_error + pydict" where
  "make_metadata node metadata =
     (case vget_or metadata ''labels'' (PDict []) of
        PDict labels \<Rightarrow>
          (let name = capsule_name (py_str (n_name node));
               labelled = dset ''labels'' (PDict (dupdate labels (node_labels node))) metadata
           in Inr (if name \<noteq> [] then dset ''name'' (PStr (take 63 name)) labelled else labelled))
      | v \<Rightarrow> Inl (attribute_missing v ''update''))"

definition make_template :: "capsule_node \<Rightarrow> pyval \<Rightarrow> capsule_error + pyval" where
  "make_template node template =
     (case template of
        PDict t \<Rightarrow>
          (case vget_or t ''metadata'' (PDict []) of
             PDict metadata \<Rightarrow>
               map_sum id (\<lambda>m. PDict (dset ''metadata'' (PDict m) t)) (make_metadata node metadata)
           | v \<Rightarrow> Inl (attribute_missing v ''setdefault''))
      | v \<Rightarrow> Inl (attribute_missing v ''setdefault''))"

section \<open>Requests\<close>

definition response_json :: "response \<Rightarrow> capsule_error + pyval" where
  "response_json r =
     (if p_empty r then Inr (PDict [])
      else case p_json r of
        Inl e \<Rightarrow> Inl e
      | Inr (PDict d) \<Rightarrow> Inr (vget_or d ''capsule'' (PDict d))
      | Inr _ \<Rightarrow> Inr (PDict []))"

definition is_not_found :: "capsule_error \<Rightarrow> bool" where
  "is_not_found e =
     (case e of
        Answered _ http_status response \<Rightarrow>
          py_str (if http_status = PNone then (case response of Some s \<Rightarrow> s | None \<Rightarrow> PNone)
                  else http_status) = ''404''
      | _ \<Rightarrow> False)"

text \<open>\<^verbatim>\<open>response.raise_for_status()\<close>.\<close>

definition raise_for_status :: "response \<Rightarrow> ('x, unit) cio" where
  "raise_for_status r = (case p_raises r of None \<Rightarrow> ret () | Some e \<Rightarrow> raise_exn e)"

definition get_capsule :: "'x zun \<Rightarrow> string \<Rightarrow> ('x, response option) cio" where
  "get_capsule z url =
     bind (try_except (bind (ask_zun z (GetRequest url)) (\<lambda>r. ret (Some r)))
             (\<lambda>e. if is_not_found e then ret None else raise_exn e))
       (\<lambda>answer. case answer of
          None \<Rightarrow> ret None
        | Some r \<Rightarrow>
            if p_status r = 404 then ret None
            else andthen (raise_for_status r) (ret (Some r)))"

definition session_and_base_url :: "string \<Rightarrow> 'x zun \<Rightarrow> ('x, string) cio" where
  "session_and_base_url default_region z =
     bind (outside_call Connect (z_connect z)) (\<lambda>(interface, region).
       let e = GetEndpoint (py_or interface (PStr ''public'')) (py_or region (PStr default_region))
       in bind (outside_call e (z_endpoint z e)) (\<lambda>endpoint.
            if \<not> truthy endpoint then raise_exn (ResourceNotFound ''service endpoint'' ''container'')
            else ret (rstrip_by (\<lambda>c. c = CHR ''/'') (py_str endpoint) @ ''/'')))"

definition capsules_url :: "string \<Rightarrow> string" where
  "capsules_url base_url = base_url @ ''capsules/''"

definition capsule_url :: "string \<Rightarrow> pyval \<Rightarrow> string" where
  "capsule_url base_url capsule_id = base_url @ ''capsules/'' @ py_str capsule_id"

text \<open>\<^verbatim>\<open>v.get(k, default)\<close> of any value, and membership in a set of texts.\<close>

definition get_field :: "pyval \<Rightarrow> string \<Rightarrow> pyval \<Rightarrow> capsule_error + pyval" where
  "get_field v k def_v =
     (case v of PDict d \<Rightarrow> Inr (vget_or d k def_v) | _ \<Rightarrow> Inl (attribute_missing v ''get''))"

definition in_states :: "string list \<Rightarrow> pyval \<Rightarrow> capsule_error + bool" where
  "in_states states v =
     (case v of
        PList _ \<Rightarrow> Inl (PyFailure ''TypeError'' ''unhashable type: list'')
      | PDict _ \<Rightarrow> Inl (PyFailure ''TypeError'' ''unhashable type: dict'')
      | _ \<Rightarrow> Inr (v \<in> PStr ` set states))"

section \<open>Waiting\<close>

text \<open>The state of the loop is the last state; the answer is the capsule, or \<open>None\<close> when it is gone.\<close>

definition wait_round ::
  "'x zun \<Rightarrow> string \<Rightarrow> pyval \<Rightarrow> string list \<Rightarrow> ('x, pyval + pyval option) cio" where
  "wait_round z url capsule_id states =
     bind (get_capsule z url) (\<lambda>answer.
       case answer of
         None \<Rightarrow> ret (Inr None)
       | Some r \<Rightarrow>
           bind (lift_sum (response_json r)) (\<lambda>capsule.
           bind (lift_sum (get_field capsule ''status'' (PStr ''unknown''))) (\<lambda>state.
           bind (lift_sum (in_states states state)) (\<lambda>reached.
             if reached then ret (Inr (Some capsule))
             else bind (lift_sum (in_states FAILED_STATES state)) (\<lambda>failed.
               if failed then
                 bind (lift_sum (get_field capsule ''status_reason'' (PStr ''no status reason''))) (\<lambda>reason.
                   raise_exn (PyFailure ''RuntimeError'' (''Zun capsule '' @ py_str capsule_id @ '' entered ''
                     @ py_str state @ '': '' @ py_str reason)))
               else ret (Inl state))))))"

definition wait_for_state ::
  "'x zun \<Rightarrow> string \<Rightarrow> pyval \<Rightarrow> string list \<Rightarrow> real \<Rightarrow> ('x, pyval option) cio" where
  "wait_for_state z base_url capsule_id states timeout =
     bind (bind now (\<lambda>start.
        poll clock (start + timeout) capsule_nap
          (\<lambda>_. wait_round z (capsule_url base_url capsule_id) capsule_id states) (PStr ''unknown'')))
       (\<lambda>answer. case answer of
          Inr capsule \<Rightarrow> ret capsule
        | Inl last_state \<Rightarrow> raise_exn (PyFailure ''TimeoutError'' (''Timed out waiting for Zun capsule ''
            @ py_str capsule_id @ ''; last state: '' @ py_str last_state)))"

definition delete_round :: "'x zun \<Rightarrow> string \<Rightarrow> ('x, unit + unit) cio" where
  "delete_round z url =
     bind (get_capsule z url) (\<lambda>answer. ret (case answer of None \<Rightarrow> Inr () | Some _ \<Rightarrow> Inl ()))"

text \<open>\<open>Inr\<close> is the early \<^verbatim>\<open>return True\<close>.\<close>

definition request_deletion :: "'x zun \<Rightarrow> string \<Rightarrow> ('x, unit + unit) cio" where
  "request_deletion z url =
     try_except
       (bind (ask_zun z (DeleteRequest url)) (\<lambda>r.
          if p_status r = 404 then ret (Inr ()) else andthen (raise_for_status r) (ret (Inl ()))))
       (\<lambda>e. if is_not_found e then ret (Inr ())
            else bind (get_capsule z url) (\<lambda>answer.
              case answer of None \<Rightarrow> ret (Inr ()) | Some _ \<Rightarrow> raise_exn e))"

definition delete_capsule :: "'x zun \<Rightarrow> string \<Rightarrow> pyval \<Rightarrow> ('x, bool) cio" where
  "delete_capsule z base_url capsule_id =
     bind (request_deletion z (capsule_url base_url capsule_id)) (\<lambda>early.
       case early of
         Inr _ \<Rightarrow> ret True
       | Inl _ \<Rightarrow>
           bind (bind now (\<lambda>start.
              poll clock (start + DELETE_TIMEOUT) capsule_nap
                (\<lambda>_. delete_round z (capsule_url base_url capsule_id)) ()))
             (\<lambda>answer. case answer of
                Inr _ \<Rightarrow> ret True
              | Inl _ \<Rightarrow> raise_exn (PyFailure ''TimeoutError''
                  (''Timed out deleting Zun capsule '' @ py_str capsule_id))))"

section \<open>The operations of the profile\<close>

definition post_capsule :: "'x zun \<Rightarrow> string \<Rightarrow> pyval \<Rightarrow> ('x, pyval) cio" where
  "post_capsule z base_url template =
     bind (ask_zun z (PostRequest (capsules_url base_url) template)) (\<lambda>r.
     andthen (raise_for_status r)
       (bind (lift_sum (response_json r)) (\<lambda>capsule.
        bind (lift_sum (get_field capsule ''uuid'' PNone)) (\<lambda>uuid.
          if truthy uuid then ret uuid else lift_sum (get_field capsule ''id'' PNone)))))"

definition await_creation :: "'x zun \<Rightarrow> string \<Rightarrow> pyval \<Rightarrow> ('x, pyval) cio" where
  "await_creation z base_url capsule_id =
     (if \<not> truthy capsule_id then
        raise_exn (PyFailure ''RuntimeError'' ''Zun did not return the created capsule UUID'')
      else
        bind (wait_for_state z base_url capsule_id READY_STATES CREATE_TIMEOUT) (\<lambda>capsule.
          case capsule of
            None \<Rightarrow> raise_exn (PyFailure ''RuntimeError'' (''Zun capsule '' @ py_str capsule_id
              @ '' disappeared before becoming ready''))
          | Some _ \<Rightarrow> ret capsule_id))"

definition creation_failed ::
  "'x zun \<Rightarrow> string \<Rightarrow> pyval \<Rightarrow> capsule_error \<Rightarrow> ('x, pyval) cio" where
  "creation_failed z base_url capsule_id e =
     andthen
       (if truthy capsule_id then
          try_except (andthen (delete_capsule z base_url capsule_id) (ret ())) (\<lambda>_. ret ())
        else ret ())
       (raise_exn (CreationFailed (failure_text e) capsule_id))"

text \<open>The \<^verbatim>\<open>try\<close> of the source in two parts: until the id is known it is \<open>PNone\<close> for the handler.\<close>

definition do_create :: "string \<Rightarrow> 'x zun \<Rightarrow> pyval \<Rightarrow> capsule_node \<Rightarrow> ('x, pyval) cio" where
  "do_create default_region z template node =
     bind (session_and_base_url default_region z) (\<lambda>base_url.
     bind (lift_sum (make_template node template)) (\<lambda>tmpl.
     bind (try_except (bind (post_capsule z base_url tmpl) (\<lambda>i. ret (Inr i))) (\<lambda>e. ret (Inl e)))
       (\<lambda>posted. case posted of
          Inl e \<Rightarrow> creation_failed z base_url PNone e
        | Inr capsule_id \<Rightarrow>
            try_except (await_creation z base_url capsule_id)
              (creation_failed z base_url capsule_id))))"

definition do_delete :: "string \<Rightarrow> 'x zun \<Rightarrow> capsule_node \<Rightarrow> ('x, bool) cio" where
  "do_delete default_region z node =
     (if \<not> truthy (n_physical_id node) then ret True
      else bind (session_and_base_url default_region z) (\<lambda>base_url.
        try_except (delete_capsule z base_url (n_physical_id node))
          (\<lambda>e. raise_exn (DeletionFailed (n_physical_id node) (failure_text e)))))"

definition do_check :: "string \<Rightarrow> 'x zun \<Rightarrow> capsule_node \<Rightarrow> ('x, bool) cio" where
  "do_check default_region z node =
     (if \<not> truthy (n_physical_id node) then ret False
      else bind (session_and_base_url default_region z) (\<lambda>base_url.
        try_except
          (bind (get_capsule z (capsule_url base_url (n_physical_id node))) (\<lambda>answer.
             case answer of
               None \<Rightarrow> ret False
             | Some r \<Rightarrow>
                 bind (lift_sum (response_json r)) (\<lambda>capsule.
                 bind (lift_sum (get_field capsule ''status'' PNone)) (\<lambda>state.
                   lift_sum (in_states READY_STATES state)))))
          (\<lambda>_. ret False)))"

definition capsule_details :: "capsule_node \<Rightarrow> pydict \<Rightarrow> pydict" where
  "capsule_details node d =
     [(''id'', py_or (vget d ''uuid'') (py_or (vget d ''id'') (n_physical_id node))),
      (''name'', py_or (vget d ''name'') (n_name node)),
      (''status'', vget d ''status''),
      (''addresses'', py_or (vget d ''addresses'') (PDict []))]"

definition read_details :: "capsule_node \<Rightarrow> pyval \<Rightarrow> capsule_error + pydict" where
  "read_details node capsule =
     (case capsule of
        PDict d \<Rightarrow>
          (if truthy (vget d ''Error'') then
             (case vget d ''Error'' of
                PDict e \<Rightarrow> Inl (PyFailure ''RuntimeError'' (''Failed to get details for Capsule ''
                  @ py_str (n_physical_id node) @ '': ''
                  @ py_str (py_or (vget e ''message'') (PStr ''unknown error''))))
              | v \<Rightarrow> Inl (attribute_missing v ''get''))
           else Inr (capsule_details node d))
      | v \<Rightarrow> Inl (attribute_missing v ''get''))"

definition do_get_details :: "string \<Rightarrow> 'x zun \<Rightarrow> capsule_node \<Rightarrow> ('x, pydict) cio" where
  "do_get_details default_region z node =
     (if \<not> truthy (n_physical_id node) then ret []
      else bind (session_and_base_url default_region z) (\<lambda>base_url.
        try_except
          (bind (get_capsule z (capsule_url base_url (n_physical_id node))) (\<lambda>answer.
             case answer of
               None \<Rightarrow> ret []
             | Some r \<Rightarrow>
                 bind (lift_sum (response_json r)) (\<lambda>capsule. lift_sum (read_details node capsule))))
          (\<lambda>e. ret [(''Error'', PDict [(''message'', PStr (failure_text e))])])))"

end
