(* ===== verification/CapsuleOps.thy ===== *)
theory CapsuleOps
  imports Capsule
begin

text \<open>
  What the capsule profile guarantees: a capsule is reported deleted only when Zun says that it is not there,
  created only when it is ready, an accepted template becomes the one of the node, and looking at a
  capsule never raises.
\<close>

section \<open>What has been observed\<close>

text \<open>The last request was \<open>e\<close>, and the state outside is the one it left with the answer \<open>r\<close>.\<close>

definition answered :: "'x zun \<Rightarrow> capsule_event \<Rightarrow> capsule_error + response \<Rightarrow> 'x cworld \<Rightarrow> bool" where
  "answered z e r w1 \<longleftrightarrow> (\<exists>tr x dt. trace w1 = tr @ [e] \<and> z_http z e x = (r, dt, ext w1))"

definition absent :: "capsule_error + response \<Rightarrow> bool" where
  "absent r \<longleftrightarrow>
     (case r of
        Inl e \<Rightarrow> is_not_found e
      | Inr resp \<Rightarrow> p_status resp = 404 \<or> (\<exists>e. p_raises resp = Some e \<and> is_not_found e))"

text \<open>Zun has just said that there is nothing at this address.\<close>

definition gone :: "'x zun \<Rightarrow> string \<Rightarrow> 'x cworld \<Rightarrow> bool" where
  "gone z url w1 \<longleftrightarrow> (\<exists>e r. (e = GetRequest url \<or> e = DeleteRequest url) \<and> answered z e r w1 \<and> absent r)"

lemma wp_ask_zun [wp_simps]:
  "wp (ask_zun z e) Q E w =
     (case z_http z e (ext w) of (r, dt, x) \<Rightarrow>
        (let w1 = w\<lparr>clock := clock w + max 0 dt, trace := trace w @ [e], ext := x\<rparr>
         in (case r of Inl err \<Rightarrow> E err w1 | Inr a \<Rightarrow> Q a w1)))"
  by (simp add: ask_zun_def wp_outside_call)

lemma wp_raise_for_status [wp_simps]:
  "wp (raise_for_status r) Q E w = (case p_raises r of None \<Rightarrow> Q () w | Some e \<Rightarrow> E e w)"
  by (simp add: raise_for_status_def wp_simps split: option.split)

lemma wp_capsule_nap [wp_simps]:
  "wp capsule_nap Q E w = Q () (w\<lparr>clock := clock w + 2, trace := trace w @ [CapsuleSlept]\<rparr>)"
  by (simp add: capsule_nap_def wp_py_sleep POLL_INTERVAL_def)

text \<open>\<open>sent w n url w1\<close>: since \<open>w\<close> at most \<open>n\<close> requests for \<open>url\<close>, all of them reading, and pauses.\<close>

definition read_since :: "'x cworld \<Rightarrow> string \<Rightarrow> nat \<Rightarrow> 'x cworld \<Rightarrow> bool" where
  "read_since w url n w1 \<longleftrightarrow> clock w \<le> clock w1 \<and>
     (\<exists>tr. trace w1 = trace w @ tr \<and> set tr \<subseteq> {GetRequest url, CapsuleSlept} \<and>
        count_list tr (GetRequest url) \<le> n)"

lemma read_since_refl [simp]: "read_since w url n w"
  by (simp add: read_since_def)

lemma get_capsule_wp:
  assumes "read_since w0 url n w"
  shows "wp (get_capsule z url)
    (\<lambda>answer w1. clock w \<le> clock w1 \<and> read_since w0 url (Suc n) w1 \<and>
       (case answer of None \<Rightarrow> gone z url w1 | Some resp \<Rightarrow> answered z (GetRequest url) (Inr resp) w1))
    (\<lambda>_. read_since w0 url (Suc n)) w"
proof -
  obtain r dt x where z: "z_http z (GetRequest url) (ext w) = (r, dt, x)" by (metis prod_cases3)
  let ?w1 = "w\<lparr>clock := clock w + max 0 dt, trace := trace w @ [GetRequest url], ext := x\<rparr>"
  have "read_since w0 url (Suc n) ?w1"
    using assms by (fastforce simp: read_since_def)
  moreover have "answered z (GetRequest url) r ?w1"
    unfolding answered_def using z by auto
  moreover from this have "gone z url ?w1" if "absent r" unfolding gone_def using that by blast
  ultimately show ?thesis
    unfolding get_capsule_def by (auto simp: wp_simps z Let_def absent_def split: sum.split option.split)
qed

lemma read_since_slept:
  "read_since w0 url n w \<Longrightarrow>
     read_since w0 url n (w\<lparr>clock := clock w + 2, trace := trace w @ [CapsuleSlept]\<rparr>)"
  by (fastforce simp: read_since_def)

lemma read_since_mono: "read_since w0 url n w \<Longrightarrow> n \<le> m \<Longrightarrow> read_since w0 url m w"
  by (fastforce simp: read_since_def)

text \<open>Polling one address every two seconds, by a body that reads it once.\<close>

lemma poll_reads:
  fixes T :: real and body :: "'s \<Rightarrow> ('x, 's + 'r) cio"
  defines "N \<equiv> nat \<lceil>T / 2\<rceil>"
  assumes body: "\<And>n s w. read_since w0 url n w \<Longrightarrow> wp (body s)
      (\<lambda>res w1. clock w \<le> clock w1 \<and> read_since w0 url (Suc n) w1 \<and> (\<forall>r. res = Inr r \<longrightarrow> P r w1))
      (\<lambda>_. read_since w0 url (Suc n)) w"
  shows "wp (bind now (\<lambda>start. poll clock (start + T) capsule_nap body s))
      (\<lambda>res w1. read_since w0 url N w1 \<and> (\<forall>r. res = Inr r \<longrightarrow> P r w1)) (\<lambda>_. read_since w0 url N) w0"
  unfolding wp_bind wp_now capsule_nap_def
proof (rule sleeping.wp_poll_counted [where I = "\<lambda>n s. read_since w0 url n" and ?t0.0 = "clock w0"])
  let ?N = "nat \<lceil>(clock w0 + T - clock w0) / POLL_INTERVAL\<rceil>"
  have N: "?N = N" by (simp add: N_def POLL_INTERVAL_def)
  fix n s and w assume s: "read_since w0 url n w" and n: "n < ?N"
  show "wp (body s) (\<lambda>res w1. clock w \<le> clock w1 \<and> (case res of
        Inr r \<Rightarrow> read_since w0 url N w1 \<and> (\<forall>ra. Inr r = Inr ra \<longrightarrow> P ra w1)
      | Inl s1 \<Rightarrow> wp (py_sleep CapsuleSlept (PyFailure ''ValueError'' ''sleep length must be non-negative'') POLL_INTERVAL)
          (\<lambda>_. read_since w0 url (Suc n)) (\<lambda>_. read_since w0 url N) w1)) (\<lambda>_. read_since w0 url N) w"
    by (rule wp_mono [OF body [OF s]])
      (use n N in \<open>auto simp: wp_py_sleep read_since_slept POLL_INTERVAL_def split: sum.split elim: read_since_mono\<close>)
next
  fix n s and w :: "'x cworld" assume "read_since w0 url n w" "n \<le> nat \<lceil>(clock w0 + T - clock w0) / POLL_INTERVAL\<rceil>"
  then show "read_since w0 url N w \<and> (\<forall>r. Inl s = Inr r \<longrightarrow> P r w)"
    by (auto simp: N_def POLL_INTERVAL_def elim: read_since_mono)
qed (simp_all add: POLL_INTERVAL_def)

section \<open>Deletion\<close>

text \<open>\<open>deleting w url n w1\<close>: since \<open>w\<close> one request to delete and then at most \<open>n\<close> to read.\<close>

definition deleting :: "'x cworld \<Rightarrow> string \<Rightarrow> nat \<Rightarrow> 'x cworld \<Rightarrow> bool" where
  "deleting w url n w1 \<longleftrightarrow>
     (\<exists>w0. trace w0 = trace w @ [DeleteRequest url] \<and> read_since w0 url n w1)"

lemma request_deletion_wp:
  "wp (request_deletion z url)
     (\<lambda>early w1. deleting w url (Suc 0) w1 \<and> (\<forall>u. early = Inr u \<longrightarrow> gone z url w1) \<and>
        (\<forall>u. early = Inl u \<longrightarrow> trace w1 = trace w @ [DeleteRequest url]))
     (\<lambda>_. deleting w url (Suc 0)) w"
proof -
  obtain r dt x where z: "z_http z (DeleteRequest url) (ext w) = (r, dt, x)" by (metis prod_cases3)
  let ?w1 = "w\<lparr>clock := clock w + max 0 dt, trace := trace w @ [DeleteRequest url], ext := x\<rparr>"
  have del: "deleting w url (Suc 0) ?w1" unfolding deleting_def by (intro exI [of _ ?w1]) simp
  have "answered z (DeleteRequest url) r ?w1"
    unfolding answered_def using z by auto
  then have gone: "gone z url ?w1" if "absent r" unfolding gone_def using that by blast
  have reading: "deleting w url (Suc 0) w2" if "read_since ?w1 url (Suc 0) w2" for w2
    unfolding deleting_def using that by (intro exI [of _ ?w1]) simp
  have get: "wp (get_capsule z url) (\<lambda>answer w2. deleting w url (Suc 0) w2 \<and> (answer = None \<longrightarrow> gone z url w2))
      (\<lambda>_. deleting w url (Suc 0)) ?w1"
    by (rule wp_mono [OF get_capsule_wp [OF read_since_refl [of ?w1 url 0]]])
      (auto simp: reading split: option.splits)
  define Q where "Q = (\<lambda>(early :: unit + unit) w1. deleting w url (Suc 0) w1 \<and> (\<forall>u. early = Inr u \<longrightarrow> gone z url w1) \<and>
      (\<forall>u. early = Inl u \<longrightarrow> trace w1 = trace w @ [DeleteRequest url]))"
  have retry: "wp (get_capsule z url) (\<lambda>answer. wp (case answer of None \<Rightarrow> ret (Inr ()) | Some _ \<Rightarrow> raise_exn e)
      Q (\<lambda>_. deleting w url (Suc 0))) (\<lambda>_. deleting w url (Suc 0)) ?w1" for e
    by (rule wp_mono [OF get]) (auto simp: Q_def wp_simps split: option.split)
  have "absent r \<Longrightarrow> Q (Inr ()) ?w1" "Q (Inl ()) ?w1"
    using del gone by (simp_all add: Q_def)
  then have "wp (request_deletion z url) Q (\<lambda>_. deleting w url (Suc 0)) w"
    unfolding request_deletion_def
    by (auto simp: wp_try_except wp_bind wp_ask_zun wp_raise_for_status wp_andthen wp_ret wp_raise z Let_def
        absent_def retry split: sum.split option.split)
  then show ?thesis by (simp add: Q_def)
qed

lemma delete_capsule_wp:
  "wp (delete_capsule z base_url capsule_id)
     (\<lambda>b w1. b \<and> gone z (capsule_url base_url capsule_id) w1 \<and> deleting w (capsule_url base_url capsule_id) 150 w1)
     (\<lambda>_. deleting w (capsule_url base_url capsule_id) 150) w"
proof -
  let ?url = "capsule_url base_url capsule_id"
  have N: "nat \<lceil>DELETE_TIMEOUT / 2\<rceil> = 150" by (simp add: DELETE_TIMEOUT_def)
  have round: "wp (delete_round z ?url) (\<lambda>res w1. clock w \<le> clock w1 \<and> read_since w0 ?url (Suc n) w1 \<and>
      (\<forall>r. res = Inr r \<longrightarrow> gone z ?url w1)) (\<lambda>_. read_since w0 ?url (Suc n)) w"
    if "read_since w0 ?url n w" for n and w0 w :: "'a cworld"
    unfolding delete_round_def wp_bind
    by (rule wp_mono [OF get_capsule_wp [OF that]]) (auto simp: wp_ret split: option.splits)
  have wait: "wp (bind now (\<lambda>start. poll clock (start + DELETE_TIMEOUT) capsule_nap (\<lambda>_. delete_round z ?url) ()))
      (\<lambda>res w2. deleting w ?url 150 w2 \<and> (\<forall>r. res = Inr r \<longrightarrow> gone z ?url w2)) (\<lambda>_. deleting w ?url 150) w1"
    if "trace w1 = trace w @ [DeleteRequest ?url]" for w1
    using poll_reads [where body = "\<lambda>_. delete_round z ?url" and P = "\<lambda>_. gone z ?url" and ?w0.0 = w1
        and url = ?url and T = DELETE_TIMEOUT and s = "()", OF round, unfolded N]
    by (rule wp_mono) (use that in \<open>auto simp: deleting_def\<close>)
  have few: "deleting w ?url 150 w1" if "deleting w ?url (Suc 0) w1" for w1
    using that read_since_mono [of _ ?url "Suc 0" w1 150] unfolding deleting_def by auto
  show ?thesis
    unfolding delete_capsule_def wp_bind [of "request_deletion z ?url"]
  proof (rule wp_mono [OF request_deletion_wp])
    fix early and w1 :: "'a cworld"
    assume e: "deleting w ?url (Suc 0) w1 \<and> (\<forall>u. early = Inr u \<longrightarrow> gone z ?url w1) \<and>
        (\<forall>u. early = Inl u \<longrightarrow> trace w1 = trace w @ [DeleteRequest ?url])"
    show "wp (case early of Inr _ \<Rightarrow> ret True | Inl _ \<Rightarrow>
           bind (bind now (\<lambda>start. poll clock (start + DELETE_TIMEOUT) capsule_nap (\<lambda>_. delete_round z ?url) ()))
             (\<lambda>answer. case answer of Inr _ \<Rightarrow> ret True
              | Inl _ \<Rightarrow> raise_exn (PyFailure ''TimeoutError'' (''Timed out deleting Zun capsule '' @ py_str capsule_id))))
        (\<lambda>b w1. b \<and> gone z ?url w1 \<and> deleting w ?url 150 w1) (\<lambda>_. deleting w ?url 150) w1"
    proof (cases early)
      case (Inr u)
      with e few show ?thesis by (simp add: wp_ret)
    next
      case (Inl u)
      with e have "trace w1 = trace w @ [DeleteRequest ?url]" by simp
      show ?thesis
        unfolding Inl sum.case wp_bind [of "bind now f" for f]
        by (rule wp_mono [OF wait [OF \<open>trace w1 = _\<close>]]) (auto simp: wp_simps split: sum.split)
    qed
  qed (simp add: few)
qed

text \<open>C24: Deleting a capsule returns after one request to delete and at most 150 to read it, and it reports success
  only right after Zun answered that there is no such capsule.\<close>

theorem delete_capsule_confirms:
  "\<exists>r w1 tr. delete_capsule z base_url capsule_id w = Some (r, w1) \<and>
     trace w1 = trace w @ DeleteRequest (capsule_url base_url capsule_id) # tr \<and>
     set tr \<subseteq> {GetRequest (capsule_url base_url capsule_id), CapsuleSlept} \<and>
     count_list tr (GetRequest (capsule_url base_url capsule_id)) \<le> 150 \<and>
     (case r of Inr b \<Rightarrow> b \<and> gone z (capsule_url base_url capsule_id) w1 | Inl _ \<Rightarrow> True)"
proof -
  let ?url = "capsule_url base_url capsule_id"
  let ?R = "\<lambda>r w1. deleting w ?url 150 w1 \<and> (case r of Inr b \<Rightarrow> b \<and> gone z ?url w1 | Inl _ \<Rightarrow> True)"
  have "wp (delete_capsule z base_url capsule_id) (\<lambda>b. ?R (Inr b)) (\<lambda>e. ?R (Inl e)) w"
    by (rule wp_mono [OF delete_capsule_wp]) simp_all
  from wp_result [of _ ?R, OF this] obtain r w1 where
    "delete_capsule z base_url capsule_id w = Some (r, w1)" "?R r w1" by blast
  then show ?thesis unfolding deleting_def read_since_def by fastforce
qed

section \<open>Creation\<close>

text \<open>Zun has just said that the capsule is in one of these states.\<close>

definition in_state :: "'x zun \<Rightarrow> string \<Rightarrow> string list \<Rightarrow> 'x cworld \<Rightarrow> bool" where
  "in_state z url states w1 \<longleftrightarrow> (\<exists>r d. answered z (GetRequest url) (Inr r) w1 \<and>
     response_json r = Inr (PDict d) \<and> vget_or d ''status'' (PStr ''unknown'') \<in> PStr ` set states)"

lemma in_states_true: "in_states states v = Inr True \<Longrightarrow> v \<in> PStr ` set states"
  by (auto simp: in_states_def split: pyval.splits)

lemma get_field_dict: "get_field v k d = Inr a \<Longrightarrow> \<exists>e. v = PDict e \<and> a = vget_or e k d"
  by (auto simp: get_field_def split: pyval.splits)

lemma wait_round_wp:
  assumes "read_since w0 url n w"
  shows "wp (wait_round z url capsule_id states)
    (\<lambda>res w1. clock w \<le> clock w1 \<and> read_since w0 url (Suc n) w1 \<and>
       (\<forall>answer. res = Inr answer \<longrightarrow> (answer \<noteq> None \<longrightarrow> in_state z url states w1)))
    (\<lambda>_. read_since w0 url (Suc n)) w"
  unfolding wait_round_def wp_bind [of "get_capsule z url"]
  by (rule wp_mono [OF get_capsule_wp [OF assms]])
    (auto simp: wp_simps in_state_def dest!: in_states_true get_field_dict split: option.splits sum.splits)

lemma wait_for_state_wp:
  "wp (wait_for_state z base_url capsule_id states T)
     (\<lambda>answer w1. (answer \<noteq> None \<longrightarrow> in_state z (capsule_url base_url capsule_id) states w1) \<and>
        read_since w (capsule_url base_url capsule_id) (nat \<lceil>T / 2\<rceil>) w1)
     (\<lambda>_. read_since w (capsule_url base_url capsule_id) (nat \<lceil>T / 2\<rceil>)) w"
proof -
  let ?url = "capsule_url base_url capsule_id"
  have "wp (bind now (\<lambda>start. poll clock (start + T) capsule_nap (\<lambda>_. wait_round z ?url capsule_id states) (PStr ''unknown'')))
      (\<lambda>res w1. read_since w ?url (nat \<lceil>T / 2\<rceil>) w1 \<and>
         (\<forall>answer. res = Inr answer \<longrightarrow> (answer \<noteq> None \<longrightarrow> in_state z ?url states w1)))
      (\<lambda>_. read_since w ?url (nat \<lceil>T / 2\<rceil>)) w"
    by (rule poll_reads [OF wait_round_wp])
  then show ?thesis
    unfolding wait_for_state_def wp_bind [of "bind now f" for f]
    by (rule wp_mono) (auto simp: wp_simps split: sum.splits)
qed

lemma session_wp:
  "wp (session_and_base_url region z)
     (\<lambda>_ w1. \<exists>i r. trace w1 = trace w @ [Connect, GetEndpoint i r])
     (\<lambda>_ w1. \<exists>tr. trace w1 = trace w @ tr \<and> set tr \<subseteq> insert Connect {GetEndpoint i r |i r. True}) w"
  by (auto simp: session_and_base_url_def wp_simps Let_def split: prod.split sum.split)

lemma post_capsule_wp:
  "wp (post_capsule z base_url tmpl)
     (\<lambda>_ w1. trace w1 = trace w @ [PostRequest (capsules_url base_url) tmpl])
     (\<lambda>_ w1. trace w1 = trace w @ [PostRequest (capsules_url base_url) tmpl]) w"
  by (auto simp: post_capsule_def wp_simps Let_def split: prod.split sum.split option.split)

text \<open>What a creation that failed after the request has done.\<close>

definition rolled_back :: "string \<Rightarrow> pyval \<Rightarrow> capsule_event list \<Rightarrow> bool" where
  "rolled_back base_url capsule_id tr \<longleftrightarrow>
     (truthy capsule_id \<longrightarrow> DeleteRequest (capsule_url base_url capsule_id) \<in> set tr)"

lemma creation_failed_wp:
  "wp (creation_failed z base_url capsule_id e) (\<lambda>_ _. False)
     (\<lambda>err w1. (\<exists>m. err = CreationFailed m capsule_id) \<and>
        (\<exists>tr. trace w1 = trace w @ tr \<and> rolled_back base_url capsule_id tr)) w"
proof -
  have "wp (delete_capsule z base_url capsule_id)
      (\<lambda>_ w1. \<exists>tr. trace w1 = trace w @ tr \<and> rolled_back base_url capsule_id tr)
      (\<lambda>_ w1. \<exists>tr. trace w1 = trace w @ tr \<and> rolled_back base_url capsule_id tr) w"
    by (rule wp_mono [OF delete_capsule_wp]) (auto simp: deleting_def read_since_def rolled_back_def)
  note rollback = this
  show ?thesis
  proof (cases "truthy capsule_id")
    case True
    then show ?thesis
      unfolding creation_failed_def
      by (simp add: wp_try_except wp_andthen wp_ret wp_raise)
        (rule wp_mono [OF rollback]; auto)
  next
    case False
    then show ?thesis
      by (simp add: creation_failed_def wp_simps rolled_back_def)
  qed
qed

lemma await_creation_wp:
  "wp (await_creation z base_url capsule_id)
     (\<lambda>i w1. i = capsule_id \<and> truthy i \<and> in_state z (capsule_url base_url capsule_id) READY_STATES w1 \<and>
        read_since w (capsule_url base_url capsule_id) 300 w1)
     (\<lambda>_. read_since w (capsule_url base_url capsule_id) 300) w"
proof (cases "truthy capsule_id")
  case True
  have N: "nat \<lceil>CREATE_TIMEOUT / 2\<rceil> = 300" by (simp add: CREATE_TIMEOUT_def)
  from True show ?thesis
    unfolding await_creation_def
    by (simp add: wp_bind)
      (rule wp_mono [OF wait_for_state_wp [where T = CREATE_TIMEOUT, unfolded N]];
        auto simp: wp_simps split: option.splits)
qed (simp add: await_creation_def wp_simps)

definition creation_outcome ::
  "'x zun \<Rightarrow> capsule_error + pyval \<Rightarrow> capsule_event list \<Rightarrow> 'x cworld \<Rightarrow> bool" where
  "creation_outcome z r tr w1 \<longleftrightarrow>
     (\<exists>i rg base_url tmpl rest.
        tr = [Connect, GetEndpoint i rg, PostRequest (capsules_url base_url) tmpl] @ rest \<and>
        (case r of
           Inr capsule_id \<Rightarrow> truthy capsule_id \<and>
             set rest \<subseteq> {GetRequest (capsule_url base_url capsule_id), CapsuleSlept} \<and>
             in_state z (capsule_url base_url capsule_id) READY_STATES w1
         | Inl e \<Rightarrow> \<exists>m capsule_id. e = CreationFailed m capsule_id \<and> rolled_back base_url capsule_id rest))"

text \<open>The log from \<open>w\<close> on says so, or nothing was created.\<close>

definition creation_result :: "'x zun \<Rightarrow> 'x cworld \<Rightarrow> capsule_error + pyval \<Rightarrow> 'x cworld \<Rightarrow> bool" where
  "creation_result z w r w1 \<longleftrightarrow>
     (\<exists>tr. trace w1 = trace w @ tr \<and> (creation_outcome z r tr w1 \<or>
        (\<exists>e. r = Inl e) \<and> set tr \<subseteq> insert Connect {GetEndpoint i r |i r. True}))"

lemma creation_failed_result:
  assumes "trace w2 = trace w @ [Connect, GetEndpoint i rg, PostRequest (capsules_url base_url) tmpl] @ rest"
  shows "wp (creation_failed z base_url cid e) (\<lambda>i. creation_result z w (Inr i)) (\<lambda>e. creation_result z w (Inl e)) w2"
  using assms
  by - (rule wp_mono [OF creation_failed_wp]; fastforce simp: creation_result_def creation_outcome_def rolled_back_def)

lemma await_creation_result:
  assumes t: "trace w2 = trace w @ [Connect, GetEndpoint i rg, PostRequest (capsules_url base_url) tmpl]"
  shows "wp (try_except (await_creation z base_url cid) (creation_failed z base_url cid))
     (\<lambda>i. creation_result z w (Inr i)) (\<lambda>e. creation_result z w (Inl e)) w2"
  unfolding wp_try_except
proof (rule wp_mono [OF await_creation_wp])
  fix a w3 assume "a = cid \<and> truthy a \<and> in_state z (capsule_url base_url cid) READY_STATES w3 \<and>
      read_since w2 (capsule_url base_url cid) 300 w3"
  with t show "creation_result z w (Inr a) w3"
    unfolding read_since_def creation_result_def creation_outcome_def by fastforce
next
  fix e w3 assume "read_since w2 (capsule_url base_url cid) 300 w3"
  with t obtain tr where "trace w3 = trace w @ [Connect, GetEndpoint i rg, PostRequest (capsules_url base_url) tmpl] @ tr"
    unfolding read_since_def by auto
  then show "wp (creation_failed z base_url cid e) (\<lambda>i. creation_result z w (Inr i)) (\<lambda>e. creation_result z w (Inl e)) w3"
    by (rule creation_failed_result)
qed

lemma do_create_result:
  "wp (do_create region z template node) (\<lambda>i. creation_result z w (Inr i)) (\<lambda>e. creation_result z w (Inl e)) w"
  unfolding do_create_def wp_bind [of "session_and_base_url region z"]
proof (rule wp_mono [OF session_wp])
  fix base_url and w1 :: "'a cworld"
  assume "\<exists>i r. trace w1 = trace w @ [Connect, GetEndpoint i r]"
  then obtain i rg where t: "trace w1 = trace w @ [Connect, GetEndpoint i rg]" by blast
  show "wp (bind (lift_sum (make_template node template)) (\<lambda>tmpl.
      bind (try_except (bind (post_capsule z base_url tmpl) (\<lambda>i. ret (Inr i))) (\<lambda>e. ret (Inl e)))
       (\<lambda>posted. case posted of Inl e \<Rightarrow> creation_failed z base_url PNone e
         | Inr cid \<Rightarrow> try_except (await_creation z base_url cid) (creation_failed z base_url cid))))
      (\<lambda>i. creation_result z w (Inr i)) (\<lambda>e. creation_result z w (Inl e)) w1"
  proof (cases "make_template node template")
    case (Inl e)
    with t show ?thesis by (auto simp: wp_simps creation_result_def)
  next
    case (Inr tmpl)
    show ?thesis
      unfolding Inr wp_bind wp_lift_sum sum.case wp_try_except wp_ret
      by (rule wp_mono [OF post_capsule_wp])
        (use t await_creation_result [of _ w i rg _ tmpl, unfolded wp_try_except]
          creation_failed_result [of _ w i rg _ tmpl "[]"] in auto)
  qed
qed (auto simp: creation_result_def)


section \<open>Templates\<close>

definition metadata_of :: "pydict \<Rightarrow> pydict" where
  "metadata_of t = (case vget_or t ''metadata'' (PDict []) of PDict m \<Rightarrow> m | _ \<Rightarrow> [])"

definition labels_of :: "pydict \<Rightarrow> pydict" where
  "labels_of m = (case vget_or m ''labels'' (PDict []) of PDict l \<Rightarrow> l | _ \<Rightarrow> [])"

text \<open>A key that is there with a false value that is no dictionary, \<^verbatim>\<open>null\<close> for one.\<close>

definition hollow :: "pydict \<Rightarrow> string \<Rightarrow> bool" where
  "hollow d k \<longleftrightarrow> (\<exists>v. dget d k = Some v \<and> \<not> truthy v \<and> \<not> is_mapping v)"

text \<open>The template that is sent: the one of the profile with the two labels and the name of the node.\<close>

definition made_for :: "capsule_node \<Rightarrow> pydict \<Rightarrow> pydict \<Rightarrow> bool" where
  "made_for node t t1 \<longleftrightarrow>
     (\<forall>k. k \<noteq> ''metadata'' \<longrightarrow> dget t1 k = dget t k) \<and>
     (\<forall>k. k \<notin> {''labels'', ''name''} \<longrightarrow> dget (metadata_of t1) k = dget (metadata_of t) k) \<and>
     (let name = capsule_name (py_str (n_name node))
      in dget (metadata_of t1) ''name'' =
        (if name = [] then dget (metadata_of t) ''name'' else Some (PStr (take 63 name)))) \<and>
     dget (labels_of (metadata_of t1)) =
       (dget (labels_of (metadata_of t)))(''yggdrasil_senlin_cluster_id'' \<mapsto> PStr (fst (identity node)),
         ''yggdrasil_senlin_node_id'' \<mapsto> PStr (snd (identity node)))"

lemma validated_parts:
  assumes "do_validate (PDict t) = Inr ()"
  shows "vget t ''kind'' = PStr ''capsule''" and "validate_spec t = Inr ()" and "validate_metadata t = Inr ()"
  using assms by (auto simp: do_validate_def split: if_splits sum.splits)

lemma dupdate_labels:
  "dget (dupdate labels (node_labels node)) =
     (dget labels)(''yggdrasil_senlin_cluster_id'' \<mapsto> PStr (fst (identity node)),
       ''yggdrasil_senlin_node_id'' \<mapsto> PStr (snd (identity node)))"
  by (cases "identity node") (auto simp: dupdate_def node_labels_def dict_simps fun_eq_iff)

lemma made_metadata:
  assumes "make_metadata node m = Inr m1"
  shows "(\<forall>k. k \<notin> {''labels'', ''name''} \<longrightarrow> dget m1 k = dget m k) \<and>
    (let name = capsule_name (py_str (n_name node))
     in dget m1 ''name'' = (if name = [] then dget m ''name'' else Some (PStr (take 63 name)))) \<and>
    dget (labels_of m1) = (dget (labels_of m))(''yggdrasil_senlin_cluster_id'' \<mapsto> PStr (fst (identity node)),
       ''yggdrasil_senlin_node_id'' \<mapsto> PStr (snd (identity node)))"
proof -
  obtain labels where l: "vget_or m ''labels'' (PDict []) = PDict labels"
    and m1: "m1 = (if capsule_name (py_str (n_name node)) \<noteq> [] then
         dset ''name'' (PStr (take 63 (capsule_name (py_str (n_name node)))))
           (dset ''labels'' (PDict (dupdate labels (node_labels node))) m)
       else dset ''labels'' (PDict (dupdate labels (node_labels node))) m)"
    using assms by (auto simp: make_metadata_def Let_def split: pyval.splits if_splits)
  have "labels_of m = labels" by (simp add: labels_of_def l)
  moreover have "labels_of m1 = dupdate labels (node_labels node)"
    by (simp add: m1 labels_of_def vget_or_def dict_simps)
  ultimately show ?thesis by (auto simp: m1 dict_simps Let_def dupdate_labels)
qed

text \<open>A template that the profile accepts becomes the one that is sent to Zun with the user's parts kept, the
  labels of the node and of its cluster, and the node's name; this fails only for a template with
  \<^verbatim>\<open>metadata\<close> or \<^verbatim>\<open>labels\<close> that are there without a value.\<close>

theorem validated_template_made:
  assumes "do_validate (PDict t) = Inr ()"
  shows "(case make_template node (PDict t) of
       Inr v \<Rightarrow> \<exists>t1. v = PDict t1 \<and> made_for node t t1
     | Inl e \<Rightarrow> hollow t ''metadata'' \<or> hollow (metadata_of t) ''labels'')"
proof (cases "\<exists>m. vget_or t ''metadata'' (PDict []) = PDict m")
  case True
  then obtain m where PDict: "vget_or t ''metadata'' (PDict []) = PDict m" by blast
  then have m: "metadata_of t = m" by (simp add: metadata_of_def)
  show ?thesis
  proof (cases "make_metadata node m")
    case (Inr m1)
    have "metadata_of (dset ''metadata'' (PDict m1) t) = m1"
      by (simp add: metadata_of_def vget_or_def dict_simps)
    with made_metadata [OF Inr] show ?thesis
      by (simp add: make_template_def PDict Inr made_for_def m dict_simps Let_def)
  next
    case (Inl e)
    then obtain v where v: "vget_or m ''labels'' (PDict []) = v" "\<not> is_mapping v"
      by (auto simp: make_metadata_def Let_def split: pyval.splits)
    then have there: "dget m ''labels'' = Some v" by (auto simp: vget_or_def split: option.splits)
    have "\<not> truthy v"
      using validated_parts(3) [OF assms] PDict v there
      by (auto simp: validate_metadata_def field_or_else_def py_or_def vget_or_def vget_def
          split: if_splits option.splits)
    with there v(2) Inl show ?thesis
      by (auto simp: make_template_def PDict hollow_def m)
  qed
next
  case False
  then have there: "\<exists>v. dget t ''metadata'' = Some v \<and> \<not> is_mapping v"
    by (auto simp: vget_or_def is_mapping.simps split: option.splits elim: is_mapping.elims)
  then obtain v where v: "dget t ''metadata'' = Some v" "\<not> is_mapping v" by blast
  have "\<not> truthy v"
    using validated_parts(3) [OF assms] v
    by (cases v) (auto simp: validate_metadata_def field_or_else_def py_or_def vget_def split: if_splits)
  moreover obtain e where "make_template node (PDict t) = Inl e"
    using False by (cases "vget_or t ''metadata'' (PDict [])") (auto simp: make_template_def)
  ultimately show ?thesis using v by (auto simp: hollow_def)
qed

text \<open>The name that Zun gets is one of lower-case letters, digits and dashes, not too long, without a dash in front;
  the cut to 63 characters may leave one at its end.\<close>

lemma strip_prefix: "prefix (strip_by P s) (dropWhile P s)"
  unfolding strip_by_def by (metis rev_rev_ident suffix_dropWhile suffix_to_prefix)

lemma capsule_name_chars:
  assumes "c \<in> set (capsule_name s)"
  shows "is_name_char c \<or> c = CHR ''-''"
  using assms set_mono_prefix [OF strip_prefix] unfolding capsule_name_def
  by (fastforce dest: set_dropWhileD)

lemma capsule_name_front:
  assumes "capsule_name s \<noteq> []"
  shows "hd (take 63 (capsule_name s)) \<noteq> CHR ''-''"
proof -
  let ?P = "\<lambda>c. c = CHR ''-''"
  obtain t where t: "capsule_name s = strip_by ?P t" by (simp add: capsule_name_def)
  with strip_prefix [of ?P t] obtain rest where "dropWhile ?P t = capsule_name s @ rest"
    by (auto elim: prefixE)
  with assms hd_dropWhile [of ?P t] show ?thesis by (auto simp: hd_append)
qed

lemma capsule_name_cut: "last (take 63 (capsule_name (replicate 62 CHR ''a'' @ ''--b''))) = CHR ''-''"
  by code_simp

lemma hollow_metadata_fails:
  "do_validate (PDict [(''kind'', PStr ''capsule''),
       (''spec'', PDict [(''containers'', PList [PDict [(''image'', PStr ''i'')]])]), (''metadata'', PNone)]) = Inr ()"
  "make_template node (PDict [(''kind'', PStr ''capsule''),
       (''spec'', PDict [(''containers'', PList [PDict [(''image'', PStr ''i'')]])]), (''metadata'', PNone)]) =
     Inl (PyFailure ''AttributeError'' ''NoneType object has no attribute setdefault'')"
  by (code_simp, simp add: make_template_def vget_or_def attribute_missing_def)

section \<open>Looking at a capsule\<close>

text \<open>Once the connection is there, looking at a capsule raises nothing: the check of a node is true only right after
  Zun said that its capsule is running or has succeeded, and false or an error text is the answer
  otherwise; nothing is sent but one request to read it.\<close>

theorem check_and_details:
  assumes "truthy (n_physical_id node)"
    and "session_and_base_url region z w = Some (Inr base_url, w0)"
  defines "url \<equiv> capsule_url base_url (n_physical_id node)"
  shows "(\<exists>b w1. do_check region z node w = Some (Inr b, w1) \<and> trace w1 = trace w0 @ [GetRequest url] \<and>
      (b \<longrightarrow> in_state z url READY_STATES w1)) \<and>
    (\<exists>d w1. do_get_details region z node w = Some (Inr d, w1) \<and> trace w1 = trace w0 @ [GetRequest url])"
proof -
  have get: "wp (get_capsule z url) (\<lambda>answer w1. trace w1 = trace w0 @ [GetRequest url] \<and>
      (case answer of None \<Rightarrow> True | Some resp \<Rightarrow> answered z (GetRequest url) (Inr resp) w1))
      (\<lambda>_ w1. trace w1 = trace w0 @ [GetRequest url]) w0"
    unfolding get_capsule_def
    by (auto simp: wp_simps Let_def answered_def split: prod.split sum.split option.split)
  have ready: "in_state z url READY_STATES w'"
    if "answered z (GetRequest url) (Inr x) w'" "response_json x = Inr (PDict d)"
      "vget_or d ''status'' PNone \<in> PStr ` set READY_STATES" for x d w'
  proof -
    have "vget_or d ''status'' (PStr ''unknown'') \<in> PStr ` set READY_STATES"
      using that(3) by (auto simp: vget_or_def split: option.splits)
    with that(1,2) show ?thesis unfolding in_state_def by blast
  qed
  have start: "wp (session_and_base_url region z) Q E w = Q base_url w0" for Q E
    by (simp add: wp_def assms(2))
  let ?C = "\<lambda>r w1. \<exists>b. r = Inr b \<and> trace w1 = trace w0 @ [GetRequest url] \<and> (b \<longrightarrow> in_state z url READY_STATES w1)"
  have "wp (do_check region z node) (\<lambda>b. ?C (Inr b)) (\<lambda>e. ?C (Inl e)) w"
    using assms(1) unfolding do_check_def
    by (simp add: wp_bind start wp_try_except url_def [symmetric])
      (rule wp_mono [OF get]; auto simp: wp_simps intro: ready dest!: in_states_true get_field_dict
        split: option.splits sum.splits)
  moreover let ?D = "\<lambda>r w1. (\<exists>d. r = Inr d) \<and> trace w1 = trace w0 @ [GetRequest url]"
  have "wp (do_get_details region z node) (\<lambda>b. ?D (Inr b)) (\<lambda>e. ?D (Inl e)) w"
    using assms(1) unfolding do_get_details_def
    by (simp add: wp_bind start wp_try_except url_def [symmetric])
      (rule wp_mono [OF get]; auto simp: wp_simps split: option.splits sum.splits)
  ultimately show ?thesis using wp_result [of _ ?C] wp_result [of _ ?D] by blast
qed

section \<open>A capsule service\<close>

text \<open>A service that answers every request with a running capsule, until it is asked to delete it.\<close>

definition demo_response :: response where
  "demo_response = \<lparr>p_status = 200, p_empty = False,
     p_json = Inr (PDict [(''uuid'', PStr ''c1''), (''status'', PStr ''Running'')]), p_raises = None\<rparr>"

definition demo_zun :: "bool zun" where
  "demo_zun =
     \<lparr>z_connect = \<lambda>x. (Inr (PNone, PStr ''RegionOne''), 0, x),
      z_endpoint = \<lambda>_ x. (Inr (PStr ''http://zun/v1/''), 0, x),
      z_http = \<lambda>e x. case e of
         DeleteRequest _ \<Rightarrow> (Inr (demo_response\<lparr>p_status := 204, p_empty := True\<rparr>), 0, True)
       | _ \<Rightarrow> (Inr (if x then demo_response\<lparr>p_status := 404\<rparr> else demo_response), 0, x)\<rparr>"

definition demo_capsule_node :: capsule_node where
  "demo_capsule_node = \<lparr>n_name = PStr ''Node_1'', n_id = PStr ''n1'', n_cluster_id = PNone, n_physical_id = PStr ''c1''\<rparr>"

definition demo_template :: pydict where
  "demo_template = [(''kind'', PStr ''capsule''),
     (''spec'', PDict [(''containers'', PList [PDict [(''image'', PStr ''nginx'')]])]),
     (''metadata'', PDict [(''labels'', PDict [(''app'', PStr ''web'')])])]"

theorem validated_template_made_witness:
  "\<exists>t1. make_template demo_capsule_node (PDict demo_template) = Inr (PDict t1) \<and>
     dget t1 ''spec'' = dget demo_template ''spec'' \<and> dget (metadata_of t1) ''name'' = Some (PStr ''node-1'')"
proof -
  have valid: "do_validate (PDict demo_template) = Inr ()" by code_simp
  have "hollow demo_template ''metadata'' \<longleftrightarrow> False" "hollow (metadata_of demo_template) ''labels'' \<longleftrightarrow> False"
    by (simp_all add: hollow_def demo_template_def metadata_of_def vget_or_def)
  with validated_template_made [OF valid, of demo_capsule_node]
  obtain t1 where t1: "make_template demo_capsule_node (PDict demo_template) = Inr (PDict t1)"
    and made: "made_for demo_capsule_node demo_template t1" by (auto split: sum.splits)
  have name: "capsule_name (py_str (n_name demo_capsule_node)) = ''node-1''" by code_simp
  have "dget (metadata_of t1) ''name'' = Some (PStr ''node-1'')" "dget t1 ''spec'' = dget demo_template ''spec''"
    using made unfolding made_for_def name Let_def by simp_all
  with t1 show ?thesis by blast
qed

theorem check_and_details_witness:
  "\<exists>b w1. do_check ''RegionOne'' demo_zun demo_capsule_node \<lparr>clock = 0, trace = [], ext = False\<rparr> = Some (Inr b, w1) \<and>
     length (trace w1) = 3"
proof -
  let ?w = "\<lparr>clock = 0, trace = [], ext = False\<rparr> :: bool cworld"
  have "truthy (n_physical_id demo_capsule_node)" by code_simp
  moreover have "\<exists>w0. session_and_base_url ''RegionOne'' demo_zun ?w = Some (Inr ''http://zun/v1/'', w0) \<and>
      length (trace w0) = 2"
    by (simp add: session_and_base_url_def bind_def outside_call_def demo_zun_def py_or_def Let_def ret_def rstrip_by_def)
  then obtain w0 where "session_and_base_url ''RegionOne'' demo_zun ?w = Some (Inr ''http://zun/v1/'', w0)"
    and "length (trace w0) = 2" by blast
  ultimately show ?thesis
    using check_and_details [of demo_capsule_node "''RegionOne''" demo_zun ?w "''http://zun/v1/''" w0] by auto
qed

end
