(* ===== verification/CapsuleLb.thy ===== *)
theory CapsuleLb
  imports EventLog PyValue
begin

text \<open>
  The load-balancing policy for capsules, \<^verbatim>\<open>capsule_loadbalance.py\<close>: members of an Octavia pool by the address
  a capsule has on the subnet of the pool, and the reasons of failures.  Neutron, Octavia, the profile
  and Senlin's own policy are outside.  Senlin's policy calls back into the driver, so its calls are
  functions of the state of the driver and of the data of the action as well.
\<close>

section \<open>State\<close>

datatype lb_error = LbError string

fun lb_text :: "lb_error \<Rightarrow> string" where
  "lb_text (LbError m) = m"

datatype lb_event =
    Driver
  | SubnetGet string
  | GetDetails string
  | WaitReady string
  | CreateMember pyval string pyval int string
  | RemoveMember string string string
  | BaseAttach bool
  | BaseDetach
  | BasePreOp
  | BasePostOp

record subnet =
  sn_id :: string
  sn_ip_version :: int

record lb_node =
  ln_id :: string
  ln_name :: pyval

text \<open>\<open>member_errors\<close> of the driver and \<open>action.data\<close>.\<close>

record lb_state =
  member_errors :: "(string, string) dict"
  action_data :: pydict

record 'x lb_os =
  l_driver :: "('x, lb_error + unit) outside"
  l_subnet :: "string \<Rightarrow> ('x, lb_error + subnet) outside"
  l_details :: "string \<Rightarrow> ('x, lb_error + pydict) outside"
  l_ready :: "string \<Rightarrow> ('x, lb_error + bool) outside"
  l_create :: "lb_event \<Rightarrow> ('x, lb_error + pyval) outside"
  l_remove :: "lb_event \<Rightarrow> ('x, lb_error + pyval) outside"
  l_base :: "lb_event \<Rightarrow> (lb_state \<times> 'x, lb_error + pyval \<times> pyval) outside"

type_synonym 'x lworld = "(lb_event, lb_state \<times> 'x) world"
type_synonym ('x, 'a) lio = "('x lworld, lb_error, 'a) io"

definition apart :: "('x, 'r) outside \<Rightarrow> (lb_state \<times> 'x, 'r) outside" where
  "apart f = (\<lambda>(s, x). let (r, dt, x1) = f x in (r, dt, (s, x1)))"

definition get_state :: "('x, lb_state) lio" where
  "get_state w = Some (Inr (fst (ext w)), w)"

definition put_state :: "lb_state \<Rightarrow> ('x, unit) lio" where
  "put_state s w = Some (Inr (), w\<lparr>ext := (s, snd (ext w))\<rparr>)"

section \<open>The driver\<close>

text \<open>The loops of \<^verbatim>\<open>_address_for_subnet\<close>, inner and outer.\<close>

fun scan_addresses :: "string \<Rightarrow> int \<Rightarrow> pyval list \<Rightarrow> pyval option" where
  "scan_addresses subnet_id ip_version [] = None"
| "scan_addresses subnet_id ip_version (address # rest) =
     (case address of
        PDict a \<Rightarrow>
          (if py_str (vget a ''subnet_id'') \<noteq> subnet_id then scan_addresses subnet_id ip_version rest
           else if py_str (vget a ''version'') \<noteq> show_int ip_version then
             scan_addresses subnet_id ip_version rest
           else if truthy (vget a ''addr'') then Some (vget a ''addr'')
           else scan_addresses subnet_id ip_version rest)
      | _ \<Rightarrow> scan_addresses subnet_id ip_version rest)"

fun scan_networks :: "string \<Rightarrow> int \<Rightarrow> pyval list \<Rightarrow> pyval option" where
  "scan_networks subnet_id ip_version [] = None"
| "scan_networks subnet_id ip_version (addresses # rest) =
     (case addresses of
        PList xs \<Rightarrow>
          (case scan_addresses subnet_id ip_version xs of
             Some a \<Rightarrow> Some a
           | None \<Rightarrow> scan_networks subnet_id ip_version rest)
      | _ \<Rightarrow> scan_networks subnet_id ip_version rest)"

definition address_for_subnet :: "pyval \<Rightarrow> string \<Rightarrow> int \<Rightarrow> pyval option" where
  "address_for_subnet addresses subnet_id ip_version =
     (case addresses of PDict d \<Rightarrow> scan_networks subnet_id ip_version (dvalues d) | _ \<Rightarrow> None)"

text \<open>\<^verbatim>\<open>self.member_errors[key] = reason; return None\<close>.\<close>

definition record_error :: "string \<Rightarrow> string \<Rightarrow> ('x, unit) lio" where
  "record_error key reason =
     bind get_state (\<lambda>s. put_state (s\<lparr>member_errors := dset key reason (member_errors s)\<rparr>))"

definition refuse :: "string \<Rightarrow> string \<Rightarrow> ('x, pyval option) lio" where
  "refuse key reason = andthen (record_error key reason) (ret None)"

definition wait_ready :: "'x lb_os \<Rightarrow> string \<Rightarrow> ('x, bool) lio" where
  "wait_ready l lb_id = outside_call (WaitReady lb_id) (apart (l_ready l lb_id))"

text \<open>The message of the error in the details, of which \<^verbatim>\<open>get\<close> is asked.\<close>

definition details_error :: "pyval \<Rightarrow> lb_error + string" where
  "details_error v =
     (case v of
        PDict e \<Rightarrow> Inr (py_str (py_or (vget e ''message'') (PStr ''unknown error'')))
      | _ \<Rightarrow> Inl (LbError (type_name v @ '' object has no attribute get'')))"

definition create_member ::
  "'x lb_os \<Rightarrow> lb_node \<Rightarrow> string \<Rightarrow> string \<Rightarrow> int \<Rightarrow> subnet \<Rightarrow> pydict \<Rightarrow> pyval \<Rightarrow> ('x, pyval option) lio" where
  "create_member l node lb_id pool_id port sn details address =
     bind (wait_ready l lb_id) (\<lambda>ready.
       if \<not> ready then
         refuse (ln_id node) (''Load balancer '' @ lb_id @ '' is not ready for Capsule '' @ ln_id node @ ''.'')
       else
         let e = CreateMember (py_or (vget details ''name'') (ln_name node)) pool_id address port (sn_id sn)
         in bind (outside_call e (apart (l_create l e))) (\<lambda>member.
            bind (wait_ready l lb_id) (\<lambda>ready_after.
              if \<not> ready_after then
                refuse (ln_id node) (''Load balancer '' @ lb_id @
                  '' did not become ready after adding Capsule '' @ ln_id node @ ''.'')
              else ret (Some member))))"

definition add_to_pool ::
  "'x lb_os \<Rightarrow> lb_node \<Rightarrow> string \<Rightarrow> string \<Rightarrow> int \<Rightarrow> string \<Rightarrow> ('x, pyval option) lio" where
  "add_to_pool l node lb_id pool_id port subnet_name =
     bind (outside_call (SubnetGet subnet_name) (apart (l_subnet l subnet_name))) (\<lambda>sn.
     bind (outside_call (GetDetails (ln_id node)) (apart (l_details l (ln_id node)))) (\<lambda>details.
       if truthy (vget details ''Error'') then
         bind (lift_sum (details_error (vget details ''Error''))) (\<lambda>message.
           refuse (ln_id node)
             (''Failed to read Capsule '' @ ln_id node @ '' network addresses: '' @ message))
       else
         case address_for_subnet (py_or (vget details ''addresses'') (PDict [])) (sn_id sn) (sn_ip_version sn) of
           None \<Rightarrow>
             refuse (ln_id node) (''Capsule '' @ ln_id node @ '' has no address on pool subnet '' @ sn_id sn
               @ '' (IPv'' @ show_int (sn_ip_version sn) @ '').'')
         | Some address \<Rightarrow> create_member l node lb_id pool_id port sn details address))"

definition member_add ::
  "'x lb_os \<Rightarrow> lb_node \<Rightarrow> string \<Rightarrow> string \<Rightarrow> int \<Rightarrow> string \<Rightarrow> ('x, pyval option) lio" where
  "member_add l node lb_id pool_id port subnet_name =
     try_except (add_to_pool l node lb_id pool_id port subnet_name)
       (\<lambda>e. refuse (ln_id node)
          (''Failed to add Capsule '' @ ln_id node @ '' to Octavia pool '' @ pool_id @ '': '' @ lb_text e))"

definition member_remove :: "'x lb_os \<Rightarrow> string \<Rightarrow> string \<Rightarrow> string \<Rightarrow> ('x, pyval) lio" where
  "member_remove l lb_id pool_id member_id =
     (let e = RemoveMember lb_id pool_id member_id;
          failed = ''Failed to remove Octavia member '' @ member_id @ '' from pool '' @ pool_id
            @ '' on load balancer '' @ lb_id
      in bind (try_except (bind (outside_call e (apart (l_remove l e))) (\<lambda>v. ret (Inr v))) (\<lambda>err. ret (Inl err)))
        (\<lambda>result. case result of
           Inl err \<Rightarrow> andthen (record_error member_id (failed @ '': '' @ lb_text err)) (ret (PBool False))
         | Inr v \<Rightarrow>
             if v \<noteq> PBool True then andthen (record_error member_id (failed @ ''.'')) (ret v) else ret v))"

section \<open>The policy\<close>

text \<open>\<^verbatim>\<open>list(dict.fromkeys(errors.values()))\<close>: each reason once, in the order of the first.\<close>

definition distinct_reasons :: "(string, string) dict \<Rightarrow> string list" where
  "distinct_reasons errors = rev (remdups (rev (dvalues errors)))"

definition set_failure_reason :: "string \<Rightarrow> lb_state \<Rightarrow> lb_state" where
  "set_failure_reason check_error s =
     (let data = action_data s; errors = distinct_reasons (member_errors s); fallback = vget data ''reason''
      in if vget data ''status'' \<noteq> PStr check_error then s
         else if errors \<noteq> [] then s\<lparr>action_data := dset ''reason'' (PStr (join ''; '' errors)) data\<rparr>
         else if truthy fallback then s\<lparr>action_data := dset ''reason'' fallback data\<rparr>
         else s)"

text \<open>The driver, with its errors cleared, and then the method of Senlin's policy.\<close>

definition base_call :: "'x lb_os \<Rightarrow> lb_event \<Rightarrow> ('x, pyval \<times> pyval) lio" where
  "base_call l e =
     andthen (outside_call Driver (apart (l_driver l)))
       (bind get_state (\<lambda>s.
        andthen (put_state (s\<lparr>member_errors := []\<rparr>)) (outside_call e (l_base l e))))"

definition with_reasons :: "'x lb_os \<Rightarrow> lb_event \<Rightarrow> ('x, pyval \<times> pyval) lio" where
  "with_reasons l e =
     bind (base_call l e) (\<lambda>result.
     bind get_state (\<lambda>s.
       if fst result = PBool False \<and> member_errors s \<noteq> [] then
         ret (PBool False, PStr (join ''; '' (distinct_reasons (member_errors s))))
       else ret result))"

definition attach :: "'x lb_os \<Rightarrow> bool \<Rightarrow> ('x, pyval \<times> pyval) lio" where
  "attach l enabled = with_reasons l (BaseAttach enabled)"

definition detach :: "'x lb_os \<Rightarrow> ('x, pyval \<times> pyval) lio" where
  "detach l = with_reasons l BaseDetach"

definition op_with_reason :: "string \<Rightarrow> 'x lb_os \<Rightarrow> lb_event \<Rightarrow> ('x, unit) lio" where
  "op_with_reason check_error l e =
     andthen (base_call l e) (bind get_state (\<lambda>s. put_state (set_failure_reason check_error s)))"

definition pre_op :: "string \<Rightarrow> 'x lb_os \<Rightarrow> ('x, unit) lio" where
  "pre_op check_error l = op_with_reason check_error l BasePreOp"

definition post_op :: "string \<Rightarrow> 'x lb_os \<Rightarrow> ('x, unit) lio" where
  "post_op check_error l = op_with_reason check_error l BasePostOp"

section \<open>Addresses\<close>

text \<open>An address of the subnet and of the version that has a text.\<close>

definition on_subnet :: "string \<Rightarrow> int \<Rightarrow> pyval \<Rightarrow> bool" where
  "on_subnet subnet_id ip_version address \<longleftrightarrow>
     (case address of
        PDict a \<Rightarrow> py_str (vget a ''subnet_id'') = subnet_id \<and>
          py_str (vget a ''version'') = show_int ip_version \<and> truthy (vget a ''addr'')
      | _ \<Rightarrow> False)"

definition address_text :: "pyval \<Rightarrow> pyval" where
  "address_text address = (case address of PDict a \<Rightarrow> vget a ''addr'' | _ \<Rightarrow> PNone)"

definition all_addresses :: "pyval \<Rightarrow> pyval list" where
  "all_addresses addresses =
     (case addresses of
        PDict d \<Rightarrow> concat (map (\<lambda>v. case v of PList xs \<Rightarrow> xs | _ \<Rightarrow> []) (dvalues d))
      | _ \<Rightarrow> [])"

lemma scan_addresses_find:
  "scan_addresses subnet_id ip_version xs = map_option address_text (find (on_subnet subnet_id ip_version) xs)"
  by (induction xs) (auto simp: on_subnet_def address_text_def split: pyval.split)

lemma find_append: "find P (xs @ ys) = (case find P xs of Some x \<Rightarrow> Some x | None \<Rightarrow> find P ys)"
  by (induction xs) auto

lemma scan_networks_find:
  "scan_networks subnet_id ip_version vs = map_option address_text (find (on_subnet subnet_id ip_version)
     (concat (map (\<lambda>v. case v of PList xs \<Rightarrow> xs | _ \<Rightarrow> []) vs)))"
  by (induction vs) (auto simp: scan_addresses_find find_append split: pyval.split option.split)

text \<open>The search for the address of a capsule, over the networks and within each, is the first of all its
  addresses that belongs to the subnet of the pool and has its IP version and a text.\<close>

theorem address_for_subnet_first:
  "address_for_subnet addresses subnet_id ip_version =
     map_option address_text (find (on_subnet subnet_id ip_version) (all_addresses addresses))"
  by (cases addresses) (simp_all add: address_for_subnet_def all_addresses_def scan_networks_find)

section \<open>Members\<close>

lemma wp_get_state [wp_simps]: "wp get_state Q E w = Q (fst (ext w)) w"
  by (simp add: wp_def get_state_def)

lemma wp_put_state [wp_simps]: "wp (put_state s) Q E w = Q () (w\<lparr>ext := (s, snd (ext w))\<rparr>)"
  by (simp add: wp_def put_state_def)

lemma wp_apart [wp_simps]:
  "wp (outside_call e (apart f)) Q E w =
     (case f (snd (ext w)) of (r, dt, x) \<Rightarrow>
        (let w1 = w\<lparr>clock := clock w + max 0 dt, trace := trace w @ [e], ext := (fst (ext w), x)\<rparr>
         in (case r of Inl err \<Rightarrow> E err w1 | Inr a \<Rightarrow> Q a w1)))"
  by (cases "ext w") (simp add: apart_def wp_outside_call split: prod.split)

text \<open>The reason of this failure is recorded, and nothing else changes.\<close>

definition recorded :: "string \<Rightarrow> 'x lworld \<Rightarrow> 'x lworld \<Rightarrow> bool" where
  "recorded key w w1 \<longleftrightarrow> (\<exists>reason. fst (ext w1) =
     (fst (ext w))\<lparr>member_errors := dset key reason (member_errors (fst (ext w)))\<rparr>)"

lemma refuse_wp:
  "wp (refuse key reason) (\<lambda>r w1. r = None \<and> recorded key w w1 \<and> trace w1 = trace w) (\<lambda>_ _. False) w"
  by (auto simp: refuse_def record_error_def recorded_def wp_simps)

definition member_events :: "string \<Rightarrow> string \<Rightarrow> string \<Rightarrow> lb_event \<Rightarrow> lb_event list" where
  "member_events subnet_name node_id lb_id e =
     [SubnetGet subnet_name, GetDetails node_id, WaitReady lb_id, e, WaitReady lb_id]"

lemma member_events_prefix:
  "prefix [SubnetGet s] (member_events s n lb e)"
  "prefix [SubnetGet s, GetDetails n] (member_events s n lb e)"
  "prefix [SubnetGet s, GetDetails n, WaitReady lb] (member_events s n lb e)"
  "prefix [SubnetGet s, GetDetails n, WaitReady lb, e] (member_events s n lb e)"
  "prefix [SubnetGet s, GetDetails n, WaitReady lb, e, WaitReady lb] (member_events s n lb e)"
  by (simp_all add: member_events_def)

text \<open>Everything that adding a member asks for is answered well, one after the other, from the state \<open>x\<close> outside;
  \<open>e\<close> is the request to create the member.\<close>

definition addable ::
  "'x lb_os \<Rightarrow> lb_node \<Rightarrow> string \<Rightarrow> string \<Rightarrow> int \<Rightarrow> string \<Rightarrow> 'x \<Rightarrow> lb_event \<Rightarrow> pyval \<Rightarrow> bool" where
  "addable l node lb_id pool_id port subnet_name x e member \<longleftrightarrow>
     (\<exists>sn details address d1 d2 d3 d4 d5 x1 x2 x3 x4 x5.
        l_subnet l subnet_name x = (Inr sn, d1, x1) \<and> l_details l (ln_id node) x1 = (Inr details, d2, x2) \<and>
        \<not> truthy (vget details ''Error'') \<and>
        address_for_subnet (py_or (vget details ''addresses'') (PDict [])) (sn_id sn) (sn_ip_version sn) = Some address \<and>
        e = CreateMember (py_or (vget details ''name'') (ln_name node)) pool_id address port (sn_id sn) \<and>
        l_ready l lb_id x2 = (Inr True, d3, x3) \<and> l_create l e x3 = (Inr member, d4, x4) \<and>
        l_ready l lb_id x4 = (Inr True, d5, x5))"

text \<open>\<open>stopped w A w1\<close>: only the first of the requests were made, and what \<open>A\<close> asks for failed.\<close>

definition stopped :: "lb_event list \<Rightarrow> bool \<Rightarrow> 'x lworld \<Rightarrow> 'x lworld \<Rightarrow> bool" where
  "stopped es possible w w1 \<longleftrightarrow>
     \<not> possible \<and> fst (ext w1) = fst (ext w) \<and> (\<exists>tr. trace w1 = trace w @ tr \<and> prefix tr es)"

definition add_result ::
  "'x lb_os \<Rightarrow> lb_node \<Rightarrow> string \<Rightarrow> string \<Rightarrow> int \<Rightarrow> string \<Rightarrow> 'x lworld \<Rightarrow> pyval option \<Rightarrow> 'x lworld \<Rightarrow> bool" where
  "add_result l node lb_id pool_id port subnet_name w r w1 \<longleftrightarrow>
     (case r of
        None \<Rightarrow> recorded (ln_id node) w w1 \<and>
          (\<nexists>e member. addable l node lb_id pool_id port subnet_name (snd (ext w)) e member) \<and>
          (\<exists>e tr. trace w1 = trace w @ tr \<and> prefix tr (member_events subnet_name (ln_id node) lb_id e))
      | Some member \<Rightarrow> fst (ext w1) = fst (ext w) \<and>
          (\<exists>e. addable l node lb_id pool_id port subnet_name (snd (ext w)) e member \<and>
             trace w1 = trace w @ member_events subnet_name (ln_id node) lb_id e))"

text \<open>An error that stopped the addition.\<close>

definition add_error ::
  "'x lb_os \<Rightarrow> lb_node \<Rightarrow> string \<Rightarrow> string \<Rightarrow> int \<Rightarrow> string \<Rightarrow> 'x lworld \<Rightarrow> lb_error \<Rightarrow> 'x lworld \<Rightarrow> bool" where
  "add_error l node lb_id pool_id port subnet_name w err w1 \<longleftrightarrow>
     (\<exists>e. stopped (member_events subnet_name (ln_id node) lb_id e)
        (\<exists>e member. addable l node lb_id pool_id port subnet_name (snd (ext w)) e member) w w1)"

lemma refuse_stopped:
  assumes "stopped (member_events subnet_name (ln_id node) lb_id e)
     (\<exists>e member. addable l node lb_id pool_id port subnet_name (snd (ext w)) e member) w w2"
  shows "wp (refuse (ln_id node) reason) (add_result l node lb_id pool_id port subnet_name w) E w2"
proof (rule wp_mono [OF refuse_wp])
  fix r :: "pyval option" and w1 assume "r = None \<and> recorded (ln_id node) w2 w1 \<and> trace w1 = trace w2"
  with assms show "add_result l node lb_id pool_id port subnet_name w r w1"
    unfolding add_result_def stopped_def recorded_def by auto
qed simp

lemma create_member_wp:
  assumes w2: "fst (ext w2) = fst (ext w)" "trace w2 = trace w @ [SubnetGet subnet_name, GetDetails (ln_id node)]"
    and asked: "l_subnet l subnet_name (snd (ext w)) = (Inr sn, d1, x1)"
      "l_details l (ln_id node) x1 = (Inr details, d2, snd (ext w2))" "\<not> truthy (vget details ''Error'')"
      "address_for_subnet (py_or (vget details ''addresses'') (PDict [])) (sn_id sn) (sn_ip_version sn) = Some address"
  shows "wp (create_member l node lb_id pool_id port sn details address)
     (add_result l node lb_id pool_id port subnet_name w) (add_error l node lb_id pool_id port subnet_name w) w2"
proof -
  let ?e = "CreateMember (py_or (vget details ''name'') (ln_name node)) pool_id address port (sn_id sn)"
  let ?A = "\<exists>e member. addable l node lb_id pool_id port subnet_name (snd (ext w)) e member"
  let ?es = "member_events subnet_name (ln_id node) lb_id ?e"
  have possible: "addable l node lb_id pool_id port subnet_name (snd (ext w)) e member \<longleftrightarrow> e = ?e \<and>
      (\<exists>d3 d4 d5 x3 x4 x5. l_ready l lb_id (snd (ext w2)) = (Inr True, d3, x3) \<and> l_create l ?e x3 = (Inr member, d4, x4) \<and>
         l_ready l lb_id x4 = (Inr True, d5, x5))" for e member
    using asked unfolding addable_def by auto
  have stop: "add_error l node lb_id pool_id port subnet_name w err w3" if "stopped ?es ?A w w3" for err w3
    using that unfolding add_error_def by blast
  have refused: "wp (refuse (ln_id node) reason) (add_result l node lb_id pool_id port subnet_name w) E w3"
    if "stopped ?es ?A w w3" for reason E w3 using that by (rule refuse_stopped)
  have finished: "add_result l node lb_id pool_id port subnet_name w (Some member) w3"
    if "addable l node lb_id pool_id port subnet_name (snd (ext w)) ?e member" "fst (ext w3) = fst (ext w)"
      "trace w3 = trace w @ [SubnetGet subnet_name, GetDetails (ln_id node), WaitReady lb_id, ?e, WaitReady lb_id]"
    for member w3
    using that unfolding add_result_def member_events_def by auto
  show ?thesis
    unfolding create_member_def wait_ready_def Let_def
    by (auto simp del: wp_outside_call simp: w2 Let_def wp_bind wp_apart wp_ret stopped_def possible member_events_prefix
        split: prod.split sum.split intro!: refused stop finished)
qed


lemma add_to_pool_wp:
  "wp (add_to_pool l node lb_id pool_id port subnet_name)
     (add_result l node lb_id pool_id port subnet_name w) (add_error l node lb_id pool_id port subnet_name w) w"
proof -
  let ?A = "\<exists>e member. addable l node lb_id pool_id port subnet_name (snd (ext w)) e member"
  let ?es = "member_events subnet_name (ln_id node) lb_id Driver"
  have stop: "add_error l node lb_id pool_id port subnet_name w err w3" if "stopped ?es ?A w w3" for err w3
    using that unfolding add_error_def by blast
  have refused: "wp (refuse (ln_id node) reason) (add_result l node lb_id pool_id port subnet_name w) E w3"
    if "stopped ?es ?A w w3" for reason E w3 using that by (rule refuse_stopped)
  show ?thesis
    unfolding add_to_pool_def wp_bind [of "outside_call e f" for e f] wp_apart
    by (auto simp: Let_def wp_bind wp_lift_sum wp_apart stopped_def addable_def member_events_prefix simp del: wp_outside_call
        intro!: refused stop create_member_wp split: prod.split sum.split option.split)
qed

text \<open>C26: Adding a capsule to a pool raises nothing.  It gives a member exactly when the subnet and the details are
  there, the capsule has an address on the subnet of the pool, the load balancer is ready, the member is
  made and the load balancer is ready again; it is then made once, for that address, and the recorded
  errors stay as they were.  Otherwise the reason is recorded for the node.\<close>

theorem member_add_outcome:
  "\<exists>r w1. member_add l node lb_id pool_id port subnet_name w = Some (Inr r, w1) \<and>
     add_result l node lb_id pool_id port subnet_name w r w1"
proof -
  let ?R = "\<lambda>r w1. \<exists>b. r = Inr b \<and> add_result l node lb_id pool_id port subnet_name w b w1"
  have "wp (member_add l node lb_id pool_id port subnet_name) (\<lambda>a. ?R (Inr a)) (\<lambda>e. ?R (Inl e)) w"
    unfolding member_add_def wp_try_except
  proof (rule wp_mono [OF add_to_pool_wp])
    fix err w1 assume "add_error l node lb_id pool_id port subnet_name w err w1"
    then obtain e where "stopped (member_events subnet_name (ln_id node) lb_id e)
        (\<exists>e member. addable l node lb_id pool_id port subnet_name (snd (ext w)) e member) w w1"
      unfolding add_error_def by blast
    from refuse_stopped [OF this] show "wp (refuse (ln_id node)
        (''Failed to add Capsule '' @ ln_id node @ '' to Octavia pool '' @ pool_id @ '': '' @ lb_text err))
        (\<lambda>a. ?R (Inr a)) (\<lambda>e. ?R (Inl e)) w1"
      by (rule wp_mono) auto
  qed auto
  from wp_result [of _ ?R, OF this] show ?thesis by blast
qed

section \<open>Reasons\<close>

text \<open>What the caller sees of a run: its value, the data of the action, the log and the time.\<close>

definition seen :: "((lb_error + 'a) \<times> 'x lworld) option \<Rightarrow> ((lb_error + 'a) \<times> pydict \<times> lb_event list \<times> real) option" where
  "seen = map_option (\<lambda>(r, w1). (r, action_data (fst (ext w1)), trace w1, clock w1))"

definition forget :: "'x lworld \<Rightarrow> 'x lworld" where
  "forget w = w\<lparr>ext := ((fst (ext w))\<lparr>member_errors := []\<rparr>, snd (ext w))\<rparr>"

lemma base_call_forgets:
  "base_call l e w = base_call l e (forget w) \<or>
    (\<exists>err w1. base_call l e w = Some (Inl err, w1) \<and> base_call l e (forget w) = Some (Inl err, forget w1))"
  by (auto simp: base_call_def andthen_def bind_def get_state_def put_state_def outside_call_def apart_def forget_def Let_def
      split: prod.split sum.split)

lemma after_base_call: "seen (bind (base_call l e) f w) = seen (bind (base_call l e) f (forget w))"
  using base_call_forgets [of l e w] by (auto simp: bind_def seen_def forget_def)

text \<open>C27: The reasons that a failed attachment, detachment or check reports are those of this run: whatever errors
  the driver had collected before, the result, the data of the action and the requests are the same.\<close>

theorem reasons_are_fresh:
  "seen (attach l enabled w) = seen (attach l enabled (forget w)) \<and>
   seen (detach l w) = seen (detach l (forget w)) \<and>
   seen (pre_op check_error l w) = seen (pre_op check_error l (forget w)) \<and>
   seen (post_op check_error l w) = seen (post_op check_error l (forget w))"
  unfolding attach_def detach_def pre_op_def post_op_def with_reasons_def op_with_reason_def andthen_def [of "base_call l e" for e]
  by (intro conjI after_base_call)

end
