(* ===== verification/PyRegex.thy ===== *)
theory PyRegex
  imports PyText
begin

text \<open>
  The regular expressions of Python's \<^verbatim>\<open>re\<close> that the programs use, in multi-line mode: sequences of items, of
  which only single-character classes are repeated.  The matcher backtracks in the order of \<^verbatim>\<open>re\<close>, so
  greedy, lazy and optional items take what they take there.
\<close>

section \<open>Matching\<close>

datatype item =
    One "char \<Rightarrow> bool"
  | Many "char \<Rightarrow> bool"
  | Few "char \<Rightarrow> bool"
  | Maybe "item list"
  | Open nat
  | Close nat
  | Same nat
  | LineStart
  | LineEnd

text \<open>A group is the text from its start, as long as it is open, and its text once it is closed.\<close>

type_synonym groups = "(nat \<times> string) list"

definition group_text :: "groups \<Rightarrow> nat \<Rightarrow> string" where
  "group_text gs n = (case map_of gs n of Some s \<Rightarrow> s | None \<Rightarrow> [])"

definition at_line_start :: "char option \<Rightarrow> bool" where
  "at_line_start previous \<longleftrightarrow> previous = None \<or> previous = Some CHR 0x0A"

definition at_line_end :: "string \<Rightarrow> bool" where
  "at_line_end s \<longleftrightarrow> s = [] \<or> hd s = CHR 0x0A"

definition last_of :: "char option \<Rightarrow> string \<Rightarrow> char option" where
  "last_of previous s = (if s = [] then previous else Some (last s))"

fun item_size :: "item \<Rightarrow> nat" and items_size :: "item list \<Rightarrow> nat" where
  "item_size (Maybe items) = Suc (items_size items)"
| "item_size _ = 1"
| "items_size [] = 0"
| "items_size (i # items) = item_size i + items_size items"

lemma items_size_append [simp]: "items_size (xs @ ys) = items_size xs + items_size ys"
  by (induction xs) simp_all

text \<open>\<open>match_items items previous s gs\<close> matches at the front of \<open>s\<close>, after the character \<open>previous\<close>, and gives
  the rest and the groups.\<close>

function match_items :: "item list \<Rightarrow> char option \<Rightarrow> string \<Rightarrow> groups \<Rightarrow> (string \<times> groups) option" where
  "match_items [] previous s gs = Some (s, gs)"
| "match_items (One P # items) previous [] gs = None"
| "match_items (One P # items) previous (c # cs) gs =
     (if P c then match_items items (Some c) cs gs else None)"
| "match_items (Many P # items) previous [] gs = match_items items previous [] gs"
| "match_items (Many P # items) previous (c # cs) gs =
     (case (if P c then match_items (Many P # items) (Some c) cs gs else None) of
        Some m \<Rightarrow> Some m
      | None \<Rightarrow> match_items items previous (c # cs) gs)"
| "match_items (Few P # items) previous [] gs = match_items items previous [] gs"
| "match_items (Few P # items) previous (c # cs) gs =
     (case match_items items previous (c # cs) gs of
        Some m \<Rightarrow> Some m
      | None \<Rightarrow> if P c then match_items (Few P # items) (Some c) cs gs else None)"
| "match_items (Maybe inner # items) previous s gs =
     (case match_items (inner @ items) previous s gs of
        Some m \<Rightarrow> Some m
      | None \<Rightarrow> match_items items previous s gs)"
| "match_items (Open n # items) previous s gs = match_items items previous s ((n, s) # gs)"
| "match_items (Close n # items) previous s gs =
     match_items items previous s
       ((n, take (length (group_text gs n) - length s) (group_text gs n)) # gs)"
| "match_items (Same n # items) previous s gs =
     (let t = group_text gs n
      in if prefix t s then match_items items (last_of previous t) (drop (length t) s) gs else None)"
| "match_items (LineStart # items) previous s gs =
     (if at_line_start previous then match_items items previous s gs else None)"
| "match_items (LineEnd # items) previous s gs =
     (if at_line_end s then match_items items previous s gs else None)"
  by pat_completeness auto
termination
  by (relation "measures [\<lambda>(items, _, s, _). items_size items, \<lambda>(_, _, s, _). length s]") auto

text \<open>\<^verbatim>\<open>re.search\<close>: the text before the match, the matched text, the text after and the groups.\<close>

record found =
  f_before :: string
  f_text :: string
  f_after :: string
  f_groups :: groups

definition found_at :: "string \<Rightarrow> string \<Rightarrow> string \<times> groups \<Rightarrow> found" where
  "found_at seen s m =
     \<lparr>f_before = rev seen, f_text = take (length s - length (fst m)) s, f_after = fst m, f_groups = snd m\<rparr>"

fun search_from :: "item list \<Rightarrow> string \<Rightarrow> char option \<Rightarrow> string \<Rightarrow> found option" where
  "search_from items seen previous [] = map_option (found_at seen []) (match_items items previous [] [])"
| "search_from items seen previous (c # cs) =
     (case match_items items previous (c # cs) [] of
        Some m \<Rightarrow> Some (found_at seen (c # cs) m)
      | None \<Rightarrow> search_from items (c # seen) (Some c) cs)"

definition re_search :: "item list \<Rightarrow> string \<Rightarrow> found option" where
  "re_search items s = search_from items [] None s"

text \<open>A literal text.\<close>

definition lits :: "string \<Rightarrow> item list" where
  "lits s = map (\<lambda>c. One (\<lambda>d. d = c)) s"

abbreviation (input) not_newline :: "char \<Rightarrow> bool" where
  "not_newline c \<equiv> c \<noteq> CHR 0x0A"

abbreviation (input) blank :: "char \<Rightarrow> bool" where
  "blank c \<equiv> c = CHR '' '' \<or> c = CHR 0x09"

section \<open>A match is part of the text\<close>

lemma match_items_suffix: "match_items items previous s gs = Some (rest, gs1) \<Longrightarrow> suffix rest s"
proof (induction items previous s gs arbitrary: rest gs1 rule: match_items.induct)
  case (11 n items previous s gs)
  then have "suffix rest (drop (length (group_text gs n)) s)" by (simp add: Let_def split: if_splits)
  then show ?case using suffix_drop suffix_order.trans by blast
qed (auto simp: suffix_Cons split: option.splits if_splits)

lemma found_at_parts:
  assumes "match_items items previous s [] = Some m"
  shows "rev seen @ s = f_before (found_at seen s m) @ f_text (found_at seen s m) @ f_after (found_at seen s m)"
proof -
  obtain rest gs where m: "m = (rest, gs)" by (cases m)
  with assms match_items_suffix obtain t where "s = t @ rest" unfolding suffix_def by metis
  with m show ?thesis by (simp add: found_at_def)
qed

lemma search_from_parts:
  "search_from items seen previous s = Some f \<Longrightarrow> rev seen @ s = f_before f @ f_text f @ f_after f"
proof (induction items seen previous s rule: search_from.induct)
  case (1 items seen previous)
  then show ?case by (auto dest!: found_at_parts [of items previous _ _ seen])
next
  case (2 items seen previous c cs)
  then show ?case
    by (auto split: option.splits dest!: found_at_parts [of items previous _ _ seen])
qed

lemma re_search_parts: "re_search items s = Some f \<Longrightarrow> s = f_before f @ f_text f @ f_after f"
  using search_from_parts [of items "[]"] by (simp add: re_search_def)

end
