(* ===== verification/Containerd.thy ===== *)
theory Containerd
  imports PyRegex PyValue EventLog
begin

text \<open>
  \<^verbatim>\<open>configure_containerd_cri.py\<close>: enabling the CRI plugins of containerd and registering Kata in its
  configuration file, which is replaced as a whole after containerd has accepted the new text.  The
  processes, the files and the clock are outside, and so is \<^verbatim>\<open>ast.literal_eval\<close>, of which any result is
  allowed.  Files in the directory of the configuration are named without it.
\<close>

section \<open>The configuration text\<close>

datatype ctd_error = CtdError string string

definition CRI_PLUGIN_IDS :: "string list" where
  "CRI_PLUGIN_IDS = [''cri'', ''io.containerd.grpc.v1.cri'', ''io.containerd.cri.v1.images'',
     ''io.containerd.cri.v1.runtime'']"

definition runtime_error :: "string \<Rightarrow> ctd_error" where
  "runtime_error m = CtdError ''RuntimeError'' m"

definition spaces :: item where "spaces = Many is_space"

definition quote_char :: "char \<Rightarrow> bool" where
  "quote_char c \<longleftrightarrow> c = CHR 0x22 \<or> c = CHR 0x27"

text \<open>\<^verbatim>\<open>\s*(?:#.*)?$\<close>.\<close>

definition line_rest :: "item list" where
  "line_rest = [spaces, Maybe (lits ''#'' @ [Many not_newline]), LineEnd]"

definition disabled_pattern :: "item list" where
  "disabled_pattern =
     [LineStart] @ lits ''disabled_plugins'' @ [spaces] @ lits ''='' @ [spaces, Open 1] @ lits ''['' @
     [Many not_newline] @ lits '']'' @ [Close 1] @ line_rest"

definition version_pattern :: "item list" where
  "version_pattern =
     [LineStart] @ lits ''version'' @ [spaces] @ lits ''='' @
     [spaces, Open 1, One is_digit, Many is_digit, Close 1, spaces, LineEnd]"

definition section_pattern :: "string \<Rightarrow> item list" where
  "section_pattern plugin_id =
     [LineStart, Many blank] @ lits ''[plugins.'' @ [Maybe [One quote_char]] @ lits plugin_id @
     [Maybe [One quote_char]] @ lits ''.containerd.runtimes.kata]'' @ [spaces, LineEnd]"

definition next_section_pattern :: "item list" where
  "next_section_pattern = [LineStart, Many blank] @ lits ''[''"

definition runtime_pattern :: "item list" where
  "runtime_pattern =
     [LineStart, Many blank] @ lits ''runtime_type'' @ [spaces] @ lits ''='' @
     [spaces, Open 1, One quote_char, Close 1, Open 2, Few not_newline, Close 2, Same 1] @ line_rest"

text \<open>The strings of a Python value that is a list of strings.\<close>

definition string_of :: "pyval \<Rightarrow> string option" where
  "string_of v = (case v of PStr s \<Rightarrow> Some s | _ \<Rightarrow> None)"

definition string_list :: "pyval \<Rightarrow> string list option" where
  "string_list v =
     (case v of
        PList vs \<Rightarrow> if list_all (\<lambda>v. string_of v \<noteq> None) vs then Some (map (the \<circ> string_of) vs) else None
      | _ \<Rightarrow> None)"

definition enabled_plugins :: "string list \<Rightarrow> string list" where
  "enabled_plugins disabled = filter (\<lambda>plugin. plugin \<notin> set CRI_PLUGIN_IDS) disabled"

definition disabled_line :: "string list \<Rightarrow> string" where
  "disabled_line plugins = ''disabled_plugins = '' @ py_repr (PList (map PStr plugins))"

text \<open>The text with the CRI plugins enabled.\<close>

definition enable_cri :: "(string \<Rightarrow> ctd_error + pyval) \<Rightarrow> string \<Rightarrow> ctd_error + string" where
  "enable_cri literal_eval configuration =
     (case re_search disabled_pattern configuration of
        None \<Rightarrow> Inl (runtime_error ''migrated containerd config has no disabled_plugins array'')
      | Some f \<Rightarrow>
          (case literal_eval (group_text (f_groups f) 1) of
             Inl (CtdError cl m) \<Rightarrow>
               if cl = ''SyntaxError'' \<or> cl = ''ValueError'' then
                 Inl (runtime_error ''cannot parse containerd disabled_plugins array'')
               else Inl (CtdError cl m)
           | Inr v \<Rightarrow>
               (case string_list v of
                  None \<Rightarrow> Inl (runtime_error ''containerd disabled_plugins must be an array of strings'')
                | Some disabled \<Rightarrow> Inr (f_before f @ disabled_line (enabled_plugins disabled) @ f_after f))))"

definition runtime_plugin :: "string \<Rightarrow> ctd_error + string" where
  "runtime_plugin configuration =
     (case re_search version_pattern configuration of
        None \<Rightarrow> Inl (runtime_error ''migrated containerd config has no version header'')
      | Some f \<Rightarrow>
          Inr (if 3 \<le> read_nat (group_text (f_groups f) 1) then ''io.containerd.cri.v1.runtime''
               else ''io.containerd.grpc.v1.cri''))"

text \<open>The second match of \<^verbatim>\<open>finditer\<close>, after a first one that is not empty.\<close>

definition next_match :: "item list \<Rightarrow> found \<Rightarrow> found option" where
  "next_match items f = search_from items [] (last_of None (f_before f @ f_text f)) (f_after f)"

definition section_body :: "string \<Rightarrow> string" where
  "section_body rest = (case re_search next_section_pattern rest of Some f \<Rightarrow> f_before f | None \<Rightarrow> rest)"

definition kata_runtime :: string where "kata_runtime = ''io.containerd.kata.v2''"

definition uses_kata :: "string \<Rightarrow> bool" where
  "uses_kata body \<longleftrightarrow>
     (case re_search runtime_pattern body of
        None \<Rightarrow> False
      | Some f \<Rightarrow> group_text (f_groups f) 2 = kata_runtime)"

definition kata_section :: "string \<Rightarrow> string" where
  "kata_section plugin_id =
     ''[plugins.'' @ [CHR 0x27] @ plugin_id @ [CHR 0x27] @ ''.containerd.runtimes.kata]'' @ [CHR 0x0A] @
     ''  runtime_type = '' @ [CHR 0x27] @ kata_runtime @ [CHR 0x27, CHR 0x0A]"

definition add_kata :: "string \<Rightarrow> string \<Rightarrow> ctd_error + string" where
  "add_kata plugin_id configuration =
     (case re_search (section_pattern plugin_id) configuration of
        None \<Rightarrow>
          Inr (configuration @
            (if suffix [CHR 0x0A, CHR 0x0A] configuration then [] else [CHR 0x0A]) @ kata_section plugin_id)
      | Some f \<Rightarrow>
          if next_match (section_pattern plugin_id) f \<noteq> None then
            Inl (runtime_error ''containerd config has multiple Kata runtime handler sections'')
          else if \<not> uses_kata (section_body (f_after f)) then
            Inl (runtime_error ''containerd Kata handler exists but does not use io.containerd.kata.v2'')
          else Inr configuration)"

definition configure_cri :: "(string \<Rightarrow> ctd_error + pyval) \<Rightarrow> string \<Rightarrow> ctd_error + string" where
  "configure_cri literal_eval configuration =
     (case enable_cri literal_eval configuration of
        Inl e \<Rightarrow> Inl e
      | Inr enabled \<Rightarrow>
          (case runtime_plugin enabled of
             Inl e \<Rightarrow> Inl e
           | Inr plugin_id \<Rightarrow> add_kata plugin_id enabled))"

section \<open>Files and processes\<close>

record file_stat =
  st_mode :: nat
  st_uid :: int
  st_gid :: int
  st_mtime_ns :: int

datatype ctd_event =
    IsConfig
  | IsBinary
  | MigrateConfig
  | TempFile string string
  | MigrateTemp string
  | DumpTemp string
  | ChmodFile string nat
  | ChownFile string int int
  | UnlinkTemp string
  | ReadConfig
  | StatConfig
  | Timestamp
  | CopyConfig string
  | ReplaceConfig string
  | OpenDirectory
  | SyncDirectory
  | CloseDirectory
  | ShowMainPid
  | ReadProcess int
  | ReadBoot
  | ClockTicks
  | Printed string

record 'x ctd_os =
  o_do :: "ctd_event \<Rightarrow> ('x, ctd_error + unit) outside"
  o_text :: "ctd_event \<Rightarrow> ('x, ctd_error + string) outside"
  o_bool :: "ctd_event \<Rightarrow> ('x, ctd_error + bool) outside"
  o_stat :: "ctd_event \<Rightarrow> ('x, ctd_error + file_stat) outside"
  o_ticks :: "('x, ctd_error + int) outside"

type_synonym 'x ctworld = "(ctd_event, 'x) world"
type_synonym ('x, 'a) ctio = "('x ctworld, ctd_error, 'a) io"

definition ctd_do :: "'x ctd_os \<Rightarrow> ctd_event \<Rightarrow> ('x, unit) ctio" where
  "ctd_do os e = outside_call e (o_do os e)"

definition ctd_text :: "'x ctd_os \<Rightarrow> ctd_event \<Rightarrow> ('x, string) ctio" where
  "ctd_text os e = outside_call e (o_text os e)"

definition ctd_bool :: "'x ctd_os \<Rightarrow> ctd_event \<Rightarrow> ('x, bool) ctio" where
  "ctd_bool os e = outside_call e (o_bool os e)"

definition nonempty_output :: "string \<Rightarrow> ('x, string) ctio" where
  "nonempty_output out =
     (if strip out = [] then raise_exn (runtime_error ''containerd config migrate returned an empty configuration'')
      else ret out)"

definition migrate_configuration :: "'x ctd_os \<Rightarrow> ('x, string) ctio" where
  "migrate_configuration os = bind (ctd_text os MigrateConfig) nonempty_output"

definition normalize_configuration :: "'x ctd_os \<Rightarrow> string \<Rightarrow> ('x, string) ctio" where
  "normalize_configuration os configuration =
     bind (ctd_text os (TempFile ''.containerd-config-'' configuration)) (\<lambda>temporary_path.
       try_finally (bind (ctd_text os (MigrateTemp temporary_path)) nonempty_output)
         (ctd_do os (UnlinkTemp temporary_path)))"

definition validate_configuration :: "'x ctd_os \<Rightarrow> string \<Rightarrow> ('x, unit) ctio" where
  "validate_configuration os configuration =
     bind (ctd_text os (TempFile ''.containerd-config-'' configuration)) (\<lambda>temporary_path.
       try_finally
         (andthen (ctd_do os (ChmodFile temporary_path 384)) (ctd_do os (DumpTemp temporary_path)))
         (ctd_do os (UnlinkTemp temporary_path)))"

text \<open>\<open>384\<close> is \<^verbatim>\<open>0o600\<close>; the mode bits are those of \<^verbatim>\<open>0o777\<close>.\<close>

definition install_configuration :: "'x ctd_os \<Rightarrow> string \<Rightarrow> string \<Rightarrow> ('x, unit) ctio" where
  "install_configuration os name configuration =
     bind (ctd_text os ReadConfig) (\<lambda>current.
       if current = configuration then ctd_do os (Printed ''unchanged'')
       else
         bind (outside_call StatConfig (o_stat os StatConfig)) (\<lambda>stat_result.
         bind (ctd_text os Timestamp) (\<lambda>timestamp.
           let backup_path = name @ ''.pre-zun-cri.'' @ timestamp
           in andthen (ctd_do os (CopyConfig backup_path))
             (andthen (ctd_do os (ChmodFile backup_path 384))
               (bind (ctd_text os (TempFile (''.'' @ name @ ''.'') configuration)) (\<lambda>temporary_path.
                 andthen
                   (try_finally
                     (andthen (ctd_do os (ChmodFile temporary_path (st_mode stat_result mod 512)))
                       (andthen (ctd_do os (ChownFile temporary_path (st_uid stat_result) (st_gid stat_result)))
                         (andthen (ctd_do os (ReplaceConfig temporary_path))
                           (andthen (ctd_do os OpenDirectory)
                             (try_finally (ctd_do os SyncDirectory) (ctd_do os CloseDirectory))))))
                     (ctd_do os (UnlinkTemp temporary_path)))
                   (ctd_do os (Printed ''changed''))))))))"

section \<open>Does the daemon run with the file\<close>

definition caught_value :: "string \<Rightarrow> ctd_error + int" where
  "caught_value s =
     (case read_int s of Some i \<Rightarrow> Inr i | None \<Rightarrow> Inl (CtdError ''ValueError'' (''invalid literal for int(): '' @ s)))"

definition index_error :: ctd_error where
  "index_error = CtdError ''IndexError'' ''list index out of range''"

text \<open>\<^verbatim>\<open>text.split()\<close>.\<close>

fun words_from :: "string \<Rightarrow> string \<Rightarrow> string list" where
  "words_from word [] = (if word = [] then [] else [rev word])"
| "words_from word (c # cs) =
     (if is_space c then (if word = [] then [] else [rev word]) @ words_from [] cs
      else words_from (c # word) cs)"

definition words_of :: "string \<Rightarrow> string list" where
  "words_of = words_from []"

definition nth_or :: "'a list \<Rightarrow> nat \<Rightarrow> ctd_error + 'a" where
  "nth_or xs n = (if n < length xs then Inr (xs ! n) else Inl index_error)"

text \<open>\<^verbatim>\<open>rsplit(")", 1)[1]\<close>.\<close>

definition after_paren :: "string \<Rightarrow> ctd_error + string" where
  "after_paren s =
     (if CHR '')'' \<in> set s then Inr (rev (takeWhile (\<lambda>c. c \<noteq> CHR '')'') (rev s))) else Inl index_error)"

definition boot_line :: "string list \<Rightarrow> ctd_error + string" where
  "boot_line ls =
     (case find (prefix ''btime '') ls of
        Some l \<Rightarrow> Inr l
      | None \<Rightarrow> Inl (CtdError ''StopIteration'' []))"

text \<open>\<^verbatim>\<open>int\<close> of a number of nanoseconds, which is a real number here: the rounding of floats, some hundred
  nanoseconds, is not modelled.  The number of clock ticks in a second is never zero.\<close>

definition started_ns :: "int \<Rightarrow> int \<Rightarrow> int \<Rightarrow> int" where
  "started_ns boot_time start_ticks hertz =
     (let x = (real_of_int boot_time + real_of_int start_ticks / real_of_int hertz) * 1000000000
      in if 0 \<le> x then \<lfloor>x\<rfloor> else \<lceil>x\<rceil>)"

definition process_started :: "'x ctd_os \<Rightarrow> int \<Rightarrow> ('x, int) ctio" where
  "process_started os pid =
     bind (ctd_text os (ReadProcess pid)) (\<lambda>stat.
     bind (lift_sum (after_paren stat)) (\<lambda>fields.
     bind (lift_sum (nth_or (words_of fields) 19)) (\<lambda>field.
     bind (lift_sum (caught_value field)) (\<lambda>start_ticks.
     bind (ctd_text os ReadBoot) (\<lambda>boot.
     bind (lift_sum (boot_line (splitlines boot))) (\<lambda>line.
     bind (lift_sum (nth_or (words_of line) 1)) (\<lambda>word.
     bind (lift_sum (caught_value word)) (\<lambda>boot_time.
     bind (outside_call ClockTicks (o_ticks os)) (\<lambda>hertz.
       ret (started_ns boot_time start_ticks hertz))))))))))"

definition containerd_needs_restart :: "'x ctd_os \<Rightarrow> ('x, bool) ctio" where
  "containerd_needs_restart os =
     bind (ctd_text os ShowMainPid) (\<lambda>out.
     bind (try_except
        (bind (lift_sum (caught_value (strip out))) (\<lambda>pid.
           if pid \<le> 0 then ret None
           else bind (process_started os pid) (\<lambda>ns. ret (Some ns))))
        (\<lambda>e. case e of CtdError cl m \<Rightarrow>
           if cl \<in> {''OSError'', ''StopIteration'', ''ValueError'', ''IndexError''} then ret None
           else raise_exn e))
       (\<lambda>started. case started of
          None \<Rightarrow> ret True
        | Some ns \<Rightarrow>
            bind (outside_call StatConfig (o_stat os StatConfig)) (\<lambda>s. ret (ns < st_mtime_ns s))))"

section \<open>The program\<close>

record ctd_args =
  a_config :: string
  a_config_name :: string
  a_containerd :: string
  a_check_runtime_load :: bool

text \<open>\<^verbatim>\<open>main\<close> from the last reading of the file on, from the configured text on, and as a whole.\<close>

definition install_or_restart :: "'x ctd_os \<Rightarrow> ctd_args \<Rightarrow> string \<Rightarrow> ('x, unit) ctio" where
  "install_or_restart os args configured =
     bind (ctd_text os ReadConfig) (\<lambda>current.
     bind (if current = configured \<and> a_check_runtime_load args then containerd_needs_restart os else ret False)
       (\<lambda>restart. if restart then ctd_do os (Printed ''changed'')
          else install_configuration os (a_config_name args) configured))"

definition check_and_install :: "'x ctd_os \<Rightarrow> ctd_args \<Rightarrow> string \<Rightarrow> ('x, unit) ctio" where
  "check_and_install os args configuration =
     bind (normalize_configuration os configuration) (\<lambda>configured.
       andthen (validate_configuration os configured) (install_or_restart os args configured))"

definition main :: "(string \<Rightarrow> ctd_error + pyval) \<Rightarrow> 'x ctd_os \<Rightarrow> ctd_args \<Rightarrow> ('x, unit) ctio" where
  "main literal_eval os args =
     bind (ctd_bool os IsConfig) (\<lambda>config_there.
       if \<not> config_there then
         raise_exn (runtime_error (''containerd config does not exist: '' @ a_config args))
       else bind (ctd_bool os IsBinary) (\<lambda>binary_there.
         if \<not> binary_there then
           raise_exn (runtime_error (''containerd binary does not exist: '' @ a_containerd args))
         else
           bind (migrate_configuration os) (\<lambda>migrated.
           bind (lift_sum (configure_cri literal_eval migrated)) (check_and_install os args))))"

end
