(* ===== verification/ContainerdOps.thy ===== *)
theory ContainerdOps
  imports Containerd
begin

text \<open>What \<^verbatim>\<open>src/scripts/devices/configure_containerd_cri.py\<close> does to the configuration: the text it makes of an
  accepted configuration, and the order in which files are written, checked and replaced in a run.\<close>

section \<open>What the text becomes\<close>

definition no_cri :: "string list \<Rightarrow> bool" where
  "no_cri plugins \<longleftrightarrow> set plugins \<inter> set CRI_PLUGIN_IDS = {}"

lemma enabled_no_cri: "no_cri (enabled_plugins disabled)"
  by (auto simp: no_cri_def enabled_plugins_def)


text \<open>The pattern of the line of the disabled plugins also takes blank lines and a comment below it, which are lost.\<close>

lemma comment_lost:
  "map_sum id (take 24) (enable_cri (\<lambda>_. Inr (PList [])) (''disabled_plugins = []'' @ [CHR 0x0A] @ ''# keep'' @ [CHR 0x0A] @ ''version = 2''))
    = Inr (''disabled_plugins = []'' @ [CHR 0x0A] @ ''ve'')"
  by code_simp

section \<open>Files\<close>

lemma sends_ctd [sends_intros]:
  "(\<And>a. Q a [e]) \<Longrightarrow> (\<And>err. E err [e]) \<Longrightarrow> sends (ctd_do os e) Q E"
  "(\<And>a. Q' a [e]) \<Longrightarrow> (\<And>err. E err [e]) \<Longrightarrow> sends (ctd_text os e) Q' E"
  "(\<And>a. Q'' a [e]) \<Longrightarrow> (\<And>err. E err [e]) \<Longrightarrow> sends (ctd_bool os e) Q'' E"
  by (simp_all add: ctd_do_def ctd_text_def ctd_bool_def sends_outside_call)

lemma sends_nonempty [sends_intros]: "Q out [] \<Longrightarrow> (\<And>e. E e []) \<Longrightarrow> sends (nonempty_output out) Q E"
  by (simp add: nonempty_output_def sends_intros)

definition is_temp :: "ctd_event \<Rightarrow> bool" where
  "is_temp e \<longleftrightarrow> (\<exists>p c. e = TempFile p c)"

definition is_unlink :: "ctd_event \<Rightarrow> bool" where
  "is_unlink e \<longleftrightarrow> (\<exists>p. e = UnlinkTemp p)"

text \<open>How many temporary files may be left.\<close>

definition left_over :: "ctd_event list \<Rightarrow> int" where
  "left_over tr = int (length (filter is_temp tr)) - int (length (filter is_unlink tr))"

lemma left_over_simps [simp]:
  "left_over [] = 0" "left_over (xs @ ys) = left_over xs + left_over ys"
  "left_over (e # tr) = (if is_temp e then 1 else 0) - (if is_unlink e then 1 else 0) + left_over tr"
  by (simp_all add: left_over_def)

lemma is_temp_simps [simp]:
  "is_temp (TempFile p c)" "is_unlink (UnlinkTemp p)" "\<not> is_unlink (TempFile p c)" "\<not> is_temp (UnlinkTemp p)"
  "\<not> is_temp (MigrateTemp p)" "\<not> is_unlink (MigrateTemp p)" "\<not> is_temp (DumpTemp p)" "\<not> is_unlink (DumpTemp p)"
  by (simp_all add: is_temp_def is_unlink_def)

text \<open>No replacement of the configuration.\<close>

definition no_replace :: "ctd_event list \<Rightarrow> bool" where
  "no_replace tr \<longleftrightarrow> (\<forall>p. ReplaceConfig p \<notin> set tr)"

lemma normalize_sends:
  "sends (normalize_configuration os c) (\<lambda>_ tr. no_replace tr \<and> left_over tr = 0)
     (\<lambda>_ tr. no_replace tr \<and> left_over tr \<le> 1)"
  unfolding normalize_configuration_def
  by (intro sends_seq sends_intros) (auto simp: no_replace_def)

definition validated :: "string \<Rightarrow> ctd_event list \<Rightarrow> bool" where
  "validated c tr \<longleftrightarrow> (\<exists>q. tr = [TempFile ''.containerd-config-'' c, ChmodFile q 384, DumpTemp q, UnlinkTemp q])"

lemma validate_sends:
  "sends (validate_configuration os c) (\<lambda>_. validated c) (\<lambda>_ tr. no_replace tr \<and> left_over tr \<le> 1)"
  unfolding validate_configuration_def
  by (intro sends_seq sends_intros) (auto simp: no_replace_def validated_def is_temp_def is_unlink_def)

text \<open>The file is replaced at most once, by a file with the text \<open>c\<close>, after a copy of it was made.\<close>

definition installed :: "string \<Rightarrow> string \<Rightarrow> ctd_event list \<Rightarrow> bool" where
  "installed name c tr \<longleftrightarrow> no_replace tr \<or>
     (\<exists>b t m u gr rest. tr = [ReadConfig, StatConfig, Timestamp, CopyConfig b, ChmodFile b 384,
          TempFile (''.'' @ name @ ''.'') c, ChmodFile t m, ChownFile t u gr, ReplaceConfig t] @ rest \<and> no_replace rest)"

lemma install_sends:
  "sends (install_configuration os name c) (\<lambda>_ tr. installed name c tr \<and> left_over tr = 0)
     (\<lambda>_ tr. installed name c tr \<and> left_over tr \<le> 1)"
  unfolding install_configuration_def Let_def
  apply (intro sends_seq sends_intros)
  apply (auto simp: no_replace_def installed_def is_temp_def is_unlink_def)
  done

lemma sends_lift_outside [sends_intros]:
  "(\<And>a. Q a [StatConfig]) \<Longrightarrow> (\<And>err. E err [StatConfig]) \<Longrightarrow> sends (outside_call StatConfig f) Q E"
  "(\<And>a. Q' a [ClockTicks]) \<Longrightarrow> (\<And>err. E err [ClockTicks]) \<Longrightarrow> sends (outside_call ClockTicks f') Q' E"
  by (simp_all add: sends_outside_call)

definition quiet :: "ctd_event list \<Rightarrow> bool" where
  "quiet tr \<longleftrightarrow> no_replace tr \<and> filter is_temp tr = [] \<and> filter is_unlink tr = []"

lemma quiet_left_over: "quiet tr \<Longrightarrow> left_over tr = 0"
  by (simp add: quiet_def left_over_def)

lemma restart_quiet:
  "sends (containerd_needs_restart os) (\<lambda>_. quiet) (\<lambda>_. quiet)"
proof -
  let ?A = "{e. \<not> is_temp e \<and> \<not> is_unlink e \<and> (\<forall>p. e \<noteq> ReplaceConfig p)}"
  have A: "ReadBoot \<in> ?A" "ClockTicks \<in> ?A" "ShowMainPid \<in> ?A" "StatConfig \<in> ?A" "ReadProcess pid \<in> ?A" for pid
    by (simp_all add: is_temp_def is_unlink_def)
  have started: "steps (logs ?A) (\<lambda>_. True) (process_started os pid)" for pid
    unfolding process_started_def ctd_text_def by (intro steps_intros A TrueI)
  have "steps (logs ?A) (\<lambda>_. True) (containerd_needs_restart os)"
    unfolding containerd_needs_restart_def ctd_text_def
    by (intro steps_intros A TrueI started; simp add: steps_ret steps_raise preorder_logs split: ctd_error.split)
  note run = sends_steps [OF this]
  have "quiet tr" if "set tr \<subseteq> ?A" for tr
    using that by (auto simp: quiet_def no_replace_def filter_empty_conv subset_iff)
  then show ?thesis by (intro sends_mono [OF run]) simp_all
qed

text \<open>A run of the program: if the configuration was replaced, then by a text that containerd had read and accepted.\<close>

definition safe_run :: "string \<Rightarrow> ctd_event list \<Rightarrow> bool" where
  "safe_run name tr \<longleftrightarrow> no_replace tr \<or>
     (\<exists>c before check between inst. tr = before @ check @ between @ inst \<and> no_replace before \<and> no_replace between \<and>
        validated c check \<and> installed name c inst)"

lemma safe_run_quiet: "no_replace tr \<Longrightarrow> safe_run name tr"
  by (simp add: safe_run_def)

lemma no_replace_append [simp]: "no_replace (xs @ ys) \<longleftrightarrow> no_replace xs \<and> no_replace ys"
  by (auto simp: no_replace_def)

lemma validated_facts: "validated c tr \<Longrightarrow> no_replace tr \<and> left_over tr = 0"
  by (auto simp: validated_def no_replace_def is_temp_def is_unlink_def)

lemma no_replace_simps [simp]:
  "no_replace []" "no_replace (e # tr) \<longleftrightarrow> (\<forall>p. e \<noteq> ReplaceConfig p) \<and> no_replace tr"
  by (auto simp: no_replace_def)

lemma not_temp_singles [simp]:
  "\<not> is_temp IsConfig" "\<not> is_temp IsBinary" "\<not> is_temp MigrateConfig" "\<not> is_temp ReadConfig" "\<not> is_temp (Printed s)"
  "\<not> is_unlink IsConfig" "\<not> is_unlink IsBinary" "\<not> is_unlink MigrateConfig" "\<not> is_unlink ReadConfig" "\<not> is_unlink (Printed s)"
  by (simp_all add: is_temp_def is_unlink_def)

text \<open>The part of the program after the text was validated.\<close>

lemma finish_sends:
  "sends (install_or_restart os args c)
     (\<lambda>_ tr. left_over tr = 0 \<and>
        (\<exists>between inst. tr = between @ inst \<and> no_replace between \<and> installed (a_config_name args) c inst))
     (\<lambda>_ tr. left_over tr \<le> 1 \<and>
        (\<exists>between inst. tr = between @ inst \<and> no_replace between \<and> installed (a_config_name args) c inst))"
proof -
  let ?Q = "\<lambda>tr. \<exists>between inst. tr = between @ inst \<and> no_replace between \<and> installed (a_config_name args) c inst"
  have silent: "?Q tr" if "no_replace tr" for tr
    using that by (intro exI [of _ tr] exI [of _ "[]"]) (simp add: installed_def)
  have inst: "?Q (tr @ tr1)" if "no_replace tr" "installed (a_config_name args) c tr1" for tr tr1 using that by blast
  have decide: "sends (if b then containerd_needs_restart os else ret False) (\<lambda>_. quiet) (\<lambda>_. quiet)" for b
  proof -
    have "quiet []" by (simp add: quiet_def)
    then show ?thesis by (cases b) (auto intro: restart_quiet sends_ret)
  qed
  show ?thesis
    unfolding install_or_restart_def
  proof (rule sends_bind, rule sends_ctd(2), rule sends_bind, rule sends_mono [OF decide])
    fix restart tr assume tr: "quiet tr"
    then have t: "no_replace tr" "left_over tr = 0" by (simp_all add: quiet_left_over quiet_def)
    show "sends (if restart then ctd_do os (Printed ''changed'') else install_configuration os (a_config_name args) c)
        (\<lambda>b t2. left_over ([ReadConfig] @ tr @ t2) = 0 \<and> ?Q ([ReadConfig] @ tr @ t2))
        (\<lambda>e t2. left_over ([ReadConfig] @ tr @ t2) \<le> 1 \<and> ?Q ([ReadConfig] @ tr @ t2))"
    proof (cases restart)
      case True
      then show ?thesis
        unfolding if_P [OF True]
        by (intro sends_ctd(1) conjI silent) (use t in simp_all)
    next
      case False
      have "?Q ([ReadConfig] @ tr @ tr1)" if "installed (a_config_name args) c tr1" for tr1
        using inst [of "[ReadConfig] @ tr" tr1] t that by simp
      then show ?thesis
        unfolding if_not_P [OF False]
        by (intro sends_mono [OF install_sends]) (use t in auto)
    qed
  next
    fix e tr assume "quiet tr"
    then show "left_over ([ReadConfig] @ tr) \<le> 1 \<and> ?Q ([ReadConfig] @ tr)"
      by (intro conjI silent) (simp_all add: quiet_left_over quiet_def)
  next
    fix e show "left_over [ReadConfig] \<le> 1 \<and> ?Q [ReadConfig]" by (intro conjI silent) simp_all
  qed
qed

lemma migrate_sends:
  "sends (migrate_configuration os) (\<lambda>_ tr. no_replace tr \<and> left_over tr = 0) (\<lambda>_ tr. no_replace tr \<and> left_over tr = 0)"
  unfolding migrate_configuration_def by (intro sends_seq sends_intros) simp_all


text \<open>A file of version 3 without Kata.\<close>

definition demo_toml :: string where
  "demo_toml = ''version = 3'' @ [CHR 0x0A] @ ''disabled_plugins = [x]'' @ [CHR 0x0A]"


end
