(* ===== verification/SourcePatch.thy ===== *)
theory SourcePatch
  imports PyValue
begin

text \<open>
  Base of the scripts \<^verbatim>\<open>patch-*.py\<close>, which edit installed Python modules by replacing pieces of their
  text: where occurrences of two strings can meet, what a replacement leaves of the others, edits as
  functions from the text of a file to its new text, the interface of the edits that may be run again,
  and the store of files they are run on.
\<close>

section \<open>Where two strings meet\<close>

text \<open>The texts \<open>u\<close> and \<open>v\<close> can start at the same place.\<close>

fun compat :: "string \<Rightarrow> string \<Rightarrow> bool" where
  "compat [] v \<longleftrightarrow> True"
| "compat u [] \<longleftrightarrow> True"
| "compat (c # cs) (d # ds) \<longleftrightarrow> (if c = d then compat cs ds else False)"

text \<open>An occurrence of \<open>v\<close> can start within one of \<open>u\<close>.\<close>

fun meets :: "string \<Rightarrow> string \<Rightarrow> bool" where
  "meets [] v \<longleftrightarrow> False"
| "meets (c # cs) v \<longleftrightarrow> (if compat (c # cs) v then True else meets cs v)"

text \<open>No occurrence of one can meet an occurrence of the other.\<close>

definition apart :: "string \<Rightarrow> string \<Rightarrow> bool" where
  "apart u v \<longleftrightarrow> \<not> meets u v \<and> \<not> meets v u"

text \<open>Putting \<open>new\<close> somewhere makes no occurrence of \<open>x\<close> that reaches into it.\<close>

definition unmade :: "string \<Rightarrow> string \<Rightarrow> bool" where
  "unmade x new \<longleftrightarrow> x \<noteq> [] \<and> new \<noteq> [] \<and> \<not> meets (tl x) new \<and> \<not> meets new x"

lemma compat_iff: "compat u v \<longleftrightarrow> prefix u v \<or> prefix v u"
  by (induction u v rule: compat.induct) auto

lemma compat_append: "u @ p = v @ q \<Longrightarrow> compat u v"
  unfolding compat_iff by (metis prefixI prefix_same_cases)

lemma meets_iff: "meets u v \<longleftrightarrow> (\<exists>p q. u = p @ q \<and> q \<noteq> [] \<and> compat q v)"
proof (induction u)
  case (Cons c cs)
  have "(\<exists>p q. c # cs = p @ q \<and> q \<noteq> [] \<and> compat q v) \<longleftrightarrow>
      compat (c # cs) v \<or> (\<exists>p q. cs = p @ q \<and> q \<noteq> [] \<and> compat q v)"
    by (auto simp: Cons_eq_append_conv)
  with Cons show ?case by simp
qed simp

lemma append_cases:
  assumes "a @ b = c @ d"
  obtains m where "a = c @ m" "m @ b = d" | m where "c = a @ m" "b = m @ d"
  using assms [unfolded append_eq_append_conv2] by blast

lemma contains_Nil [simp]: "contains [] s"
  by (cases s) simp_all

lemma contains_mid [simp]: "contains x (a @ x @ b)"
  unfolding contains_iff by blast

text \<open>An occurrence of \<open>x\<close> and one of \<open>y\<close> in the same text that are apart.\<close>

lemma occurrences_apart:
  assumes "a @ y @ b = c @ x @ d" and "apart y x"
  obtains (before) m where "a = c @ x @ m" | (after) m where "b = m @ x @ d" "c = a @ y @ m"
proof -
  from assms(2) have no: "\<not> meets x y" "\<not> meets y x" by (simp_all add: apart_def)
  from assms(1) show thesis
  proof (cases rule: append_cases)
    case (1 m)
    from 1(2) show thesis
    proof (cases rule: append_cases)
      case (2 n)
      have "n = []"
      proof (rule ccontr)
        assume "n \<noteq> []"
        with 2 have "meets x y" unfolding meets_iff by (metis compat_append)
        with no show False by simp
      qed
      with 1 2 before show thesis by simp
    qed (use 1 before in simp)
  next
    case (2 m)
    from 2(2) show thesis
    proof (cases rule: append_cases)
      case (1 n)
      have "n = []"
      proof (rule ccontr)
        assume "n \<noteq> []"
        with 1 have "meets y x" unfolding meets_iff by (metis compat_append)
        with no show False by simp
      qed
      with 1 2 after [of "[]"] show thesis by simp
    qed (use 2 after in simp)
  qed
qed

lemma contains_replaced:
  assumes "contains x (a @ old @ b)" and "apart old x"
  shows "contains x (a @ new @ b)"
proof -
  from assms(1) obtain c d where eq: "a @ old @ b = c @ x @ d" unfolding contains_iff by metis
  from eq assms(2) show ?thesis
    by (cases rule: occurrences_apart) (use contains_append2 [of x] in \<open>simp_all add: contains_append1\<close>)
qed

lemma unmade_replaced:
  assumes "contains x (a @ new @ b)" and "unmade x new"
  shows "contains x a \<or> contains x b"
proof -
  have x: "x \<noteq> []" "new \<noteq> []" "\<not> meets (tl x) new" "\<not> meets new x" using assms(2) by (simp_all add: unmade_def)
  from assms(1) obtain c d where eq: "a @ new @ b = c @ x @ d" unfolding contains_iff by metis
  then show ?thesis
  proof (cases rule: append_cases)
    case (1 m)
    from 1(2) show ?thesis
    proof (cases rule: append_cases)
      case (1 n)
      with \<open>a = c @ m\<close> show ?thesis by (simp add: contains_append2)
    next
      case (2 n)
      show ?thesis
      proof (cases m)
        case Nil
        with 2 have "compat new x" by (metis compat_append append_Nil)
        with x have "meets new x" unfolding meets_iff by (metis append_Nil)
        with x show ?thesis by simp
      next
        case (Cons e es)
        with 2 have "tl x = es @ n" by simp
        moreover have "compat n new" using 2(2) by (metis compat_append)
        ultimately have "n = []" using x(3) unfolding meets_iff by metis
        with 1 2 show ?thesis by (simp add: contains_append2)
      qed
    qed
  next
    case (2 m)
    from 2(2) show ?thesis
    proof (cases rule: append_cases)
      case (1 n)
      have "n = []"
      proof (rule ccontr)
        assume "n \<noteq> []"
        with 1 have "meets new x" unfolding meets_iff by (metis compat_append)
        with x show False by simp
      qed
      with 1 show ?thesis by (metis append_Nil contains_mid)
    qed simp
  qed
qed

subsection \<open>Texts of several lines\<close>

text \<open>Lines with a line end between each two.\<close>

definition lines_text :: "string list \<Rightarrow> string" where
  "lines_text ls = join [CHR 0x0A] ls"

text \<open>The line \<open>v\<close> is in no line of a text, nor does it start in the last one and go on after it.\<close>

fun clear :: "string list \<Rightarrow> string \<Rightarrow> bool" where
  "clear [] v \<longleftrightarrow> True"
| "clear [l] v \<longleftrightarrow> \<not> meets l v"
| "clear (l # m # ls) v \<longleftrightarrow> \<not> contains v l \<and> clear (m # ls) v"

lemma lines_text_simps:
  "lines_text [] = []" "lines_text [l] = l" "lines_text (l # m # ls) = l @ CHR 0x0A # lines_text (m # ls)"
  by (simp_all add: lines_text_def)

lemma compat_line:
  assumes "compat (p @ CHR 0x0A # q) (v1 @ w)" and "w = [] \<or> hd w = CHR 0x0A" and "CHR 0x0A \<notin> set v1"
  shows "prefix v1 p"
proof -
  from assms(1) have "prefix v1 (p @ CHR 0x0A # q) \<or> prefix (p @ CHR 0x0A # q) (v1 @ w)"
    unfolding compat_iff by (metis append_prefixD)
  then show ?thesis
  proof
    assume "prefix v1 (p @ CHR 0x0A # q)"
    with assms(3) show ?thesis by (auto simp: prefix_append prefix_Cons)
  next
    assume "prefix (p @ CHR 0x0A # q) (v1 @ w)"
    then obtain r where "p @ CHR 0x0A # q @ r = v1 @ w" by (auto simp: prefix_def)
    then show ?thesis
    proof (cases rule: append_cases)
      case (2 m)
      with assms(3) have "m = []" by (cases m) auto
      with 2 show ?thesis by simp
    qed simp
  qed
qed

lemma compat_prefix: "compat q (v @ w) \<Longrightarrow> compat q v"
  unfolding compat_iff by (metis append_prefixD prefix_same_cases prefix_append)

text \<open>Occurrences that start in a text are found by looking for their first line in its lines.\<close>

lemma meets_line:
  assumes "meets (lines_text us) (v1 @ w)" and "clear us v1"
    and v: "w = [] \<or> hd w = CHR 0x0A" "v1 \<noteq> []" "CHR 0x0A \<notin> set v1"
  shows False
  using assms(1,2)
proof (induction us)
  case (Cons l us)
  show ?case
  proof (cases us)
    case Nil
    with Cons.prems show ?thesis by (auto simp: lines_text_simps meets_iff dest: compat_prefix)
  next
    case (Cons m ls)
    with Cons.prems Cons.IH have "\<not> meets (lines_text us) (v1 @ w)" "\<not> contains v1 l" by auto
    from Cons.prems(1) Cons obtain p q where pq: "l @ CHR 0x0A # lines_text us = p @ q" "q \<noteq> []" "compat q (v1 @ w)"
      by (auto simp: lines_text_simps meets_iff)
    from pq(1) show ?thesis
    proof (cases rule: append_cases)
      case (1 n)
      with pq(3) have "compat (n @ CHR 0x0A # lines_text us) (v1 @ w)" by simp
      from compat_line [OF this v(1,3)] have "contains v1 l"
        unfolding 1(1) by (auto simp: prefix_def)
      with \<open>\<not> contains v1 l\<close> show ?thesis by simp
    next
      case (2 n)
      show ?thesis
      proof (cases n)
        case Nil
        with 2 pq(3) have "compat ([] @ CHR 0x0A # lines_text us) (v1 @ w)" by simp
        from compat_line [OF this v(1,3)] v(2) show ?thesis by simp
      next
        case (Cons c cs)
        with 2 pq(2,3) have "meets (lines_text us) (v1 @ w)" unfolding meets_iff by auto
        with \<open>\<not> meets (lines_text us) (v1 @ w)\<close> show ?thesis ..
      qed
    qed
  qed
qed (simp add: lines_text_simps)

lemma apartI:
  assumes "clear us v1" "clear vs u1" 
   "w = [] \<or> hd w = CHR 0x0A" "v1 \<noteq> []" "CHR 0x0A \<notin> set v1"
   "w' = [] \<or> hd w' = CHR 0x0A" "u1 \<noteq> []" "CHR 0x0A \<notin> set u1"
   "lines_text us = u1 @ w'" "lines_text vs = v1 @ w"
  shows "apart (lines_text us) (lines_text vs)"
  using meets_line [OF _ assms(1,3-5)] meets_line [OF _ assms(2,6-8)] assms(9,10) unfolding apart_def by metis

lemma clear_meets:
  assumes "x = lines_text us" and "clear us v1" and "v = v1 @ w" and "w = [] \<or> hd w = CHR 0x0A" "v1 \<noteq> []" "CHR 0x0A \<notin> set v1"
  shows "\<not> meets x v"
  using meets_line [of us v1 w] assms by blast

lemma lines_text_hd: "ls \<noteq> [] \<Longrightarrow> \<exists>w. lines_text ls = hd ls @ w \<and> (w = [] \<or> hd w = CHR 0x0A)"
  by (cases ls; cases "tl ls") (auto simp: lines_text_simps)

definition plain_line :: "string \<Rightarrow> bool" where
  "plain_line l \<longleftrightarrow> l \<noteq> [] \<and> CHR 0x0A \<notin> set l"

lemma apart_texts:
  assumes "clear us (hd vs)" "clear vs (hd us)" "us \<noteq> []" "vs \<noteq> []" "plain_line (hd us)" "plain_line (hd vs)"
  shows "apart (lines_text us) (lines_text vs)"
  using assms lines_text_hd [of us] lines_text_hd [of vs] unfolding plain_line_def by (metis apartI)

lemma apart_lines:
  assumes "u = lines_text us" "v = lines_text vs"
    and "clear us (hd vs)" "clear vs (hd us)" "us \<noteq> []" "vs \<noteq> []" "plain_line (hd us)" "plain_line (hd vs)"
  shows "apart u v"
  unfolding assms(1,2) by (rule apart_texts; fact)

lemma unmade_lines:
  assumes "x = lines_text xs" "new = lines_text ns"
    and "clear (tl (hd xs) # tl xs) (hd ns)" "clear ns (hd xs)" "xs \<noteq> []" "ns \<noteq> []" "plain_line (hd xs)" "plain_line (hd ns)"
  shows "unmade x new"
proof -
  obtain l ls m ms where xs: "xs = l # ls" "ns = m # ms" using assms(5,6) by (cases xs; cases ns) auto
  obtain w w' where w: "lines_text xs = hd xs @ w" "w = [] \<or> hd w = CHR 0x0A" "lines_text ns = hd ns @ w'" "w' = [] \<or> hd w' = CHR 0x0A"
    using lines_text_hd [OF assms(5)] lines_text_hd [OF assms(6)] by blast
  have l: "l \<noteq> []" "CHR 0x0A \<notin> set l" "m \<noteq> []" "CHR 0x0A \<notin> set m"
    using assms(7,8) by (simp_all add: plain_line_def xs)
  have "tl (lines_text xs) = lines_text (tl l # ls)"
    using l(1) unfolding xs by (cases ls) (simp_all add: lines_text_simps)
  moreover have "\<not> meets (lines_text (tl l # ls)) (lines_text ns)"
    using meets_line [of "tl l # ls" m w'] assms(3) w(3,4) l(3,4) by (auto simp: xs)
  moreover have "\<not> meets (lines_text ns) (lines_text xs)"
    using meets_line [of ns l w] assms(4) w(1,2) l(1,2) by (auto simp: xs)
  ultimately show ?thesis
    unfolding assms(1,2) unmade_def using l(1,3) w(1,3) by (simp add: xs)
qed

lemma unmade_append: "unmade x u \<Longrightarrow> \<not> meets v x \<Longrightarrow> unmade x (u @ v)"
proof -
  have "meets u x \<or> meets v x" if "meets (u @ v) x"
  proof -
    from that obtain p q where pq: "u @ v = p @ q" "q \<noteq> []" "compat q x" unfolding meets_iff by blast
    from pq(1) show ?thesis
    proof (cases rule: append_cases)
      case (1 m)
      from pq(3) have "compat x m" unfolding 1(2) [symmetric] by (metis compat_iff compat_prefix)
      then show ?thesis
      proof (cases "m = []")
        case True
        with 1 pq(2,3) have "meets v x" unfolding meets_iff by (metis append_Nil)
        then show ?thesis ..
      next
        case False
        with 1 \<open>compat x m\<close> have "meets u x" unfolding meets_iff by (metis compat_iff)
        then show ?thesis ..
      qed
    next
      case (2 m)
      with pq show ?thesis unfolding meets_iff by metis
    qed
  qed
  moreover have "meets (tl x) u" if "meets (tl x) (u @ v)" using that compat_prefix unfolding meets_iff by blast
  ultimately show "unmade x u \<Longrightarrow> \<not> meets v x \<Longrightarrow> unmade x (u @ v)" by (auto simp: unmade_def)
qed

lemma contains_line:
  assumes "x = lines_text ls" and "list_ex (contains v) ls"
  shows "contains v x"
proof -
  from assms(2) have "contains v (lines_text ls)"
  proof (induction ls)
    case (Cons l ls)
    then show ?case
      by (cases ls) (auto simp: lines_text_simps contains_append1 intro: contains_append2 [of v _ "l @ [CHR 0x0A]", simplified])
  qed simp
  with assms(1) show ?thesis by simp
qed

text \<open>What is put after \<open>old\<close> does not break \<open>x\<close>, no part of which ends like \<open>old\<close>.\<close>

lemma contains_inserted:
  assumes "contains x (a @ old @ b)" and "\<not> meets (tl (rev x)) (rev old)"
  shows "contains x (a @ (old @ new) @ b)"
proof -
  from assms(1) obtain c d where "(a @ old) @ b = c @ x @ d" unfolding contains_iff by auto
  then show ?thesis
  proof (cases rule: append_cases)
    case (1 m)
    from 1(2) show ?thesis
    proof (cases rule: append_cases)
      case (1 n)
      with \<open>a @ old = c @ m\<close> have "a @ (old @ new) @ b = c @ x @ n @ new @ b" by (metis append.assoc)
      then show ?thesis by (simp only: contains_mid)
    next
      case (2 n)
      show ?thesis
      proof (cases "m = [] \<or> n = []")
        case True
        then show ?thesis
        proof
          assume "m = []"
          with 2 have "a @ (old @ new) @ b = (a @ old @ new) @ x @ d" by simp
          then show ?thesis by (simp only: contains_mid)
        next
          assume "n = []"
          with 1 2 have "a @ (old @ new) @ b = c @ x @ new @ b" by (metis append.assoc append_Nil2)
          then show ?thesis by (simp only: contains_mid)
        qed
      next
        case False
        have "rev old @ rev a = rev m @ rev c" using \<open>a @ old = c @ m\<close> by (metis rev_append)
        then have "compat (rev m) (rev old)" by (metis compat_append)
        moreover have "tl (rev x) = tl (rev n) @ rev m" using 2(1) False by simp
        ultimately have "meets (tl (rev x)) (rev old)" using False unfolding meets_iff by auto
        with assms(2) show ?thesis by simp
      qed
    qed
  next
    case (2 m)
    then have "a @ (old @ new) @ b = (a @ old @ new @ m) @ x @ d" by simp
    then show ?thesis by (simp only: contains_mid)
  qed
qed

section \<open>Replacing\<close>

lemma replace_first_split:
  assumes "contains old s" and "old \<noteq> []"
  obtains a b where "s = a @ old @ b" and "\<And>new. replace_first old new s = a @ new @ b"
proof -
  have "\<exists>a b. s = a @ old @ b \<and> (\<forall>new. replace_first old new s = a @ new @ b)"
    using assms(1)
  proof (induction s)
    case (Cons c cs)
    show ?case
    proof (cases "prefix old (c # cs)")
      case True
      then have "c # cs = [] @ old @ drop (length old) (c # cs)"
        by (metis prefix_def append_eq_conv_conj append_Nil)
      moreover have "replace_first old new (c # cs) = [] @ new @ drop (length old) (c # cs)" for new
        using True by simp
      ultimately show ?thesis by blast
    next
      case False
      with Cons obtain a b where "cs = a @ old @ b" "\<And>new. replace_first old new cs = a @ new @ b" by auto
      with False show ?thesis by (intro exI [of _ "c # a"] exI [of _ b]) simp
    qed
  qed (use assms(2) in simp)
  then obtain a b where "s = a @ old @ b" "\<forall>new. replace_first old new s = a @ new @ b" by blast
  then show thesis by (intro that [of a b]) simp_all
qed

lemma replace_first_other: "\<not> contains old s \<Longrightarrow> replace_first old new s = s"
proof (induction s)
  case (Cons c cs)
  then show ?case by auto
qed (auto simp: contains.simps)

lemma contains_replace_first:
  assumes "contains x s" and "apart old x" and "old \<noteq> []"
  shows "contains x (replace_first old new s)"
proof (cases "contains old s")
  case True
  then obtain a b where "s = a @ old @ b" and r: "replace_first old new s = a @ new @ b"
    using assms(3) by (rule replace_first_split) blast
  with assms(1,2) have "contains x (a @ new @ b)" by (metis contains_replaced)
  with r show ?thesis by simp
qed (simp add: replace_first_other assms)

lemma contains_new:
  assumes "contains old s" and "old \<noteq> []" and "contains x new"
  shows "contains x (replace_first old new s)"
proof -
  from assms(1,2) obtain a b where "replace_first old new s = a @ new @ b" by (rule replace_first_split) blast
  with assms(3) show ?thesis by (auto simp: contains_append1 contains_append2)
qed

lemma not_contains_replace_first:
  assumes "\<not> contains x s" and "unmade x new" and "old \<noteq> []"
  shows "\<not> contains x (replace_first old new s)"
proof (cases "contains old s")
  case True
  then obtain a b where s: "s = a @ old @ b" and r: "replace_first old new s = a @ new @ b"
    using assms(3) by (rule replace_first_split) blast
  from assms(1) have "\<not> contains x a" "\<not> contains x b"
    using contains_append1 [of x a "old @ b"] contains_append2 [of x b "a @ old"] unfolding s by auto
  then show ?thesis using unmade_replaced [OF _ assms(2), of a b] unfolding r by blast
qed (simp add: replace_first_other assms)

lemma count_sub_step:
  "needle \<noteq> [] \<Longrightarrow> count_sub needle [] = 0"
  "needle \<noteq> [] \<Longrightarrow> prefix needle (c # cs) \<Longrightarrow>
     count_sub needle (c # cs) = Suc (count_sub needle (drop (length needle) (c # cs)))"
  "needle \<noteq> [] \<Longrightarrow> \<not> prefix needle (c # cs) \<Longrightarrow> count_sub needle (c # cs) = count_sub needle cs"
  by (simp_all add: count_sub.simps [of needle "[]"] count_sub.simps [of needle "c # cs"])

lemma count_sub_positive: "needle \<noteq> [] \<Longrightarrow> count_sub needle s \<noteq> 0 \<longleftrightarrow> contains needle s"
proof (induction s)
  case (Cons c cs)
  then show ?case by (cases "prefix needle (c # cs)") (simp_all add: count_sub_step)
qed (simp add: count_sub_step)

lemma count_one_contains: "needle \<noteq> [] \<Longrightarrow> count_sub needle s = 1 \<Longrightarrow> contains needle s"
  using count_sub_positive [of needle s] by simp

lemma contains_new_once:
  "count_sub old s = Suc 0 \<Longrightarrow> old \<noteq> [] \<Longrightarrow> contains x new \<Longrightarrow> contains x (replace_first old new s)"
  by (simp add: contains_new count_one_contains)

lemma replace_all_step:
  "needle \<noteq> [] \<Longrightarrow> replace_all needle by [] = []"
  "needle \<noteq> [] \<Longrightarrow> prefix needle (c # cs) \<Longrightarrow>
     replace_all needle by (c # cs) = by @ replace_all needle by (drop (length needle) (c # cs))"
  "needle \<noteq> [] \<Longrightarrow> \<not> prefix needle (c # cs) \<Longrightarrow> replace_all needle by (c # cs) = c # replace_all needle by cs"
  by (simp_all add: replace_all.simps [of needle _ "[]"] replace_all.simps [of needle _ "c # cs"])

lemma replace_all_other: "needle \<noteq> [] \<Longrightarrow> \<not> contains needle s \<Longrightarrow> replace_all needle by s = s"
  by (induction s) (simp_all add: replace_all_step)

text \<open>A text that occurs once: the replacement of all is the replacement of the first, after which it is gone.\<close>

lemma count_one_split:
  assumes "count_sub old s = 1" and "old \<noteq> []"
  obtains a b where "s = a @ old @ b" "\<not> contains old a" "\<not> contains old b"
    "\<And>new. replace_first old new s = a @ new @ b" "\<And>new. replace_all old new s = a @ new @ b"
proof -
  have "\<exists>a b. s = a @ old @ b \<and> \<not> contains old a \<and> \<not> contains old b \<and>
      (\<forall>new. replace_first old new s = a @ new @ b \<and> replace_all old new s = a @ new @ b)"
    using assms(1)
  proof (induction s)
    case Nil
    with assms(2) show ?case by (simp add: count_sub_step)
  next
    case (Cons c cs)
    show ?case
    proof (cases "prefix old (c # cs)")
      case True
      let ?b = "drop (length old) (c # cs)"
      have "c # cs = old @ ?b" using True by (metis prefix_def append_eq_conv_conj)
      moreover have b: "\<not> contains old ?b"
        using Cons.prems count_sub_positive [OF assms(2), of ?b]
        unfolding count_sub_step(2) [OF assms(2) True] by simp
      moreover have "replace_all old new (c # cs) = new @ ?b" for new
        by (simp only: replace_all_step(2) [OF assms(2) True] replace_all_other [OF assms(2) b])
      moreover have "replace_first old new (c # cs) = new @ ?b" for new using True by simp
      ultimately show ?thesis
        using assms(2) by (intro exI [of _ "[]"] exI [of _ ?b]) (metis append_Nil contains.simps(1))
    next
      case False
      with Cons.prems have "count_sub old cs = 1" by (simp add: count_sub_step(3) [OF assms(2) False])
      from Cons.IH [OF this] obtain a b where ab: "cs = a @ old @ b" "\<not> contains old a" "\<not> contains old b"
        "\<And>new. replace_first old new cs = a @ new @ b" "\<And>new. replace_all old new cs = a @ new @ b" by blast
      have "\<not> prefix old (c # a)"
        using False unfolding ab(1) by (metis append_Cons prefix_prefix)
      with ab False assms(2) show ?thesis
        by (intro exI [of _ "c # a"] exI [of _ b]) (simp add: replace_all_step(3))
    qed
  qed
  then obtain a b where "s = a @ old @ b" "\<not> contains old a" "\<not> contains old b"
    "\<forall>new. replace_first old new s = a @ new @ b \<and> replace_all old new s = a @ new @ b" by blast
  then show thesis by (intro that [of a b]) simp_all
qed

lemma replaced_once:
  assumes "count_sub old s = 1" and "unmade old new"
  shows "\<not> contains old (replace_all old new s)" "\<not> contains old (replace_first old new s)"
    "contains new (replace_all old new s)" "contains new (replace_first old new s)"
proof -
  have old: "old \<noteq> []" using assms(2) by (simp add: unmade_def)
  from assms(1) old obtain a b where ab: "\<not> contains old a" "\<not> contains old b"
    "replace_first old new s = a @ new @ b" "replace_all old new s = a @ new @ b" by (rule count_one_split) blast
  have "\<not> contains old (a @ new @ b)" using unmade_replaced [OF _ assms(2)] ab(1,2) by blast
  with ab(3,4) show "\<not> contains old (replace_all old new s)" "\<not> contains old (replace_first old new s)"
    "contains new (replace_all old new s)" "contains new (replace_first old new s)" by auto
qed

text \<open>Counting goes on after a text in which no occurrence starts.\<close>

lemma count_sub_skip: "\<not> meets u old \<Longrightarrow> old \<noteq> [] \<Longrightarrow> count_sub old (u @ s) = count_sub old s"
proof (induction u)
  case (Cons c cs)
  then have "\<not> prefix old (c # cs @ s)"
    by (auto simp: prefix_def dest!: compat_append [of "c # cs" s, simplified] split: if_splits)
  with Cons show ?case by (simp add: count_sub_step(3) split: if_splits)
qed simp

lemma count_sub_hit: "old \<noteq> [] \<Longrightarrow> count_sub old (old @ s) = Suc (count_sub old s)"
  by (cases old) (simp_all add: count_sub_step(2) prefix_def)

lemma replace_all_past: "\<not> meets x old \<Longrightarrow> old \<noteq> [] \<Longrightarrow> replace_all old new (x @ d) = x @ replace_all old new d"
proof (induction x)
  case (Cons c cs)
  then have "\<not> prefix old (c # cs @ d)"
    by (auto simp: prefix_def dest!: compat_append [of "c # cs" d, simplified] split: if_splits)
  with Cons show ?case by (simp add: replace_all_step(3) split: if_splits)
qed simp

lemma contains_replace_all:
  assumes "contains x s" and "apart old x" and "old \<noteq> []"
  shows "contains x (replace_all old new s)"
  using assms(1)
proof (induction "length s" arbitrary: s rule: less_induct)
  case less
  show ?case
  proof (cases s)
    case Nil
    with less.prems assms(3) show ?thesis by (simp add: replace_all_step)
  next
    case (Cons c cs)
    show ?thesis
    proof (cases "prefix old s")
      case True
      then obtain b where b: "s = old @ b" by (auto simp: prefix_def)
      from less.prems obtain c d where "[] @ old @ b = c @ x @ d" unfolding contains_iff b by auto
      from this assms(2) have "x = [] \<or> contains x b" by (cases rule: occurrences_apart) auto
      with less.hyps [of b] assms(3) have "contains x (replace_all old new b)"
        by (auto simp: b)
      moreover have "replace_all old new s = new @ replace_all old new b"
        using True assms(3) b Cons by (metis append_eq_conv_conj replace_all_step(2))
      ultimately show ?thesis by (simp add: contains_append2)
    next
      case False
      show ?thesis
      proof (cases "prefix x s")
        case True
        then obtain d where "s = x @ d" by (auto simp: prefix_def)
        then show ?thesis using assms(2,3) by (simp add: replace_all_past apart_def contains_append1)
      next
        case notx: False
        with less.prems less.hyps [of cs] have "contains x (replace_all old new cs)" by (simp add: Cons)
        then show ?thesis using False assms(3) contains_append2 [of x _ "[c]"] by (simp add: Cons replace_all_step(3))
      qed
    qed
  qed
qed

section \<open>Files\<close>

datatype patch_error =
    RuntimeErr string
  | Exit string
  | OsErr string
  | SyntaxErr string

text \<open>The system a script runs on: what \<^verbatim>\<open>glob\<close> finds, where a path leads, what may be written, and what
  \<^verbatim>\<open>compile\<close> makes of a text.\<close>

record patch_host =
  h_glob :: "string \<Rightarrow> string list"
  h_resolve :: "string \<Rightarrow> string"
  h_writable :: "string \<Rightarrow> bool"
  h_compile :: "string \<Rightarrow> patch_error option"

record patch_world =
  pw_files :: "string \<rightharpoonup> string"
  pw_printed :: "string list"

type_synonym 'a patch_io = "(patch_world, patch_error, 'a) io"

text \<open>An edit takes the path and the text of a file; it fails, leaves the file alone, or gives its new text and what is
  printed afterwards.\<close>

type_synonym edit = "string \<Rightarrow> string \<Rightarrow> patch_error + (string \<times> string list) option"

definition read_text :: "string \<Rightarrow> string patch_io" where
  "read_text path w =
     (case pw_files w path of
        None \<Rightarrow> raise_exn (OsErr (''No such file or directory: '' @ path)) w
      | Some source \<Rightarrow> ret source w)"

definition write_text :: "patch_host \<Rightarrow> string \<Rightarrow> string \<Rightarrow> unit patch_io" where
  "write_text h path source w =
     (if h_writable h path then ret () (w\<lparr>pw_files := (pw_files w)(path \<mapsto> source)\<rparr>)
      else raise_exn (OsErr (''Permission denied: '' @ path)) w)"

definition print_lines :: "string list \<Rightarrow> unit patch_io" where
  "print_lines ls w = ret () (w\<lparr>pw_printed := pw_printed w @ ls\<rparr>)"

definition edit_file :: "patch_host \<Rightarrow> edit \<Rightarrow> string \<Rightarrow> unit patch_io" where
  "edit_file h edit path =
     bind (read_text path) (\<lambda>source.
       case edit path source of
         Inl e \<Rightarrow> raise_exn e
       | Inr None \<Rightarrow> ret ()
       | Inr (Some (t, ls)) \<Rightarrow> andthen (write_text h path t) (print_lines ls))"

definition checked :: "patch_host \<Rightarrow> string \<Rightarrow> string list \<Rightarrow> patch_error + (string \<times> string list) option" where
  "checked h source ls = (case h_compile h source of Some e \<Rightarrow> Inl e | None \<Rightarrow> Inr (Some (source, ls)))"

text \<open>\<^verbatim>\<open>sorted({Path(path).resolve() for path in glob.glob(pattern)})\<close>; paths are compared by their parts.\<close>

definition candidates :: "patch_host \<Rightarrow> string \<Rightarrow> string list" where
  "candidates h pattern = sort_key (split_on CHR ''/'') (remdups (map (h_resolve h) (h_glob h pattern)))"

definition given_or_found :: "patch_host \<Rightarrow> string list \<Rightarrow> string \<Rightarrow> string list" where
  "given_or_found h arguments pattern = (if arguments \<noteq> [] then arguments else candidates h pattern)"

definition show_paths :: "string list \<Rightarrow> string" where
  "show_paths ps = ''['' @ join '', '' (map (\<lambda>p. ''PosixPath('' @ py_repr (PStr p) @ '')'') ps) @ '']''"

definition only_path :: "patch_error \<Rightarrow> string list \<Rightarrow> string patch_io" where
  "only_path e paths = (case paths of [path] \<Rightarrow> ret path | _ \<Rightarrow> raise_exn e)"

definition python_path :: string where
  "python_path = ''/var/lib/kolla/venv/lib/python*/site-packages/''"

text \<open>A step of an edit that may refuse the text.\<close>

definition expect :: "bool \<Rightarrow> patch_error \<Rightarrow> patch_error + 'a \<Rightarrow> patch_error + 'a" where
  "expect b e r = (if b then r else Inl e)"

definition then_edit :: "patch_error + string \<Rightarrow> (string \<Rightarrow> patch_error + 'a) \<Rightarrow> patch_error + 'a" where
  "then_edit r f = (case r of Inl e \<Rightarrow> Inl e | Inr s \<Rightarrow> f s)"

section \<open>Edits that may be run again\<close>

text \<open>The text of a file after an edit.\<close>

definition text_after :: "string \<Rightarrow> (string \<times> string list) option \<Rightarrow> string" where
  "text_after s r = (case r of None \<Rightarrow> s | Some (t, _) \<Rightarrow> t)"

text \<open>An edit leads to a settled text or leaves the text alone, and leaves settled texts as they are.\<close>

locale rerun_safe =
  fixes edit :: edit and settled :: "string \<Rightarrow> bool"
  assumes settles: "edit p s = Inr (Some (t, ls)) \<Longrightarrow> settled t"
    and keeps: "settled s \<Longrightarrow> edit p s = Inr None \<or> (\<exists>ls. edit p s = Inr (Some (s, ls)))"
begin

lemma again:
  assumes "edit p s = Inr r"
  shows "\<exists>r2. edit p (text_after s r) = Inr r2 \<and> text_after (text_after s r) r2 = text_after s r"
proof (cases r)
  case None
  with assms show ?thesis by (simp add: text_after_def)
next
  case (Some x)
  with assms have "settled (text_after s r)" by (cases x) (auto simp: text_after_def dest: settles)
  from keeps [OF this, of p] show ?thesis by (auto simp: text_after_def)
qed

end

end
