(* ===== verification/ZunPatch.thy ===== *)
theory ZunPatch
  imports SourcePatch
begin

text \<open>
  The scripts \<^verbatim>\<open>patch-zun-*.py\<close> and \<^verbatim>\<open>patch-zun-action.py\<close>: the texts they look for and put in, their edits and
  their entry points.  Texts of several lines are written as the list of their lines.
\<close>

section \<open>CRI v1\<close>

definition DRIVER_CLASS :: string where
  \<open>DRIVER_CLASS = ''class CriDriver(driver.BaseDriver, driver.CapsuleDriver):''\<close>

definition OLD_STUBS :: string where
  \<open>OLD_STUBS = lines_text
    [''        self.runtime_stub = api_pb2_grpc.RuntimeServiceStub(channel)'',
     ''        self.image_stub = api_pb2_grpc.ImageServiceStub(channel)'',
     []]\<close>

definition NEW_STUBS :: string where
  \<open>NEW_STUBS = lines_text
    [''        compat_channel = _CriApiCompatibilityChannel(channel)'',
     ''        self.runtime_stub = api_pb2_grpc.RuntimeServiceStub(compat_channel)'',
     ''        self.image_stub = api_pb2_grpc.ImageServiceStub(compat_channel)'',
     []]\<close>

definition COMPATIBILITY_CHANNEL :: string where
  \<open>COMPATIBILITY_CHANNEL = lines_text
    [''class _CriApiCompatibilityChannel:'',
     ''    """Route CRI calls to v1, falling back only when the runtime lacks v1."""'',
     [],
     ''    _ALPHA2_PREFIX = "/runtime.v1alpha2."'',
     ''    _V1_PREFIX = "/runtime.v1."'',
     [],
     ''    def __init__(self, channel):'',
     ''        self._channel = channel'',
     ''        self._service_versions = {}'',
     [],
     ''    def _paths(self, method):'',
     ''        if not method.startswith(self._ALPHA2_PREFIX):'',
     ''            return method, method, None'',
     ''        service = method.split("/", 2)[1]'',
     ''        stable_method = method.replace('',
     ''            self._ALPHA2_PREFIX, self._V1_PREFIX, 1'',
     ''        )'',
     ''        return stable_method, method, service'',
     [],
     ''    def unary_unary(self, method, request_serializer=None,'',
     ''                    response_deserializer=None, **kwargs):'',
     ''        stable_method, alpha2_method, service = self._paths(method)'',
     ''        stable_call = self._channel.unary_unary('',
     ''            stable_method,'',
     ''            request_serializer=request_serializer,'',
     ''            response_deserializer=response_deserializer,'',
     ''            **kwargs'',
     ''        )'',
     ''        if service is None:'',
     ''            return stable_call'',
     ''        alpha2_call = self._channel.unary_unary('',
     ''            alpha2_method,'',
     ''            request_serializer=request_serializer,'',
     ''            response_deserializer=response_deserializer,'',
     ''            **kwargs'',
     ''        )'',
     [],
     ''        def invoke(request, *args, **call_kwargs):'',
     ''            if self._service_versions.get(service) == "v1alpha2":'',
     ''                return alpha2_call(request, *args, **call_kwargs)'',
     ''            try:'',
     ''                result = stable_call(request, *args, **call_kwargs)'',
     ''            except grpc.RpcError as error:'',
     ''                if error.code() != grpc.StatusCode.UNIMPLEMENTED:'',
     ''                    raise'',
     ''                self._service_versions[service] = "v1alpha2"'',
     ''                LOG.info('',
     ''                    "CRI service %s does not implement v1; falling back to v1alpha2",'',
     ''                    service,'',
     ''                )'',
     ''                return alpha2_call(request, *args, **call_kwargs)'',
     ''            self._service_versions[service] = "v1"'',
     ''            return result'',
     [],
     ''        return invoke'',
     [],
     ''    def unary_stream(self, method, request_serializer=None,'',
     ''                     response_deserializer=None, **kwargs):'',
     ''        stable_method, alpha2_method, service = self._paths(method)'',
     ''        stable_call = self._channel.unary_stream('',
     ''            stable_method,'',
     ''            request_serializer=request_serializer,'',
     ''            response_deserializer=response_deserializer,'',
     ''            **kwargs'',
     ''        )'',
     ''        if service is None:'',
     ''            return stable_call'',
     ''        alpha2_call = self._channel.unary_stream('',
     ''            alpha2_method,'',
     ''            request_serializer=request_serializer,'',
     ''            response_deserializer=response_deserializer,'',
     ''            **kwargs'',
     ''        )'',
     [],
     ''        def invoke(request, *args, **call_kwargs):'',
     ''            if self._service_versions.get(service) == "v1alpha2":'',
     ''                return alpha2_call(request, *args, **call_kwargs)'',
     ''            try:'',
     ''                responses = stable_call(request, *args, **call_kwargs)'',
     ''                first = next(responses)'',
     ''            except StopIteration:'',
     ''                self._service_versions[service] = "v1"'',
     ''                return iter(())'',
     ''            except grpc.RpcError as error:'',
     ''                if error.code() != grpc.StatusCode.UNIMPLEMENTED:'',
     ''                    raise'',
     ''                self._service_versions[service] = "v1alpha2"'',
     ''                LOG.info('',
     ''                    "CRI service %s does not implement v1; falling back to v1alpha2",'',
     ''                    service,'',
     ''                )'',
     ''                return alpha2_call(request, *args, **call_kwargs)'',
     ''            self._service_versions[service] = "v1"'',
     [],
     ''            def stream():'',
     ''                yield first'',
     ''                yield from responses'',
     [],
     ''            return stream()'',
     [],
     ''        return invoke'',
     [],
     ''    def __getattr__(self, name):'',
     ''        return getattr(self._channel, name)'',
     []]\<close>

definition cri_v1_edit :: edit where
  "cri_v1_edit path source =
     (if contains COMPATIBILITY_CHANNEL source \<and> contains NEW_STUBS source then Inr None
      else if contains COMPATIBILITY_CHANNEL source \<or> contains NEW_STUBS source then
        Inl (RuntimeErr (''CRI compatibility patch is incomplete in '' @ path))
      else if count_sub DRIVER_CLASS source \<noteq> 1 \<or> count_sub OLD_STUBS source \<noteq> 1 then
        Inl (RuntimeErr (''expected one supported Zun CRI driver layout in '' @ path @ ''; found driver class '' @
          show_nat (count_sub DRIVER_CLASS source) @ '' times and stub setup '' @
          show_nat (count_sub OLD_STUBS source) @ '' times''))
      else
        Inr (Some (replace_first OLD_STUBS NEW_STUBS
          (replace_first DRIVER_CLASS (COMPATIBILITY_CHANNEL @ [CHR 0x0A, CHR 0x0A] @ DRIVER_CLASS) source), [])))"

definition cri_v1_paths :: "patch_host \<Rightarrow> string list \<Rightarrow> string list" where
  "cri_v1_paths h arguments = given_or_found h arguments (python_path @ ''zun/container/cri/driver.py'')"

definition cri_v1_main :: "patch_host \<Rightarrow> string list \<Rightarrow> unit patch_io" where
  "cri_v1_main h arguments =
     (let paths = cri_v1_paths h arguments
      in bind (only_path (RuntimeErr (''expected one Zun CRI driver module, found '' @ show_nat (length paths) @
              '': '' @ show_paths paths)) paths)
           (edit_file h cri_v1_edit))"

section \<open>CPU statistics of CRI containers\<close>

definition CRI_STATS_MARKER :: string where
  \<open>CRI_STATS_MARKER = ''# yggdrasil-zun-cri-capsule-stats-v1''\<close>

definition IMPORT_ANCHOR :: string where
  \<open>IMPORT_ANCHOR = lines_text
    [''import tenacity'',
     []]\<close>

definition INIT_ANCHOR :: string where
  \<open>INIT_ANCHOR = lines_text
    [''        self.image_stub = api_pb2_grpc.ImageServiceStub(compat_channel)'',
     []]\<close>

definition METHOD_ANCHOR :: string where
  \<open>METHOD_ANCHOR = lines_text
    [''    def create_capsule(self, context, capsule, image, requested_networks,'',
     []]\<close>

definition CRI_STATS_METHOD :: string where
  \<open>CRI_STATS_METHOD = lines_text
    [''    # yggdrasil-zun-cri-capsule-stats-v1'',
     ''    def stats(self, context, container):'',
     ''        """Return CPU utilization normalized to the container CPU request."""'',
     ''        container_id = container.container_id'',
     ''        if not container_id:'',
     ''            return {}'',
     [],
     ''        response = self.runtime_stub.ContainerStats('',
     ''            api_pb2.ContainerStatsRequest(container_id=container_id),'',
     ''            timeout=30,'',
     ''        )'',
     ''        cpu_stats = response.stats.cpu'',
     ''        usage_cores = None'',
     [],
     ''        try:'',
     ''            if cpu_stats.HasField("usage_nano_cores"):'',
     ''                nano_cores = int(cpu_stats.usage_nano_cores.value)'',
     ''                if nano_cores > 0:'',
     ''                    usage_cores = nano_cores / 1_000_000_000.0'',
     ''        except ValueError:'',
     ''            pass'',
     [],
     ''        try:'',
     ''            has_cpu_time = cpu_stats.HasField("usage_core_nano_seconds")'',
     ''        except ValueError:'',
     ''            has_cpu_time = False'',
     ''        if usage_cores is None and has_cpu_time and cpu_stats.timestamp > 0:'',
     ''            cpu_time = int(cpu_stats.usage_core_nano_seconds.value)'',
     ''            sample_time = int(cpu_stats.timestamp)'',
     ''            with self._cpu_stats_lock:'',
     ''                previous = self._cpu_stats_cache.get(container.uuid)'',
     ''                self._cpu_stats_cache[container.uuid] = (cpu_time, sample_time)'',
     ''                if len(self._cpu_stats_cache) > 10000:'',
     ''                    self._cpu_stats_cache.clear()'',
     ''                    self._cpu_stats_cache[container.uuid] = (cpu_time, sample_time)'',
     ''            if previous:'',
     ''                previous_cpu_time, previous_sample_time = previous'',
     ''                elapsed = sample_time - previous_sample_time'',
     ''                consumed = cpu_time - previous_cpu_time'',
     ''                if elapsed > 0 and consumed >= 0:'',
     ''                    usage_cores = consumed / float(elapsed)'',
     ''            else:'',
     ''                usage_cores = 0.0'',
     [],
     ''        if usage_cores is None:'',
     ''            return {}'',
     [],
     ''        cpu_request = float(container.cpu or 0)'',
     ''        if cpu_request <= 0:'',
     ''            cpu_request = 1.0'',
     ''        cpu_percent = usage_cores * 100.0 / cpu_request'',
     ''        return {"CPU %": max(0.0, min(100.0, cpu_percent))}'',
     [],
     []]\<close>

definition MANAGER_MARKER :: string where
  \<open>MANAGER_MARKER = ''# yggdrasil-zun-capsule-stats-v1''\<close>

definition MANAGER_OLD :: string where
  \<open>MANAGER_OLD = lines_text
    [''        try:'',
     ''            # NOTE(hongbin): capsule shouldn't reach here'',
     ''            return self.driver.stats(context, container)'',
     []]\<close>

definition MANAGER_NEW :: string where
  \<open>MANAGER_NEW = lines_text
    [''        try:'',
     ''            # yggdrasil-zun-capsule-stats-v1'',
     ''            return self._get_driver(container).stats(context, container)'',
     []]\<close>

definition cri_stats_edit :: edit where
  "cri_stats_edit path source =
     (if contains CRI_STATS_MARKER source then Inr None
      else
        expect (count_sub IMPORT_ANCHOR source = 1)
          (RuntimeErr (''expected one CRI driver import insertion point in '' @ path))
       (expect (count_sub INIT_ANCHOR source = 1)
          (RuntimeErr (''expected one CRI driver initialization point in '' @ path))
       (expect (count_sub METHOD_ANCHOR source = 1)
          (RuntimeErr (''expected one Capsule creation method in '' @ path))
       (let source1 = replace_first IMPORT_ANCHOR (IMPORT_ANCHOR @ ''import threading'' @ [CHR 0x0A]) source;
            source2 = replace_first INIT_ANCHOR
              (INIT_ANCHOR @ ''        self._cpu_stats_cache = {}'' @ [CHR 0x0A] @
               ''        self._cpu_stats_lock = threading.Lock()'' @ [CHR 0x0A]) source1
        in Inr (Some (replace_first METHOD_ANCHOR (CRI_STATS_METHOD @ METHOD_ANCHOR) source2, []))))))"

definition manager_edit :: edit where
  "manager_edit path source =
     (if contains MANAGER_MARKER source then Inr None
      else if count_sub MANAGER_OLD source \<noteq> 1 then
        Inl (RuntimeErr (''expected one Zun container stats driver dispatch in '' @ path @ ''; found '' @
          show_nat (count_sub MANAGER_OLD source)))
      else Inr (Some (replace_first MANAGER_OLD MANAGER_NEW source, [])))"

definition cri_stats_paths :: "patch_host \<Rightarrow> string list" where
  "cri_stats_paths h = candidates h (python_path @ ''zun/container/cri/driver.py'')"

definition manager_paths :: "patch_host \<Rightarrow> string list" where
  "manager_paths h = candidates h (python_path @ ''zun/compute/manager.py'')"

definition cri_stats_main :: "patch_host \<Rightarrow> unit patch_io" where
  "cri_stats_main h =
     andthen
       (let paths = cri_stats_paths h
        in bind (only_path (RuntimeErr (''expected one Zun CRI driver, found '' @ show_paths paths)) paths)
             (edit_file h cri_stats_edit))
       (let paths = manager_paths h
        in bind (only_path (RuntimeErr (''expected one Zun compute manager, found '' @ show_paths paths)) paths)
             (edit_file h manager_edit))"

section \<open>CPU statistics of capsules\<close>

definition CAPSULE_STATS_MARKER :: string where
  \<open>CAPSULE_STATS_MARKER = ''# yggdrasil-zun-capsule-stats-v2''\<close>

definition CAPSULE_STATS_PREVIOUS_MARKER :: string where
  \<open>CAPSULE_STATS_PREVIOUS_MARKER = ''# yggdrasil-zun-capsule-stats-v1''\<close>

definition ANCHOR :: string where
  \<open>ANCHOR = ''    def _do_get_one(self, capsule_ident, legacy_api_version=False):''\<close>

definition CUSTOM_ACTIONS_ANCHOR :: string where
  \<open>CUSTOM_ACTIONS_ANCHOR = lines_text
    [''    _custom_actions = {'',
     []]\<close>

definition CUSTOM_ACTION :: string where
  \<open>CUSTOM_ACTION = lines_text
    [''        'stats': ['GET'],'',
     []]\<close>

definition CAPSULE_STATS_METHOD :: string where
  \<open>CAPSULE_STATS_METHOD = lines_text
    [''    # yggdrasil-zun-capsule-stats-v1'',
     ''    @pecan.expose('json')'',
     ''    @exception.wrap_pecan_controller_exception'',
     ''    def stats(self, capsule_ident, **kwargs):'',
     ''        """Return mean CPU utilization across the running Capsule containers."""'',
     ''        context = pecan.request.context'',
     ''        if utils.is_all_projects(kwargs):'',
     ''            policy.enforce('',
     ''                context,'',
     ''                "capsule:get_one_all_projects",'',
     ''                action="capsule:get_one_all_projects",'',
     ''            )'',
     ''            context.all_projects = True'',
     [],
     ''        capsule = api_utils.get_resource('Capsule', capsule_ident)'',
     ''        check_policy_on_capsule(capsule.as_dict(), "capsule:get")'',
     ''        compute_api = pecan.request.compute_api'',
     ''        weighted_cpu = 0.0'',
     ''        total_cpu = 0.0'',
     [],
     ''        for container in capsule.containers or []:'',
     ''            if container.status != consts.RUNNING:'',
     ''                continue'',
     ''            if not container.host:'',
     ''                container.host = capsule.host'',
     ''            if not container.host or not container.container_id:'',
     ''                continue'',
     [],
     ''            try:'',
     ''                stats = compute_api.container_stats(context, container)'',
     ''            except Exception as error:'',
     ''                LOG.warning('',
     ''                    "Could not poll CPU for Capsule container %s: %s",'',
     ''                    container.uuid,'',
     ''                    error,'',
     ''                )'',
     ''                continue'',
     [],
     ''            try:'',
     ''                cpu_percent = float(str(stats.get('CPU %')).strip().rstrip('%'))'',
     ''            except (AttributeError, TypeError, ValueError):'',
     ''                continue'',
     ''            cpu_request = float(container.cpu or 0)'',
     ''            if cpu_request <= 0:'',
     ''                cpu_request = 1.0'',
     ''            weighted_cpu += cpu_percent * cpu_request'',
     ''            total_cpu += cpu_request'',
     [],
     ''        if total_cpu <= 0:'',
     ''            return {}'',
     ''        return {"CPU %": weighted_cpu / total_cpu}'',
     [],
     []]\<close>

definition add_custom_action :: "string \<Rightarrow> string \<Rightarrow> patch_error + string" where
  "add_custom_action path source =
     (if contains CUSTOM_ACTION source then Inr source
      else
        expect (count_sub CUSTOM_ACTIONS_ANCHOR source = 1)
          (RuntimeErr (''expected one CapsuleController custom action map in '' @ path @ ''; found '' @
            show_nat (count_sub CUSTOM_ACTIONS_ANCHOR source)))
          (Inr (replace_first CUSTOM_ACTIONS_ANCHOR (CUSTOM_ACTIONS_ANCHOR @ CUSTOM_ACTION) source)))"

definition add_stats_method :: "string \<Rightarrow> string \<Rightarrow> patch_error + string" where
  "add_stats_method path source =
     (if contains CAPSULE_STATS_PREVIOUS_MARKER source then
        Inr (replace_first CAPSULE_STATS_PREVIOUS_MARKER CAPSULE_STATS_MARKER source)
      else if \<not> contains CAPSULE_STATS_MARKER source then
        expect (count_sub ANCHOR source = 1)
          (RuntimeErr (''expected one CapsuleController insertion point in '' @ path @ ''; found '' @
            show_nat (count_sub ANCHOR source)))
          (Inr (replace_first ANCHOR (CAPSULE_STATS_METHOD @ ANCHOR) source))
      else Inr source)"

definition capsule_stats_edit :: edit where
  "capsule_stats_edit path source =
     (if contains CAPSULE_STATS_MARKER source \<and> contains CUSTOM_ACTION source then Inr None
      else then_edit (add_custom_action path source) (\<lambda>source1.
        then_edit (add_stats_method path source1) (\<lambda>source2. Inr (Some (source2, [])))))"

definition capsule_stats_paths :: "patch_host \<Rightarrow> string list" where
  "capsule_stats_paths h = candidates h (python_path @ ''zun/api/controllers/v1/capsules.py'')"

definition capsule_stats_main :: "patch_host \<Rightarrow> unit patch_io" where
  "capsule_stats_main h =
     (let paths = capsule_stats_paths h
      in bind (only_path (RuntimeErr (''expected one Zun capsules controller, found '' @ show_paths paths)) paths)
           (edit_file h capsule_stats_edit))"

section \<open>CPU usage of Docker containers\<close>

definition CPU_OLD :: string where
  \<open>CPU_OLD = lines_text
    [''            cpu_usage = res['cpu_stats']['cpu_usage']['total_usage']'',
     ''            system_cpu_usage = res['cpu_stats']['system_cpu_usage']'',
     ''            cpu_percent = float(cpu_usage) / float(system_cpu_usage) * 100'',
     []]\<close>

definition CPU_NEW :: string where
  \<open>CPU_NEW = lines_text
    [''            cpu_stats = res['cpu_stats']'',
     ''            precpu_stats = res.get('precpu_stats') or {}'',
     ''            cpu_usage = cpu_stats['cpu_usage']['total_usage']'',
     ''            previous_cpu_usage = precpu_stats.get('',
     ''                'cpu_usage', {}).get('total_usage', 0)'',
     ''            system_cpu_usage = cpu_stats.get('system_cpu_usage', 0)'',
     ''            previous_system_cpu_usage = precpu_stats.get('',
     ''                'system_cpu_usage', 0)'',
     ''            cpu_delta = float(cpu_usage) - float(previous_cpu_usage)'',
     ''            system_delta = ('',
     ''                float(system_cpu_usage) - float(previous_system_cpu_usage))'',
     ''            online_cpus = cpu_stats.get('online_cpus')'',
     ''            if not online_cpus:'',
     ''                online_cpus = len('',
     ''                    cpu_stats['cpu_usage'].get('percpu_usage') or [])'',
     ''            if system_delta > 0 and cpu_delta >= 0 and online_cpus:'',
     ''                cpu_percent = ('',
     ''                    cpu_delta / system_delta * float(online_cpus) * 100)'',
     ''            else:'',
     ''                # The first Docker sample has no previous interval.'',
     ''                cpu_percent = 0.0'',
     []]\<close>

definition cpu_stats_edit :: edit where
  "cpu_stats_edit path source =
     (if contains CPU_NEW source \<and> \<not> contains CPU_OLD source then Inr None
      else if count_sub CPU_OLD source \<noteq> 1 then
        Inl (RuntimeErr (''expected exactly one unpatched Zun CPU calculation in '' @ path @ '', found '' @
          show_nat (count_sub CPU_OLD source)))
      else Inr (Some (replace_all CPU_OLD CPU_NEW source, [])))"

definition cpu_stats_paths :: "patch_host \<Rightarrow> string list \<Rightarrow> string list" where
  "cpu_stats_paths h arguments = given_or_found h arguments (python_path @ ''zun/container/docker/driver.py'')"

definition cpu_stats_main :: "patch_host \<Rightarrow> string list \<Rightarrow> unit patch_io" where
  "cpu_stats_main h arguments =
     (let paths = cpu_stats_paths h arguments
      in bind (only_path (RuntimeErr (''expected one Zun Docker driver module, found '' @ show_nat (length paths) @
              '': '' @ show_paths paths)) paths)
           (edit_file h cpu_stats_edit))"

section \<open>The websocket proxy\<close>

definition WS_OLD :: string where
  \<open>WS_OLD = ''        client = docker.APIClient(base_url=exec_instance.url)''\<close>

definition WS_NEW :: string where
  \<open>WS_NEW = lines_text
    [''        tls_config = False'',
     ''        if not CONF.docker.api_insecure:'',
     ''            tls_config = docker.tls.TLSConfig('',
     ''                client_cert=(CONF.docker.cert_file, CONF.docker.key_file),'',
     ''                verify=CONF.docker.ca_file)'',
     [],
     ''        client = docker.APIClient('',
     ''            base_url=exec_instance.url,'',
     ''            version=CONF.docker.docker_remote_api_version,'',
     ''            tls=tls_config)'']\<close>

definition wsproxy_edit :: edit where
  "wsproxy_edit path source =
     (if contains WS_NEW source \<and> \<not> contains WS_OLD source then Inr None
      else if count_sub WS_OLD source \<noteq> 1 then
        Inl (RuntimeErr (''expected exactly one unpatched Docker API client in '' @ path @ '', found '' @
          show_nat (count_sub WS_OLD source)))
      else Inr (Some (replace_all WS_OLD WS_NEW source, [])))"

definition wsproxy_paths :: "patch_host \<Rightarrow> string list \<Rightarrow> string list" where
  "wsproxy_paths h arguments = given_or_found h arguments (python_path @ ''zun/websocket/websocketproxy.py'')"

definition wsproxy_main :: "patch_host \<Rightarrow> string list \<Rightarrow> unit patch_io" where
  "wsproxy_main h arguments =
     (let paths = wsproxy_paths h arguments
      in bind (only_path (RuntimeErr (''expected one Zun websocket proxy module, found '' @ show_nat (length paths) @
              '': '' @ show_paths paths)) paths)
           (edit_file h wsproxy_edit))"

section \<open>The Zun action of Mistral\<close>

definition VERSION_OLD :: string where
  \<open>VERSION_OLD = lines_text
    [''            zun_api_versions.MAX_API_VERSION,'',
     []]\<close>

definition VERSION_NEW :: string where
  \<open>VERSION_NEW = lines_text
    [''            zun_api_versions.APIVersion(zun_api_versions.MAX_API_VERSION),'',
     []]\<close>

definition SESSION_OLD :: string where
  \<open>SESSION_OLD = lines_text
    [''            auth_url=keystone_endpoint.url,'',
     ''            session=session_and_auth['auth']'',
     []]\<close>

definition SESSION_NEW :: string where
  \<open>SESSION_NEW = lines_text
    [''            auth_url=keystone_endpoint.url,'',
     ''            session=session_and_auth['session']'',
     []]\<close>

definition mistral_changes :: "(string \<times> string) list" where
  "mistral_changes = [(VERSION_OLD, VERSION_NEW), (SESSION_OLD, SESSION_NEW)]"

definition mistral_change :: "string \<Rightarrow> string \<times> string \<Rightarrow> string \<Rightarrow> patch_error + string" where
  "mistral_change path change source =
     (case change of (needle, replacement) \<Rightarrow>
        if \<not> contains needle source then
          expect (contains replacement source)
            (RuntimeErr (''Expected one Zun compatibility target in '' @ path)) (Inr source)
        else
          expect (count_sub needle source = 1)
            (RuntimeErr (''Expected one Zun compatibility target in '' @ path))
            (Inr (replace_first needle replacement source)))"

definition mistral_edit :: edit where
  "mistral_edit path source =
     (case fold (\<lambda>change r. then_edit r (mistral_change path change)) mistral_changes (Inr source) of
        Inl e \<Rightarrow> Inl e
      | Inr t \<Rightarrow> Inr (Some (t, [])))"

text \<open>The script is one run of statements, on the file of an imported module.\<close>

definition mistral_main :: "patch_host \<Rightarrow> string \<Rightarrow> unit patch_io" where
  "mistral_main h path = edit_file h mistral_edit path"

end
