(* ===== verification/CeilPatch.thy ===== *)
theory CeilPatch
  imports SourcePatch
begin

text \<open>
  The scripts \<^verbatim>\<open>patch-ceilometer-zun-capsule.py\<close> and \<^verbatim>\<open>patch-ceilometer-gnocchi-resource.py\<close>: the texts they look for
  and put in, their edits and their entry points.
\<close>

section \<open>The meter of capsules\<close>

definition METER_MARKER :: string where
  \<open>METER_MARKER = ''# yggdrasil-zun-capsule-cpu-v3''\<close>

definition METER_PREVIOUS_MARKER :: string where
  \<open>METER_PREVIOUS_MARKER = ''# yggdrasil-zun-capsule-cpu-v2''\<close>

definition METER_LEGACY_MARKER :: string where
  \<open>METER_LEGACY_MARKER = ''# yggdrasil-zun-capsule-cpu-v1''\<close>

definition METER_DEFINITION :: string where
  \<open>METER_DEFINITION = lines_text
    [[],
     ''  - resource_type: yggdrasil_zun_capsule'',
     ''    metrics:'',
     ''      yggdrasil.zun.capsule.cpu_util:'',
     ''        archive_policy_name: ceilometer-high'',
     ''    attributes:'',
     ''      yggdrasil_senlin_resource_id:'',
     ''        fields: resource_metadata.yggdrasil_senlin_resource_id'',
     []]\<close>

definition METER_PREVIOUS_DEFINITION :: string where
  \<open>METER_PREVIOUS_DEFINITION = lines_text
    [[],
     ''  - resource_type: yggdrasil_zun_capsule'',
     ''    metrics:'',
     ''      yggdrasil.zun.capsule.cpu_util:'',
     ''        archive_policy_name: ceilometer-high'',
     ''    attributes:'',
     ''      original_resource_id:'',
     ''        fields: resource_metadata.original_resource_id'',
     []]\<close>

definition METER_LEGACY_DEFINITION :: string where
  \<open>METER_LEGACY_DEFINITION = lines_text
    [[],
     ''  - resource_type: generic'',
     ''    metrics:'',
     ''      yggdrasil.zun.capsule.cpu_util:'',
     ''        archive_policy_name: ceilometer-high'',
     ''    attributes:'',
     ''      original_resource_id:'',
     ''        fields: resource_metadata.original_resource_id'',
     []]\<close>

definition updated :: "string \<Rightarrow> string \<Rightarrow> string \<Rightarrow> (string \<times> string list) option" where
  "updated path old source =
     Some (replace_first old (METER_MARKER @ METER_DEFINITION) source, [''updated Zun capsule CPU meter in '' @ path])"

definition meter_edit :: edit where
  "meter_edit path source =
     (let previous_definition = METER_PREVIOUS_MARKER @ METER_PREVIOUS_DEFINITION;
          legacy_definition = METER_LEGACY_MARKER @ METER_LEGACY_DEFINITION
      in if contains METER_MARKER source then Inr None
         else if contains METER_PREVIOUS_MARKER source then
           expect (count_sub previous_definition source = 1)
             (Exit ''unexpected previous Zun capsule meter mapping'') (Inr (updated path previous_definition source))
         else if contains METER_LEGACY_MARKER source then
           expect (count_sub legacy_definition source = 1)
             (Exit ''unexpected legacy Zun capsule meter mapping'') (Inr (updated path legacy_definition source))
         else if contains ''yggdrasil.zun.capsule.cpu_util'' source then
           Inl (Exit ''Zun capsule CPU meter already exists without its marker'')
         else if \<not> contains ''resources:'' source then
           Inl (Exit ''unexpected Ceilometer Gnocchi resource definition layout'')
         else
           Inr (Some (rstrip_by is_space source @ [CHR 0x0A] @ METER_MARKER @ METER_DEFINITION,
             [''added Zun capsule CPU meter to '' @ path])))"

definition meter_paths :: "patch_host \<Rightarrow> string list" where
  "meter_paths h = candidates h (python_path @ ''ceilometer/publisher/data/gnocchi_resources.yaml'')"

definition patch_resource_definitions :: "patch_host \<Rightarrow> unit patch_io" where
  "patch_resource_definitions h =
     (let paths = meter_paths h
      in bind (only_path (Exit (''expected one Gnocchi resource definition, found '' @ show_paths paths)) paths)
           (edit_file h meter_edit))"

section \<open>Telemetry compatibility\<close>

definition GNOCCHI_MARKER :: string where
  \<open>GNOCCHI_MARKER = ''_normalize_resource_attributes''\<close>

definition GNOCCHI_METHOD :: string where
  \<open>GNOCCHI_METHOD = lines_text
    [''    @staticmethod'',
     ''    def _normalize_resource_attributes(resource):'',
     ''        """Normalize values whose Gnocchi resource fields are strings."""'',
     ''        if resource.get("flavor_id") is not None:'',
     ''            resource["flavor_id"] = str(resource["flavor_id"])'',
     ''        return resource'',
     [],
     []]\<close>

definition RGW_MARKER :: string where
  \<open>RGW_MARKER = ''_treat_empty_admin_response_as_empty_account''\<close>

definition RGW_METHOD :: string where
  \<open>RGW_METHOD = lines_text
    [''        # Some RGW tenants do not have an account record yet. RGW'',
     ''        # returns an empty 200 response for those tenants, which is a valid'',
     ''        # zero-usage result rather than malformed JSON.'',
     ''        # _treat_empty_admin_response_as_empty_account'',
     ''        if not r.content.strip():'',
     ''            return []'',
     [],
     []]\<close>

definition RESOURCE_TYPE_OPERATION_MARKER :: string where
  \<open>RESOURCE_TYPE_OPERATION_MARKER = ''create yggdrasil_zun_capsule for Zun Capsule autoscaling''\<close>

definition LEGACY_RESOURCE_TYPE_OPERATION :: string where
  \<open>LEGACY_RESOURCE_TYPE_OPERATION = lines_text
    [''    {"desc": "add original_resource_id to generic for Zun Capsule autoscaling",'',
     ''     "type": "update_attribute_type",'',
     ''     "resource_type": "generic",'',
     ''     "data": [{'',
     ''         "op": "add",'',
     ''         "path": "/attributes/original_resource_id",'',
     ''         "value": {"type": "string", "min_length": 0,'',
     ''                   "max_length": 255, "required": False}'',
     ''     }]},'',
     []]\<close>

definition PREVIOUS_RESOURCE_TYPE_OPERATION :: string where
  \<open>PREVIOUS_RESOURCE_TYPE_OPERATION = lines_text
    [''    {"desc": "create yggdrasil_zun_capsule for Zun Capsule autoscaling",'',
     ''     "type": "create_resource_type",'',
     ''     "resource_type": "yggdrasil_zun_capsule",'',
     ''     "data": [{'',
     ''         "attributes": {'',
     ''             "original_resource_id": {'',
     ''                 "type": "string", "min_length": 0,'',
     ''                 "max_length": 255, "required": False'',
     ''             }'',
     ''         }'',
     ''     }]},'',
     []]\<close>

definition RESOURCE_TYPE_OPERATION :: string where
  \<open>RESOURCE_TYPE_OPERATION = lines_text
    [''    {"desc": "create yggdrasil_zun_capsule for Zun Capsule autoscaling",'',
     ''     "type": "create_resource_type",'',
     ''     "resource_type": "yggdrasil_zun_capsule",'',
     ''     "data": [{"attributes": {}}]},'',
     []]\<close>

definition RESOURCE_ATTRIBUTE_OPERATION_MARKER :: string where
  \<open>RESOURCE_ATTRIBUTE_OPERATION_MARKER = ''add yggdrasil_senlin_resource_id to Zun Capsule autoscaling''\<close>

definition RESOURCE_ATTRIBUTE_REMOVAL_OPERATION_MARKER :: string where
  \<open>RESOURCE_ATTRIBUTE_REMOVAL_OPERATION_MARKER = ''remove original_resource_id from Zun Capsule autoscaling''\<close>

definition RESOURCE_ATTRIBUTE_REMOVAL_OPERATION :: string where
  \<open>RESOURCE_ATTRIBUTE_REMOVAL_OPERATION = lines_text
    [''    {"desc": "remove original_resource_id from Zun Capsule autoscaling",'',
     ''     "type": "update_attribute_type",'',
     ''     "resource_type": "yggdrasil_zun_capsule",'',
     ''     "data": [{'',
     ''         "op": "remove",'',
     ''         "path": "/attributes/original_resource_id"'',
     ''     }]},'',
     []]\<close>

definition RESOURCE_ATTRIBUTE_OPERATION :: string where
  \<open>RESOURCE_ATTRIBUTE_OPERATION = lines_text
    [''    {"desc": "add yggdrasil_senlin_resource_id to Zun Capsule autoscaling",'',
     ''     "type": "update_attribute_type",'',
     ''     "resource_type": "yggdrasil_zun_capsule",'',
     ''     "data": [{'',
     ''         "op": "add",'',
     ''         "path": "/attributes/yggdrasil_senlin_resource_id",'',
     ''         "value": {"type": "string", "min_length": 0,'',
     ''                   "max_length": 255, "required": False}'',
     ''     }]},'',
     []]\<close>

definition RESOURCE_TYPE_VALUE_COPY :: string where
  \<open>RESOURCE_TYPE_VALUE_COPY = lines_text
    [''            value = first_op['value'].copy()'',
     []]\<close>

definition RESOURCE_TYPE_VALUE_COPY_PATCH :: string where
  \<open>RESOURCE_TYPE_VALUE_COPY_PATCH = lines_text
    [''            value = first_op.get('value', {}).copy()'',
     []]\<close>

definition EVENT_ATTRIBUTES :: string where
  \<open>EVENT_ATTRIBUTES = ''resource = rd.event_attributes(event)''\<close>

definition SAMPLE_ATTRIBUTES :: string where
  \<open>SAMPLE_ATTRIBUTES = ''rd.sample_attributes(sample)''\<close>

definition CREATE_RESOURCE :: string where
  \<open>CREATE_RESOURCE = lines_text [''    def _create_resource(self, resource_type, resource):'', []]\<close>

definition gnocchi_edit :: "patch_host \<Rightarrow> edit" where
  "gnocchi_edit h path source =
     (if contains GNOCCHI_MARKER source then Inr None
      else
        expect (count_sub CREATE_RESOURCE source = 1) (Exit ''unexpected Ceilometer publisher layout'')
       (expect (count_sub EVENT_ATTRIBUTES source = 3) (Exit ''unexpected event attribute layout'')
       (expect (count_sub SAMPLE_ATTRIBUTES source = 1) (Exit ''unexpected sample attribute layout'')
       (let source1 = replace_first CREATE_RESOURCE (GNOCCHI_METHOD @ CREATE_RESOURCE) source;
            source2 = replace_all EVENT_ATTRIBUTES
              ''resource = self._normalize_resource_attributes(rd.event_attributes(event))'' source1;
            source3 = replace_all SAMPLE_ATTRIBUTES
              ''self._normalize_resource_attributes(rd.sample_attributes(sample))'' source2
        in checked h source3 [''patched '' @ path]))))"

definition gnocchi_paths :: "patch_host \<Rightarrow> string list" where
  "gnocchi_paths h = candidates h (python_path @ ''ceilometer/publisher/gnocchi.py'')"

definition patch_gnocchi :: "patch_host \<Rightarrow> unit patch_io" where
  "patch_gnocchi h =
     (let paths = gnocchi_paths h
      in bind (only_path (Exit (''expected one Ceilometer publisher, found '' @ show_paths paths)) paths)
           (edit_file h (gnocchi_edit h)))"

definition RETURN_JSON :: string where
  \<open>RETURN_JSON = lines_text [''        return r.json()'', []]\<close>

definition rgw_edit :: "patch_host \<Rightarrow> edit" where
  "rgw_edit h path source =
     (if contains RGW_MARKER source then Inr None
      else
        expect (count_sub RETURN_JSON source = 1) (Exit ''unexpected Ceilometer RGW client layout'')
          (checked h (replace_first RETURN_JSON (RGW_METHOD @ RETURN_JSON) source) [''patched '' @ path]))"

definition rgw_paths :: "patch_host \<Rightarrow> string list" where
  "rgw_paths h = candidates h (python_path @ ''ceilometer/objectstore/rgw_client.py'')"

definition patch_rgw_client :: "patch_host \<Rightarrow> unit patch_io" where
  "patch_rgw_client h =
     (let paths = rgw_paths h
      in bind (only_path (Exit (''expected one Ceilometer RGW client, found '' @ show_paths paths)) paths)
           (edit_file h (rgw_edit h)))"

text \<open>The steps of \<^verbatim>\<open>patch_gnocchi_resource_type\<close>.\<close>

definition patch_value_copy :: "string \<Rightarrow> patch_error + string" where
  "patch_value_copy source =
     (if contains RESOURCE_TYPE_VALUE_COPY source then
        Inr (replace_first RESOURCE_TYPE_VALUE_COPY RESOURCE_TYPE_VALUE_COPY_PATCH source)
      else
        expect (contains RESOURCE_TYPE_VALUE_COPY_PATCH source)
          (Exit ''unexpected Ceilometer Gnocchi update operation layout'') (Inr source))"

definition drop_old_operations :: "string \<Rightarrow> string" where
  "drop_old_operations source =
     (let source1 = (if contains LEGACY_RESOURCE_TYPE_OPERATION source
            then replace_first LEGACY_RESOURCE_TYPE_OPERATION [] source else source)
      in if contains PREVIOUS_RESOURCE_TYPE_OPERATION source1
         then replace_first PREVIOUS_RESOURCE_TYPE_OPERATION RESOURCE_TYPE_OPERATION source1 else source1)"

definition UPDATE_OPERATIONS :: string where
  \<open>UPDATE_OPERATIONS = lines_text [''resources_update_operations = ['', []]\<close>

definition add_operation :: "string \<Rightarrow> string \<Rightarrow> string \<Rightarrow> string \<Rightarrow> string \<Rightarrow> patch_error + string" where
  "add_operation marker needle operation message source =
     (if contains marker source then Inr source
      else expect (count_sub needle source = 1) (Exit message)
        (Inr (replace_first needle (needle @ operation) source)))"

definition resource_type_edit :: "patch_host \<Rightarrow> edit" where
  "resource_type_edit h path source =
     then_edit (patch_value_copy source) (\<lambda>source1.
     then_edit (add_operation RESOURCE_TYPE_OPERATION_MARKER UPDATE_OPERATIONS RESOURCE_TYPE_OPERATION
         ''unexpected Ceilometer Gnocchi resource operation layout'' (drop_old_operations source1)) (\<lambda>source2.
     then_edit (add_operation RESOURCE_ATTRIBUTE_REMOVAL_OPERATION_MARKER RESOURCE_TYPE_OPERATION
         RESOURCE_ATTRIBUTE_REMOVAL_OPERATION ''unexpected Zun Capsule Gnocchi resource type operation''
         source2) (\<lambda>source3.
     then_edit (add_operation RESOURCE_ATTRIBUTE_OPERATION_MARKER RESOURCE_ATTRIBUTE_REMOVAL_OPERATION
         RESOURCE_ATTRIBUTE_OPERATION ''unexpected Zun Capsule Gnocchi attribute removal operation''
         source3) (\<lambda>source4.
       checked h source4 [''added Zun Capsule Gnocchi resource type operation to '' @ path]))))"

definition resource_type_paths :: "patch_host \<Rightarrow> string list" where
  "resource_type_paths h = candidates h (python_path @ ''ceilometer/gnocchi_client.py'')"

definition patch_gnocchi_resource_type :: "patch_host \<Rightarrow> unit patch_io" where
  "patch_gnocchi_resource_type h =
     (let paths = resource_type_paths h
      in bind (only_path (Exit (''expected one Ceilometer Gnocchi client, found '' @ show_paths paths)) paths)
           (edit_file h (resource_type_edit h)))"

definition telemetry_main :: "patch_host \<Rightarrow> unit patch_io" where
  "telemetry_main h = andthen (patch_gnocchi h) (andthen (patch_rgw_client h) (patch_gnocchi_resource_type h))"

end
