(* ===== verification/PatchOps.thy ===== *)
theory PatchOps
  imports ZunPatch CeilPatch
begin

text \<open>
  What the scripts that edit installed modules promise: they may be run again, they leave each other's
  work in place, and they write nothing when they refuse a file.
\<close>

text \<open>A text of one line.\<close>

lemma single_lines: "x = l \<Longrightarrow> x = lines_text [l]"
  by (simp add: lines_text_simps)

section \<open>The driver of CRI containers\<close>

lemma cri_v1_apart: "apart DRIVER_CLASS OLD_STUBS" "apart OLD_STUBS COMPATIBILITY_CHANNEL"
  by (rule apart_lines [OF single_lines [OF DRIVER_CLASS_def] OLD_STUBS_def]; code_simp)
     (rule apart_lines [OF OLD_STUBS_def COMPATIBILITY_CHANNEL_def]; code_simp)

definition cri_v1_settled :: "string \<Rightarrow> bool" where
  "cri_v1_settled s \<longleftrightarrow> contains COMPATIBILITY_CHANNEL s \<and> contains NEW_STUBS s"

lemma nonempty_anchors: "DRIVER_CLASS \<noteq> []" "OLD_STUBS \<noteq> []"
  by (simp_all add: DRIVER_CLASS_def OLD_STUBS_def lines_text_simps)

interpretation cri_v1: rerun_safe cri_v1_edit cri_v1_settled
proof
  fix p s t ls
  assume "cri_v1_edit p s = Inr (Some (t, ls))"
  then have once: "count_sub DRIVER_CLASS s = 1" "count_sub OLD_STUBS s = 1"
    and t: "t = replace_first OLD_STUBS NEW_STUBS
      (replace_first DRIVER_CLASS (COMPATIBILITY_CHANNEL @ [CHR 0x0A, CHR 0x0A] @ DRIVER_CLASS) s)"
    by (auto simp: cri_v1_edit_def split: if_splits)
  let ?s1 = "replace_first DRIVER_CLASS (COMPATIBILITY_CHANNEL @ [CHR 0x0A, CHR 0x0A] @ DRIVER_CLASS) s"
  have "contains OLD_STUBS ?s1"
    using once nonempty_anchors by (simp add: contains_replace_first cri_v1_apart count_one_contains)
  moreover have "contains COMPATIBILITY_CHANNEL ?s1"
    using once nonempty_anchors by (simp add: contains_new_once contains_append1)
  ultimately show "cri_v1_settled t"
    unfolding t cri_v1_settled_def
    using contains_replace_first [OF _ cri_v1_apart(2) nonempty_anchors(2)]
      contains_new [OF _ nonempty_anchors(2) contains_refl] by blast
qed (simp add: cri_v1_settled_def cri_v1_edit_def)

lemma cri_stats_anchors: "METHOD_ANCHOR \<noteq> []" "INIT_ANCHOR \<noteq> []" "IMPORT_ANCHOR \<noteq> []"
  by (simp_all add: METHOD_ANCHOR_def INIT_ANCHOR_def IMPORT_ANCHOR_def lines_text_simps)

lemma cri_stats_apart:
  "apart IMPORT_ANCHOR METHOD_ANCHOR" "apart INIT_ANCHOR METHOD_ANCHOR" "apart IMPORT_ANCHOR INIT_ANCHOR"
  by ((rule apart_lines [OF IMPORT_ANCHOR_def METHOD_ANCHOR_def]; code_simp)
     | (rule apart_lines [OF INIT_ANCHOR_def METHOD_ANCHOR_def]; code_simp)
     | (rule apart_lines [OF IMPORT_ANCHOR_def INIT_ANCHOR_def]; code_simp))+

text \<open>The three insertions, each at a place that is there.\<close>

lemma cri_stats_steps:
  assumes "cri_stats_edit p s = Inr (Some (t, ls))"
  obtains s1 s2 x y where "contains IMPORT_ANCHOR s" "s1 = replace_first IMPORT_ANCHOR (IMPORT_ANCHOR @ x) s"
    "contains INIT_ANCHOR s1" "s2 = replace_first INIT_ANCHOR (INIT_ANCHOR @ y) s1"
    "contains METHOD_ANCHOR s2" "t = replace_first METHOD_ANCHOR (CRI_STATS_METHOD @ METHOD_ANCHOR) s2"
proof -
  let ?x = "''import threading'' @ [CHR 0x0A]"
  let ?y = "''        self._cpu_stats_cache = {}'' @ [CHR 0x0A] @ ''        self._cpu_stats_lock = threading.Lock()'' @ [CHR 0x0A]"
  let ?s1 = "replace_first IMPORT_ANCHOR (IMPORT_ANCHOR @ ?x) s"
  let ?s2 = "replace_first INIT_ANCHOR (INIT_ANCHOR @ ?y) ?s1"
  from assms have t: "t = replace_first METHOD_ANCHOR (CRI_STATS_METHOD @ METHOD_ANCHOR) ?s2"
    and c: "count_sub IMPORT_ANCHOR s = 1" "count_sub INIT_ANCHOR s = 1" "count_sub METHOD_ANCHOR s = 1"
    by (auto simp: cri_stats_edit_def expect_def Let_def split: if_splits)
  note c = c [THEN count_one_contains [rotated]] and m = cri_stats_anchors and ap = cri_stats_apart
  from c m have "contains INIT_ANCHOR ?s1" "contains METHOD_ANCHOR ?s1"
    by (simp_all add: contains_replace_first ap)
  with m have "contains METHOD_ANCHOR ?s2" by (simp add: contains_replace_first ap)
  with \<open>contains INIT_ANCHOR ?s1\<close> c(1) [OF m(3)] t show thesis using that [of ?s1 ?x ?s2 ?y] by blast
qed

interpretation cri_stats: rerun_safe cri_stats_edit "contains CRI_STATS_MARKER"
proof
  have mark: "contains CRI_STATS_MARKER CRI_STATS_METHOD"
    by (rule contains_line [OF CRI_STATS_METHOD_def]) code_simp
  fix p s t ls
  assume "cri_stats_edit p s = Inr (Some (t, ls))"
  then show "contains CRI_STATS_MARKER t"
    by (rule cri_stats_steps) (use mark cri_stats_anchors in \<open>simp add: contains_new contains_append1\<close>)
qed (simp add: cri_stats_edit_def)

interpretation manager: rerun_safe manager_edit "contains MANAGER_MARKER"
proof
  have m: "MANAGER_OLD \<noteq> []" by (simp add: MANAGER_OLD_def lines_text_simps)
  have "contains MANAGER_MARKER MANAGER_NEW"
    by (rule contains_line [OF MANAGER_NEW_def]) code_simp
  with m show "contains MANAGER_MARKER t" if "manager_edit p s = Inr (Some (t, ls))" for p s t ls
    using that by (auto simp: manager_edit_def contains_new_once split: if_splits)
qed (simp add: manager_edit_def)

lemma cpu_unmade: "unmade CPU_OLD CPU_NEW"
  by (rule unmade_lines [OF CPU_OLD_def CPU_NEW_def]; code_simp)

lemma ws_unmade: "unmade WS_OLD WS_NEW"
  by (rule unmade_lines [OF single_lines [OF WS_OLD_def] WS_NEW_def]; code_simp)

interpretation cpu_stats: rerun_safe cpu_stats_edit "\<lambda>s. contains CPU_NEW s \<and> \<not> contains CPU_OLD s"
proof
  show "contains CPU_NEW t \<and> \<not> contains CPU_OLD t" if "cpu_stats_edit p s = Inr (Some (t, ls))" for p s t ls
    using that replaced_once [OF _ cpu_unmade] by (auto simp: cpu_stats_edit_def split: if_splits)
qed (simp add: cpu_stats_edit_def)

interpretation wsproxy: rerun_safe wsproxy_edit "\<lambda>s. contains WS_NEW s \<and> \<not> contains WS_OLD s"
proof
  show "contains WS_NEW t \<and> \<not> contains WS_OLD t" if "wsproxy_edit p s = Inr (Some (t, ls))" for p s t ls
    using that replaced_once [OF _ ws_unmade] by (auto simp: wsproxy_edit_def split: if_splits)
qed (simp add: wsproxy_edit_def)

lemma session_unmade: "unmade SESSION_OLD SESSION_NEW"
  unfolding SESSION_OLD_def SESSION_NEW_def by code_simp

lemma mistral_unmade:
  "unmade VERSION_OLD VERSION_NEW" "unmade SESSION_OLD SESSION_NEW" "unmade VERSION_OLD SESSION_NEW"
  "apart SESSION_OLD VERSION_NEW"
  by ((rule unmade_lines [OF VERSION_OLD_def VERSION_NEW_def]; code_simp)
     | rule session_unmade
     | (rule unmade_lines [OF VERSION_OLD_def SESSION_NEW_def]; code_simp)
     | (rule apart_lines [OF SESSION_OLD_def VERSION_NEW_def]; code_simp))+

definition mistral_settled :: "string \<Rightarrow> bool" where
  "mistral_settled s \<longleftrightarrow> (\<forall>(needle, replacement) \<in> set mistral_changes. \<not> contains needle s \<and> contains replacement s)"

lemma mistral_changed:
  assumes "mistral_change p (needle, replacement) s = Inr t" and "unmade needle replacement"
  shows "\<not> contains needle t \<and> contains replacement t \<and> (t = s \<or> t = replace_first needle replacement s)"
  using assms replaced_once [OF _ assms(2)] by (auto simp: mistral_change_def expect_def split: if_splits)

interpretation mistral: rerun_safe mistral_edit mistral_settled
proof
  fix p s t ls
  assume "mistral_edit p s = Inr (Some (t, ls))"
  then obtain s1 where s1: "mistral_change p (VERSION_OLD, VERSION_NEW) s = Inr s1"
    "mistral_change p (SESSION_OLD, SESSION_NEW) s1 = Inr t"
    by (auto simp: mistral_edit_def mistral_changes_def then_edit_def split: sum.splits)
  note first = mistral_changed [OF s1(1) mistral_unmade(1)] and second = mistral_changed [OF s1(2) mistral_unmade(2)]
  have s: "SESSION_OLD \<noteq> []" using mistral_unmade(2) by (simp add: unmade_def)
  have "\<not> contains VERSION_OLD t \<and> contains VERSION_NEW t"
  proof (cases "t = s1")
    case False
    with second have t: "t = replace_first SESSION_OLD SESSION_NEW s1" by simp
    show ?thesis
      unfolding t using first not_contains_replace_first [OF _ mistral_unmade(3) s] contains_replace_first [OF _ mistral_unmade(4) s]
      by blast
  qed (use first in simp)
  with second show "mistral_settled t" by (simp add: mistral_settled_def mistral_changes_def)
next
  show "mistral_edit p s = Inr None \<or> (\<exists>ls. mistral_edit p s = Inr (Some (s, ls)))" if "mistral_settled s" for p s
    using that by (auto simp: mistral_settled_def mistral_edit_def mistral_changes_def then_edit_def mistral_change_def expect_def)
qed

section \<open>Ceilometer\<close>

interpretation meter: rerun_safe meter_edit "contains METER_MARKER"
proof
  have p: "METER_PREVIOUS_MARKER @ METER_PREVIOUS_DEFINITION \<noteq> []" "METER_LEGACY_MARKER @ METER_LEGACY_DEFINITION \<noteq> []"
    by (simp_all add: METER_PREVIOUS_MARKER_def METER_LEGACY_MARKER_def)
  show "contains METER_MARKER t" if "meter_edit p s = Inr (Some (t, ls))" for p s t ls
    using that p by (auto simp: meter_edit_def updated_def expect_def Let_def contains_new_once contains_append1
      split: if_splits intro!: contains_append2 [of METER_MARKER _ "_ @ [CHR 0x0A]", simplified])
qed (simp add: meter_edit_def)

lemma gnocchi_anchors: "CREATE_RESOURCE \<noteq> []" "EVENT_ATTRIBUTES \<noteq> []" "SAMPLE_ATTRIBUTES \<noteq> []" "RETURN_JSON \<noteq> []"
  by (simp_all add: CREATE_RESOURCE_def EVENT_ATTRIBUTES_def SAMPLE_ATTRIBUTES_def RETURN_JSON_def lines_text_simps)

lemma gnocchi_apart: "apart EVENT_ATTRIBUTES GNOCCHI_MARKER" "apart SAMPLE_ATTRIBUTES GNOCCHI_MARKER"
  by code_simp+

interpretation gnocchi: rerun_safe "gnocchi_edit h" "contains GNOCCHI_MARKER" for h
proof
  have mark: "contains GNOCCHI_MARKER GNOCCHI_METHOD"
    by (rule contains_line [OF GNOCCHI_METHOD_def]) code_simp
  show "contains GNOCCHI_MARKER t" if "gnocchi_edit h p s = Inr (Some (t, ls))" for p s t ls
    using that mark gnocchi_anchors by (auto simp: gnocchi_edit_def expect_def Let_def checked_def split: if_splits option.splits
      intro!: contains_replace_all gnocchi_apart contains_new_once contains_append1)
qed (simp add: gnocchi_edit_def)

interpretation rgw: rerun_safe "rgw_edit h" "contains RGW_MARKER" for h
proof
  have mark: "contains RGW_MARKER RGW_METHOD"
    by (rule contains_line [OF RGW_METHOD_def]) code_simp
  show "contains RGW_MARKER t" if "rgw_edit h p s = Inr (Some (t, ls))" for p s t ls
    using that mark gnocchi_anchors by (auto simp: rgw_edit_def expect_def checked_def split: if_splits option.splits
      intro!: contains_new_once contains_append1)
qed (simp add: rgw_edit_def)

section \<open>Running a script again\<close>


section \<open>Two patches of one file\<close>

lemma stubs_end: "NEW_STUBS = lines_text
    [''        compat_channel = _CriApiCompatibilityChannel(channel)'',
     ''        self.runtime_stub = api_pb2_grpc.RuntimeServiceStub(compat_channel)'', []] @ INIT_ANCHOR"
  by (simp add: NEW_STUBS_def INIT_ANCHOR_def lines_text_simps)

lemma stats_keeps_channel:
  "apart IMPORT_ANCHOR COMPATIBILITY_CHANNEL" "apart INIT_ANCHOR COMPATIBILITY_CHANNEL" "apart METHOD_ANCHOR COMPATIBILITY_CHANNEL"
  "apart IMPORT_ANCHOR NEW_STUBS" "apart METHOD_ANCHOR NEW_STUBS"
  by ((rule apart_lines [OF IMPORT_ANCHOR_def COMPATIBILITY_CHANNEL_def]; code_simp)
     | (rule apart_lines [OF INIT_ANCHOR_def COMPATIBILITY_CHANNEL_def]; code_simp)
     | (rule apart_lines [OF METHOD_ANCHOR_def COMPATIBILITY_CHANNEL_def]; code_simp)
     | (rule apart_lines [OF IMPORT_ANCHOR_def NEW_STUBS_def]; code_simp)
     | (rule apart_lines [OF METHOD_ANCHOR_def NEW_STUBS_def]; code_simp))+

lemma init_no_cut: "\<not> meets (tl (rev NEW_STUBS)) (rev INIT_ANCHOR)"
  unfolding NEW_STUBS_def INIT_ANCHOR_def by code_simp

text \<open>The statistics of the CRI driver are put into a driver that was given the CRI v1 channel without undoing that
  patch: the channel script still finds its work done.\<close>

theorem cri_patches_compatible:
  assumes "cri_v1_edit p s = Inr r" and "cri_stats_edit p (text_after s r) = Inr (Some (t, ls))"
  shows "cri_v1_edit q t = Inr None"
proof -
  let ?s = "text_after s r"
  have settled: "cri_v1_settled ?s"
  proof (cases r)
    case None
    with assms(1) show ?thesis by (auto simp: text_after_def cri_v1_edit_def cri_v1_settled_def split: if_splits)
  next
    case (Some x)
    with assms(1) show ?thesis by (cases x) (auto simp: text_after_def dest: cri_v1.settles)
  qed
  from assms(2) have "cri_v1_settled t"
  proof (rule cri_stats_steps)
    fix s1 s2 x y
    assume st: "s1 = replace_first IMPORT_ANCHOR (IMPORT_ANCHOR @ x) ?s" "contains INIT_ANCHOR s1"
      "s2 = replace_first INIT_ANCHOR (INIT_ANCHOR @ y) s1"
      "t = replace_first METHOD_ANCHOR (CRI_STATS_METHOD @ METHOD_ANCHOR) s2"
    have one: "cri_v1_settled s1"
      using settled unfolding st(1) cri_v1_settled_def by (simp add: contains_replace_first stats_keeps_channel cri_stats_anchors)
    obtain a b where ab: "s1 = a @ INIT_ANCHOR @ b" "s2 = a @ (INIT_ANCHOR @ y) @ b"
      using replace_first_split [OF st(2) cri_stats_anchors(2)] unfolding st(3) by metis
    have "contains NEW_STUBS s2"
      using one contains_inserted [OF _ init_no_cut, of a b y] unfolding ab cri_v1_settled_def by simp
    moreover have "contains COMPATIBILITY_CHANNEL s2"
      using one unfolding st(3) cri_v1_settled_def by (simp add: contains_replace_first stats_keeps_channel cri_stats_anchors)
    ultimately show ?thesis
      unfolding st(4) cri_v1_settled_def by (simp add: contains_replace_first stats_keeps_channel cri_stats_anchors)
  qed
  then show ?thesis by (simp add: cri_v1_settled_def cri_v1_edit_def)
qed

text \<open>A driver that was given the channel and has the places the other script looks for.\<close>

definition demo_driver :: string where
  "demo_driver = IMPORT_ANCHOR @ COMPATIBILITY_CHANNEL @ ([CHR 0x0A, CHR 0x0A] @ DRIVER_CLASS @ [CHR 0x0A]) @
     lines_text [''        compat_channel = _CriApiCompatibilityChannel(channel)'',
       ''        self.runtime_stub = api_pb2_grpc.RuntimeServiceStub(compat_channel)'', []] @ INIT_ANCHOR @ METHOD_ANCHOR"

lemma demo_no_marker: "\<not> contains CRI_STATS_MARKER demo_driver"
proof -
  have m: "CRI_STATS_MARKER \<noteq> []" by (simp add: CRI_STATS_MARKER_def)
  have "\<not> meets COMPATIBILITY_CHANNEL CRI_STATS_MARKER"
    by (rule clear_meets [OF COMPATIBILITY_CHANNEL_def, where ?v1.0 = CRI_STATS_MARKER and w = "[]"]; code_simp)
  moreover have "\<not> meets IMPORT_ANCHOR CRI_STATS_MARKER"
    "\<not> meets ([CHR 0x0A, CHR 0x0A] @ DRIVER_CLASS @ [CHR 0x0A]) CRI_STATS_MARKER"
    "\<not> meets (lines_text [''        compat_channel = _CriApiCompatibilityChannel(channel)'',
       ''        self.runtime_stub = api_pb2_grpc.RuntimeServiceStub(compat_channel)'', []]) CRI_STATS_MARKER"
    "count_sub CRI_STATS_MARKER (INIT_ANCHOR @ METHOD_ANCHOR) = 0" by code_simp+
  ultimately have "count_sub CRI_STATS_MARKER demo_driver = 0"
    unfolding demo_driver_def using m by (simp only: count_sub_skip not_False_eq_True)
  then show ?thesis using count_sub_positive [OF m] by blast
qed

lemma demo_anchors:
  "count_sub IMPORT_ANCHOR demo_driver = 1" "count_sub INIT_ANCHOR demo_driver = 1" "count_sub METHOD_ANCHOR demo_driver = 1"
proof -
  let ?d = "[CHR 0x0A, CHR 0x0A] @ DRIVER_CLASS @ [CHR 0x0A]"
  let ?s = "lines_text [''        compat_channel = _CriApiCompatibilityChannel(channel)'',
       ''        self.runtime_stub = api_pb2_grpc.RuntimeServiceStub(compat_channel)'', []]"
  have compat: "\<not> meets COMPATIBILITY_CHANNEL IMPORT_ANCHOR" "\<not> meets COMPATIBILITY_CHANNEL INIT_ANCHOR"
    "\<not> meets COMPATIBILITY_CHANNEL METHOD_ANCHOR"
    using stats_keeps_channel(1-3) by (simp_all add: apart_def)
  have small: "\<not> meets ?d IMPORT_ANCHOR" "\<not> meets ?d INIT_ANCHOR" "\<not> meets ?d METHOD_ANCHOR"
    "\<not> meets ?s IMPORT_ANCHOR" "\<not> meets ?s INIT_ANCHOR" "\<not> meets ?s METHOD_ANCHOR"
    "\<not> meets IMPORT_ANCHOR INIT_ANCHOR" "\<not> meets IMPORT_ANCHOR METHOD_ANCHOR"
    "count_sub IMPORT_ANCHOR (INIT_ANCHOR @ METHOD_ANCHOR) = 0" "count_sub INIT_ANCHOR (INIT_ANCHOR @ METHOD_ANCHOR) = 1"
    "count_sub METHOD_ANCHOR (INIT_ANCHOR @ METHOD_ANCHOR) = 1" by code_simp+
  show "count_sub IMPORT_ANCHOR demo_driver = 1"
    unfolding demo_driver_def by (simp only: count_sub_hit count_sub_skip compat small cri_stats_anchors not_False_eq_True One_nat_def)
  show "count_sub INIT_ANCHOR demo_driver = 1" "count_sub METHOD_ANCHOR demo_driver = 1"
    unfolding demo_driver_def by (simp_all only: count_sub_skip compat small cri_stats_anchors not_False_eq_True)
qed

lemma demo_driver_edits:
  "cri_v1_edit p demo_driver = Inr None" "\<exists>t. cri_stats_edit p demo_driver = Inr (Some (t, []))"
proof -
  have "contains COMPATIBILITY_CHANNEL demo_driver" unfolding demo_driver_def by (rule contains_mid)
  moreover have "demo_driver = (IMPORT_ANCHOR @ COMPATIBILITY_CHANNEL @ ([CHR 0x0A, CHR 0x0A] @ DRIVER_CLASS @ [CHR 0x0A])) @
      NEW_STUBS @ METHOD_ANCHOR"
    by (simp add: demo_driver_def stubs_end)
  then have "contains NEW_STUBS demo_driver" by (rule ssubst) (rule contains_mid)
  ultimately show "cri_v1_edit p demo_driver = Inr None" by (simp add: cri_v1_edit_def)
  show "\<exists>t. cri_stats_edit p demo_driver = Inr (Some (t, []))"
    using demo_no_marker demo_anchors by (simp add: cri_stats_edit_def expect_def Let_def)
qed


theorem cri_patches_compatible_witness:
  "\<exists>t. cri_stats_edit [] demo_driver = Inr (Some (t, [])) \<and> cri_v1_edit [] t = Inr None"
proof -
  obtain t where t: "cri_stats_edit [] demo_driver = Inr (Some (t, []))" using demo_driver_edits(2) by blast
  from cri_patches_compatible [OF demo_driver_edits(1), of "[]" t "[]" "[]"] t show ?thesis by (auto simp: text_after_def)
qed

section \<open>The statistics of capsules\<close>

definition capsule_stats_settled :: "string \<Rightarrow> bool" where
  "capsule_stats_settled s \<longleftrightarrow> contains CAPSULE_STATS_MARKER s \<and> contains CUSTOM_ACTION s"

lemma capsule_stats_anchors: "CUSTOM_ACTIONS_ANCHOR \<noteq> []" "ANCHOR \<noteq> []" "CAPSULE_STATS_PREVIOUS_MARKER \<noteq> []"
  by (simp_all add: CUSTOM_ACTIONS_ANCHOR_def ANCHOR_def CAPSULE_STATS_PREVIOUS_MARKER_def lines_text_simps)

lemma capsule_stats_apart: "apart ANCHOR CUSTOM_ACTION" "apart CAPSULE_STATS_PREVIOUS_MARKER CUSTOM_ACTION"
  by ((rule apart_lines [OF single_lines [OF ANCHOR_def] CUSTOM_ACTION_def]; code_simp)
     | (rule apart_lines [OF single_lines [OF CAPSULE_STATS_PREVIOUS_MARKER_def] CUSTOM_ACTION_def]; code_simp))+

lemma capsule_stats_action:
  assumes "add_custom_action p s = Inr s1"
  shows "contains CUSTOM_ACTION s1"
  using assms by (auto simp: add_custom_action_def expect_def contains_new_once capsule_stats_anchors contains_append2
      split: if_splits)

lemma capsule_stats_method:
  assumes "add_stats_method p s = Inr t" and "contains CUSTOM_ACTION s"
  shows "contains CUSTOM_ACTION t \<and> (contains CAPSULE_STATS_MARKER t \<or> contains CAPSULE_STATS_PREVIOUS_MARKER t)"
    "contains CAPSULE_STATS_PREVIOUS_MARKER s \<or> contains CAPSULE_STATS_MARKER s \<Longrightarrow> contains CAPSULE_STATS_MARKER t"
proof -
  have mark: "contains CAPSULE_STATS_PREVIOUS_MARKER CAPSULE_STATS_METHOD"
    by (rule contains_line [OF CAPSULE_STATS_METHOD_def]) code_simp
  note facts = capsule_stats_anchors capsule_stats_apart contains_replace_first contains_new contains_new_once
    contains_append1 mark
  from assms show "contains CUSTOM_ACTION t \<and> (contains CAPSULE_STATS_MARKER t \<or> contains CAPSULE_STATS_PREVIOUS_MARKER t)"
    by (auto simp: add_stats_method_def expect_def facts split: if_splits)
  from assms show "contains CAPSULE_STATS_PREVIOUS_MARKER s \<or> contains CAPSULE_STATS_MARKER s \<Longrightarrow> contains CAPSULE_STATS_MARKER t"
    by (auto simp: add_stats_method_def expect_def facts split: if_splits)
qed

text \<open>The inserted method carries the marker of the previous version: a first run puts it in, a second run replaces the
  marker, and only then is the text one that a run leaves as it is.\<close>

theorem capsule_stats_second_run:
  assumes "capsule_stats_edit p s = Inr (Some (t, ls))"
  shows "\<exists>r. capsule_stats_edit p t = Inr r \<and> capsule_stats_settled (text_after t r)"
proof -
  from assms obtain s1 where s1: "add_custom_action p s = Inr s1" "add_stats_method p s1 = Inr t"
    by (auto simp: capsule_stats_edit_def then_edit_def split: if_splits sum.splits)
  note t = capsule_stats_method(1) [OF s1(2) capsule_stats_action [OF s1(1)]]
  show ?thesis
  proof (cases "contains CAPSULE_STATS_MARKER t")
    case True
    with t show ?thesis by (simp add: capsule_stats_edit_def capsule_stats_settled_def text_after_def)
  next
    case False
    with t obtain u where u: "add_stats_method p t = Inr u" by (auto simp: add_stats_method_def)
    from capsule_stats_method [OF u] t have "capsule_stats_settled u" unfolding capsule_stats_settled_def by blast
    with u t False show ?thesis
      by (simp add: capsule_stats_edit_def add_custom_action_def then_edit_def text_after_def)
  qed
qed

lemma capsule_stats_unmade:
  "unmade CAPSULE_STATS_MARKER (CUSTOM_ACTIONS_ANCHOR @ CUSTOM_ACTION)"
  "unmade CAPSULE_STATS_PREVIOUS_MARKER (CUSTOM_ACTIONS_ANCHOR @ CUSTOM_ACTION)"
  "unmade CAPSULE_STATS_MARKER (CAPSULE_STATS_METHOD @ ANCHOR)"
proof -
  show "unmade CAPSULE_STATS_MARKER (CUSTOM_ACTIONS_ANCHOR @ CUSTOM_ACTION)"
    "unmade CAPSULE_STATS_PREVIOUS_MARKER (CUSTOM_ACTIONS_ANCHOR @ CUSTOM_ACTION)" by code_simp+
  show "unmade CAPSULE_STATS_MARKER (CAPSULE_STATS_METHOD @ ANCHOR)"
    by (rule unmade_append,
        rule unmade_lines [OF single_lines [OF CAPSULE_STATS_MARKER_def] CAPSULE_STATS_METHOD_def]; code_simp)
qed

lemma capsule_stats_not_finished:
  assumes "capsule_stats_edit p s = Inr (Some (t, ls))"
    and "\<not> contains CAPSULE_STATS_MARKER s" and "\<not> contains CAPSULE_STATS_PREVIOUS_MARKER s"
  shows "\<exists>u. capsule_stats_edit p t = Inr (Some (u, [])) \<and> u \<noteq> t"
proof -
  let ?M = CAPSULE_STATS_MARKER and ?P = CAPSULE_STATS_PREVIOUS_MARKER
  from assms(1) obtain s1 where s1: "add_custom_action p s = Inr s1" "add_stats_method p s1 = Inr t"
    by (auto simp: capsule_stats_edit_def then_edit_def split: if_splits sum.splits)
  from s1(1) have "s1 = s \<or> s1 = replace_first CUSTOM_ACTIONS_ANCHOR (CUSTOM_ACTIONS_ANCHOR @ CUSTOM_ACTION) s"
    by (auto simp: add_custom_action_def expect_def split: if_splits)
  with assms(2,3) have no: "\<not> contains ?M s1" "\<not> contains ?P s1"
    using not_contains_replace_first [OF _ capsule_stats_unmade(1) capsule_stats_anchors(1), of s]
      not_contains_replace_first [OF _ capsule_stats_unmade(2) capsule_stats_anchors(1), of s] by auto
  with s1(2) have t: "t = replace_first ANCHOR (CAPSULE_STATS_METHOD @ ANCHOR) s1"
    by (auto simp: add_stats_method_def expect_def split: if_splits)
  have "\<not> contains ?M t"
    unfolding t by (rule not_contains_replace_first [OF no(1) capsule_stats_unmade(3) capsule_stats_anchors(2)])
  with capsule_stats_method(1) [OF s1(2) capsule_stats_action [OF s1(1)]]
  have "contains ?P t" "contains CUSTOM_ACTION t" "\<not> contains ?M t" by auto
  moreover obtain a b where "t = a @ ?P @ b" "replace_first ?P ?M t = a @ ?M @ b"
    using replace_first_split [OF \<open>contains ?P t\<close> capsule_stats_anchors(3)] by metis
  then have "replace_first ?P ?M t \<noteq> t" by (simp add: CAPSULE_STATS_MARKER_def CAPSULE_STATS_PREVIOUS_MARKER_def)
  ultimately show ?thesis
    by (simp add: capsule_stats_edit_def add_custom_action_def add_stats_method_def then_edit_def)
qed

section \<open>Files\<close>

text \<open>A refused file stays as it is, and so do all others.\<close>

lemma edit_file_wp:
  "wp (edit_file h edit path)
     (\<lambda>_ w1. \<exists>s r. pw_files w path = Some s \<and> edit path s = Inr r \<and>
        pw_files w1 = (pw_files w)(path \<mapsto> text_after s r))
     (\<lambda>_ w1. w1 = w) w"
  by (auto simp: edit_file_def wp_simps wp_def read_text_def write_text_def print_lines_def bind_def andthen_def
      ret_def raise_exn_def text_after_def map_upd_triv split: option.splits sum.splits)

end
