(* ===== verification/PyUrl.thy ===== *)
theory PyUrl
  imports PyText
begin

text \<open>
  \<^verbatim>\<open>urllib.parse\<close>: splitting an address into its parts, putting it together and resolving a relative
  address against a base, after CPython 3.12.  \<open>netloc_error\<close> stands for the checks of bracketed and
  non-ASCII hosts: \<open>Some m\<close> is a \<^verbatim>\<open>ValueError\<close>.
\<close>

record url_parts =
  u_scheme :: string
  u_netloc :: string
  u_path :: string
  u_params :: string
  u_query :: string
  u_fragment :: string

definition is_alpha :: "char \<Rightarrow> bool" where
  "is_alpha c \<longleftrightarrow> is_lower c \<or> is_upper c"

definition scheme_char :: "char \<Rightarrow> bool" where
  "scheme_char c \<longleftrightarrow> is_alpha c \<or> is_digit c \<or> c = CHR ''+'' \<or> c = CHR ''-'' \<or> c = CHR ''.''"

definition control_or_space :: "char \<Rightarrow> bool" where
  "control_or_space c \<longleftrightarrow> (of_char c :: nat) \<le> 32"

definition unsafe_byte :: "char \<Rightarrow> bool" where
  "unsafe_byte c \<longleftrightarrow> c = CHR 0x09 \<or> c = CHR 0x0D \<or> c = CHR 0x0A"

definition netloc_end :: "char \<Rightarrow> bool" where
  "netloc_end c \<longleftrightarrow> c = CHR ''/'' \<or> c = CHR ''?'' \<or> c = CHR ''#''"

definition uses_relative :: "string list" where
  "uses_relative = [[], ''ftp'', ''http'', ''gopher'', ''nntp'', ''imap'', ''wais'', ''file'', ''https'', ''shttp'', ''mms'',
     ''prospero'', ''rtsp'', ''rtsps'', ''rtspu'', ''sftp'', ''svn'', ''svn+ssh'', ''ws'', ''wss'']"

definition uses_netloc :: "string list" where
  "uses_netloc = [[], ''ftp'', ''http'', ''gopher'', ''nntp'', ''telnet'', ''imap'', ''wais'', ''file'', ''mms'', ''https'', ''shttp'',
     ''snews'', ''prospero'', ''rtsp'', ''rtsps'', ''rtspu'', ''rsync'', ''svn'', ''svn+ssh'', ''sftp'', ''nfs'', ''git'',
     ''git+ssh'', ''ws'', ''wss'']"

definition uses_params :: "string list" where
  "uses_params = [[], ''ftp'', ''hdl'', ''prospero'', ''http'', ''imap'', ''https'', ''shttp'', ''rtsp'', ''rtsps'', ''rtspu'',
     ''sip'', ''sips'', ''mms'', ''sftp'', ''tel'']"

text \<open>The text up to and after the first \<open>d\<close>.\<close>

definition cut_at :: "char \<Rightarrow> string \<Rightarrow> string \<times> string" where
  "cut_at d s = (takeWhile (\<lambda>c. c \<noteq> d) s, tl (dropWhile (\<lambda>c. c \<noteq> d) s))"

definition split_scheme :: "string \<Rightarrow> string \<Rightarrow> string \<times> string" where
  "split_scheme scheme url =
     (let pre = takeWhile (\<lambda>c. c \<noteq> CHR '':'') url
      in if pre \<noteq> url \<and> pre \<noteq> [] \<and> is_alpha (hd pre) \<and> list_all scheme_char pre
         then (lower pre, drop (Suc (length pre)) url) else (scheme, url))"

definition split_netloc :: "string \<Rightarrow> string \<times> string" where
  "split_netloc url =
     (if prefix ''//'' url
      then (takeWhile (\<lambda>c. \<not> netloc_end c) (drop 2 url), dropWhile (\<lambda>c. \<not> netloc_end c) (drop 2 url))
      else ([], url))"

definition clean_url :: "string \<Rightarrow> string" where
  "clean_url url = filter (\<lambda>c. \<not> unsafe_byte c) (dropWhile control_or_space url)"

definition urlsplit :: "(string \<Rightarrow> string option) \<Rightarrow> string \<Rightarrow> string \<Rightarrow> string + url_parts" where
  "urlsplit netloc_error scheme0 url =
     (case split_scheme scheme0 (clean_url url) of (scheme, rest) \<Rightarrow>
       (case split_netloc rest of (netloc, rest) \<Rightarrow>
         (case if netloc = [] then None else netloc_error netloc of
            Some m \<Rightarrow> Inl m
          | None \<Rightarrow>
              (case cut_at CHR ''#'' rest of (rest, fragment) \<Rightarrow>
                (case cut_at CHR ''?'' rest of (path, query) \<Rightarrow>
                   Inr \<lparr>u_scheme = scheme, u_netloc = netloc, u_path = path, u_params = [], u_query = query,
                     u_fragment = fragment\<rparr>)))))"

text \<open>The parameters are those of the last segment.\<close>

definition split_params :: "string \<Rightarrow> string \<times> string" where
  "split_params path =
     (let end = rev (takeWhile (\<lambda>c. c \<noteq> CHR ''/'') (rev path));
          start = take (length path - length end) path
      in if CHR '';'' \<in> set end then (start @ fst (cut_at CHR '';'' end), snd (cut_at CHR '';'' end)) else (path, []))"

definition urlparse :: "(string \<Rightarrow> string option) \<Rightarrow> string \<Rightarrow> string \<Rightarrow> string + url_parts" where
  "urlparse netloc_error scheme0 url =
     map_sum id (\<lambda>u. if u_scheme u \<in> set uses_params
        then u\<lparr>u_path := fst (split_params (u_path u)), u_params := snd (split_params (u_path u))\<rparr> else u)
       (urlsplit netloc_error scheme0 url)"

definition with_slash :: "string \<Rightarrow> string" where
  "with_slash path = (if path \<noteq> [] \<and> hd path \<noteq> CHR ''/'' then CHR ''/'' # path else path)"

definition urlunparse :: "url_parts \<Rightarrow> string" where
  "urlunparse u =
     (let path = (if u_params u = [] then u_path u else u_path u @ '';'' @ u_params u);
          url = (if u_netloc u \<noteq> [] \<or> (u_scheme u \<noteq> [] \<and> u_scheme u \<in> set uses_netloc \<and> \<not> prefix ''//'' path)
            then ''//'' @ u_netloc u @ with_slash path else path)
      in (if u_scheme u = [] then [] else u_scheme u @ '':'') @ url @
         (if u_query u = [] then [] else ''?'' @ u_query u) @
         (if u_fragment u = [] then [] else ''#'' @ u_fragment u))"

text \<open>The segments of a relative path under those of the base, and their resolution.\<close>

definition inner_nonempty :: "string list \<Rightarrow> string list" where
  "inner_nonempty segments =
     (if length segments < 2 then segments
      else hd segments # filter (\<lambda>s. s \<noteq> []) (butlast (tl segments)) @ [last segments])"

definition path_segments :: "string \<Rightarrow> string \<Rightarrow> string list" where
  "path_segments bpath path =
     (let base_parts = split_on CHR ''/'' bpath;
          base_parts = (if last base_parts \<noteq> [] then butlast base_parts else base_parts)
      in if prefix ''/'' path then split_on CHR ''/'' path
         else inner_nonempty (base_parts @ split_on CHR ''/'' path))"

definition resolve_segment :: "string list \<Rightarrow> string \<Rightarrow> string list" where
  "resolve_segment resolved seg =
     (if seg = ''..'' then butlast resolved else if seg = ''.'' then resolved else resolved @ [seg])"

definition resolved_path :: "string list \<Rightarrow> string" where
  "resolved_path segments =
     (let resolved = foldl resolve_segment [] segments;
          resolved = (if last segments \<in> {''.'', ''..''} then resolved @ [[]] else resolved);
          path = join ''/'' resolved
      in if path = [] then ''/'' else path)"

definition urljoin :: "(string \<Rightarrow> string option) \<Rightarrow> string \<Rightarrow> string \<Rightarrow> string + string" where
  "urljoin netloc_error base url =
     (if base = [] then Inr url
      else if url = [] then Inr base
      else case urlparse netloc_error [] base of
        Inl m \<Rightarrow> Inl m
      | Inr b \<Rightarrow>
          (case urlparse netloc_error (u_scheme b) url of
             Inl m \<Rightarrow> Inl m
           | Inr u \<Rightarrow>
               Inr (if u_scheme u \<noteq> u_scheme b \<or> u_scheme u \<notin> set uses_relative then url
                    else if u_scheme u \<in> set uses_netloc \<and> u_netloc u \<noteq> [] then urlunparse u
                    else
                      let netloc = (if u_scheme u \<in> set uses_netloc then u_netloc b else u_netloc u)
                      in if u_path u = [] \<and> u_params u = [] then
                           urlunparse (u\<lparr>u_netloc := netloc, u_path := u_path b, u_params := u_params b,
                             u_query := (if u_query u = [] then u_query b else u_query u)\<rparr>)
                         else
                           urlunparse (u\<lparr>u_netloc := netloc,
                             u_path := resolved_path (path_segments (u_path b) (u_path u))\<rparr>))))"

text \<open>Where an address leads: scheme and host.\<close>

definition site :: "(string \<Rightarrow> string option) \<Rightarrow> string \<Rightarrow> (string \<times> string) option" where
  "site netloc_error url =
     (case urlsplit netloc_error [] url of Inl _ \<Rightarrow> None | Inr u \<Rightarrow> Some (u_scheme u, u_netloc u))"

lemma demo:
  "urljoin (\<lambda>_. None) ''http://a/b/c/d;p?q'' ''../g;x?y#z'' = Inr ''http://a/b/g;x?y#z''"
  "urljoin (\<lambda>_. None) ''http://zun:9517/v1/'' ''capsules/../../../x'' = Inr ''http://zun:9517/x''"
  "urljoin (\<lambda>_. None) ''http://zun:9517/v1/'' ''//evil/x'' = Inr ''http://evil/x''"
  by code_simp+

section \<open>A relative address stays at the site of its base\<close>

definition plain_scheme :: "string \<Rightarrow> bool" where
  "plain_scheme s \<longleftrightarrow> s = [] \<or> (is_alpha (hd s) \<and> list_all scheme_char s \<and> lower s = s)"

definition plain_netloc :: "(string \<Rightarrow> string option) \<Rightarrow> string \<Rightarrow> bool" where
  "plain_netloc netloc_error n \<longleftrightarrow>
     n \<noteq> [] \<and> list_all (\<lambda>c. \<not> netloc_end c \<and> \<not> unsafe_byte c) n \<and> netloc_error n = None"

lemma scheme_char_plain: "scheme_char c \<Longrightarrow> c \<noteq> CHR '':'' \<and> \<not> unsafe_byte c \<and> \<not> control_or_space c \<and> c \<noteq> CHR ''/''"
  by (auto simp: scheme_char_def is_alpha_def is_lower_code is_upper_code is_digit_code unsafe_byte_def control_or_space_def)

lemma lower_alpha: "is_alpha c \<Longrightarrow> is_alpha (lower_char c)"
  by (cases "is_upper c")
    (auto simp: is_alpha_def is_lower_code is_upper_code of_char_lower_char lower_char_def)

lemma lower_scheme_char: "scheme_char c \<Longrightarrow> scheme_char (lower_char c)"
  using lower_alpha [of c] by (cases "is_upper c") (auto simp: scheme_char_def is_alpha_def lower_char_def)

lemma split_scheme_plain: "split_scheme [] url = (s, rest) \<Longrightarrow> plain_scheme s"
  by (auto simp: split_scheme_def plain_scheme_def Let_def lower_scheme_char lower_alpha hd_map lower_def list_all_length
      split: if_splits)

lemma split_netloc_plain:
  "split_netloc url = (n, rest) \<Longrightarrow> list_all (\<lambda>c. \<not> netloc_end c) n \<and> set n \<subseteq> set url"
  by (auto simp: split_netloc_def list_all_iff dest: set_takeWhileD in_set_dropD split: if_splits)


lemma urlsplit_plain:
  assumes "urlsplit netloc_error [] url = Inr u"
  shows "plain_scheme (u_scheme u)" "u_netloc u \<noteq> [] \<Longrightarrow> plain_netloc netloc_error (u_netloc u)"
proof -
  obtain s rest n rest2 where s: "split_scheme [] (clean_url url) = (s, rest)" and n: "split_netloc rest = (n, rest2)"
    by fastforce
  with assms have u: "u_scheme u = s" "u_netloc u = n" "n \<noteq> [] \<Longrightarrow> netloc_error n = None"
    by (auto simp: urlsplit_def split: prod.splits option.splits if_splits)
  from split_scheme_plain [OF s] u show "plain_scheme (u_scheme u)" by simp
  have "set rest \<subseteq> set (clean_url url)"
    using s by (auto simp: split_scheme_def Let_def dest: in_set_dropD split: if_splits)
  then have "c \<in> set rest \<Longrightarrow> \<not> unsafe_byte c" for c by (auto simp: clean_url_def)
  with split_netloc_plain [OF n] u show "u_netloc u \<noteq> [] \<Longrightarrow> plain_netloc netloc_error (u_netloc u)"
    by (auto simp: plain_netloc_def list_all_iff)
qed

lemma takeWhile_upto: "list_all P xs \<Longrightarrow> ys = [] \<or> \<not> P (hd ys) \<Longrightarrow> takeWhile P (xs @ ys) = xs \<and> dropWhile P (xs @ ys) = ys"
  by (cases ys) (auto simp: list_all_iff takeWhile_append dropWhile_append)

lemma split_site:
  assumes "plain_scheme s" and "plain_netloc netloc_error n" and "rest = [] \<or> netloc_end (hd rest)"
  shows "site netloc_error ((if s = [] then [] else s @ '':'') @ ''//'' @ n @ rest) = Some (s, n)"
proof -
  let ?safe = "filter (\<lambda>c. \<not> unsafe_byte c)"
  have n: "n \<noteq> []" "netloc_error n = None" "?safe n = n" "list_all (\<lambda>c. \<not> netloc_end c) n"
    using assms(2) by (auto simp: plain_netloc_def list_all_iff filter_id_conv)
  have rest: "?safe rest = [] \<or> netloc_end (hd (?safe rest))"
    using assms(3) by (cases rest) (auto simp: netloc_end_def unsafe_byte_def)
  have net: "split_netloc (''//'' @ n @ ?safe rest) = (n, ?safe rest)"
    using takeWhile_upto [OF n(4), of "?safe rest"] rest by (simp add: split_netloc_def)
  have slash: "\<not> control_or_space CHR ''/''" "\<not> unsafe_byte CHR ''/''" "\<not> is_alpha CHR ''/''" "\<not> unsafe_byte CHR '':''"
    by (simp_all add: control_or_space_def unsafe_byte_def is_alpha_def is_lower_code is_upper_code)
  have "split_scheme [] (clean_url ((if s = [] then [] else s @ '':'') @ ''//'' @ n @ rest)) = (s, ''//'' @ n @ ?safe rest)"
  proof (cases "s = []")
    case True
    then show ?thesis using slash n(3) by (simp add: clean_url_def split_scheme_def Let_def)
  next
    case False
    with assms(1) have s: "is_alpha (hd s)" "list_all scheme_char s" "lower s = s" by (auto simp: plain_scheme_def)
    then have safe: "?safe s = s" "list_all (\<lambda>c. c \<noteq> CHR '':'') s"
      by (auto simp: list_all_iff filter_id_conv dest!: scheme_char_plain)
    have "clean_url (s @ '':'' @ ''//'' @ n @ rest) = s @ '':'' @ ''//'' @ n @ ?safe rest"
      using False s(2) slash safe(1) n(3) by (cases s) (auto simp: clean_url_def dest: scheme_char_plain)
    moreover have "takeWhile (\<lambda>c. c \<noteq> CHR '':'') (s @ '':'' @ ''//'' @ n @ ?safe rest) = s"
      using takeWhile_upto [OF safe(2), of "'':'' @ ''//'' @ n @ ?safe rest"] by simp
    ultimately show ?thesis using False s by (simp add: split_scheme_def Let_def)
  qed
  with net n show ?thesis by (simp add: site_def urlsplit_def split: prod.split)
qed

lemma site_urlunparse:
  assumes "plain_scheme (u_scheme u)" and "plain_netloc netloc_error (u_netloc u)"
  shows "site netloc_error (urlunparse u) = Some (u_scheme u, u_netloc u)"
proof -
  let ?path = "if u_params u = [] then u_path u else u_path u @ '';'' @ u_params u"
  let ?rest = "with_slash ?path @ (if u_query u = [] then [] else ''?'' @ u_query u) @
      (if u_fragment u = [] then [] else ''#'' @ u_fragment u)"
  have "with_slash ?path = [] \<or> hd (with_slash ?path) = CHR ''/''" by (auto simp: with_slash_def)
  then have "?rest = [] \<or> netloc_end (hd ?rest)" by (cases "with_slash ?path") (auto simp: netloc_end_def)
  from split_site [OF assms this] assms(2) show ?thesis by (simp add: urlunparse_def Let_def plain_netloc_def)
qed

text \<open>A relative address of the form \<^verbatim>\<open>name/...\<close>.\<close>

lemma split_params_slash: "fst (split_params (p @ CHR ''/'' # q)) \<noteq> []"
proof -
  have "length (takeWhile (\<lambda>c. c \<noteq> CHR ''/'') (rev q @ CHR ''/'' # rev p)) \<le> length q"
    by (simp add: takeWhile_append length_takeWhile_le split: if_splits)
      (metis length_rev length_takeWhile_le)
  then show ?thesis by (auto simp: split_params_def Let_def)
qed

lemma cut_at_past: "d \<notin> set p \<Longrightarrow> cut_at d (p @ q) = (p @ fst (cut_at d q), snd (cut_at d q))"
  by (auto simp: cut_at_def takeWhile_append dropWhile_append)

lemma urlparse_relative:
  assumes "urlparse netloc_error s (name @ ''/'' @ rest) = Inr u" and "name \<noteq> []" and "list_all is_alpha name"
  shows "u_scheme u = s \<and> u_netloc u = [] \<and> u_path u \<noteq> []"
proof -
  let ?rest = "filter (\<lambda>c. \<not> unsafe_byte c) rest"
  have alpha: "c \<noteq> CHR '':'' \<and> c \<noteq> CHR ''/'' \<and> c \<noteq> CHR ''#'' \<and> c \<noteq> CHR ''?'' \<and> \<not> unsafe_byte c \<and> \<not> control_or_space c"
    if "is_alpha c" for c
    using that by (auto simp: is_alpha_def is_lower_code is_upper_code unsafe_byte_def control_or_space_def)
  have name: "list_all (\<lambda>c. c \<noteq> CHR '':'') (name @ ''/'')" "CHR ''#'' \<notin> set (name @ ''/'')" "CHR ''?'' \<notin> set (name @ ''/'')"
    "hd name \<noteq> CHR ''/''" "\<not> control_or_space (hd name)" "filter (\<lambda>c. \<not> unsafe_byte c) name = name"
    using assms(2,3) by (auto simp: list_all_iff filter_id_conv dest: alpha hd_in_set)
  have clean: "clean_url (name @ ''/'' @ rest) = name @ ''/'' @ ?rest"
    using assms(2) name(5,6) by (cases name) (auto simp: clean_url_def unsafe_byte_def split: if_splits)
  have "takeWhile (\<lambda>c. c \<noteq> CHR '':'') (name @ ''/'' @ ?rest) = name @ ''/'' @ takeWhile (\<lambda>c. c \<noteq> CHR '':'') ?rest"
    using name(1) by (simp add: takeWhile_append2 list_all_iff)
  moreover have "\<not> scheme_char CHR ''/''" using scheme_char_plain by blast
  ultimately have scheme: "split_scheme s (name @ ''/'' @ ?rest) = (s, name @ ''/'' @ ?rest)"
    by (simp add: split_scheme_def Let_def)
  have net: "split_netloc (name @ ''/'' @ ?rest) = ([], name @ ''/'' @ ?rest)"
    using assms(2) name(4) by (cases name) (auto simp: split_netloc_def)
  obtain p q fragment query where "cut_at CHR ''#'' ?rest = (p, fragment)" "cut_at CHR ''?'' p = (q, query)" by fastforce
  then have cuts: "cut_at CHR ''#'' (name @ ''/'' @ ?rest) = (name @ ''/'' @ p, fragment)"
    "cut_at CHR ''?'' (name @ ''/'' @ p) = (name @ ''/'' @ q, query)"
    using cut_at_past [OF name(2), of ?rest] cut_at_past [OF name(3), of p] by simp_all
  show ?thesis
    using assms(1) split_params_slash [of name q]
    by (auto simp: urlparse_def urlsplit_def clean [simplified] scheme [simplified] net [simplified] cuts [simplified] split: if_splits)
qed

theorem urljoin_site:
  assumes base: "site netloc_error base = Some (s, n)" "n \<noteq> []" "s \<in> set uses_relative"
    and name: "name \<noteq> []" "list_all is_alpha name"
    and url: "urljoin netloc_error base (name @ ''/'' @ rest) = Inr url"
  shows "site netloc_error url = Some (s, n)"
proof -
  obtain b0 where b0: "urlsplit netloc_error [] base = Inr b0" "u_scheme b0 = s" "u_netloc b0 = n"
    using base(1) by (auto simp: site_def split: sum.splits)
  then obtain b where b: "urlparse netloc_error [] base = Inr b" "u_scheme b = s" "u_netloc b = n"
    by (auto simp: urlparse_def)
  have "base \<noteq> []"
    using b0 base(2) by (auto simp: urlsplit_def clean_url_def split_scheme_def split_netloc_def cut_at_def)
  with url b name(1) obtain u where u: "urlparse netloc_error s (name @ ''/'' @ rest) = Inr u"
    by (auto simp: urljoin_def split: sum.splits)
  note parts = urlparse_relative [OF u name]
  have "set uses_relative \<subseteq> set uses_netloc" by code_simp
  with base(3) have "s \<in> set uses_netloc" by blast
  with url b u parts \<open>base \<noteq> []\<close> base(3)
  obtain v where v: "url = urlunparse v" "u_scheme v = s" "u_netloc v = n"
    by (auto simp: urljoin_def Let_def split: if_splits)
  have "plain_scheme s" "plain_netloc netloc_error n" using urlsplit_plain [OF b0(1)] b0 base(2) by auto
  with v site_urlunparse [of v netloc_error] show ?thesis by simp
qed

text \<open>A scheme without relative addresses: the relative address is what is left.\<close>

lemma urljoin_no_scheme:
  assumes "site netloc_error base = Some (s, n)" and "n \<noteq> []" and "s \<notin> set uses_relative"
    and "name \<noteq> []" "list_all is_alpha name" and "urljoin netloc_error base (name @ ''/'' @ rest) = Inr url"
  shows "site netloc_error url \<noteq> Some (s, n)"
proof -
  obtain b0 where b0: "urlsplit netloc_error [] base = Inr b0" "u_scheme b0 = s" "u_netloc b0 = n"
    using assms(1) by (auto simp: site_def split: sum.splits)
  then obtain b where b: "urlparse netloc_error [] base = Inr b" "u_scheme b = s" by (auto simp: urlparse_def)
  have "base \<noteq> []"
    using b0 assms(2) by (auto simp: urlsplit_def clean_url_def split_scheme_def split_netloc_def cut_at_def)
  with assms(4,6) b obtain u where u: "urlparse netloc_error s (name @ ''/'' @ rest) = Inr u"
    by (auto simp: urljoin_def split: sum.splits)
  from urlparse_relative [OF u assms(4,5)] assms(3,4,6) b u \<open>base \<noteq> []\<close> have url: "url = name @ ''/'' @ rest"
    by (auto simp: urljoin_def)
  show ?thesis
  proof
    assume "site netloc_error url = Some (s, n)"
    then obtain v where v: "urlsplit netloc_error [] url = Inr v" "u_netloc v = n" by (auto simp: site_def split: sum.splits)
    then obtain v' where "urlparse netloc_error [] url = Inr v'" "u_netloc v' = n" by (auto simp: urlparse_def)
    with urlparse_relative [of netloc_error "[]" name rest v'] assms(2,4,5) show False by (simp add: url)
  qed
qed

end
