(* ===== verification/CapsulePoll.thy ===== *)
theory CapsulePoll
  imports PyUrl PyValue EventLog
begin

text \<open>
  \<^verbatim>\<open>yggdrasil_ceilometer_zun_capsule/cpu.py\<close>: the Ceilometer pollster of the CPU usage of capsules.  The
  service catalogue and the HTTP session are outside; \<^verbatim>\<open>float\<close> of a text and the host checks of
  \<^verbatim>\<open>urllib\<close> are parameters of the run.  The generators are run to their end, sample by sample, in the order in which
  they ask for pages and statistics.
\<close>

definition METER_NAME :: string where
  "METER_NAME = ''yggdrasil.zun.capsule.cpu_util''"

definition RESOURCE_ID_PREFIX :: string where
  "RESOURCE_ID_PREFIX = ''yggdrasil_senlin_capsule_''"

datatype poll_error = PollError string string

record poll_response =
  r_status_error :: "poll_error option"
  r_content :: string
  r_json :: "poll_error + pyval"

text \<open>A gauge in percent with the name \<open>METER_NAME\<close>.\<close>

record cpu_sample =
  s_volume :: pyval
  s_user_id :: pyval
  s_project_id :: pyval
  s_resource_id :: pyval
  s_senlin_resource_id :: string
  s_cluster_id :: string
  s_node_id :: string
  s_display_name :: pyval

datatype poll_event =
    UrlFor pyval pyval
  | HttpGet string pydict
  | Warned string
  | Sampled cpu_sample

type_synonym 'x pworld = "(poll_event, 'x) world"
type_synonym ('x, 'a) pio = "('x pworld, poll_error, 'a) io"

record poll_conf =
  p_interface :: "pyval option"
  p_region :: "pyval option"
  p_netloc_error :: "string \<Rightarrow> string option"
  p_float :: "string \<Rightarrow> poll_error + pyval"

record 'x poll_os =
  url_for :: "poll_event \<Rightarrow> ('x, poll_error + string option) outside"
  http_get :: "poll_event \<Rightarrow> ('x, poll_error + poll_response) outside"

definition poll_runtime_error :: "string \<Rightarrow> poll_error" where
  "poll_runtime_error m = PollError ''RuntimeError'' m"

definition no_attribute :: "pyval \<Rightarrow> string \<Rightarrow> poll_error" where
  "no_attribute v name = PollError ''AttributeError'' (type_name v @ '' object has no attribute '' @ name)"

text \<open>The base address of the service; the session itself is part of the outside.\<close>

definition api_context :: "poll_conf \<Rightarrow> 'x poll_os \<Rightarrow> ('x, string) pio" where
  "api_context conf os =
     (let call = UrlFor (case p_interface conf of Some v \<Rightarrow> v | None \<Rightarrow> PStr ''internal'')
            (case p_region conf of Some v \<Rightarrow> v | None \<Rightarrow> PNone)
      in bind (outside_call call (url_for os call)) (\<lambda>endpoint.
           case endpoint of
             None \<Rightarrow> raise_exn (poll_runtime_error ''No Zun endpoint is registered in the service catalog'')
           | Some e \<Rightarrow>
               if e = [] then raise_exn (poll_runtime_error ''No Zun endpoint is registered in the service catalog'')
               else ret (rstrip_by (\<lambda>c. c = CHR ''/'') e @ ''/'')))"

definition json_of :: "poll_response \<Rightarrow> poll_error + pyval" where
  "json_of response =
     (case r_status_error response of
        Some e \<Rightarrow> Inl e
      | None \<Rightarrow> if r_content response \<noteq> [] then r_json response else Inr (PDict []))"

definition get_json :: "'x poll_os \<Rightarrow> string \<Rightarrow> pydict \<Rightarrow> ('x, pyval) pio" where
  "get_json os url params =
     bind (outside_call (HttpGet url params) (http_get os (HttpGet url params))) (\<lambda>response. lift_sum (json_of response))"

definition value_error :: "string + 'a \<Rightarrow> poll_error + 'a" where
  "value_error = map_sum (PollError ''ValueError'') id"

text \<open>The usage a response of the statistics gives; \<open>PNone\<close> when there is none.\<close>

definition cpu_of :: "poll_conf \<Rightarrow> pyval \<Rightarrow> poll_error + pyval" where
  "cpu_of conf payload =
     (case payload of
        PDict d \<Rightarrow>
          (let d = (case dget d ''stats_info'' of Some (PDict info) \<Rightarrow> info | _ \<Rightarrow> d);
               value = vget d ''CPU %''
           in if value = PNone then Inr PNone
              else p_float conf (rstrip_by (\<lambda>c. c = CHR ''%'') (strip (py_str value))))
      | v \<Rightarrow> Inl (no_attribute v ''get''))"

definition capsule_cpu :: "poll_conf \<Rightarrow> 'x poll_os \<Rightarrow> string \<Rightarrow> pyval \<Rightarrow> ('x, pyval) pio" where
  "capsule_cpu conf os base_url capsule_id =
     try_except
       (bind (lift_sum (value_error (urljoin (p_netloc_error conf) base_url
            (''capsules/'' @ py_str capsule_id @ ''/stats'')))) (\<lambda>url.
        bind (get_json os url [(''all_projects'', PInt 1)]) (\<lambda>payload.
          lift_sum (cpu_of conf payload))))
       (\<lambda>e. case e of PollError _ m \<Rightarrow>
          andthen (emit (Warned (''Could not poll CPU for Zun capsule '' @ py_str capsule_id @ '': '' @ m)))
            (ret PNone))"

definition capsule_labels :: "pydict \<Rightarrow> pyval" where
  "capsule_labels capsule =
     py_or (py_or (vget capsule ''meta_labels'') (vget capsule ''labels'')) (PDict [])"

definition capsule_sample :: "pydict \<Rightarrow> pyval \<Rightarrow> pyval \<Rightarrow> pyval \<Rightarrow> pyval \<Rightarrow> cpu_sample" where
  "capsule_sample capsule cluster_id capsule_id node_id cpu_utilization =
     \<lparr>s_volume = cpu_utilization, s_user_id = vget capsule ''user_id'', s_project_id = vget capsule ''project_id'',
      s_resource_id = capsule_id,
      s_senlin_resource_id = RESOURCE_ID_PREFIX @ py_str cluster_id @ ''_'' @ py_str node_id,
      s_cluster_id = py_str cluster_id, s_node_id = py_str node_id,
      s_display_name = vget_or capsule ''name'' (PStr [])\<rparr>"

text \<open>The body of the loop of \<^verbatim>\<open>get_samples\<close>.\<close>

definition sample_capsule :: "poll_conf \<Rightarrow> 'x poll_os \<Rightarrow> string \<Rightarrow> pyval \<Rightarrow> ('x, unit) pio" where
  "sample_capsule conf os base_url v =
     (case v of
        PDict capsule \<Rightarrow>
          (case capsule_labels capsule of
             PDict labels \<Rightarrow>
               (let cluster_id = vget labels ''yggdrasil_senlin_cluster_id'';
                    capsule_id = py_or (vget capsule ''uuid'') (vget capsule ''id'');
                    node_id = py_or (vget labels ''yggdrasil_senlin_node_id'') capsule_id
                in if \<not> truthy cluster_id then ret ()
                   else if \<not> truthy capsule_id \<or> \<not> truthy node_id then
                     emit (Warned ''Skipping Zun capsule with incomplete Senlin labels'')
                   else bind (capsule_cpu conf os base_url capsule_id) (\<lambda>cpu_utilization.
                     if cpu_utilization = PNone then ret ()
                     else emit (Sampled (capsule_sample capsule cluster_id capsule_id node_id cpu_utilization))))
           | l \<Rightarrow> raise_exn (no_attribute l ''get''))
      | v \<Rightarrow> raise_exn (no_attribute v ''get''))"

text \<open>One round of the loop of \<^verbatim>\<open>_capsules\<close>, with what the consumer does with its capsules: \<open>Inl\<close> the next
  address with its parameters, or \<open>Inr ()\<close> at the end.\<close>

definition page_link :: "poll_conf \<Rightarrow> string \<Rightarrow> pyval \<Rightarrow> poll_error + (string option)" where
  "page_link conf base_url link =
     (if \<not> truthy link then Inr None
      else case link of
        PStr s \<Rightarrow> map_sum id Some (value_error (urljoin (p_netloc_error conf) base_url s))
      | _ \<Rightarrow> Inl (PollError ''TypeError'' ''Cannot mix str and non-str arguments''))"

definition check_page :: "poll_conf \<Rightarrow> string \<Rightarrow> string \<Rightarrow> poll_error + unit" where
  "check_page conf base_url next_url =
     (case urlsplit (p_netloc_error conf) [] next_url of
        Inl m \<Rightarrow> Inl (PollError ''ValueError'' m)
      | Inr _ \<Rightarrow>
          if site (p_netloc_error conf) next_url \<noteq> site (p_netloc_error conf) base_url then
            Inl (poll_runtime_error ''Zun capsule pagination returned a different host'')
          else Inr ())"

definition page_round ::
  "poll_conf \<Rightarrow> 'x poll_os \<Rightarrow> string \<Rightarrow> string \<times> pydict \<Rightarrow> ('x, string \<times> pydict + unit) pio" where
  "page_round conf os base_url st =
     (case st of (next_url, params) \<Rightarrow>
        if next_url = [] then ret (Inr ())
        else
          andthen (lift_sum (check_page conf base_url next_url))
         (bind (get_json os next_url params) (\<lambda>payload.
            case payload of
              PDict d \<Rightarrow>
                bind (lift_sum (map_sum (PollError ''TypeError'') id (py_iter (vget_or d ''capsules'' (PList [])))))
                  (\<lambda>capsules.
                andthen (map_io (sample_capsule conf os base_url) capsules)
                  (bind (lift_sum (page_link conf base_url (vget d ''next''))) (\<lambda>link.
                     ret (case link of None \<Rightarrow> Inr () | Some url \<Rightarrow> Inl (url, [])))))
            | v \<Rightarrow> raise_exn (no_attribute v ''get''))))"

text \<open>\<^verbatim>\<open>while\<close> with a body that gives a new state or the end; a service that always names a next page is never done.\<close>

partial_function (option) pages ::
  "('s \<Rightarrow> 'w \<Rightarrow> (('e + ('s + unit)) \<times> 'w) option) \<Rightarrow> 's \<Rightarrow> 'w \<Rightarrow> (('e + unit) \<times> 'w) option" where
  "pages body s w =
     Option.bind (body s w) (\<lambda>(res, w1).
       case res of
         Inl e \<Rightarrow> Some (Inl e, w1)
       | Inr (Inr u) \<Rightarrow> Some (Inr u, w1)
       | Inr (Inl s1) \<Rightarrow> pages body s1 w1)"

definition first_page :: "poll_conf \<Rightarrow> string \<Rightarrow> poll_error + (string \<times> pydict)" where
  "first_page conf base_url =
     map_sum id (\<lambda>url. (url, [(''all_projects'', PInt 1), (''limit'', PInt 1000)]))
       (value_error (urljoin (p_netloc_error conf) base_url ''capsules/''))"

text \<open>\<^verbatim>\<open>base_parts = urlsplit(base_url)\<close> can only fail where \<^verbatim>\<open>urljoin\<close> has failed before.\<close>

definition get_samples :: "poll_conf \<Rightarrow> 'x poll_os \<Rightarrow> ('x, unit) pio" where
  "get_samples conf os =
     bind (api_context conf os) (\<lambda>base_url.
     bind (lift_sum (first_page conf base_url)) (pages (page_round conf os base_url)))"

text \<open>The same with at most \<open>n\<close> pages: \<open>False\<close> when there are more.\<close>

fun pages_upto :: "nat \<Rightarrow> ('s \<Rightarrow> ('w, 'e, 's + unit) io) \<Rightarrow> 's \<Rightarrow> ('w, 'e, bool) io" where
  "pages_upto 0 body s = ret False"
| "pages_upto (Suc n) body s =
     bind (body s) (\<lambda>r. case r of Inr _ \<Rightarrow> ret True | Inl s1 \<Rightarrow> pages_upto n body s1)"

definition get_samples_upto :: "nat \<Rightarrow> poll_conf \<Rightarrow> 'x poll_os \<Rightarrow> ('x, bool) pio" where
  "get_samples_upto n conf os =
     bind (api_context conf os) (\<lambda>base_url.
     bind (lift_sum (first_page conf base_url)) (pages_upto n (page_round conf os base_url)))"

end
