(* ===== verification/CapsulePollOps.thy ===== *)
theory CapsulePollOps
  imports CapsulePoll
begin

text \<open>
  What the pollster of capsules does: its requests stay at the host of the catalogue's endpoint, whatever the service
  answers, and over a paged listing it takes the samples it would take over the whole list at once.
\<close>

section \<open>The loop over the pages\<close>

lemma pages_upto_returns:
  fixes body :: "'s \<Rightarrow> 'w \<Rightarrow> (('e + ('s + unit)) \<times> 'w) option"
  assumes "pages body s w = Some (r, w1)"
  shows "\<exists>n. pages_upto n body s w = Some (map_sum id (\<lambda>_. True) r, w1)"
proof -
  have "\<exists>n. pages_upto n body s w = Some (map_sum id (\<lambda>_. True) (fst y), snd y)" if "pages body s w = Some y" for y
  proof (rule pages.raw_induct [where P = "\<lambda>body s w y. \<exists>n. pages_upto n body s w = Some (map_sum id (\<lambda>_. True) (fst y), snd y)", OF _ that])
    fix again :: "('s \<Rightarrow> 'w \<Rightarrow> (('e + ('s + unit)) \<times> 'w) option) \<Rightarrow> 's \<Rightarrow> 'w \<Rightarrow> (('e + unit) \<times> 'w) option"
      and body :: "'s \<Rightarrow> 'w \<Rightarrow> (('e + ('s + unit)) \<times> 'w) option" and s w y
    assume IH: "\<And>s w b y. again s w b = Some y \<Longrightarrow> \<exists>n. pages_upto n s w b = Some (map_sum id (\<lambda>_. True) (fst y), snd y)"
      and step: "Option.bind (body s w) (\<lambda>(res, w1). case res of Inl e \<Rightarrow> Some (Inl e, w1)
          | Inr (Inl s1) \<Rightarrow> again body s1 w1 | Inr (Inr u) \<Rightarrow> Some (Inr u, w1)) = Some y"
    from step obtain res w2 where res: "body s w = Some (res, w2)"
      and y: "(case res of Inl e \<Rightarrow> Some (Inl e, w2) | Inr (Inl s1) \<Rightarrow> again body s1 w2 | Inr (Inr u) \<Rightarrow> Some (Inr u, w2)) = Some y"
      by (auto simp: Option.bind_eq_Some_conv)
    show "\<exists>n. pages_upto n body s w = Some (map_sum id (\<lambda>_. True) (fst y), snd y)"
    proof (cases res)
      case (Inl e)
      with res y show ?thesis by (intro exI [of _ "Suc 0"]) (auto simp: bind_def)
    next
      case (Inr q)
      show ?thesis
      proof (cases q)
        case (Inl s1)
        with y Inr have "again body s1 w2 = Some y" by simp
        from IH [OF this] obtain n where
          "pages_upto n body s1 w2 = Some (map_sum id (\<lambda>_. True) (fst y), snd y)" by blast
        with res Inr Inl show ?thesis by (intro exI [of _ "Suc n"]) (simp add: bind_def)
      next
        case u: (Inr u)
        with res y Inr show ?thesis by (intro exI [of _ "Suc 0"]) (auto simp: bind_def ret_def)
      qed
    qed
  qed
  with assms show ?thesis by fastforce
qed

lemma pages_unfold: "pages body s = bind (body s) (\<lambda>r. case r of Inr u \<Rightarrow> ret u | Inl s1 \<Rightarrow> pages body s1)"
  by (rule ext, subst pages.simps) (auto simp: bind_def ret_def split: option.split sum.split Option.bind_split)

section \<open>Where requests go\<close>

definition at_site :: "poll_conf \<Rightarrow> string \<times> string \<Rightarrow> poll_event set" where
  "at_site conf home = {e. \<forall>url params. e = HttpGet url params \<longrightarrow> site (p_netloc_error conf) url = Some home}"

lemma at_site_simps [simp]:
  "HttpGet url params \<in> at_site conf home \<longleftrightarrow> site (p_netloc_error conf) url = Some home"
  "Warned m \<in> at_site conf home" "Sampled x \<in> at_site conf home" "UrlFor i r \<in> at_site conf home"
  by (auto simp: at_site_def)

lemma steps_bind_lift_sum:
  assumes "preorder_rel R" and "\<And>e. r = Inl e \<Longrightarrow> P e" and "\<And>a. r = Inr a \<Longrightarrow> steps R P (f a)"
  shows "steps R P (bind (lift_sum r) f)"
proof (cases r)
  case (Inl e)
  then have "bind (lift_sum r) f = raise_exn e" by (auto simp: bind_def lift_sum_def raise_exn_def)
  with assms Inl show ?thesis by (simp add: steps_raise)
next
  case (Inr a)
  then have "bind (lift_sum r) f = f a" by (auto simp: bind_def lift_sum_def)
  with assms Inr show ?thesis by simp
qed

text \<open>The base address of the run, with the scheme and the host \<open>home\<close>.\<close>

definition based :: "poll_conf \<Rightarrow> string \<Rightarrow> string \<times> string \<Rightarrow> bool" where
  "based conf base_url home \<longleftrightarrow> site (p_netloc_error conf) base_url = Some home \<and> snd home \<noteq> []"

lemma capsules_alpha: "list_all is_alpha ''capsules''"
  by (simp add: is_alpha_def is_lower_code)

lemma steps_get_json:
  "site (p_netloc_error conf) url = Some home \<Longrightarrow> steps (logs (at_site conf home)) (\<lambda>_. True) (get_json os url params)"
  unfolding get_json_def by (intro steps_intros TrueI) simp

lemma steps_capsule_cpu:
  assumes "based conf base_url home" and "fst home \<in> set uses_relative"
  shows "steps (logs (at_site conf home)) (\<lambda>_. True) (capsule_cpu conf os base_url capsule_id)"
proof -
  have "site (p_netloc_error conf) url = Some home"
    if "value_error (urljoin (p_netloc_error conf) base_url (''capsules/'' @ py_str capsule_id @ ''/stats'')) = Inr url" for url
  proof -
    from that have "urljoin (p_netloc_error conf) base_url (''capsules'' @ ''/'' @ (py_str capsule_id @ ''/stats'')) = Inr url"
      by (cases "urljoin (p_netloc_error conf) base_url (''capsules/'' @ py_str capsule_id @ ''/stats'')") (auto simp: value_error_def)
    from urljoin_site [OF _ _ _ _ capsules_alpha this] assms show ?thesis by (cases home) (auto simp: based_def)
  qed
  note ask = steps_get_json [OF this]
  have "steps (logs (at_site conf home)) (\<lambda>_. True)
      (case e of PollError c m \<Rightarrow> andthen (emit (Warned (f m))) (ret PNone))" for e f
    by (cases e) (simp add: steps_andthen steps_emit steps_ret preorder_logs)
  then show ?thesis
    unfolding capsule_cpu_def
    by (intro steps_try_except steps_bind_lift_sum steps_bind steps_lift_sum preorder_logs TrueI ask)
qed

lemma steps_sample_capsule:
  assumes "based conf base_url home" and "fst home \<in> set uses_relative"
  shows "steps (logs (at_site conf home)) (\<lambda>_. True) (sample_capsule conf os base_url v)"
  unfolding sample_capsule_def Let_def
  by (auto simp: steps_ret steps_raise steps_emit preorder_logs intro!: steps_bind steps_capsule_cpu [OF assms]
      split: pyval.split)

lemma check_page_site:
  "check_page conf base_url url = Inr () \<Longrightarrow> based conf base_url home \<Longrightarrow> site (p_netloc_error conf) url = Some home"
  by (auto simp: check_page_def based_def split: sum.splits if_splits)

lemma steps_page_round:
  assumes "based conf base_url home" and "fst home \<in> set uses_relative"
  shows "steps (logs (at_site conf home)) (\<lambda>_. True) (page_round conf os base_url st)"
proof -
  note home = check_page_site [OF _ assms(1)]
  note rest = preorder_logs TrueI steps_sample_capsule [OF assms] steps_ret steps_raise steps_andthen steps_map_io
    steps_bind_lift_sum steps_lift_sum
  have page: "steps (logs (at_site conf home)) (\<lambda>_. True) (case payload of PDict d \<Rightarrow> f d | v \<Rightarrow> raise_exn (g v))"
    if "\<And>d. steps (logs (at_site conf home)) (\<lambda>_. True) (f d)" for payload and f g
    using that by (cases payload) (simp_all add: steps_raise preorder_logs)
  show ?thesis
    unfolding page_round_def andthen_def
    by (intro steps_case_prod steps_if steps_bind_lift_sum steps_bind steps_get_json home page preorder_logs TrueI
        steps_ret steps_map_io steps_sample_capsule [OF assms]) auto
qed

lemma steps_pages_upto:
  "preorder_rel R \<Longrightarrow> (\<And>s. steps R P (body s)) \<Longrightarrow> steps R P (pages_upto n body s)"
  by (induction n arbitrary: s) (auto intro!: steps_ret steps_bind split: sum.split)

lemma steps_listing:
  assumes "based conf base_url home"
  shows "steps (logs (at_site conf home)) (\<lambda>_. True)
    (bind (lift_sum (first_page conf base_url)) (pages_upto n (page_round conf os base_url)))"
proof (cases "fst home \<in> set uses_relative")
  case True
  then show ?thesis
    by (intro steps_bind_lift_sum steps_pages_upto steps_page_round [OF assms] preorder_logs TrueI)
next
  case False
  have "steps (logs (at_site conf home)) (\<lambda>_. True) (pages_upto n (page_round conf os base_url) st)"
    if first: "first_page conf base_url = Inr st" for st
  proof -
    from first obtain url where url: "urljoin (p_netloc_error conf) base_url (''capsules'' @ ''/'' @ []) = Inr url" "fst st = url"
      by (cases "urljoin (p_netloc_error conf) base_url ''capsules/''") (auto simp: first_page_def value_error_def)
    from urljoin_no_scheme [OF _ _ False _ capsules_alpha url(1), of "snd home"] assms
    have "site (p_netloc_error conf) url \<noteq> Some home" by (cases home) (auto simp: based_def)
    with check_page_site [OF _ assms] obtain e where "check_page conf base_url url = Inl e"
      by (cases "check_page conf base_url url") auto
    with url(2) have "page_round conf os base_url st = (if url = [] then ret (Inr ()) else raise_exn e)"
      by (cases st) (auto simp: page_round_def andthen_def bind_def lift_sum_def raise_exn_def)
    then show ?thesis by (cases n) (simp_all add: steps_ret steps_raise preorder_logs)
  qed
  then show ?thesis by (intro steps_bind_lift_sum preorder_logs TrueI)
qed

definition catalog_call :: "poll_conf \<Rightarrow> poll_event" where
  "catalog_call conf = UrlFor (case p_interface conf of Some v \<Rightarrow> v | None \<Rightarrow> PStr ''internal'')
     (case p_region conf of Some v \<Rightarrow> v | None \<Rightarrow> PNone)"

definition base_of :: "string \<Rightarrow> string" where
  "base_of endpoint = rstrip_by (\<lambda>c. c = CHR ''/'') endpoint @ ''/''"

text \<open>Every request of the log goes to the scheme and host of an endpoint that the catalogue names.\<close>

definition stays_home :: "poll_conf \<Rightarrow> 'x poll_os \<Rightarrow> poll_event list \<Rightarrow> bool" where
  "stays_home conf os tr \<longleftrightarrow> (\<forall>url params. HttpGet url params \<notin> set tr) \<or>
     (\<exists>x endpoint. fst (url_for os (catalog_call conf) x) = Inr (Some endpoint) \<and>
        (\<forall>url params. HttpGet url params \<in> set tr \<longrightarrow>
           site (p_netloc_error conf) url = site (p_netloc_error conf) (base_of endpoint)))"

lemma get_samples_upto_home:
  assumes hosts: "\<And>x endpoint. fst (url_for os (catalog_call conf) x) = Inr (Some endpoint) \<Longrightarrow>
      \<exists>home. based conf (base_of endpoint) home"
  shows "sends (get_samples_upto n conf os) (\<lambda>_. stays_home conf os) (\<lambda>_. stays_home conf os)"
proof -
  let ?rest = "\<lambda>base_url. bind (lift_sum (first_page conf base_url)) (pages_upto n (page_round conf os base_url))"
  have none: "stays_home conf os [catalog_call conf]" by (simp add: stays_home_def catalog_call_def)
  have rest: "sends (?rest (base_of endpoint)) (\<lambda>_ tr. stays_home conf os ([catalog_call conf] @ tr))
      (\<lambda>_ tr. stays_home conf os ([catalog_call conf] @ tr))"
    if x: "fst (url_for os (catalog_call conf) x) = Inr (Some endpoint)" for endpoint x
  proof -
    obtain home where home: "based conf (base_of endpoint) home" using hosts [OF x] by blast
    have "stays_home conf os ([catalog_call conf] @ tr)" if "set tr \<subseteq> at_site conf home" for tr
      unfolding stays_home_def using that x home
      by (intro disjI2 exI [of _ x] exI [of _ endpoint]) (auto simp: catalog_call_def based_def subset_iff at_site_def)
    then show ?thesis by (intro sends_mono [OF sends_steps [OF steps_listing [OF home]]]) auto
  qed
  have ctx: "api_context conf os = bind (outside_call (catalog_call conf) (url_for os (catalog_call conf))) (\<lambda>endpoint.
      case endpoint of Some (c # cs) \<Rightarrow> ret (base_of (c # cs))
      | _ \<Rightarrow> raise_exn (poll_runtime_error ''No Zun endpoint is registered in the service catalog''))"
    unfolding api_context_def Let_def catalog_call_def [symmetric] base_of_def
    by (intro arg_cong [of _ _ "bind _"] ext) (auto split: option.split list.split)
  show ?thesis
    unfolding get_samples_upto_def ctx bind_assoc
  proof (rule sends_bind, rule sends_outside_call)
    fix x endpoint assume "fst (url_for os (catalog_call conf) x) = Inr endpoint"
    with rest none show "sends (bind (case endpoint of Some (c # cs) \<Rightarrow> ret (base_of (c # cs))
        | _ \<Rightarrow> raise_exn (poll_runtime_error ''No Zun endpoint is registered in the service catalog'')) ?rest)
        (\<lambda>b t2. stays_home conf os ([catalog_call conf] @ t2)) (\<lambda>e t2. stays_home conf os ([catalog_call conf] @ t2))"
      by (cases endpoint; cases "the endpoint") (auto simp: sends_raise)
  qed (simp add: none)
qed

lemma get_samples_returns:
  assumes "get_samples conf os w = Some (r, w1)"
  shows "\<exists>n. get_samples_upto n conf os w = Some (map_sum id (\<lambda>_. True) r, w1)"
  using assms pages_upto_returns [of "page_round conf os _"]
  by (fastforce simp: get_samples_def get_samples_upto_def bind_def lift_sum_def split: option.splits sum.splits prod.splits)

text \<open>C30: Every request for pages or statistics goes to the scheme and host of the endpoint in the service catalogue, whatever
  the service answers as next page or as the identity of a capsule: in every run that ends, and in any number of
  pages of a run that does not.\<close>

theorem requests_stay_at_endpoint:
  assumes hosts: "\<And>x endpoint. fst (url_for os (catalog_call conf) x) = Inr (Some endpoint) \<Longrightarrow>
      \<exists>home. based conf (base_of endpoint) home"
  shows "sends (get_samples_upto n conf os) (\<lambda>_. stays_home conf os) (\<lambda>_. stays_home conf os) \<and>
    (\<forall>w r w1. get_samples conf os w = Some (r, w1) \<longrightarrow> (\<exists>tr. trace w1 = trace w @ tr \<and> stays_home conf os tr))"
proof -
  have all: "sends (get_samples_upto n conf os) (\<lambda>_. stays_home conf os) (\<lambda>_. stays_home conf os)" for n
    by (rule get_samples_upto_home) (rule hosts)
  have "\<exists>tr. trace w1 = trace w @ tr \<and> stays_home conf os tr" if "get_samples conf os w = Some (r, w1)" for w r w1
  proof -
    from that obtain n where "get_samples_upto n conf os w = Some (map_sum id (\<lambda>_. True) r, w1)"
      using get_samples_returns by blast
    with all [of n] show ?thesis
      unfolding sends_def by (metis (no_types, lifting) option.inject prod.inject sum.case_eq_if)
  qed
  with all show ?thesis by blast
qed

section \<open>Pages and the whole list\<close>

text \<open>A service that answers a request by its address, with the responses \<open>answer\<close>.\<close>

definition answers_by_url :: "'x poll_os \<Rightarrow> (string \<Rightarrow> poll_error + poll_response) \<Rightarrow> bool" where
  "answers_by_url os answer \<longleftrightarrow> (\<forall>url params x. fst (http_get os (HttpGet url params) x) = answer url)"

definition json_at :: "(string \<Rightarrow> poll_error + poll_response) \<Rightarrow> string \<Rightarrow> poll_error + pyval" where
  "json_at answer url = (case answer url of Inl e \<Rightarrow> Inl e | Inr response \<Rightarrow> json_of response)"

text \<open>A listing that starts at \<open>url\<close> and ends: its capsules, page after page.\<close>

inductive listing ::
  "poll_conf \<Rightarrow> (string \<Rightarrow> poll_error + poll_response) \<Rightarrow> string \<Rightarrow> string \<Rightarrow> pyval list \<Rightarrow> bool"
  for conf answer base_url where
  last_page:
    "url \<noteq> [] \<Longrightarrow> check_page conf base_url url = Inr () \<Longrightarrow> json_at answer url = Inr (PDict d) \<Longrightarrow>
     py_iter (vget_or d ''capsules'' (PList [])) = Inr cs \<Longrightarrow> page_link conf base_url (vget d ''next'') = Inr None \<Longrightarrow>
     listing conf answer base_url url cs"
| next_page:
    "url \<noteq> [] \<Longrightarrow> check_page conf base_url url = Inr () \<Longrightarrow> json_at answer url = Inr (PDict d) \<Longrightarrow>
     py_iter (vget_or d ''capsules'' (PList [])) = Inr cs \<Longrightarrow>
     page_link conf base_url (vget d ''next'') = Inr (Some url2) \<Longrightarrow> listing conf answer base_url url2 cs2 \<Longrightarrow>
     listing conf answer base_url url (cs @ cs2)"

text \<open>A capsule with labels that are a mapping; the others end the run.\<close>

definition labelled_capsule :: "pyval \<Rightarrow> bool" where
  "labelled_capsule v \<longleftrightarrow> (\<exists>d labels. v = PDict d \<and> capsule_labels d = PDict labels)"

definition cpu_at :: "poll_conf \<Rightarrow> (string \<Rightarrow> poll_error + poll_response) \<Rightarrow> string \<Rightarrow> pyval \<Rightarrow> pyval" where
  "cpu_at conf answer base_url capsule_id =
     (case urljoin (p_netloc_error conf) base_url (''capsules/'' @ py_str capsule_id @ ''/stats'') of
        Inl _ \<Rightarrow> PNone
      | Inr url \<Rightarrow>
          (case json_at answer url of
             Inl _ \<Rightarrow> PNone
           | Inr payload \<Rightarrow> (case cpu_of conf payload of Inl _ \<Rightarrow> PNone | Inr v \<Rightarrow> v)))"

text \<open>The sample of one capsule: those of a Senlin cluster whose usage can be read.\<close>

definition sample_of :: "poll_conf \<Rightarrow> (string \<Rightarrow> poll_error + poll_response) \<Rightarrow> string \<Rightarrow> pyval \<Rightarrow> cpu_sample list" where
  "sample_of conf answer base_url v =
     (case v of
        PDict capsule \<Rightarrow>
          (case capsule_labels capsule of
             PDict labels \<Rightarrow>
               (let cluster_id = vget labels ''yggdrasil_senlin_cluster_id'';
                    capsule_id = py_or (vget capsule ''uuid'') (vget capsule ''id'');
                    node_id = py_or (vget labels ''yggdrasil_senlin_node_id'') capsule_id;
                    cpu = cpu_at conf answer base_url capsule_id
                in if truthy cluster_id \<and> truthy capsule_id \<and> truthy node_id \<and> cpu \<noteq> PNone
                   then [capsule_sample capsule cluster_id capsule_id node_id cpu] else [])
           | _ \<Rightarrow> [])
      | _ \<Rightarrow> [])"

definition samples :: "poll_event list \<Rightarrow> cpu_sample list" where
  "samples tr = concat (map (\<lambda>e. case e of Sampled s \<Rightarrow> [s] | _ \<Rightarrow> []) tr)"

lemma samples_simps [simp]:
  "samples [] = []" "samples (xs @ ys) = samples xs @ samples ys" "samples (Sampled s # tr) = s # samples tr"
  "samples (HttpGet url params # tr) = samples tr" "samples (Warned m # tr) = samples tr"
  "samples (UrlFor i r # tr) = samples tr"
  by (simp_all add: samples_def)

lemma sends_get_json:
  assumes "answers_by_url os answer"
  shows "sends (get_json os url params) (\<lambda>v tr. tr = [HttpGet url params] \<and> json_at answer url = Inr v)
     (\<lambda>e tr. tr = [HttpGet url params] \<and> json_at answer url = Inl e)"
proof -
  have "fst (http_get os (HttpGet url params) x) = answer url" for x using assms by (simp add: answers_by_url_def)
  then show ?thesis
    unfolding get_json_def by (intro sends_bind sends_outside_call sends_lift_sum) (auto simp: json_at_def)
qed

lemma sends_capsule_cpu:
  assumes "answers_by_url os answer"
  shows "sends (capsule_cpu conf os base_url c) (\<lambda>v tr. samples tr = [] \<and> v = cpu_at conf answer base_url c) (\<lambda>_ _. False)"
proof -
  have warn: "sends (case e of PollError a m \<Rightarrow> andthen (emit (Warned (f m))) (ret PNone))
      (\<lambda>v tr. samples (t1 @ tr) = [] \<and> v = PNone) (\<lambda>_ _. False)" if "samples t1 = []" for e f t1
    using that by (cases e) (auto intro!: sends_andthen sends_emit sends_ret)
  show ?thesis
  proof (cases "urljoin (p_netloc_error conf) base_url (''capsules/'' @ py_str c @ ''/stats'')")
    case (Inl m)
    then show ?thesis
      unfolding capsule_cpu_def
      by (intro sends_try_except sends_bind sends_lift_sum) (auto simp: value_error_def cpu_at_def warn [of "[]", simplified])
  next
    case (Inr url)
    then show ?thesis
      unfolding capsule_cpu_def
      by (intro sends_try_except sends_bind sends_lift_sum sends_mono [OF sends_get_json [OF assms]])
        (auto simp: value_error_def cpu_at_def warn [of "[]", simplified])
  qed
qed

lemma sends_sample_capsule:
  assumes "answers_by_url os answer" and "labelled_capsule v"
  shows "sends (sample_capsule conf os base_url v) (\<lambda>_ tr. samples tr = sample_of conf answer base_url v) (\<lambda>_ _. False)"
proof -
  obtain d labels where v: "v = PDict d" "capsule_labels d = PDict labels" using assms(2) by (auto simp: labelled_capsule_def)
  note cpu = sends_mono [OF sends_capsule_cpu [OF assms(1)]]
  show ?thesis
    unfolding sample_capsule_def sample_of_def v pyval.case Let_def
    by (intro sends_if sends_ret sends_emit sends_bind cpu) (auto intro!: sends_ret sends_emit split: if_splits)
qed

lemma sends_sample_capsules:
  assumes "answers_by_url os answer" and "\<And>v. v \<in> set vs \<Longrightarrow> labelled_capsule v"
  shows "sends (map_io (sample_capsule conf os base_url) vs)
     (\<lambda>_ tr. samples tr = concat (map (sample_of conf answer base_url) vs)) (\<lambda>_ _. False)"
  using assms(2)
proof (induction vs)
  case (Cons v vs)
  show ?case
    unfolding map_io.simps
    by (rule sends_bind, rule sends_mono [OF sends_sample_capsule [OF assms(1)]], (simp add: Cons.prems),
        rule sends_bind, rule sends_mono [OF Cons.IH], (simp add: Cons.prems), rule sends_ret) simp_all
qed (simp add: sends_ret)

lemma sends_page:
  assumes "answers_by_url os answer" and "\<And>v. v \<in> set cs \<Longrightarrow> labelled_capsule v"
    and page: "url \<noteq> []" "check_page conf base_url url = Inr ()" "json_at answer url = Inr (PDict d)"
      "py_iter (vget_or d ''capsules'' (PList [])) = Inr cs" "page_link conf base_url (vget d ''next'') = Inr link"
  shows "sends (page_round conf os base_url (url, params))
     (\<lambda>r tr. r = (case link of None \<Rightarrow> Inr () | Some url2 \<Rightarrow> Inl (url2, [])) \<and>
        samples tr = concat (map (sample_of conf answer base_url) cs)) (\<lambda>_ _. False)"
proof -
  have lift: "lift_sum (Inr a) = ret a" for a :: 'b by (rule ext) (simp add: lift_sum_def ret_def)
  show ?thesis
    unfolding page_round_def prod.case if_not_P [OF page(1)] page(2) lift
    by (rule sends_andthen, rule sends_ret, rule sends_bind, rule sends_mono [OF sends_get_json [OF assms(1)]],
        auto simp: page(3) page(4) page(5) lift
          intro!: sends_andthen sends_ret sends_mono [OF sends_sample_capsules [OF assms(1,2)]])
qed

lemma sends_listing:
  assumes "answers_by_url os answer" and "listing conf answer base_url url cs"
    and "\<And>v. v \<in> set cs \<Longrightarrow> labelled_capsule v"
  shows "sends (pages (page_round conf os base_url) (url, params))
     (\<lambda>_ tr. samples tr = concat (map (sample_of conf answer base_url) cs)) (\<lambda>_ _. False)"
  using assms(2,3)
proof (induction arbitrary: params rule: listing.induct)
  case (last_page url d cs)
  show ?case
    by (subst pages_unfold, rule sends_bind,
        rule sends_mono [OF sends_page [OF assms(1) last_page.prems last_page.hyps]]) (auto intro: sends_ret)
next
  case (next_page url d cs url2 cs2)
  show ?case
    by (subst pages_unfold, rule sends_bind,
        rule sends_mono [OF sends_page [OF assms(1) _ next_page.hyps(1-5)]])
      (auto intro!: sends_mono [OF next_page.IH] simp: next_page.prems)
qed

text \<open>C31: Over a listing of any number of pages, at a service that answers each address in one way, the pollster returns and
  its samples are those of one pass over the whole list: one for each capsule with the label of a Senlin
  cluster and a usage that can be read, in the order of the list.\<close>

theorem samples_refine_listing:
  assumes "answers_by_url os answer" and "\<And>x. fst (url_for os (catalog_call conf) x) = Inr (Some endpoint)"
    and "endpoint \<noteq> []" and "first_page conf (base_of endpoint) = Inr (url, params)"
    and "listing conf answer (base_of endpoint) url cs" and "\<And>v. v \<in> set cs \<Longrightarrow> labelled_capsule v"
  shows "\<exists>w1 tr. get_samples conf os w = Some (Inr (), w1) \<and> trace w1 = trace w @ tr \<and>
     samples tr = concat (map (sample_of conf answer (base_of endpoint)) cs)"
proof -
  have lift: "lift_sum (Inr a) = ret a" for a :: 'b by (rule ext) (simp add: lift_sum_def ret_def)
  have call: "samples (catalog_call conf # tr) = samples tr" for tr by (simp add: catalog_call_def)
  have "sends (get_samples conf os) (\<lambda>_ tr. samples tr = concat (map (sample_of conf answer (base_of endpoint)) cs)) (\<lambda>_ _. False)"
    unfolding get_samples_def api_context_def Let_def catalog_call_def [symmetric] base_of_def [symmetric]
    by (rule sends_bind, rule sends_bind, rule sends_outside_call)
      (auto simp: assms(2-4) call lift intro!: sends_ret sends_bind sends_mono [OF sends_listing [OF assms(1,5,6)]])
  then show ?thesis unfolding sends_def by (fastforce split: sum.splits)
qed

section \<open>Examples\<close>

definition demo_poll_conf :: poll_conf where
  "demo_poll_conf = \<lparr>p_interface = None, p_region = None, p_netloc_error = (\<lambda>_. None),
     p_float = (\<lambda>s. if s \<noteq> [] \<and> list_all is_digit s then Inr (PFloat s) else Inl (PollError ''ValueError'' s))\<rparr>"

definition json_response :: "pyval \<Rightarrow> poll_error + poll_response" where
  "json_response v = Inr \<lparr>r_status_error = None, r_content = ''json'', r_json = Inr v\<rparr>"

definition demo_poll_os :: "(string \<Rightarrow> poll_error + poll_response) \<Rightarrow> unit poll_os" where
  "demo_poll_os answer = \<lparr>url_for = (\<lambda>_ x. (Inr (Some ''http://zun/v1/''), 0, x)),
     http_get = (\<lambda>e x. case e of HttpGet url _ \<Rightarrow> (answer url, 0, x) | _ \<Rightarrow> (Inl (PollError [] []), 0, x))\<rparr>"

text \<open>A service that sends the pollster elsewhere.\<close>

definition demo_lure :: "string \<Rightarrow> poll_error + poll_response" where
  "demo_lure url = json_response (PDict [(''next'', PStr ''//evil/x'')])"

theorem requests_stay_at_endpoint_witness:
  "\<exists>r w1. get_samples_upto 3 demo_poll_conf (demo_poll_os demo_lure) \<lparr>clock = 0, trace = [], ext = ()\<rparr> = Some (r, w1) \<and>
     (\<forall>params. HttpGet ''http://evil/x'' params \<notin> set (trace w1))"
proof -
  let ?ne = "\<lambda>_. None :: string option"
  have home: "site ?ne (base_of ''http://zun/v1/'') = Some (''http'', ''zun'')" "site ?ne ''http://evil/x'' = Some (''http'', ''evil'')"
    by code_simp+
  then have "based demo_poll_conf (base_of ''http://zun/v1/'') (''http'', ''zun'')"
    by (simp add: based_def demo_poll_conf_def)
  then have hosts: "\<exists>home. based demo_poll_conf (base_of endpoint) home"
    if "fst (url_for (demo_poll_os demo_lure) (catalog_call demo_poll_conf) x) = Inr (Some endpoint)" for x endpoint
    using that by (auto simp: demo_poll_os_def)
  let ?home = "stays_home demo_poll_conf (demo_poll_os demo_lure)"
  have run: "sends (get_samples_upto 3 demo_poll_conf (demo_poll_os demo_lure)) (\<lambda>_. ?home) (\<lambda>_. ?home)"
    using requests_stay_at_endpoint [of "demo_poll_os demo_lure" demo_poll_conf 3] hosts by blast
  have "HttpGet ''http://evil/x'' params \<notin> set tr" if "stays_home demo_poll_conf (demo_poll_os demo_lure) tr" for tr params
    using that home by (auto simp: stays_home_def demo_poll_os_def demo_poll_conf_def)
  with run [unfolded sends_def, THEN spec, of "\<lparr>clock = 0, trace = [], ext = ()\<rparr>"] show ?thesis
    by (fastforce split: sum.splits)
qed

definition demo_capsule :: "string \<Rightarrow> pyval" where
  "demo_capsule c = PDict [(''uuid'', PStr c),
     (''meta_labels'', PDict [(''yggdrasil_senlin_cluster_id'', PStr ''c''), (''yggdrasil_senlin_node_id'', PStr ''n'')])]"

text \<open>Two pages with a capsule each.\<close>

definition demo_answer :: "string \<Rightarrow> poll_error + poll_response" where
  "demo_answer url =
     (if url = ''http://zun/v1/capsules/'' then
        json_response (PDict [(''capsules'', PList [demo_capsule ''a'']), (''next'', PStr ''capsules/?marker=a'')])
      else if url = ''http://zun/v1/capsules/?marker=a'' then json_response (PDict [(''capsules'', PList [demo_capsule ''b''])])
      else json_response (PDict [(''CPU %'', PStr ''7%'')]))"

theorem samples_refine_listing_witness:
  "\<exists>w1 tr. get_samples demo_poll_conf (demo_poll_os demo_answer) \<lparr>clock = 0, trace = [], ext = ()\<rparr> = Some (Inr (), w1) \<and>
     trace w1 = tr \<and> map s_resource_id (samples tr) = [PStr ''a'', PStr ''b'']"
proof -
  let ?base = "base_of ''http://zun/v1/''" and ?cs = "[demo_capsule ''a''] @ [demo_capsule ''b'']"
  have by_url: "answers_by_url (demo_poll_os demo_answer) demo_answer"
    by (simp add: answers_by_url_def demo_poll_os_def)
  have first: "first_page demo_poll_conf ?base = Inr (''http://zun/v1/capsules/'', [(''all_projects'', PInt 1), (''limit'', PInt 1000)])"
    by code_simp
  have "listing demo_poll_conf demo_answer ?base ''http://zun/v1/capsules/'' ?cs"
    by (rule next_page [where d = "[(''capsules'', PList [demo_capsule ''a'']), (''next'', PStr ''capsules/?marker=a'')]"
          and ?url2.0 = "''http://zun/v1/capsules/?marker=a''"],
        simp, code_simp, code_simp, code_simp, code_simp,
        rule last_page [where d = "[(''capsules'', PList [demo_capsule ''b''])]"], simp, code_simp, code_simp, code_simp, code_simp)
  moreover have "labelled_capsule v" if "v \<in> set ?cs" for v
    using that by (auto simp: labelled_capsule_def demo_capsule_def capsule_labels_def py_or_def)
  moreover have "fst (url_for (demo_poll_os demo_answer) (catalog_call demo_poll_conf) x) = Inr (Some ''http://zun/v1/'')" for x
    by (simp add: demo_poll_os_def)
  ultimately obtain w1 tr where run:
    "get_samples demo_poll_conf (demo_poll_os demo_answer) \<lparr>clock = 0, trace = [], ext = ()\<rparr> = Some (Inr (), w1)" "trace w1 = tr"
    "samples tr = concat (map (sample_of demo_poll_conf demo_answer ?base) ?cs)"
    using samples_refine_listing [OF by_url _ _ first, of ?cs "\<lparr>clock = 0, trace = [], ext = ()\<rparr>"] by auto
  have "map s_resource_id (concat (map (sample_of demo_poll_conf demo_answer ?base) ?cs)) = [PStr ''a'', PStr ''b'']"
    by code_simp
  with run show ?thesis by auto
qed

end
