(* ===== verification/CapsuleStats.thy ===== *)
theory CapsuleStats
  imports EventLog PyValue
begin

text \<open>
  The methods that \<^verbatim>\<open>patch-zun-cri-capsule-stats.py\<close>, \<^verbatim>\<open>patch-zun-capsule-stats.py\<close> and
  \<^verbatim>\<open>patch-zun-cpu-stats.py\<close> put into Zun: the CPU usage of a CRI container from its counters, its mean over a
  capsule, and the usage of a Docker container.  Floats are real numbers, so \<^verbatim>\<open>nan\<close> and rounding are not modelled.
\<close>

section \<open>A CRI container\<close>

record cri_container =
  k_container_id :: string
  k_uuid :: string
  k_cpu :: "real option"

text \<open>The counters of a response: \<open>None\<close> where \<^verbatim>\<open>HasField\<close> raises \<^verbatim>\<open>ValueError\<close>, \<open>Some None\<close> where the field is not set.\<close>

record cri_cpu =
  c_nano_cores :: "int option option"
  c_core_time :: "int option option"
  c_timestamp :: int

type_synonym cpu_cache = "(string, int \<times> int) dict"

definition nano_usage :: "cri_cpu \<Rightarrow> real option" where
  "nano_usage cpu =
     (case c_nano_cores cpu of
        Some (Some nano_cores) \<Rightarrow> if 0 < nano_cores then Some (real_of_int nano_cores / 1000000000) else None
      | _ \<Rightarrow> None)"

definition remember :: "string \<Rightarrow> int \<times> int \<Rightarrow> cpu_cache \<Rightarrow> cpu_cache" where
  "remember uuid reading cache =
     (let cache = dset uuid reading cache
      in if 10000 < length cache then dset uuid reading [] else cache)"

definition interval_usage :: "(int \<times> int) option \<Rightarrow> int \<times> int \<Rightarrow> real option" where
  "interval_usage previous reading =
     (case previous of
        None \<Rightarrow> Some 0
      | Some (previous_cpu_time, previous_sample_time) \<Rightarrow>
          (case reading of (cpu_time, sample_time) \<Rightarrow>
             let elapsed = sample_time - previous_sample_time;
                 consumed = cpu_time - previous_cpu_time
             in if 0 < elapsed \<and> 0 \<le> consumed then Some (real_of_int consumed / real_of_int elapsed) else None))"

text \<open>The reading of the counters that is remembered.\<close>

definition counter_reading :: "cri_cpu \<Rightarrow> (int \<times> int) option" where
  "counter_reading cpu =
     (if nano_usage cpu = None \<and> 0 < c_timestamp cpu then
        (case c_core_time cpu of Some (Some cpu_time) \<Rightarrow> Some (cpu_time, c_timestamp cpu) | _ \<Rightarrow> None)
      else None)"

definition usage_cores :: "string \<Rightarrow> cri_cpu \<Rightarrow> cpu_cache \<Rightarrow> real option \<times> cpu_cache" where
  "usage_cores uuid cpu cache =
     (case counter_reading cpu of
        None \<Rightarrow> (nano_usage cpu, cache)
      | Some reading \<Rightarrow> (interval_usage (dget cache uuid) reading, remember uuid reading cache))"

definition requested :: "real option \<Rightarrow> real" where
  "requested cpu = (case cpu of Some r \<Rightarrow> if r \<le> 0 then 1 else r | None \<Rightarrow> 1)"

definition cri_percent :: "real \<Rightarrow> real \<Rightarrow> real" where
  "cri_percent usage cpu_request = max 0 (min 100 (usage * 100 / cpu_request))"

text \<open>\<open>Inr None\<close> is the empty dictionary, \<open>Inl e\<close> a failed request.\<close>

definition cri_stats ::
  "(string \<Rightarrow> 'e + cri_cpu) \<Rightarrow> cri_container \<Rightarrow> cpu_cache \<Rightarrow> ('e + real option) \<times> cpu_cache" where
  "cri_stats ask container cache =
     (if k_container_id container = [] then (Inr None, cache)
      else case ask (k_container_id container) of
        Inl e \<Rightarrow> (Inl e, cache)
      | Inr cpu \<Rightarrow>
          (case usage_cores (k_uuid container) cpu cache of
             (None, cache) \<Rightarrow> (Inr None, cache)
           | (Some usage, cache) \<Rightarrow> (Inr (Some (cri_percent usage (requested (k_cpu container)))), cache)))"

section \<open>A capsule\<close>

record capsule_container =
  m_uuid :: string
  m_running :: bool
  m_host :: string
  m_container_id :: string
  m_request :: "real option"

datatype stats_event =
    AskStats string string
  | StatsWarned string

type_synonym 'x sworld = "(stats_event, 'x) world"

record 'x stats_api =
  a_stats :: "stats_event \<Rightarrow> ('x, string + pyval) outside"
  a_float :: "string \<Rightarrow> real option"

definition percent_of :: "(string \<Rightarrow> real option) \<Rightarrow> pyval \<Rightarrow> real option" where
  "percent_of float_of stats =
     (case stats of
        PDict d \<Rightarrow> float_of (rstrip_by (\<lambda>c. c = CHR ''%'') (strip (py_str (vget d ''CPU %''))))
      | _ \<Rightarrow> None)"

definition ask_stats :: "'x stats_api \<Rightarrow> string \<Rightarrow> string \<Rightarrow> ('x sworld, string, pyval option) io" where
  "ask_stats api host uuid =
     try_except
       (bind (outside_call (AskStats host uuid) (a_stats api (AskStats host uuid))) (\<lambda>stats. ret (Some stats)))
       (\<lambda>error. andthen
          (emit (StatsWarned (''Could not poll CPU for Capsule container '' @ uuid @ '': '' @ error)))
          (ret None))"

text \<open>The body of the loop over the containers; the sums are \<open>(weighted_cpu, total_cpu)\<close>.\<close>

definition add_percent :: "real option \<Rightarrow> real option \<Rightarrow> real \<times> real \<Rightarrow> real \<times> real" where
  "add_percent cpu_percent request acc =
     (case cpu_percent of
        None \<Rightarrow> acc
      | Some p \<Rightarrow> (fst acc + p * requested request, snd acc + requested request))"

definition add_container ::
  "'x stats_api \<Rightarrow> string \<Rightarrow> capsule_container \<Rightarrow> real \<times> real \<Rightarrow> ('x sworld, string, real \<times> real) io" where
  "add_container api capsule_host container acc =
     (let host = (if m_host container = [] then capsule_host else m_host container)
      in if \<not> m_running container then ret acc
         else if host = [] \<or> m_container_id container = [] then ret acc
         else
           bind (ask_stats api host (m_uuid container)) (\<lambda>answer.
             ret (add_percent (case answer of None \<Rightarrow> None | Some stats \<Rightarrow> percent_of (a_float api) stats)
               (m_request container) acc)))"

definition capsule_stats ::
  "'x stats_api \<Rightarrow> string \<Rightarrow> capsule_container list \<Rightarrow> ('x sworld, string, real option) io" where
  "capsule_stats api capsule_host containers =
     bind (fold_io (add_container api capsule_host) containers (0, 0)) (\<lambda>(weighted_cpu, total_cpu).
       ret (if total_cpu \<le> 0 then None else Some (weighted_cpu / total_cpu)))"

section \<open>A Docker container\<close>

record docker_cpu =
  d_total :: real
  d_system :: "real option"
  d_online :: "int option"
  d_percpu :: "real list option"

definition docker_percent :: "docker_cpu \<Rightarrow> (real option \<times> real option) option \<Rightarrow> real" where
  "docker_percent cpu_stats precpu_stats =
     (let (previous_cpu_usage, previous_system) =
            (case precpu_stats of None \<Rightarrow> (0, 0)
             | Some (c, s) \<Rightarrow> (case c of Some v \<Rightarrow> v | None \<Rightarrow> 0, case s of Some v \<Rightarrow> v | None \<Rightarrow> 0));
          cpu_delta = d_total cpu_stats - previous_cpu_usage;
          system_delta = (case d_system cpu_stats of Some v \<Rightarrow> v | None \<Rightarrow> 0) - previous_system;
          online = (case d_online cpu_stats of Some n \<Rightarrow> n | None \<Rightarrow> 0);
          online_cpus = (if online \<noteq> 0 then online
            else (case d_percpu cpu_stats of Some l \<Rightarrow> int (length l) | None \<Rightarrow> 0))
      in if 0 < system_delta \<and> 0 \<le> cpu_delta \<and> online_cpus \<noteq> 0
         then cpu_delta / system_delta * real_of_int online_cpus * 100 else 0)"

section \<open>Readings of the own container\<close>

text \<open>What the calls remember: the last reading of a container.\<close>

definition call_reading :: "(string \<Rightarrow> 'e + cri_cpu) \<times> cri_container \<Rightarrow> (string \<times> int \<times> int) option" where
  "call_reading call =
     (case call of (ask, container) \<Rightarrow>
        if k_container_id container = [] then None
        else case ask (k_container_id container) of
          Inl e \<Rightarrow> None
        | Inr cpu \<Rightarrow> map_option (\<lambda>reading. (k_uuid container, reading)) (counter_reading cpu))"

fun run_calls :: "((string \<Rightarrow> 'e + cri_cpu) \<times> cri_container) list \<Rightarrow> cpu_cache \<Rightarrow> cpu_cache" where
  "run_calls [] cache = cache"
| "run_calls ((ask, container) # calls) cache = run_calls calls (snd (cri_stats ask container cache))"

fun last_reading :: "string \<Rightarrow> (int \<times> int) option \<Rightarrow> ((string \<Rightarrow> 'e + cri_cpu) \<times> cri_container) list \<Rightarrow> (int \<times> int) option" where
  "last_reading uuid r [] = r"
| "last_reading uuid r (call # calls) =
     last_reading uuid (case call_reading call of Some (u, reading) \<Rightarrow> if u = uuid then Some reading else r | None \<Rightarrow> r) calls"

definition cache_ok :: "(string \<Rightarrow> (int \<times> int) option) \<Rightarrow> cpu_cache \<Rightarrow> bool" where
  "cache_ok seen cache \<longleftrightarrow> distinct (dkeys cache) \<and> length cache \<le> 10000 \<and>
     (\<forall>uuid reading. dget cache uuid = Some reading \<longrightarrow> seen uuid = Some reading)"

lemma dset_one: "dset k v [] = [(k, v)]"
  by (simp add: dset_def)

lemma remember_ok:
  assumes "cache_ok seen cache"
  shows "cache_ok (seen(uuid := Some reading)) (remember uuid reading cache)"
proof -
  have "distinct (dkeys (dset uuid reading cache))" using assms by (simp add: cache_ok_def dict_simps)
  moreover have "distinct (dkeys (dset uuid reading []))" by (simp add: dict_simps)
  ultimately show ?thesis
    using assms by (auto simp: cache_ok_def remember_def Let_def pydict_laws(1) dset_one simp del: map_of_eq_Some_iff split: if_splits)
qed

lemma cri_stats_ok:
  assumes "cache_ok seen cache"
  shows "cache_ok (\<lambda>u. case call_reading (ask, container) of
      Some (v, reading) \<Rightarrow> if v = u then Some reading else seen u | None \<Rightarrow> seen u) (snd (cri_stats ask container cache))"
proof (cases "call_reading (ask, container)")
  case None
  then have "snd (cri_stats ask container cache) = cache"
    by (auto simp: call_reading_def cri_stats_def usage_cores_def split: sum.split option.split)
  with None assms show ?thesis by simp
next
  case (Some x)
  then obtain cpu reading where x: "x = (k_uuid container, reading)" "k_container_id container \<noteq> []"
    "ask (k_container_id container) = Inr cpu" "counter_reading cpu = Some reading"
    by (auto simp: call_reading_def split: if_splits sum.splits)
  then have "snd (cri_stats ask container cache) = remember (k_uuid container) reading cache"
    by (auto simp: cri_stats_def usage_cores_def split: option.split)
  moreover have "(\<lambda>u. if k_uuid container = u then Some reading else seen u) = seen(k_uuid container := Some reading)" by auto
  ultimately show ?thesis using remember_ok [OF assms] Some x(1) by simp
qed

lemma run_calls_ok: "cache_ok seen cache \<Longrightarrow> cache_ok (\<lambda>u. last_reading u (seen u) calls) (run_calls calls cache)"
proof (induction calls arbitrary: seen cache)
  case (Cons call calls)
  obtain ask container where call: "call = (ask, container)" by fastforce
  from Cons.IH [OF cri_stats_ok [OF Cons.prems, of ask container]] show ?case
    by (simp add: call cong: option.case_cong)
qed simp

lemma cri_percent_bounds: "0 \<le> cri_percent usage r \<and> cri_percent usage r \<le> 100"
  by (simp add: cri_percent_def)


text \<open>The usage of a capsule is a mean of what its running containers answer: when these are percentages between two
  bounds, so is the mean; a container that cannot be asked or read does not count.\<close>

theorem capsule_usage_bounded:
  assumes "\<And>e x stats p. fst (a_stats api e x) = Inr stats \<Longrightarrow> percent_of (a_float api) stats = Some p \<Longrightarrow> lo \<le> p \<and> p \<le> hi"
  shows "sends (capsule_stats api host containers)
     (\<lambda>r tr. (\<forall>m. r = Some m \<longrightarrow> lo \<le> m \<and> m \<le> hi) \<and>
        (\<forall>h u. AskStats h u \<in> set tr \<longrightarrow> (\<exists>c \<in> set containers. m_running c \<and> m_uuid c = u \<and> h \<noteq> [])))
     (\<lambda>_ _. False)"
proof -
  let ?A = "\<lambda>tr. \<forall>h u. AskStats h u \<in> set tr \<longrightarrow> (\<exists>c \<in> set containers. m_running c \<and> m_uuid c = u \<and> h \<noteq> [])"
  let ?I = "\<lambda>acc tr. 0 \<le> snd acc \<and> lo * snd acc \<le> fst acc \<and> fst acc \<le> hi * snd acc \<and> ?A tr"
  have req: "0 < requested r" for r by (auto simp: requested_def split: option.split)
  have more: "lo * (b + r) \<le> a + p * r \<and> a + p * r \<le> hi * (b + r)"
    if "lo * b \<le> a" "a \<le> hi * b" "lo \<le> p" "p \<le> hi" "0 < r" for a b p r :: real
    unfolding distrib_left using that by (intro conjI add_mono mult_right_mono) simp_all
  have one: "sends (add_container api host c acc) (\<lambda>acc1 t2. ?I acc1 (tr @ t2)) (\<lambda>_ _. False)"
    if c: "c \<in> set containers" and acc: "?I acc tr" for c acc tr
  proof -
    define h where "h = (if m_host c = [] then host else m_host c)"
    have asked: "sends (ask_stats api h (m_uuid c))
       (\<lambda>a t2. (\<exists>m. set t2 \<subseteq> {AskStats h (m_uuid c), StatsWarned m}) \<and>
          (\<forall>stats p. a = Some stats \<longrightarrow> percent_of (a_float api) stats = Some p \<longrightarrow> lo \<le> p \<and> p \<le> hi)) (\<lambda>_ _. False)"
      unfolding ask_stats_def
      by (intro sends_try_except sends_bind sends_outside_call sends_andthen sends_emit sends_ret) (auto dest: assms)
    show ?thesis
    proof (cases "m_running c \<and> h \<noteq> [] \<and> m_container_id c \<noteq> []")
      case True
      have log: "?A (tr @ t2)" if "set t2 \<subseteq> {AskStats h (m_uuid c), StatsWarned m}" for t2 m
        using acc c True that by (auto simp: subset_iff)
      have pair: "0 \<le> snd (add_percent pc r acc) \<and> lo * snd (add_percent pc r acc) \<le> fst (add_percent pc r acc) \<and>
          fst (add_percent pc r acc) \<le> hi * snd (add_percent pc r acc)"
        if "\<And>p. pc = Some p \<Longrightarrow> lo \<le> p \<and> p \<le> hi" for pc r
        using acc that more req [of r] by (auto simp: add_percent_def split: option.split)
      have eq: "add_container api host c acc = bind (ask_stats api h (m_uuid c)) (\<lambda>answer.
          ret (add_percent (case answer of None \<Rightarrow> None | Some stats \<Rightarrow> percent_of (a_float api) stats) (m_request c) acc))"
        using True by (simp add: add_container_def Let_def h_def [symmetric])
      let ?pc = "\<lambda>a. case a of None \<Rightarrow> None | Some stats \<Rightarrow> percent_of (a_float api) stats"
      have ok: "?I (add_percent (?pc a) (m_request c) acc) (tr @ t2)"
        if "(\<exists>m. set t2 \<subseteq> {AskStats h (m_uuid c), StatsWarned m}) \<and>
          (\<forall>stats p. a = Some stats \<longrightarrow> percent_of (a_float api) stats = Some p \<longrightarrow> lo \<le> p \<and> p \<le> hi)" for a t2
        using that log pair [of "?pc a" "m_request c"] by (cases a) auto
      show ?thesis
        unfolding eq
        by (rule sends_bind, rule sends_mono [OF asked], rule sends_ret, unfold append_Nil2, erule ok, simp)
    next
      case False
      with acc show ?thesis
        unfolding add_container_def Let_def h_def [symmetric] by (auto intro!: sends_ret)
    qed
  qed
  have "sends (fold_io (add_container api host) containers (0, 0)) ?I (\<lambda>_ _. False)"
    by (rule sends_fold [where I = "\<lambda>_. ?I"]) (use one in auto)
  then have fold: "sends (fold_io (add_container api host) containers (0, 0)) (\<lambda>acc tr. ?I acc tr) (\<lambda>_ _. False)" .
  show ?thesis
    unfolding capsule_stats_def
    by (rule sends_bind, rule sends_mono [OF fold])
      (auto intro!: sends_ret simp: pos_le_divide_eq pos_divide_le_eq split: prod.split)
qed

section \<open>Examples\<close>

definition demo_counters :: "int \<Rightarrow> int \<Rightarrow> string \<Rightarrow> unit + cri_cpu" where
  "demo_counters cpu_time time _ = Inr \<lparr>c_nano_cores = Some None, c_core_time = Some (Some cpu_time), c_timestamp = time\<rparr>"

definition demo_container :: "string \<Rightarrow> cri_container" where
  "demo_container u = \<lparr>k_container_id = ''id'', k_uuid = u, k_cpu = Some 2\<rparr>"


theorem capsule_usage_bounded_witness:
  "\<exists>r w1. capsule_stats \<lparr>a_stats = (\<lambda>_ x. (Inr (PDict [(''CPU %'', PStr ''x'')]), 0, x)), a_float = (\<lambda>_. Some 50)\<rparr> ''h''
      [\<lparr>m_uuid = ''u'', m_running = True, m_host = [], m_container_id = ''c'', m_request = None\<rparr>]
      \<lparr>clock = 0, trace = [], ext = ()\<rparr> = Some (Inr r, w1) \<and> (\<forall>m. r = Some m \<longrightarrow> m = 50)"
proof -
  let ?api = "\<lparr>a_stats = (\<lambda>_ x. (Inr (PDict [(''CPU %'', PStr ''x'')]), 0, x)), a_float = (\<lambda>_. Some 50)\<rparr> :: unit stats_api"
  have answers: "50 \<le> p \<and> p \<le> 50" if "percent_of (a_float ?api) stats = Some p" for stats and p :: real
    using that by (auto simp: percent_of_def split: pyval.splits)
  let ?c = "\<lparr>m_uuid = ''u'', m_running = True, m_host = [], m_container_id = ''c'', m_request = None\<rparr>"
  have run: "sends (capsule_stats ?api ''h'' [?c])
      (\<lambda>r tr. (\<forall>m. r = Some m \<longrightarrow> 50 \<le> m \<and> m \<le> 50) \<and>
        (\<forall>h u. AskStats h u \<in> set tr \<longrightarrow> (\<exists>c \<in> set [?c]. m_running c \<and> m_uuid c = u \<and> h \<noteq> []))) (\<lambda>_ _. False)"
    using capsule_usage_bounded [of ?api 50 50 "''h''" "[?c]"] answers by blast
  from run [unfolded sends_def, THEN spec, of "\<lparr>clock = 0, trace = [], ext = ()\<rparr>"]
  show ?thesis by (fastforce split: sum.splits)
qed

end
