(* ===== verification/CriChannel.thy ===== *)
theory CriChannel
  imports EventLog PyText
begin

text \<open>
  The class \<^verbatim>\<open>_CriApiCompatibilityChannel\<close> that \<^verbatim>\<open>patch-zun-cri-v1.py\<close> puts into the CRI driver of Zun: calls go to
  version 1 of the runtime's services, and to v1alpha2 once a service has answered that it does not
  implement version 1.  The calls of the wrapped channel are outside; the state is the memory of the versions.
\<close>

definition ALPHA2_PREFIX :: string where
  "ALPHA2_PREFIX = ''/runtime.v1alpha2.''"

definition V1_PREFIX :: string where
  "V1_PREFIX = ''/runtime.v1.''"

text \<open>The methods of both versions and the service, for a method of v1alpha2.\<close>

definition method_paths :: "string \<Rightarrow> string \<times> string \<times> string option" where
  "method_paths method =
     (if \<not> prefix ALPHA2_PREFIX method then (method, method, None)
      else (replace_first ALPHA2_PREFIX V1_PREFIX method, method,
        Some (hd (split_on CHR ''/'' (tl method)))))"

datatype rpc_error =
    Unimplemented string
  | OtherCode string

datatype channel_event =
    UnaryCall string
  | StreamCall string
  | FellBack string

type_synonym 'x channel_world = "(channel_event, (string, string) dict \<times> 'x) world"

text \<open>A stream of responses: those that arrive, and the error it ends with.\<close>

type_synonym 'r stream = "'r list \<times> rpc_error option"

record ('x, 'r) channel =
  ch_unary :: "channel_event \<Rightarrow> ('x, rpc_error + 'r) outside"
  ch_stream :: "channel_event \<Rightarrow> ('x, rpc_error + 'r stream) outside"

text \<open>A call of the wrapped channel leaves the memory of the versions as it is.\<close>

definition beside :: "('x, 'a) outside \<Rightarrow> ((string, string) dict \<times> 'x, 'a) outside" where
  "beside f st = (case f (snd st) of (a, dt, x) \<Rightarrow> (a, dt, (fst st, x)))"

definition unary_call :: "('x, 'r) channel \<Rightarrow> string \<Rightarrow> ('x channel_world, rpc_error, 'r) io" where
  "unary_call ch path = outside_call (UnaryCall path) (beside (ch_unary ch (UnaryCall path)))"

definition stream_call :: "('x, 'r) channel \<Rightarrow> string \<Rightarrow> ('x channel_world, rpc_error, 'r stream) io" where
  "stream_call ch path = outside_call (StreamCall path) (beside (ch_stream ch (StreamCall path)))"

definition service_version :: "string \<Rightarrow> ('x channel_world, rpc_error, string option) io" where
  "service_version service w = ret (dget (fst (ext w)) service) w"

definition set_version :: "string \<Rightarrow> string \<Rightarrow> ('x channel_world, rpc_error, unit) io" where
  "set_version service version w = ret () (w\<lparr>ext := (dset service version (fst (ext w)), snd (ext w))\<rparr>)"

definition fall_back :: "string \<Rightarrow> ('x channel_world, rpc_error, 'a) io \<Rightarrow> rpc_error \<Rightarrow> ('x channel_world, rpc_error, 'a) io" where
  "fall_back service alpha2_call e =
     (case e of
        Unimplemented m \<Rightarrow>
          andthen (set_version service ''v1alpha2'') (andthen (emit (FellBack service)) alpha2_call)
      | OtherCode m \<Rightarrow> raise_exn e)"

text \<open>\<open>Inl e\<close> of an attempt is an error of the call, which is not one of the code after it.\<close>

definition attempt :: "('w, 'e, 'a) io \<Rightarrow> ('w, 'e, 'e + 'a) io" where
  "attempt m = try_except (bind m (\<lambda>a. ret (Inr a))) (\<lambda>e. ret (Inl e))"

definition invoke_unary :: "('x, 'r) channel \<Rightarrow> string \<Rightarrow> ('x channel_world, rpc_error, 'r) io" where
  "invoke_unary ch method =
     (case method_paths method of
        (stable_method, alpha2_method, None) \<Rightarrow> unary_call ch stable_method
      | (stable_method, alpha2_method, Some service) \<Rightarrow>
          bind (service_version service) (\<lambda>version.
            if version = Some ''v1alpha2'' then unary_call ch alpha2_method
            else bind (attempt (unary_call ch stable_method)) (\<lambda>result.
              case result of
                Inl e \<Rightarrow> fall_back service (unary_call ch alpha2_method) e
              | Inr r \<Rightarrow> andthen (set_version service ''v1'') (ret r))))"

text \<open>\<^verbatim>\<open>next\<close> of a new stream: an error at once is an error of the call, no response is the end.\<close>

definition first_response :: "'r stream \<Rightarrow> rpc_error + 'r stream" where
  "first_response responses =
     (case responses of
        ([], Some e) \<Rightarrow> Inl e
      | _ \<Rightarrow> Inr responses)"

definition invoke_stream :: "('x, 'r) channel \<Rightarrow> string \<Rightarrow> ('x channel_world, rpc_error, 'r stream) io" where
  "invoke_stream ch method =
     (case method_paths method of
        (stable_method, alpha2_method, None) \<Rightarrow> stream_call ch stable_method
      | (stable_method, alpha2_method, Some service) \<Rightarrow>
          bind (service_version service) (\<lambda>version.
            if version = Some ''v1alpha2'' then stream_call ch alpha2_method
            else bind (attempt (bind (stream_call ch stable_method) (\<lambda>responses. lift_sum (first_response responses))))
              (\<lambda>result.
                case result of
                  Inl e \<Rightarrow> fall_back service (stream_call ch alpha2_method) e
                | Inr responses \<Rightarrow> andthen (set_version service ''v1'') (ret responses))))"

section \<open>Steps of the channel\<close>

definition versions :: "'x channel_world \<Rightarrow> string \<Rightarrow> string option" where
  "versions w = dget (fst (ext w))"

text \<open>The service of the method \<open>ALPHA2_PREFIX @ x\<close>.\<close>

definition service_of :: "string \<Rightarrow> string" where
  "service_of x = ''runtime.v1alpha2.'' @ takeWhile (\<lambda>c. c \<noteq> CHR ''/'') x"

lemma hd_split_on: "hd (split_on d s) = takeWhile (\<lambda>c. c \<noteq> d) s"
  by (induction s) (auto split: list.split)

lemma method_paths_alpha2:
  "method_paths (ALPHA2_PREFIX @ x) = (V1_PREFIX @ x, ALPHA2_PREFIX @ x, Some (service_of x))"
  by (simp add: method_paths_def hd_split_on ALPHA2_PREFIX_def V1_PREFIX_def service_of_def del: split_on.simps)

text \<open>
  What a call of the method \<open>ALPHA2_PREFIX @ x\<close> does to the memory of the versions \<open>v\<close>, and its events;
  only the services \<open>missing\<close> may answer that they do not implement version 1.
\<close>

inductive channel_step ::
  "string set \<Rightarrow> (string \<Rightarrow> channel_event) \<Rightarrow> string \<Rightarrow> (string \<Rightarrow> string option) \<Rightarrow> channel_event list \<Rightarrow>
   (string \<Rightarrow> string option) \<Rightarrow> bool"
  for missing call x v where
  known_alpha2:
    "v (service_of x) = Some ''v1alpha2'' \<Longrightarrow> channel_step missing call x v [call (ALPHA2_PREFIX @ x)] v"
| answered:
    "v (service_of x) \<noteq> Some ''v1alpha2'' \<Longrightarrow>
     channel_step missing call x v [call (V1_PREFIX @ x)] (v(service_of x \<mapsto> ''v1''))"
| failed:
    "v (service_of x) \<noteq> Some ''v1alpha2'' \<Longrightarrow> channel_step missing call x v [call (V1_PREFIX @ x)] v"
| falls_back:
    "v (service_of x) \<noteq> Some ''v1alpha2'' \<Longrightarrow> service_of x \<in> missing \<Longrightarrow>
     channel_step missing call x v [call (V1_PREFIX @ x), FellBack (service_of x), call (ALPHA2_PREFIX @ x)]
       (v(service_of x \<mapsto> ''v1alpha2''))"

inductive_cases channel_stepE: "channel_step missing call x v tr v1"

text \<open>The services that can answer a call of version 1 with \<open>Unimplemented\<close>.\<close>

definition missing_v1 :: "('x, 'r) channel \<Rightarrow> string set" where
  "missing_v1 ch = {service_of x | x. \<exists>st m.
     fst (ch_unary ch (UnaryCall (V1_PREFIX @ x)) st) = Inl (Unimplemented m) \<or>
     fst (ch_stream ch (StreamCall (V1_PREFIX @ x)) st) \<in> {Inl (Unimplemented m), Inr ([], Some (Unimplemented m))}}"

lemma wp_service_version [wp_simps]: "wp (service_version s) Q E w = Q (versions w s) w"
  by (simp add: wp_def service_version_def ret_def versions_def)

lemma wp_set_version [wp_simps]: "wp (set_version s v) Q E w = Q () (w\<lparr>ext := (dset s v (fst (ext w)), snd (ext w))\<rparr>)"
  by (simp add: wp_def set_version_def ret_def)

text \<open>A call of the wrapped channel is logged, and keeps the versions.\<close>

lemma wp_wrapped:
  assumes "\<And>a w1. trace w1 = trace w @ [e] \<Longrightarrow> versions w1 = versions w \<Longrightarrow> fst (f (snd (ext w))) = Inr a \<Longrightarrow> Q a w1"
    and "\<And>err w1. trace w1 = trace w @ [e] \<Longrightarrow> versions w1 = versions w \<Longrightarrow> fst (f (snd (ext w))) = Inl err \<Longrightarrow> E err w1"
  shows "wp (outside_call e (beside f)) Q E w"
  using assms by (auto simp: wp_outside_call beside_def versions_def Let_def split: prod.split sum.split)

lemma wp_attempt [wp_simps]: "wp (attempt m) Q E = wp m (\<lambda>a. Q (Inr a)) (\<lambda>e. Q (Inl e))"
  by (simp add: attempt_def wp_simps fun_eq_iff)

lemma versions_set [simp]:
  "versions (w\<lparr>ext := (dset s v (fst (ext w)), snd (ext w))\<rparr>) = (versions w)(s \<mapsto> v)"
  "versions (w\<lparr>trace := tr\<rparr>) = versions w"
  by (auto simp: versions_def fun_eq_iff dict_simps)

lemma missing_v1I:
  "fst (ch_unary ch (UnaryCall (V1_PREFIX @ x)) st) = Inl (Unimplemented m) \<Longrightarrow> service_of x \<in> missing_v1 ch"
  "fst (ch_stream ch (StreamCall (V1_PREFIX @ x)) st) = Inl (Unimplemented m) \<Longrightarrow> service_of x \<in> missing_v1 ch"
  "fst (ch_stream ch (StreamCall (V1_PREFIX @ x)) st) = Inr ([], Some (Unimplemented m)) \<Longrightarrow> service_of x \<in> missing_v1 ch"
  by (auto simp: missing_v1_def)

definition stepped :: "('x, 'r) channel \<Rightarrow> (string \<Rightarrow> channel_event) \<Rightarrow> string \<Rightarrow> 'x channel_world \<Rightarrow> 'x channel_world \<Rightarrow> bool" where
  "stepped ch call x w w1 \<longleftrightarrow>
     (\<exists>tr. trace w1 = trace w @ tr \<and> channel_step (missing_v1 ch) call x (versions w) tr (versions w1))"

lemma first_response_Inl: "first_response responses = Inl e \<Longrightarrow> responses = ([], Some e)"
  by (auto simp: first_response_def split: prod.splits list.splits option.splits)

text \<open>Both calls end alike: the version is remembered, or the call is repeated on v1alpha2.\<close>

lemma fall_back_stepped:
  assumes "versions w (service_of x) \<noteq> Some ''v1alpha2''"
    and w1: "trace w1 = trace w @ [call (V1_PREFIX @ x)]" "versions w1 = versions w"
    and missing: "\<And>m. e = Unimplemented m \<Longrightarrow> service_of x \<in> missing_v1 ch"
  shows "wp (fall_back (service_of x) (outside_call (call (ALPHA2_PREFIX @ x)) (beside f)) e)
     (\<lambda>_. stepped ch call x w) (\<lambda>_. stepped ch call x w) w1"
proof (cases e)
  case (Unimplemented m)
  with falls_back [where v = "versions w" and x = x and call = call, OF assms(1) missing [OF Unimplemented]] w1 show ?thesis
    by (auto simp: fall_back_def wp_andthen wp_set_version wp_emit stepped_def intro!: wp_wrapped)
next
  case (OtherCode m)
  with failed [where v = "versions w" and x = x and call = call and missing = "missing_v1 ch", OF assms(1)] w1 show ?thesis
    by (auto simp: fall_back_def wp_simps stepped_def)
qed

lemma answered_stepped:
  assumes "versions w (service_of x) \<noteq> Some ''v1alpha2''"
    and "trace w1 = trace w @ [call (V1_PREFIX @ x)]" "versions w1 = versions w"
  shows "wp (andthen (set_version (service_of x) ''v1'') (ret r)) (\<lambda>_. stepped ch call x w) E w1"
  using answered [where v = "versions w" and x = x and call = call and missing = "missing_v1 ch", OF assms(1)] assms(2,3) by (auto simp: wp_simps stepped_def)

lemma invoke_unary_stepped:
  "wp (invoke_unary ch (ALPHA2_PREFIX @ x)) (\<lambda>_. stepped ch UnaryCall x w) (\<lambda>_. stepped ch UnaryCall x w) w"
proof (cases "versions w (service_of x) = Some ''v1alpha2''")
  case True
  with known_alpha2 [of "versions w" x "missing_v1 ch" UnaryCall] show ?thesis
    by (auto simp: invoke_unary_def method_paths_alpha2 wp_bind wp_service_version unary_call_def stepped_def intro!: wp_wrapped)
next
  case False
  then show ?thesis
    unfolding invoke_unary_def method_paths_alpha2 prod.case option.case wp_bind wp_service_version if_not_P [OF False]
      wp_attempt sum.case unary_call_def
    by (intro wp_wrapped fall_back_stepped answered_stepped) (auto intro: missing_v1I)
qed

lemma invoke_stream_stepped:
  "wp (invoke_stream ch (ALPHA2_PREFIX @ x)) (\<lambda>_. stepped ch StreamCall x w) (\<lambda>_. stepped ch StreamCall x w) w"
proof (cases "versions w (service_of x) = Some ''v1alpha2''")
  case True
  with known_alpha2 [of "versions w" x "missing_v1 ch" StreamCall] show ?thesis
    by (auto simp: invoke_stream_def method_paths_alpha2 wp_bind wp_service_version stream_call_def stepped_def intro!: wp_wrapped)
next
  case False
  have first: "wp (lift_sum (first_response responses)) (\<lambda>r. wp (andthen (set_version (service_of x) ''v1'') (ret r)) (\<lambda>_. stepped ch StreamCall x w) (\<lambda>_. stepped ch StreamCall x w))
      (\<lambda>e. wp (fall_back (service_of x) (stream_call ch (ALPHA2_PREFIX @ x)) e) (\<lambda>_. stepped ch StreamCall x w) (\<lambda>_. stepped ch StreamCall x w)) w1"
    if "trace w1 = trace w @ [StreamCall (V1_PREFIX @ x)]" "versions w1 = versions w"
      "fst (ch_stream ch (StreamCall (V1_PREFIX @ x)) st) = Inr responses" for responses w1 st
    unfolding wp_lift_sum stream_call_def
    by (cases "first_response responses")
      (use that False in \<open>auto intro!: fall_back_stepped answered_stepped dest!: first_response_Inl intro: missing_v1I\<close>)
  show ?thesis
    unfolding invoke_stream_def method_paths_alpha2 prod.case option.case wp_bind wp_service_version if_not_P [OF False]
      wp_attempt sum.case
    unfolding stream_call_def [of ch "V1_PREFIX @ x"]
    by (intro wp_wrapped first) (use False in \<open>auto simp: stream_call_def intro!: fall_back_stepped intro: missing_v1I\<close>)
qed

section \<open>Sequences of calls\<close>

text \<open>Calls of the methods of v1alpha2, some of them streams; a caller gets the error of its call.\<close>

fun run_requests :: "('x, 'r) channel \<Rightarrow> (bool \<times> string) list \<Rightarrow> ('x channel_world, rpc_error, unit) io" where
  "run_requests ch [] = ret ()"
| "run_requests ch ((streaming, x) # requests) =
     (if streaming
      then andthen (attempt (invoke_stream ch (ALPHA2_PREFIX @ x))) (run_requests ch requests)
      else andthen (attempt (invoke_unary ch (ALPHA2_PREFIX @ x))) (run_requests ch requests))"

text \<open>
  A call goes to v1alpha2 when the service is one of \<open>old\<close>, which have fallen back, and to version 1 when it is not.
\<close>

definition right_version :: "string set \<Rightarrow> string \<Rightarrow> bool" where
  "right_version old path \<longleftrightarrow>
     (prefix V1_PREFIX path \<longrightarrow> service_of (drop (length V1_PREFIX) path) \<notin> old) \<and>
     (prefix ALPHA2_PREFIX path \<longrightarrow> service_of (drop (length ALPHA2_PREFIX) path) \<in> old)"

fun orderly :: "string set \<Rightarrow> channel_event list \<Rightarrow> bool" where
  "orderly old [] \<longleftrightarrow> True"
| "orderly old (FellBack service # es) \<longleftrightarrow> service \<notin> old \<and> orderly (insert service old) es"
| "orderly old (UnaryCall path # es) \<longleftrightarrow> right_version old path \<and> orderly old es"
| "orderly old (StreamCall path # es) \<longleftrightarrow> right_version old path \<and> orderly old es"

definition fallbacks :: "channel_event list \<Rightarrow> string set" where
  "fallbacks es = {service. FellBack service \<in> set es}"

lemma fallbacks_simps [simp]:
  "fallbacks [] = {}"
  "fallbacks (FellBack s # es) = insert s (fallbacks es)"
  "fallbacks (UnaryCall p # es) = fallbacks es"
  "fallbacks (StreamCall p # es) = fallbacks es"
  "fallbacks (es @ es') = fallbacks es \<union> fallbacks es'"
  by (auto simp: fallbacks_def)

lemma orderly_append: "orderly old (es @ es') \<longleftrightarrow> orderly old es \<and> orderly (old \<union> fallbacks es) es'"
  by (induction old es rule: orderly.induct) auto

lemma right_version_paths [simp]:
  "right_version old (V1_PREFIX @ x) \<longleftrightarrow> service_of x \<notin> old"
  "right_version old (ALPHA2_PREFIX @ x) \<longleftrightarrow> service_of x \<in> old"
  by (simp_all add: right_version_def V1_PREFIX_def ALPHA2_PREFIX_def)

definition old_services :: "(string \<Rightarrow> string option) \<Rightarrow> string set" where
  "old_services v = {s. v s = Some ''v1alpha2''}"

lemma channel_step_orderly:
  assumes "channel_step missing call x v tr v1" and "call \<in> {UnaryCall, StreamCall}"
  shows "orderly (old_services v) tr \<and> old_services v1 = old_services v \<union> fallbacks tr \<and> fallbacks tr \<subseteq> missing"
  using assms by (induction rule: channel_step.induct) (auto simp: old_services_def)

definition orderly_run :: "('x, 'r) channel \<Rightarrow> 'x channel_world \<Rightarrow> 'x channel_world \<Rightarrow> bool" where
  "orderly_run ch w w1 \<longleftrightarrow>
     (\<exists>tr. trace w1 = trace w @ tr \<and> orderly (old_services (versions w)) tr \<and>
        old_services (versions w1) = old_services (versions w) \<union> fallbacks tr \<and> fallbacks tr \<subseteq> missing_v1 ch)"

lemma stepped_orderly: "stepped ch call x w w1 \<Longrightarrow> call \<in> {UnaryCall, StreamCall} \<Longrightarrow> orderly_run ch w w1"
  unfolding stepped_def orderly_run_def by (blast dest: channel_step_orderly)

lemma orderly_run_trans: "orderly_run ch w w1 \<Longrightarrow> orderly_run ch w1 w2 \<Longrightarrow> orderly_run ch w w2"
  unfolding orderly_run_def by (elim exE, rule exI [of _ "tr @ tra" for tr tra]) (auto simp: orderly_append)

lemma orderly_run_refl: "orderly_run ch w w"
  by (simp add: orderly_run_def)

lemma invoke_orderly:
  "wp (attempt (invoke_unary ch (ALPHA2_PREFIX @ x))) (\<lambda>_. orderly_run ch w) E w"
  "wp (attempt (invoke_stream ch (ALPHA2_PREFIX @ x))) (\<lambda>_. orderly_run ch w) E w"
  unfolding wp_attempt
  by (rule wp_mono [OF invoke_unary_stepped] wp_mono [OF invoke_stream_stepped]; simp add: stepped_orderly)+

lemma run_requests_orderly: "wp (run_requests ch requests) (\<lambda>_. orderly_run ch w) (\<lambda>_ _. False) w"
proof (induction requests arbitrary: w)
  case (Cons request requests)
  obtain streaming x where request: "request = (streaming, x)" by fastforce
  have rest: "wp (run_requests ch requests) (\<lambda>_. orderly_run ch w) (\<lambda>_ _. False) w1" if "orderly_run ch w w1" for w1
    by (rule wp_mono [OF Cons.IH]) (use that orderly_run_trans in blast)+
  show ?case
    unfolding request run_requests.simps
    by (simp only: wp_andthen split: if_split)
      (intro conjI impI; rule wp_mono [OF invoke_orderly(1)] wp_mono [OF invoke_orderly(2)]; simp add: rest)
qed (simp add: wp_simps orderly_run_refl)

text \<open>C35: Whatever unary calls and streams a client makes on a new channel, all calls return; a service falls back to
  v1alpha2 at most once, all its calls before go to version 1 and all calls after to v1alpha2; and only a service
  falls back that answers \<^verbatim>\<open>UNIMPLEMENTED\<close> to a call of version 1, at once and not within a stream.
\<close>

theorem channel_falls_back_once:
  assumes "fst (ext w) = []"
  shows "\<exists>w1 tr. run_requests ch requests w = Some (Inr (), w1) \<and> trace w1 = trace w @ tr \<and>
     orderly {} tr \<and> fallbacks tr \<subseteq> missing_v1 ch \<and> old_services (versions w1) = fallbacks tr"
proof -
  have new: "old_services (versions w) = {}" using assms by (simp add: old_services_def versions_def)
  from run_requests_orderly [of ch requests w] obtain w1 where
    "run_requests ch requests w = Some (Inr (), w1)" "orderly_run ch w w1"
    unfolding wp_def by (auto split: option.splits prod.splits sum.splits)
  then show ?thesis by (auto simp: orderly_run_def new)
qed

definition demo_channel :: "(unit, nat) channel" where
  "demo_channel =
     \<lparr>ch_unary = (\<lambda>e st. (case e of
        UnaryCall path \<Rightarrow> if prefix ''/runtime.v1.R'' path then (Inl (Unimplemented ''''), 0, st) else (Inr 7, 0, st)
      | _ \<Rightarrow> (Inr 0, 0, st))),
      ch_stream = (\<lambda>e st. (Inr ([1, 2], Some (Unimplemented '''')), 0, st))\<rparr>"

theorem channel_falls_back_once_witness:
  "\<exists>w1 tr. run_requests demo_channel [(False, ''I/a''), (False, ''R/b''), (True, ''R/c'')]
      \<lparr>clock = 0, trace = [], ext = ([], ())\<rparr> = Some (Inr (), w1) \<and> trace w1 = tr \<and> orderly {} tr \<and>
     tr = [UnaryCall ''/runtime.v1.I/a'', UnaryCall ''/runtime.v1.R/b'', FellBack ''runtime.v1alpha2.R'',
       UnaryCall ''/runtime.v1alpha2.R/b'', StreamCall ''/runtime.v1alpha2.R/c'']"
proof -
  let ?w = "\<lparr>clock = 0, trace = [], ext = ([], ())\<rparr>"
  let ?rs = "[(False, ''I/a''), (False, ''R/b''), (True, ''R/c'')]"
  from channel_falls_back_once [of ?w demo_channel ?rs] obtain w1 tr where
    run: "run_requests demo_channel ?rs ?w = Some (Inr (), w1)" "trace w1 = tr" "orderly {} tr" by auto
  have "map_option (\<lambda>r. trace (snd r)) (run_requests demo_channel ?rs ?w) =
      Some [UnaryCall ''/runtime.v1.I/a'', UnaryCall ''/runtime.v1.R/b'', FellBack ''runtime.v1alpha2.R'',
       UnaryCall ''/runtime.v1alpha2.R/b'', StreamCall ''/runtime.v1alpha2.R/c'']"
    by code_simp
  with run show ?thesis by simp
qed

end
