(* ===== verification/Freezer.thy ===== *)
theory Freezer
  imports EventLog PyValue
begin

text \<open>
  The entry points of the Freezer images: \<^verbatim>\<open>freezer_scheduler.py\<close> (search path, options, client, the jobs of the
  own client, safe defaults of the command line) and \<^verbatim>\<open>freezer_agent.py\<close> (storage credentials, client manager,
  Swift connection).  The environment is a dictionary; Freezer, keystoneauth and swiftclient are outside, what
  is passed to them is the value of a definition or an event.
\<close>

type_synonym environ = "(string, string) dict"

definition env_truthy :: "environ \<Rightarrow> string \<Rightarrow> bool" where
  "env_truthy env name = (case dget env name of Some value \<Rightarrow> value \<noteq> [] | None \<Rightarrow> False)"

definition env_get :: "environ \<Rightarrow> string \<Rightarrow> pyval" where
  "env_get env name = (case dget env name of Some value \<Rightarrow> PStr value | None \<Rightarrow> PNone)"

definition application_credentials_present :: "environ \<Rightarrow> bool" where
  "application_credentials_present env \<longleftrightarrow>
     env_truthy env ''OS_APPLICATION_CREDENTIAL_ID'' \<and> env_truthy env ''OS_APPLICATION_CREDENTIAL_SECRET''"

section \<open>The scheduler\<close>

definition search_path :: "string \<Rightarrow> environ \<Rightarrow> environ" where
  "search_path scheduler_bin env =
     dset ''PATH'' (join '':'' (filter (\<lambda>path. path \<noteq> [])
       [scheduler_bin, case dget env ''PATH'' of Some path \<Rightarrow> path | None \<Rightarrow> []])) env"

text \<open>The attributes of an options object, and those of its own attribute \<^verbatim>\<open>opts\<close> if that is not \<open>None\<close>.\<close>

record freezer_opts =
  fo_attrs :: pydict
  fo_opts :: "pydict option"

definition opt_value :: "freezer_opts \<Rightarrow> string \<Rightarrow> pyval \<Rightarrow> pyval" where
  "opt_value opts name default_value =
     (let value = vget (fo_attrs opts) name
      in if value \<noteq> PNone then value
         else case fo_opts opts of
           None \<Rightarrow> default_value
         | Some config \<Rightarrow>
             (let value = vget config name in if value \<noteq> PNone then value else default_value))"

record v2_client =
  v2_auth_url :: pyval
  v2_credential_id :: pyval
  v2_credential_secret :: pyval
  v2_verify :: pyval
  v2_cert :: pyval
  v2_opts :: pydict

datatype client_instance =
    UpstreamClient freezer_opts "string option"
  | V2Client v2_client

definition CLIENT_OPTION_NAMES :: "string list" where
  "CLIENT_OPTION_NAMES =
     [''os_auth_url'', ''os_backup_url'', ''os_endpoint_type'', ''os_project_id'', ''os_project_name'',
      ''os_project_domain_id'', ''os_project_domain_name'', ''os_user_domain_id'', ''os_user_domain_name'',
      ''os_cacert'', ''os_cert'']"

definition get_client_instance :: "environ \<Rightarrow> freezer_opts \<Rightarrow> string option \<Rightarrow> client_instance" where
  "get_client_instance env opts api_version =
     (if \<not> application_credentials_present env then UpstreamClient opts api_version
      else if api_version = Some ''1'' then UpstreamClient opts api_version
      else
        let insecure = truthy (opt_value opts ''insecure'' (PBool False))
        in V2Client
          \<lparr>v2_auth_url = opt_value opts ''os_auth_url'' PNone,
           v2_credential_id = env_get env ''OS_APPLICATION_CREDENTIAL_ID'',
           v2_credential_secret = env_get env ''OS_APPLICATION_CREDENTIAL_SECRET'',
           v2_verify = (if \<not> insecure then opt_value opts ''os_cacert'' PNone else PBool False),
           v2_cert = opt_value opts ''os_cert'' PNone,
           v2_opts = dset ''insecure'' (PBool insecure)
             (map (\<lambda>name. (name, opt_value opts name PNone)) CLIENT_OPTION_NAMES)\<rparr>)"

text \<open>\<open>conf\<close> is \<^verbatim>\<open>cfg.CONF.client_id\<close>, or the exception of reading it.\<close>

definition configured_client_id :: "environ \<Rightarrow> 'e + pyval \<Rightarrow> pyval" where
  "configured_client_id env conf =
     (if env_truthy env ''FREEZER_SCHEDULER_CLIENT_ID'' then env_get env ''FREEZER_SCHEDULER_CLIENT_ID''
      else case conf of Inr client_id \<Rightarrow> client_id | Inl _ \<Rightarrow> PStr [])"

definition get_active_jobs_from_api :: "environ \<Rightarrow> 'e + pyval \<Rightarrow> 'e + pydict list \<Rightarrow> 'e + pydict list" where
  "get_active_jobs_from_api env conf upstream =
     (case upstream of
        Inl e \<Rightarrow> Inl e
      | Inr jobs \<Rightarrow>
          (let client_id = configured_client_id env conf
           in if \<not> truthy client_id then Inr jobs
              else Inr (filter (\<lambda>job. vget job ''client_id'' = client_id) jobs)))"

subsection \<open>The command line\<close>

text \<open>\<^verbatim>\<open>sys.argv.insert(1, argument)\<close>.\<close>

definition insert_first :: "string \<Rightarrow> string list \<Rightarrow> string list" where
  "insert_first argument argv = take 1 argv @ [argument] @ drop 1 argv"

definition gives_option :: "string \<Rightarrow> string list \<Rightarrow> bool" where
  "gives_option name arguments = list_ex (\<lambda>argument. argument = name \<or> prefix (name @ ''='') argument) arguments"

definition CAPABILITY_DEFAULTS :: "(string \<times> string) list" where
  "CAPABILITY_DEFAULTS =
     [(''modes'', ''fs,mongo,mysql,sqlserver''), (''storages'', ''local,swift,ssh,s3,ftp,ftps''),
      (''engines'', ''tar,rsync,rsyncv2'')]"

definition default_capability :: "string list \<Rightarrow> string \<times> string \<Rightarrow> string list" where
  "default_capability argv entry =
     (let option_name = ''--capabilities-supported-'' @ fst entry
      in if \<not> gives_option option_name (drop 1 argv)
         then insert_first (option_name @ ''='' @ snd entry) argv else argv)"

definition ensure_safe_scheduler_defaults :: "string list \<Rightarrow> string list" where
  "ensure_safe_scheduler_defaults argv =
     (let arguments = drop 1 argv;
          argv = (if \<not> gives_option ''--disable-exec'' arguments \<and> ''--nodisable-exec'' \<notin> set arguments
            then insert_first ''--disable-exec'' argv else argv);
          argv = (if \<not> gives_option ''--capabilities-supported-actions'' arguments
            then insert_first ''--capabilities-supported-actions=backup,restore,info,admin'' argv else argv)
      in foldl default_capability argv CAPABILITY_DEFAULTS)"

section \<open>The agent\<close>

definition STORAGE_ENVIRONMENT :: "(string, string list) dict" where
  "STORAGE_ENVIRONMENT =
     [(''access_key'', [''FREEZER_ACCESS_KEY'', ''ACCESS_KEY'']),
      (''secret_key'', [''FREEZER_SECRET_KEY'', ''SECRET_KEY'']),
      (''endpoint'', [''FREEZER_ENDPOINT'', ''ENDPOINT'']),
      (''ssh_key'', [''FREEZER_SSH_KEY'']),
      (''ssh_password'', [''FREEZER_SSH_PASSWORD'']),
      (''ssh_username'', [''FREEZER_SSH_USERNAME'']),
      (''ssh_host'', [''FREEZER_SSH_HOST'']),
      (''ssh_port'', [''FREEZER_SSH_PORT'']),
      (''ftp_password'', [''FREEZER_FTP_PASSWORD'']),
      (''ftp_username'', [''FREEZER_FTP_USERNAME'']),
      (''ftp_host'', [''FREEZER_FTP_HOST'']),
      (''ftp_port'', [''FREEZER_FTP_PORT'']),
      (''ftp_keyfile'', [''FREEZER_FTP_KEYFILE'']),
      (''ftp_certfile'', [''FREEZER_FTP_CERTFILE''])]"

fun first_set :: "environ \<Rightarrow> string list \<Rightarrow> pyval option" where
  "first_set env [] = None"
| "first_set env (name # names) = (if env_truthy env name then Some (env_get env name) else first_set env names)"

definition get_backup_args :: "environ \<Rightarrow> pydict \<Rightarrow> pydict" where
  "get_backup_args env backup_args =
     foldl (\<lambda>args (name, environment_names).
        case first_set env environment_names of Some value \<Rightarrow> dset name value args | None \<Rightarrow> args)
       backup_args STORAGE_ENVIRONMENT"

record client_manager =
  cm_client_kwargs :: pydict
  cm_swift_args :: pydict
  cm_dry_run :: pyval

text \<open>\<open>Inl\<close> is the \<^verbatim>\<open>AttributeError\<close> of an endpoint type that is not a text.\<close>

definition endpoint_interface :: "client_manager \<Rightarrow> string + pyval" where
  "endpoint_interface manager =
     (let interface = vget (cm_client_kwargs manager) ''interface''
      in if truthy interface then Inr interface
         else case vget_or (cm_swift_args manager) ''endpoint_type'' (PStr ''publicURL'') of
           PStr endpoint_type \<Rightarrow>
             Inr (PStr (if suffix ''URL'' endpoint_type then take (length endpoint_type - 3) endpoint_type
               else endpoint_type))
         | _ \<Rightarrow> Inl ''AttributeError'')"

record swift_connection =
  sc_preauthurl :: pyval
  sc_preauthtoken :: pyval
  sc_insecure :: pyval
  sc_cacert :: pyval
  sc_os_options :: pydict
  sc_dry_run_wrapper :: bool

datatype swift_event =
    GetEndpoint string pyval pyval
  | GetToken

type_synonym 'x swift_world = "(swift_event, 'x) world"

definition create_swift ::
  "(swift_event \<Rightarrow> ('x, string + pyval) outside) \<Rightarrow> client_manager \<Rightarrow> ('x swift_world, string, swift_connection) io" where
  "create_swift sess manager =
     (let region_name = vget (cm_swift_args manager) ''region_name''
      in bind (lift_sum (endpoint_interface manager)) (\<lambda>interface.
         let ask = GetEndpoint ''object-store'' interface region_name
         in bind (outside_call ask (sess ask)) (\<lambda>endpoint.
            bind (outside_call GetToken (sess GetToken)) (\<lambda>token.
              ret \<lparr>sc_preauthurl = endpoint, sc_preauthtoken = token,
                   sc_insecure = vget_or (cm_swift_args manager) ''insecure'' (PBool False),
                   sc_cacert = vget (cm_swift_args manager) ''cacert'',
                   sc_os_options = [(''project_id'', vget (cm_swift_args manager) ''project_id''),
                     (''region_name'', region_name)],
                   sc_dry_run_wrapper = truthy (cm_dry_run manager)\<rparr>))))"

record manager_request =
  mr_auth_url :: pyval
  mr_auth_method :: string
  mr_dry_run :: pyval
  mr_options :: pydict

datatype manager_choice =
    UpstreamManager pydict
  | CredentialManager manager_request

definition get_client_manager :: "environ \<Rightarrow> pydict \<Rightarrow> manager_choice" where
  "get_client_manager env backup_args =
     (if \<not> application_credentials_present env then UpstreamManager backup_args
      else
        let options =
          [(''application_credential_id'', env_get env ''OS_APPLICATION_CREDENTIAL_ID''),
           (''application_credential_secret'', env_get env ''OS_APPLICATION_CREDENTIAL_SECRET''),
           (''project_id'', py_or (env_get env ''OS_PROJECT_ID'') (vget backup_args ''project_id'')),
           (''region_name'', env_get env ''OS_REGION_NAME''),
           (''endpoint_type'', case dget env ''OS_ENDPOINT_TYPE'' of Some t \<Rightarrow> PStr t | None \<Rightarrow> PStr ''internalURL''),
           (''interface'', env_get env ''OS_INTERFACE'')]
        in CredentialManager
          \<lparr>mr_auth_url = env_get env ''OS_AUTH_URL'', mr_auth_method = ''v3applicationcredential'',
           mr_dry_run = vget backup_args ''dry_run'',
           mr_options = (if env_truthy env ''OS_CACERT'' then dset ''cacert'' (env_get env ''OS_CACERT'') options
             else dset ''insecure'' (PBool True) options)\<rparr>)"

section \<open>Properties\<close>

lemma get_backup_args_attr:
  "dget (get_backup_args env args) name =
     (case dget STORAGE_ENVIRONMENT name of
        None \<Rightarrow> dget args name
      | Some names \<Rightarrow> (case first_set env names of Some value \<Rightarrow> Some value | None \<Rightarrow> dget args name))"
proof -
  have "dget (foldl (\<lambda>args (name, environment_names).
        case first_set env environment_names of Some value \<Rightarrow> dset name value args | None \<Rightarrow> args) args table) name =
     (case dget table name of
        None \<Rightarrow> dget args name
      | Some names \<Rightarrow> (case first_set env names of Some value \<Rightarrow> Some value | None \<Rightarrow> dget args name))"
    if "distinct (dkeys table)" for table
    using that
  proof (induction table arbitrary: args)
    case (Cons row table)
    obtain n names where row: "row = (n, names)" by fastforce
    show ?case
    proof (cases "n = name")
      case True
      then have "dget table name = None" using Cons.prems row by (simp add: map_of_eq_None_iff)
      with Cons True show ?thesis by (simp add: row dict_simps split: option.split del: map_of_eq_Some_iff)
    next
      case False
      with Cons show ?thesis by (simp add: row dict_simps split: option.split del: map_of_eq_Some_iff)
    qed
  qed simp
  moreover have "distinct (dkeys STORAGE_ENVIRONMENT)" by code_simp
  ultimately show ?thesis by (simp only: get_backup_args_def)
qed

text \<open>When the schedulers of a project have different client identifiers, a job of the project runs at exactly
  one of them if its client is among them, and at none otherwise.
\<close>

theorem jobs_run_once:
  assumes "distinct (map (\<lambda>(env, conf). configured_client_id env conf) schedulers)"
    and "\<And>env conf. (env, conf) \<in> set schedulers \<Longrightarrow> truthy (configured_client_id env conf)"
    and "job \<in> set jobs"
  shows "length (filter (\<lambda>(env, conf). \<exists>own. get_active_jobs_from_api env conf (Inr jobs) = Inr own \<and> job \<in> set own) schedulers) =
     (if vget job ''client_id'' \<in> (\<lambda>(env, conf). configured_client_id env conf) ` set schedulers then 1 else 0)"
  using assms(1,2)
proof (induction schedulers)
  case (Cons s schedulers)
  have own: "(\<exists>own. get_active_jobs_from_api env conf (Inr jobs) = Inr own \<and> job \<in> set own) \<longleftrightarrow>
      vget job ''client_id'' = configured_client_id env conf" if "(env, conf) \<in> set (s # schedulers)" for env conf
    using Cons.prems(2) [OF that] assms(3) by (simp add: get_active_jobs_from_api_def Let_def)
  show ?case using Cons own by (cases s) (force split: if_splits)
qed simp

text \<open>The arguments that stand for defaults, in the order in which they end up, and whether the arguments settle one.\<close>

definition SCHEDULER_DEFAULTS :: "string list" where
  "SCHEDULER_DEFAULTS =
     [''--capabilities-supported-engines=tar,rsync,rsyncv2'',
      ''--capabilities-supported-storages=local,swift,ssh,s3,ftp,ftps'',
      ''--capabilities-supported-modes=fs,mongo,mysql,sqlserver'',
      ''--capabilities-supported-actions=backup,restore,info,admin'',
      ''--disable-exec'']"

definition settles :: "string list \<Rightarrow> string \<Rightarrow> bool" where
  "settles arguments argument \<longleftrightarrow>
     gives_option (takeWhile (\<lambda>c. c \<noteq> CHR ''='') argument) arguments \<or>
     argument = ''--disable-exec'' \<and> ''--nodisable-exec'' \<in> set arguments"

lemma gives_option_Cons:
  "gives_option name (a # arguments) \<longleftrightarrow> a = name \<or> prefix (name @ ''='') a \<or> gives_option name arguments"
  by (auto simp: gives_option_def)

lemma insert_first_Cons: "insert_first a (prog # arguments) = prog # a # arguments"
  by (simp add: insert_first_def)

definition add_default :: "string \<Rightarrow> string list \<Rightarrow> string list" where
  "add_default d arguments = (if settles arguments d then arguments else d # arguments)"

lemma settles_iff: "settles arguments d \<longleftrightarrow> (\<exists>a \<in> set arguments. settles [a] d)"
  by (auto simp: settles_def gives_option_def list_ex_iff)

lemma settles_append: "settles (xs @ ys) d \<longleftrightarrow> settles xs d \<or> settles ys d"
  by (auto simp: settles_iff [of xs] settles_iff [of ys] settles_iff [of "xs @ ys"])

lemma add_defaults:
  assumes "\<forall>d \<in> set ds. \<forall>d' \<in> set ds. d = d' \<or> \<not> settles [d'] d" and "distinct ds"
  shows "foldr add_default ds arguments = filter (\<lambda>d. \<not> settles arguments d) ds @ arguments"
  using assms
proof (induction ds)
  case (Cons d ds)
  then have "\<not> settles (filter (\<lambda>d. \<not> settles arguments d) ds) d" by (subst settles_iff) auto
  with Cons show ?case by (simp add: add_default_def settles_append)
qed simp

lemma defaults_independent:
  "\<forall>d \<in> set SCHEDULER_DEFAULTS. \<forall>d' \<in> set SCHEDULER_DEFAULTS. d = d' \<or> \<not> settles [d'] d"
proof -
  have "list_all (\<lambda>d. list_all (\<lambda>d'. d = d' \<or> \<not> settles [d'] d) SCHEDULER_DEFAULTS) SCHEDULER_DEFAULTS" by code_simp
  then show ?thesis by (simp add: list_all_iff)
qed

lemma defaults_distinct: "distinct SCHEDULER_DEFAULTS"
  by code_simp

lemma default_capability_add:
  assumes "CHR ''='' \<notin> set (fst entry)"
  shows "default_capability (prog # arguments) entry =
     prog # add_default ((''--capabilities-supported-'' @ fst entry) @ ''='' @ snd entry) arguments"
proof -
  have "takeWhile (\<lambda>c. c \<noteq> CHR ''='') ((''--capabilities-supported-'' @ fst entry) @ ''='' @ snd entry) =
      ''--capabilities-supported-'' @ fst entry"
    by (subst takeWhile_append2) (use assms in auto)
  then show ?thesis
    by (simp add: default_capability_def add_default_def settles_def insert_first_Cons Let_def)
qed

lemma ensure_defaults:
  "ensure_safe_scheduler_defaults (prog # arguments) =
     prog # filter (\<lambda>d. \<not> settles arguments d) SCHEDULER_DEFAULTS @ arguments"
proof -
  have exec: "settles as ''--disable-exec'' \<longleftrightarrow> gives_option ''--disable-exec'' as \<or> ''--nodisable-exec'' \<in> set as" for as
    by (simp add: settles_def)
  have actions: "settles as ''--capabilities-supported-actions=backup,restore,info,admin'' \<longleftrightarrow>
      gives_option ''--capabilities-supported-actions'' as" for as
    by (simp add: settles_def)
  have "\<not> settles [''--disable-exec''] ''--capabilities-supported-actions=backup,restore,info,admin''" by code_simp
  then have two: "gives_option ''--capabilities-supported-actions'' (add_default ''--disable-exec'' arguments) \<longleftrightarrow>
      gives_option ''--capabilities-supported-actions'' arguments"
    unfolding actions by (auto simp: add_default_def gives_option_Cons gives_option_def)
  have "ensure_safe_scheduler_defaults (prog # arguments) =
      foldl default_capability (prog # add_default ''--capabilities-supported-actions=backup,restore,info,admin''
        (add_default ''--disable-exec'' arguments)) CAPABILITY_DEFAULTS"
    unfolding ensure_safe_scheduler_defaults_def Let_def
    by (rule arg_cong [where f = "\<lambda>a. foldl default_capability a CAPABILITY_DEFAULTS"])
      (unfold add_default_def [of "''--capabilities-supported-actions=backup,restore,info,admin''"] actions two,
        simp only: add_default_def exec insert_first_Cons drop_Suc_Cons drop0 One_nat_def de_Morgan_disj split: if_split, blast)
  also have "\<dots> = prog # foldr add_default SCHEDULER_DEFAULTS arguments"
    by (simp add: CAPABILITY_DEFAULTS_def SCHEDULER_DEFAULTS_def default_capability_add)
  finally show ?thesis by (simp add: add_defaults [OF defaults_independent defaults_distinct])
qed

lemma settles_itself: "d \<in> set SCHEDULER_DEFAULTS \<Longrightarrow> settles [d] d"
proof -
  have "list_all (\<lambda>d. settles [d] d) SCHEDULER_DEFAULTS" by code_simp
  then show "d \<in> set SCHEDULER_DEFAULTS \<Longrightarrow> settles [d] d" by (simp add: list_all_iff)
qed

text \<open>C36: Before the arguments of a scheduler's command line stand just the defaults that they do not settle, so that no choice of
  the operator is changed; doing it again adds nothing.
\<close>

theorem scheduler_defaults_respect_choices:
  assumes "argv \<noteq> []"
  shows "ensure_safe_scheduler_defaults argv = hd argv # filter (\<lambda>d. \<not> settles (tl argv) d) SCHEDULER_DEFAULTS @ tl argv \<and>
     (\<forall>d \<in> set SCHEDULER_DEFAULTS. settles (tl (ensure_safe_scheduler_defaults argv)) d) \<and>
     ensure_safe_scheduler_defaults (ensure_safe_scheduler_defaults argv) = ensure_safe_scheduler_defaults argv"
proof -
  let ?new = "filter (\<lambda>d. \<not> settles (tl argv) d) SCHEDULER_DEFAULTS"
  obtain prog where argv: "argv = prog # tl argv" using assms by (cases argv) auto
  then have once: "ensure_safe_scheduler_defaults argv = prog # ?new @ tl argv" by (metis ensure_defaults)
  have settled: "settles (?new @ tl argv) d" if "d \<in> set SCHEDULER_DEFAULTS" for d
    using that settles_itself [OF that] by (cases "settles (tl argv) d") (auto simp: settles_append settles_iff [of ?new])
  then have "ensure_safe_scheduler_defaults (prog # ?new @ tl argv) = prog # ?new @ tl argv"
    by (simp add: ensure_defaults)
  with once settled argv show ?thesis by (metis list.sel(1,3))
qed

theorem scheduler_defaults_respect_choices_witness:
  "ensure_safe_scheduler_defaults [''s'', ''--nodisable-exec'', ''--capabilities-supported-modes=fs''] =
     [''s'', ''--capabilities-supported-engines=tar,rsync,rsyncv2'',
      ''--capabilities-supported-storages=local,swift,ssh,s3,ftp,ftps'',
      ''--capabilities-supported-actions=backup,restore,info,admin'', ''--nodisable-exec'',
      ''--capabilities-supported-modes=fs'']"
proof -
  have "filter (\<lambda>d. \<not> settles [''--nodisable-exec'', ''--capabilities-supported-modes=fs''] d) SCHEDULER_DEFAULTS =
     [''--capabilities-supported-engines=tar,rsync,rsyncv2'',
      ''--capabilities-supported-storages=local,swift,ssh,s3,ftp,ftps'',
      ''--capabilities-supported-actions=backup,restore,info,admin'']" by code_simp
  with scheduler_defaults_respect_choices [of "[''s'', ''--nodisable-exec'', ''--capabilities-supported-modes=fs'']"]
  show ?thesis by simp
qed

theorem jobs_run_once_witness:
  "length (filter (\<lambda>(env, conf). \<exists>own. get_active_jobs_from_api env conf (Inr [[(''client_id'', PStr ''b'')]]) = Inr own \<and>
      [(''client_id'', PStr ''b'')] \<in> set own)
     [([(''FREEZER_SCHEDULER_CLIENT_ID'', ''a'')], Inl ()), ([], Inr (PStr ''b''))]) = 1"
proof -
  let ?s = "[([(''FREEZER_SCHEDULER_CLIENT_ID'', ''a'')], Inl ()), ([], Inr (PStr ''b''))]"
  let ?id = "\<lambda>(env, conf). configured_client_id env conf"
  have ids: "map ?id ?s = [PStr ''a'', PStr ''b'']"
    by (simp add: configured_client_id_def env_truthy_def env_get_def)
  have image: "?id ` set ?s = {PStr ''a'', PStr ''b''}" using arg_cong [OF ids, of set] by simp
  have "truthy (configured_client_id env conf)" if "(env, conf) \<in> set ?s" for env conf
    using that by (auto simp: configured_client_id_def env_truthy_def env_get_def)
  moreover have "distinct (map ?id ?s)" unfolding ids by simp
  ultimately show ?thesis
    using jobs_run_once [of ?s "[(''client_id'', PStr ''b'')]" "[[(''client_id'', PStr ''b'')]]"] unfolding image by simp
qed

end
