(* ===== verification/CniPlugin.thy ===== *)
theory CniPlugin
  imports EventLog PyText
begin

text \<open>
  The CNI plugin of \<^verbatim>\<open>zun_cni_container_plugin.py\<close>: it answers \<^verbatim>\<open>VERSION\<close> itself and runs the plugin of the
  Zun container for every other command, with the variables of CNI.  Reading standard input and running Docker are
  outside; an \<^verbatim>\<open>OSError\<close> is its text.
\<close>

definition DOCKER :: string where
  "DOCKER = ''/usr/bin/docker''"

definition CONTAINER :: string where
  "CONTAINER = ''zun_compute''"

definition PLUGIN :: string where
  "PLUGIN = ''/var/lib/kolla/venv/bin/zun-cni''"

datatype plugin_event =
    WriteOut string
  | WriteError string
  | ReadInput
  | RunDocker "string list" string

type_synonym 'x plugin_world = "(plugin_event, 'x) world"

record 'x plugin_os =
  po_read :: "('x, string + string) outside"
  po_run :: "plugin_event \<Rightarrow> ('x, string + int) outside"

text \<open>\<^verbatim>\<open>os.environ\<close> has every name once; its items are sorted by their names.\<close>

definition cni_items :: "(string, string) dict \<Rightarrow> (string \<times> string) list" where
  "cni_items env = filter (\<lambda>(name, val). prefix ''CNI_'' name) (sort_key fst env)"

definition env_args :: "(string, string) dict \<Rightarrow> string list" where
  "env_args env = concat (map (\<lambda>(name, val). [''--env'', name @ ''='' @ val]) (cni_items env))"

definition docker_command :: "(string, string) dict \<Rightarrow> string list" where
  "docker_command env = [DOCKER, ''exec'', ''--interactive''] @ env_args env @ [CONTAINER, PLUGIN]"

definition VERSION_ANSWER :: string where
  "VERSION_ANSWER =
     ''{'' @ [CHR 0x22] @ ''cniVersion'' @ [CHR 0x22] @ '':'' @ [CHR 0x22] @ ''0.3.1'' @ [CHR 0x22] @ '','' @
     [CHR 0x22] @ ''supportedVersions'' @ [CHR 0x22] @ '':['' @ [CHR 0x22] @ ''0.3.1'' @ [CHR 0x22] @ '']}''"

definition plugin_main :: "'x plugin_os \<Rightarrow> (string, string) dict \<Rightarrow> ('x plugin_world, string, int) io" where
  "plugin_main os env =
     (if dget env ''CNI_COMMAND'' = Some ''VERSION'' then andthen (emit (WriteOut VERSION_ANSWER)) (ret 0)
      else
        try_except
          (bind (outside_call ReadInput (po_read os)) (\<lambda>input.
             let call = RunDocker (docker_command env) input
             in outside_call call (po_run os call)))
          (\<lambda>error. andthen
             (emit (WriteError (''unable to invoke the Zun CNI plugin: '' @ error @ [CHR 0x0A])))
             (ret 127)))"

section \<open>What Docker makes of the command\<close>

text \<open>\<^verbatim>\<open>docker exec [--interactive] [--env NAME=VALUE]... CONTAINER COMMAND\<close>: the variables, the container and the command.\<close>

fun exec_arguments :: "string list \<Rightarrow> (string, string) dict \<times> string list" where
  "exec_arguments (a # arguments) =
     (if a = ''--interactive'' then exec_arguments arguments
      else if a = ''--env'' then
        (case arguments of
           [] \<Rightarrow> ([], [a])
         | v # arguments \<Rightarrow>
             (case exec_arguments arguments of (env, rest) \<Rightarrow>
                ((takeWhile (\<lambda>c. c \<noteq> CHR ''='') v, drop 1 (dropWhile (\<lambda>c. c \<noteq> CHR ''='') v)) # env, rest)))
      else ([], a # arguments))"
| "exec_arguments [] = ([], [])"

lemma env_value_split:
  assumes "CHR ''='' \<notin> set name"
  shows "takeWhile (\<lambda>c. c \<noteq> CHR ''='') (name @ ''='' @ val) = name"
    "drop 1 (dropWhile (\<lambda>c. c \<noteq> CHR ''='') (name @ ''='' @ val)) = val"
  by (subst takeWhile_append2 dropWhile_append2; use assms in auto)+

lemma exec_arguments_env:
  assumes "\<And>name val. (name, val) \<in> set items \<Longrightarrow> CHR ''='' \<notin> set name"
  shows "exec_arguments (concat (map (\<lambda>(name, val). [''--env'', name @ ''='' @ val]) items) @ rest) =
     (case exec_arguments rest of (env, command) \<Rightarrow> (items @ env, command))"
  using assms
proof (induction items)
  case (Cons item items)
  obtain name val where item: "item = (name, val)" by fastforce
  have "CHR ''='' \<notin> set name" using Cons.prems [of name val] item by simp
  moreover have "exec_arguments (concat (map (\<lambda>(name, val). [''--env'', name @ ''='' @ val]) items) @ rest) =
     (case exec_arguments rest of (env, command) \<Rightarrow> (items @ env, command))"
    by (rule Cons.IH) (use Cons.prems in auto)
  ultimately show ?case using env_value_split [of name val] by (simp add: item split: prod.split)
qed (simp split: prod.split)

lemma exec_docker_command:
  assumes "\<And>name. name \<in> set (dkeys env) \<Longrightarrow> CHR ''='' \<notin> set name"
  shows "exec_arguments (drop 2 (docker_command env)) = (cni_items env, [CONTAINER, PLUGIN])"
proof -
  have "CHR ''='' \<notin> set name" if "(name, val) \<in> set (cni_items env)" for name val
    using assms that by (force simp: cni_items_def)
  from exec_arguments_env [of "cni_items env" "[CONTAINER, PLUGIN]", OF this] show ?thesis
    by (simp add: docker_command_def env_args_def CONTAINER_def PLUGIN_def)
qed

text \<open>C37: A command other than \<^verbatim>\<open>VERSION\<close> always returns: Docker runs the plugin in the Zun container with the input that was read and
  with just the variables of CNI, as its command line is read back, and its exit code is the plugin's; or an error is written and the
  code is 127.
\<close>

theorem plugin_runs_with_cni_environment:
  assumes "dget env ''CNI_COMMAND'' \<noteq> Some ''VERSION''" and "distinct (dkeys env)"
    and "\<And>name. name \<in> set (dkeys env) \<Longrightarrow> CHR ''='' \<notin> set name"
  shows "sends (plugin_main os env)
     (\<lambda>code tr.
        (\<exists>command input vars x. tr = [ReadInput, RunDocker ([DOCKER, ''exec''] @ command) input] \<and>
           fst (po_run os (RunDocker ([DOCKER, ''exec''] @ command) input) x) = Inr code \<and>
           exec_arguments command = (vars, [CONTAINER, PLUGIN]) \<and>
           (\<forall>name val. dget vars name = Some val \<longleftrightarrow> dget env name = Some val \<and> prefix ''CNI_'' name)) \<or>
        code = 127 \<and> (\<exists>m. last tr = WriteError m))
     (\<lambda>_ _. False)"
proof -
  let ?command = "drop 2 (docker_command env)"
  have command: "docker_command env = [DOCKER, ''exec''] @ ?command" by (simp add: docker_command_def)
  have parsed: "exec_arguments ?command = (cni_items env, [CONTAINER, PLUGIN])" by (rule exec_docker_command) (rule assms(3))
  have vars: "dget (cni_items env) name = Some val \<longleftrightarrow> dget env name = Some val \<and> prefix ''CNI_'' name" for name val
  proof -
    have "distinct (dkeys (sort_key fst env))"
      by (rule card_distinct) (use distinct_card [OF assms(2)] in simp)
    then have "distinct (dkeys (cni_items env))" by (simp add: cni_items_def distinct_map_filter)
    then show ?thesis using assms(2) by (auto simp: cni_items_def)
  qed
  show ?thesis
    unfolding plugin_main_def if_not_P [OF assms(1)] Let_def
    by (intro sends_try_except sends_bind sends_outside_call sends_andthen sends_emit sends_ret)
      (use command parsed vars in \<open>auto 0 3\<close>)
qed

definition demo_os :: "unit plugin_os" where
  "demo_os = \<lparr>po_read = (\<lambda>x. (Inr ''{}'', 0, x)), po_run = (\<lambda>_ x. (Inr 3, 0, x))\<rparr>"

definition demo_env :: "(string, string) dict" where
  "demo_env = [(''PATH'', ''/bin''), (''CNI_NETNS'', ''/n=1''), (''CNI_COMMAND'', ''ADD'')]"

theorem plugin_runs_with_cni_environment_witness:
  "\<exists>code w1. plugin_main demo_os demo_env \<lparr>clock = 0, trace = [], ext = ()\<rparr> = Some (Inr code, w1) \<and>
     (code = 3 \<or> code = 127) \<and>
     docker_command demo_env = [''/usr/bin/docker'', ''exec'', ''--interactive'', ''--env'', ''CNI_COMMAND=ADD'',
       ''--env'', ''CNI_NETNS=/n=1'', ''zun_compute'', ''/var/lib/kolla/venv/bin/zun-cni'']"
proof -
  have command: "dget demo_env ''CNI_COMMAND'' \<noteq> Some ''VERSION''" and "distinct": "distinct (dkeys demo_env)" by code_simp+
  have names: "CHR ''='' \<notin> set name" if "name \<in> set (dkeys demo_env)" for name
    using that by (auto simp: demo_env_def)
  have docker: "docker_command demo_env = [''/usr/bin/docker'', ''exec'', ''--interactive'', ''--env'', ''CNI_COMMAND=ADD'',
       ''--env'', ''CNI_NETNS=/n=1'', ''zun_compute'', ''/var/lib/kolla/venv/bin/zun-cni'']" by code_simp
  from plugin_runs_with_cni_environment [OF command "distinct" names, where os = demo_os]
  have "sends (plugin_main demo_os demo_env) (\<lambda>code tr. code = 3 \<or> code = 127) (\<lambda>_ _. False)"
    by (rule sends_mono) (auto simp: demo_os_def)
  from this [unfolded sends_def, THEN spec, of "\<lparr>clock = 0, trace = [], ext = ()\<rparr>"] obtain r w1 where
    "plugin_main demo_os demo_env \<lparr>clock = 0, trace = [], ext = ()\<rparr> = Some (r, w1)"
    "case r of Inl _ \<Rightarrow> False | Inr code \<Rightarrow> code = 3 \<or> code = 127" by auto
  with docker show ?thesis by (cases r) auto
qed

end
