(* ===== verification/Collector.thy ===== *)
theory Collector
  imports Json
begin

text \<open>
  The metrics exporter \<^verbatim>\<open>custom_exporter/code/collector.py\<close>: every round reads the files of a directory, each a JSON
  object of metrics, and sets a gauge for each metric.  The lists of names and gauges are the state; which names a gauge
  may have and which values it takes is up to the Prometheus client, a parameter.  An exception ends the exporter.
\<close>

record gauge =
  gauge_name :: string
  gauge_help :: string
  gauge_value :: real

record collector =
  metric_list :: "string list"
  metric_object_list :: "gauge list"

record prometheus =
  pr_valid :: "string \<Rightarrow> bool"
  pr_float :: "pyval \<Rightarrow> real option"

definition script_dir :: string where
  "script_dir = ''/tmp/custom_metrics''"

definition list_index :: "'a \<Rightarrow> 'a list \<Rightarrow> nat" where
  "list_index x xs = length (takeWhile (\<lambda>y. y \<noteq> x) xs)"

fun fold_sum :: "('a \<Rightarrow> 's \<Rightarrow> 'e + 's) \<Rightarrow> 'a list \<Rightarrow> 's \<Rightarrow> 'e + 's" where
  "fold_sum f [] s = Inr s"
| "fold_sum f (x # xs) s = (case f x s of Inl e \<Rightarrow> Inl e | Inr s1 \<Rightarrow> fold_sum f xs s1)"

text \<open>\<^verbatim>\<open>metric_object_list[index].set(value)\<close>, and the index and lists before it.\<close>

definition set_gauge :: "prometheus \<Rightarrow> nat \<Rightarrow> pyval \<Rightarrow> collector \<Rightarrow> string + collector" where
  "set_gauge lib index val c =
     (case pr_float lib val of
        None \<Rightarrow> Inl ''value is not a number''
      | Some v \<Rightarrow> Inr (c\<lparr>metric_object_list :=
          (metric_object_list c)[index := (metric_object_list c ! index)\<lparr>gauge_value := v\<rparr>]\<rparr>))"

definition set_metric :: "prometheus \<Rightarrow> string \<Rightarrow> string \<times> pyval \<Rightarrow> collector \<Rightarrow> string + collector" where
  "set_metric lib path item c =
     (case item of (metric, val) \<Rightarrow>
        if metric \<in> set (metric_list c) then set_gauge lib (list_index metric (metric_list c)) val c
        else if \<not> pr_valid lib metric then Inl ''invalid metric name''
        else
          let c = \<lparr>metric_list = metric_list c @ [metric],
                   metric_object_list = metric_object_list c @
                     [\<lparr>gauge_name = metric, gauge_help = ''Custom metric in file '' @ path, gauge_value = 0\<rparr>]\<rparr>
          in set_gauge lib (length (metric_object_list c) - 1) val c)"

definition parse_metrics ::
  "(string \<Rightarrow> string) \<Rightarrow> prometheus \<Rightarrow> string \<times> string \<Rightarrow> collector \<Rightarrow> string + collector" where
  "parse_metrics float_repr lib file c =
     (case file of (path, contents) \<Rightarrow>
        case json_loads float_repr contents of
          None \<Rightarrow> Inl ''JSONDecodeError''
        | Some (PDict items) \<Rightarrow> fold_sum (set_metric lib path) items c
        | Some _ \<Rightarrow> Inl ''AttributeError'')"

text \<open>A round of the endless loop over the files of the directory, as their names with what \<^verbatim>\<open>read\<close> gives.\<close>

definition collect_round ::
  "(string \<Rightarrow> string) \<Rightarrow> prometheus \<Rightarrow> (string \<times> (string + string)) list \<Rightarrow> collector \<Rightarrow> string + collector" where
  "collect_round float_repr lib files =
     fold_sum (\<lambda>(file, contents) c.
        case contents of
          Inl e \<Rightarrow> Inl e
        | Inr text \<Rightarrow> parse_metrics float_repr lib (script_dir @ ''/'' @ file, text) c) files"

section \<open>What the exporter shows\<close>

definition shown :: "collector \<Rightarrow> (string, real) dict" where
  "shown c = map (\<lambda>g. (gauge_name g, gauge_value g)) (metric_object_list c)"

definition aligned :: "collector \<Rightarrow> bool" where
  "aligned c \<longleftrightarrow> map gauge_name (metric_object_list c) = metric_list c \<and> distinct (metric_list c)"

text \<open>The specification: the metrics of all files that were read, as one dictionary.\<close>

fun file_items :: "(string \<Rightarrow> string) \<Rightarrow> string \<times> (string + string) \<Rightarrow> (string \<times> pyval) list" where
  "file_items float_repr (file, Inl e) = []"
| "file_items float_repr (file, Inr text) =
     (case json_loads float_repr text of Some (PDict items) \<Rightarrow> items | _ \<Rightarrow> [])"

definition note_metric :: "prometheus \<Rightarrow> (string, real) dict \<Rightarrow> string \<times> pyval \<Rightarrow> (string, real) dict" where
  "note_metric lib d item = (case pr_float lib (snd item) of Some v \<Rightarrow> dset (fst item) v d | None \<Rightarrow> d)"

definition implements :: "prometheus \<Rightarrow> (string \<times> pyval) list \<Rightarrow> collector \<Rightarrow> collector \<Rightarrow> bool" where
  "implements lib items c c1 \<longleftrightarrow> (aligned c \<longrightarrow> aligned c1 \<and> shown c1 = foldl (note_metric lib) (shown c) items)"

lemma fold_sum_implements:
  assumes "\<And>x s s1. x \<in> set xs \<Longrightarrow> f x s = Inr s1 \<Longrightarrow> implements lib (g x) s s1" and "fold_sum f xs s = Inr s1"
  shows "implements lib (concat (map g xs)) s s1"
  using assms
proof (induction xs arbitrary: s)
  case (Cons x xs)
  then obtain s2 where "f x s = Inr s2" "fold_sum f xs s2 = Inr s1" by (auto split: sum.splits)
  moreover from this have "implements lib (concat (map g xs)) s2 s1" by (intro Cons.IH Cons.prems(1)) auto
  moreover from calculation have "implements lib (g x) s s2" by (intro Cons.prems(1)) auto
  ultimately show ?case by (simp add: implements_def)
qed (simp add: implements_def)

lemma list_index_less: "x \<in> set xs \<Longrightarrow> list_index x xs < length xs"
  unfolding list_index_def by (induction xs) auto

lemma dset_shown:
  assumes "list_index m (map gauge_name gs) < length gs"
  shows "map (\<lambda>g. (gauge_name g, gauge_value g)) (gs[list_index m (map gauge_name gs) :=
      (gs ! list_index m (map gauge_name gs))\<lparr>gauge_value := v\<rparr>]) =
    dset m v (map (\<lambda>g. (gauge_name g, gauge_value g)) gs)"
  using assms by (induction gs) (auto simp: list_index_def dset_def)

lemma dset_append: "m \<notin> set (dkeys d) \<Longrightarrow> dset m v d = d @ [(m, v)]"
  unfolding dset_def by (induction d) auto

lemma set_metric_implements:
  assumes "set_metric lib path (m, val) c = Inr c1"
  shows "implements lib [(m, val)] c c1"
proof (cases "m \<in> set (metric_list c)")
  case True
  let ?i = "list_index m (metric_list c)"
  obtain v where v: "pr_float lib val = Some v" and c1: "c1 = c\<lparr>metric_object_list :=
      (metric_object_list c)[?i := (metric_object_list c ! ?i)\<lparr>gauge_value := v\<rparr>]\<rparr>"
    using assms True by (auto simp: set_metric_def set_gauge_def split: option.splits)
  show ?thesis
    unfolding implements_def
  proof
    assume a: "aligned c"
    then have names: "metric_list c = map gauge_name (metric_object_list c)" and "distinct (metric_list c)"
      by (simp_all add: aligned_def)
    moreover have bound: "?i < length (metric_object_list c)"
      using list_index_less [OF True] arg_cong [OF names, of length] by simp
    moreover have "map gauge_name (metric_object_list c1) = map gauge_name (metric_object_list c)"
      using bound by (simp add: c1 map_update) (metis list_update_id map_update nth_map)
    moreover have "shown c1 = dset m v (shown c)"
      using dset_shown [of m "metric_object_list c" v] bound by (simp add: shown_def c1 names)
    ultimately show "aligned c1 \<and> shown c1 = foldl (note_metric lib) (shown c) [(m, val)]"
      by (simp add: aligned_def note_metric_def v) (simp add: c1)
  qed
next
  case False
  then obtain v where v: "pr_float lib val = Some v" and c1: "c1 = \<lparr>metric_list = metric_list c @ [m],
      metric_object_list = metric_object_list c @
        [\<lparr>gauge_name = m, gauge_help = ''Custom metric in file '' @ path, gauge_value = v\<rparr>]\<rparr>"
    using assms by (auto simp: set_metric_def set_gauge_def Let_def split: option.splits if_splits)
  have "shown c1 = dset m v (shown c)" if "map gauge_name (metric_object_list c) = metric_list c"
    using False dset_append [of m "shown c" v] by (simp add: shown_def c1 comp_def that)
  with False show ?thesis by (simp add: implements_def aligned_def note_metric_def v) (simp add: c1)
qed

text \<open>C38: As long as the exporter runs, its gauges are those of a dictionary of all metrics in the order in which they were first
  read, each with the value it was last given: every metric has one gauge, and the two lists stay in step.
\<close>

theorem exporter_shows_last_values:
  assumes "fold_sum (collect_round float_repr lib) rounds \<lparr>metric_list = [], metric_object_list = []\<rparr> = Inr c"
  shows "shown c = foldl (note_metric lib) [] (concat (map (\<lambda>files. concat (map (file_items float_repr) files)) rounds)) \<and>
     metric_list c = dkeys (shown c) \<and> distinct (metric_list c)"
proof -
  have one_file: "implements lib (file_items float_repr f) c c1"
    if run: "(case f of (name, Inl e) \<Rightarrow> Inl e | (name, Inr text) \<Rightarrow> parse_metrics float_repr lib (script_dir @ ''/'' @ name, text) c) = Inr c1"
    for f c c1
  proof -
    obtain name contents items where f: "f = (name, Inr contents)" "json_loads float_repr contents = Some (PDict items)"
      "fold_sum (set_metric lib (script_dir @ ''/'' @ name)) items c = Inr c1"
      using run by (cases f; cases "snd f") (auto simp: parse_metrics_def split: option.splits pyval.splits)
    have "implements lib (concat (map (\<lambda>x. [x]) items)) c c1"
      by (rule fold_sum_implements [OF _ f(3)]) (auto intro: set_metric_implements)
    then show ?thesis using f(2) by (simp add: f(1))
  qed
  have one_round: "implements lib (concat (map (file_items float_repr) files)) c c1"
    if "collect_round float_repr lib files c = Inr c1" for files c c1
    using that unfolding collect_round_def
    by (elim fold_sum_implements [rotated]) (auto intro!: one_file split: prod.splits)
  have "implements lib (concat (map (\<lambda>files. concat (map (file_items float_repr) files)) rounds))
      \<lparr>metric_list = [], metric_object_list = []\<rparr> c"
    using one_round by (rule fold_sum_implements [OF _ assms])
  moreover have "dkeys (shown c) = map gauge_name (metric_object_list c)" by (simp add: shown_def comp_def)
  ultimately show ?thesis by (auto simp: implements_def aligned_def shown_def)
qed

definition demo_prometheus :: prometheus where
  "demo_prometheus =
     \<lparr>pr_valid = (\<lambda>name. CHR '' '' \<notin> set name),
      pr_float = (\<lambda>v. case v of PInt i \<Rightarrow> Some (of_int i) | _ \<Rightarrow> None)\<rparr>"

definition demo_rounds :: "(string \<times> (string + string)) list list" where
  "demo_rounds =
     (let quote = [CHR 0x22]
      in [[(''a.json'', Inr (''{'' @ quote @ ''up'' @ quote @ '':1,'' @ quote @ ''load'' @ quote @ '':7}''))],
          [(''b.json'', Inr (''{'' @ quote @ ''up'' @ quote @ '':0}''))]])"

theorem exporter_shows_last_values_witness:
  "\<exists>c. fold_sum (collect_round (\<lambda>t. t) demo_prometheus) demo_rounds \<lparr>metric_list = [], metric_object_list = []\<rparr> = Inr c \<and>
     shown c = [(''up'', 0), (''load'', 7)] \<and> metric_list c = dkeys (shown c)"
proof -
  have "\<not> isl (fold_sum (collect_round (\<lambda>t. t) demo_prometheus) demo_rounds \<lparr>metric_list = [], metric_object_list = []\<rparr>)"
    by code_simp
  then obtain c where run:
    "fold_sum (collect_round (\<lambda>t. t) demo_prometheus) demo_rounds \<lparr>metric_list = [], metric_object_list = []\<rparr> = Inr c"
    by (auto simp: isl_def split: sum.splits) (metis sum.exhaust)
  have "foldl (note_metric demo_prometheus) []
      (concat (map (\<lambda>files. concat (map (file_items (\<lambda>t. t)) files)) demo_rounds)) = [(''up'', 0), (''load'', 7)]"
    by code_simp
  with exporter_shows_last_values [OF run] run show ?thesis by auto
qed

end
