(* ===== verification/Spec2Isabelle.thy ===== *)
theory Spec2Isabelle
  imports DeleteMain InvMain JsonRound TroveShrink TroveCreate TroveTask GuestTopology CapsuleOps CapsuleLb ContainerdOps PatchOps CapsulePollOps
    CapsuleStats CriChannel Freezer CniPlugin Collector
begin

text \<open>
  Verification of the Python programs of the Yggdrasil repository, which deploys an OpenStack cloud: all paths
  below are under \<^verbatim>\<open>src/scripts\<close> unless they say otherwise.

  \<^bold>\<open>The programs.\<close>
  \<^item> \<^verbatim>\<open>openstack/list-project-resources.py\<close> finds every resource of a project and prints a report;
    \<^verbatim>\<open>openstack/delete-project-resources.py\<close> reads such a report, or runs the first program to get one, makes an
    ordered deletion plan and executes it.  The report is the interface of the two.
  \<^item> \<^verbatim>\<open>openstack/trove-mongodb\<close> adds MongoDB replica sets and sharded clusters to Trove: \<^verbatim>\<open>controller/api.py\<close> takes the
    requests, \<^verbatim>\<open>controller/taskmanager.py\<close> builds the clusters through the calls of \<^verbatim>\<open>controller/guestagent.py\<close>, and
    \<^verbatim>\<open>manager.py\<close> and \<^verbatim>\<open>service.py\<close> answer these on the guest.
  \<^item> \<^verbatim>\<open>kolla-ansible/senlin-images/zun-capsule-profile\<close> lets Senlin manage Zun capsules (\<^verbatim>\<open>capsule.py\<close>) and put them
    behind Octavia (\<^verbatim>\<open>capsule_loadbalance.py\<close>); \<^verbatim>\<open>kolla-ansible/ceilometer-zun-capsule\<close> (\<^verbatim>\<open>cpu.py\<close>) meters them,
    and finds a Senlin cluster by the labels that the profile wrote.
  \<^item> The patch scripts \<^verbatim>\<open>kolla-ansible/**/patch-*.py\<close> edit files of Zun, Ceilometer and Mistral when the images are built;
    \<^verbatim>\<open>devices/configure_containerd_cri.py\<close> edits the configuration of containerd and restarts it.
  \<^item> \<^verbatim>\<open>kolla-ansible/freezer-images\<close> (entry points of Freezer), \<^verbatim>\<open>devices/zun_cni_container_plugin.py\<close> (CNI plugin) and
    \<^verbatim>\<open>src/custom_exporter/code/collector.py\<close> (metrics exporter) stand alone.

  \<^bold>\<open>The common theories.\<close>
  \<^item> \<open>Prelude\<close>: effectful computations with exceptions, their weakest preconditions, the log of effects, the
    polling loop, Python's dictionaries, stable sorting.  A computation maps a world (clock, log, and the
    unknown state of the services) to a result and a new world; \<open>None\<close> is not returning.  \<open>EventLog\<close>: \<open>sends m Q E\<close>, what a
    computation that always returns appends to the log.
  \<^item> \<open>PyText\<close>, \<open>PyValue\<close>, \<open>Json\<close>, \<open>PyRegex\<close>, \<open>PyUrl\<close>: the string methods, values, JSON functions, regular
    expressions and \<^verbatim>\<open>urllib.parse\<close> functions of Python that the programs use.  \<open>JsonRound\<close>: what \<^verbatim>\<open>json.dumps\<close> prints,
    \<^verbatim>\<open>json.loads\<close> reads back.  Strings are the UTF-8 bytes of the text, so case folding is that of ASCII.

  \<^bold>\<open>The theories of the programs.\<close>
  \<^item> \<open>DeletePlan\<close>: the tables and \<open>plan_deletions\<close> (the order respects the dependencies, nothing is lost or made
    up); \<open>DeleteExec\<close>: \<open>execute_plan\<close>, the commands, the waiting for Heat stacks and Senlin resources;
    \<open>DeleteMain\<close>: the entry point with its refusals and exit codes.
  \<^item> \<open>InvEndpoints\<close>: endpoint discovery and selection; \<open>InvResources\<close>: the rules on resources (skipped names,
    ownership, serialisation); \<open>InvBuiltin\<close> and \<open>InvLegacy\<close>: the two kinds of provider; \<open>InvMain\<close>: the
    inventory, the table and the entry point.
  \<^item> \<open>TroveWorld\<close>: the calls of Trove and of the guests as events; \<open>TroveTopology\<close>: \<^verbatim>\<open>controller/api.py\<close>;
    \<open>TroveShrink\<close> and \<open>TroveCreate\<close>: the properties of its operations (which rows and instances exist afterwards, which
    quorum stays, when the task status is reset); \<open>TroveTask\<close>: \<^verbatim>\<open>controller/taskmanager.py\<close> under its timer.
  \<^item> \<open>MongoConfig\<close>: the configuration of the guest; \<open>MongoGuest\<close>: \<^verbatim>\<open>MongoDbApp\<close> of \<^verbatim>\<open>service.py\<close> and the manager;
    \<open>GuestTopology\<close>: election, removal of members, the roles of containers and the metadata over a restart.
  \<^item> \<open>Capsule\<close> and \<open>CapsuleOps\<close>: the profile and what its operations guarantee (creation ends ready or rolled back, deletion
    is confirmed); \<open>CapsuleLb\<close>: the load balancing policy.
  \<^item> \<open>Containerd\<close> and \<open>ContainerdOps\<close>: only a validated configuration is installed, and what the edit makes of a
    configuration.
  \<^item> \<open>SourcePatch\<close>: replacing and counting in texts, files, and the locale \<open>rerun_safe\<close> of edits that may run again;
    \<open>ZunPatch\<close> and \<open>CeilPatch\<close>: the eight patch scripts with their texts; \<open>PatchOps\<close>: their instances of the locale, and the two
    CRI patches in a row.  \<open>CriChannel\<close> and \<open>CapsuleStats\<close>: the class and the methods that the patches put into Zun.
  \<^item> \<open>CapsulePoll\<close> and \<open>CapsulePollOps\<close>: the pollster, whose requests stay at the endpoint and whose samples are
    those of a plain listing.
  \<^item> \<open>Freezer\<close>, \<open>CniPlugin\<close>, \<open>Collector\<close>: the programs that stand alone.
  \<^item> This theory: the properties between programs, from the inventory to the deletion, from the roles that the Trove API assigns to
    the servers of the guests, and from the labels of Senlin to the meter of Ceilometer.

  \<^bold>\<open>What is outside.\<close>  The OpenStack CLI, SDKs, legacy clients and services, Trove's models, Docker, containerd,
  mongosh, Prometheus, the HTTP session, files, processes, the environment and the clock are parameters (records such as \<open>cloud\<close>,
  \<open>openstack\<close>, \<open>sdk\<close>, \<open>clients\<close>, \<open>plugin_os\<close>): functions of an unknown state that may answer or raise anything, each call a
  logged event.  The theorems hold for all of them, but for hypotheses that they name.  Floats that the programs
  compute with are real numbers.

  \<^bold>\<open>Loops.\<close>  The polling loops are the partial function \<open>poll\<close>, and that they end is proved for a positive
  polling interval: a deadline \<open>t\<close> and a pause \<open>p\<close> give at most \<open>t / p\<close> rounds and one more (\<open>wp_poll_counted\<close>), for example 150 questions after
  a capsule that is being deleted.  The loop over the pages of capsules is the partial function \<open>pages\<close>, as a service may name pages
  without end; \<open>pages_upto\<close> is the same with a bound, and \<open>pages_upto_returns\<close> shows that some bound suffices whenever the
  loop ends.  The loop over the nested resources has a bound, the number
  of nested resources, and \<open>nested_rounds_suffice\<close> shows that a larger one changes nothing.  The endless loop of the
  exporter is a list of rounds.

  \<^bold>\<open>Not modelled.\<close>  The parsing of command lines by argparse (the records \<open>arguments\<close>, \<open>inv_arguments\<close> and those of the patches
  are its results), the suppression of log records, the text of exceptions that come from outside, locks between threads, the views of the Trove
  controller, packaging (\<^verbatim>\<open>setup.py\<close>), tests, and everything that is not Python: the shell scripts, playbooks and templates.
  \<^verbatim>\<open>cephadm/test_pools.py\<close> is a test of a shell script.
\<close>

section \<open>From the inventory to the deletion\<close>

definition error_objects :: "pyval list \<Rightarrow> bool" where
  "error_objects es \<longleftrightarrow> (\<forall>e \<in> set es. is_mapping e \<and> truthy e)"

lemma inventory_report_wp:
  fixes w :: "'x iworld"
  shows "wp (inventory o1 es conn project strict)
    (\<lambda>report _. \<exists>eps st. report = report_of eps project st \<and> error_objects (v_errors st)) (\<lambda>_ _. True) w"
proof -
  let ?es = "filter (\<lambda>e. \<not> is_ignored_endpoint e) es"
  let ?I = "\<lambda>st _ :: 'x iworld. error_objects (v_errors st)"
  have one: "wp (inventory_endpoint o1 project strict ep st) ?I (\<lambda>_ _. True) w1"
    if st: "error_objects (v_errors st)" for ep st and w1 :: "'x iworld"
  proof (cases ep)
    case (Pair e p)
    show ?thesis
      unfolding inventory_endpoint_def Pair prod.case Let_def wp_bind wp_try_except
      by (rule wp_mono [OF collect_from_wp])
        (use st in \<open>auto simp: wp_simps error_objects_def report_issue_def\<close>)
  qed
  have last: "wp (bind (fold_io (inventory_endpoint o1 project strict) ps
        \<lparr>v_resources = [], v_metadata = [],
         v_errors = map (\<lambda>(s, text). report_issue s ''(client)'' ''inventory'' text) problems\<rparr>)
        (\<lambda>st. ret (report_of ?es project st)))
      (\<lambda>report _. \<exists>eps st. report = report_of eps project st \<and> error_objects (v_errors st))
      (\<lambda>_ _. True) w1" for ps problems and w1 :: "'x iworld"
    unfolding wp_bind wp_ret
    by (rule wp_mono [OF wp_fold_io_inv [where I = ?I, OF _ one]])
      (auto simp: error_objects_def report_issue_def)
  show ?thesis
    unfolding inventory_def Let_def wp_bind
  proof (rule wp_any [OF steps_as_project_connection])
    fix target :: connection and w1 :: "'x iworld"
    show "wp (fold_io (preflight o1 conn target) ?es ([], []))
      (\<lambda>a. wp (case a of (providers, problems) \<Rightarrow>
          if problems \<noteq> [] \<and> strict then raise_exn (InventoryError (preflight_message problems))
          else bind (fold_io (inventory_endpoint o1 project strict) providers
             \<lparr>v_resources = [], v_metadata = [],
              v_errors = map (\<lambda>(s, text). report_issue s ''(client)'' ''inventory'' text) problems\<rparr>)
            (\<lambda>st. ret (report_of ?es project st)))
          (\<lambda>report _. \<exists>eps st. report = report_of eps project st \<and> error_objects (v_errors st))
          (\<lambda>_ _. True)) (\<lambda>_ _. True) w1"
      by (rule wp_mono [OF preflight_wp])
        (auto simp: wp_raise last split: prod.split)
  qed
qed

lemma sort_keys_mapping: "is_mapping v \<Longrightarrow> truthy (sort_keys v) = truthy v"
  by (cases v) (simp_all add: sort_keys_items_map sort_key_Nil)

lemma report_keys: "distinct (map fst (report_of eps project st))"
  by (simp add: report_of_def)

lemma shown_keys: "distinct (map fst (shown_report hide (report_of eps project st)))"
  by (simp add: report_of_def shown_report_def)

text \<open>The report as the deleter reads it.\<close>

definition read_report :: "bool \<Rightarrow> pydict \<Rightarrow> pydict" where
  "read_report hide report = sort_key fst (sort_keys_items (shown_report hide report))"

lemma read_errors:
  assumes "error_objects (v_errors st)"
  shows "report_error_details (read_report hide (report_of eps project st)) = [] \<longleftrightarrow>
    hide \<or> v_errors st = []"
proof -
  have get: "dget (read_report hide (report_of eps project st)) ''errors'' =
      (if hide then None else Some (PList (map sort_keys (v_errors st))))"
    unfolding read_report_def sorted_get [OF shown_keys]
    by (simp add: shown_report_def report_of_def sort_keys_list_map)
  have "filter truthy (map sort_keys (v_errors st)) = map sort_keys (v_errors st)"
    using assms by (auto simp: error_objects_def filter_id_conv sort_keys_mapping)
  then show ?thesis
    by (simp add: report_error_details_def vget_or_def get)
qed

lemma read_services:
  "report_services (read_report hide (report_of eps project st)) = fst ` set (v_resources st)"
proof -
  have "dget (read_report hide (report_of eps project st)) ''resources'' =
      Some (PDict (sort_key fst (sort_keys_items (map (\<lambda>(s, res). (s, results_value res)) (v_resources st)))))"
    unfolding read_report_def sorted_get [OF shown_keys]
    by (simp add: shown_report_def report_of_def)
  then show ?thesis
    by (simp add: report_services_def vget_def items_of_def sort_keys_items_map image_image
        case_prod_beta)
qed


section \<open>An example: an endpoint without a client, its error hidden\<close>

definition demo_connection :: connection where
  "demo_connection = \<lparr>session = PNone, current_project_id = PNone\<rparr>"

definition demo_project :: Project where
  "demo_project = \<lparr>project_id = ''p1'', project_name = ''demo'', project_raw = PNone\<rparr>"

definition demo_inventory_report :: pydict where
  "demo_inventory_report =
     report_of [demo_endpoint ''volumev3'' ''public'' ''u3''] demo_project
       \<lparr>v_resources = [], v_metadata = [],
        v_errors = [report_issue ''block-storage'' ''(client)'' ''inventory''
          (''block-storage (volumev3, u3): ''
             @ no_provider_message (demo_endpoint ''volumev3'' ''public'' ''u3''))]\<rparr>"

lemma no_generic_classes:
  "generic_client_classes (client_packages demo_openstack) (types_project demo_openstack) e = []"
proof -
  have none: "concat (map (\<lambda>_. [] :: (string \<times> string) list) xs) = []" for xs :: "string list"
    by (induction xs) simp_all
  show ?thesis
    by (simp add: generic_client_classes_def demo_openstack_def dedupe_def first_by_def none)
qed

lemma demo_inventory:
  "inventory demo_openstack [demo_endpoint ''volumev3'' ''public'' ''u3''] demo_connection demo_project
     False \<lparr>clock = 0, trace = [], ext = ()\<rparr> =
   Some (Inr demo_inventory_report, \<lparr>clock = 0, trace = [ConnectAs ''p1''], ext = ()\<rparr>)"
proof -
  have ignored: "\<not> is_ignored_endpoint (demo_endpoint ''volumev3'' ''public'' ''u3'')" by code_simp
  have connected: "as_project_connection demo_openstack demo_connection demo_project
      \<lparr>clock = 0, trace = [], ext = ()\<rparr> =
    Some (Inr demo_connection, \<lparr>clock = 0, trace = [ConnectAs ''p1''], ext = ()\<rparr>)"
    by (simp add: as_project_connection_def connection_as_project_def demo_openstack_def
        demo_connection_def demo_project_def text_of_def io_defs outside_call_def Let_def)
  have resolved: "resolve_provider demo_openstack e conn =
      raise_exn (UnsupportedClientError (no_provider_message e))" for e conn
    unfolding resolve_provider_def Let_def no_generic_classes
    by (simp add: demo_openstack_def best_module_def Let_def)
  show ?thesis
    using ignored
    by (simp add: inventory_def bind_def connected preflight_def resolved Let_def ret_def
        demo_inventory_report_def demo_endpoint_def)
qed

lemma demo_plain: "plain_value (PDict (shown_report hide demo_inventory_report))"
proof -
  have "plain_value (PDict (shown_report True demo_inventory_report))"
    "plain_value (PDict (shown_report False demo_inventory_report))" by code_simp+
  then show ?thesis by (cases hide) simp_all
qed


section \<open>The controller and the guests\<close>

text \<open>C23: The configurations that the API gives the instances of a cluster make the guests run the processes of
  the topology: the members of a shard form its replica set as a shard server, the config servers form
  theirs, a query router is a server of its own until it is given config servers, and then \<^verbatim>\<open>mongos\<close> over
  the replica set that the config servers run.\<close>

theorem cluster_roles:
  "server_command conf (shard_member_config cid shard (replica_set_name n)) =
     server_command conf [] @ [''--replSet'', replica_set_name n, ''--shardsvr''] \<and>
   server_command conf (replica_config cid) = server_command conf [] @ [''--replSet'', REPLICA_SET_NAME] \<and>
   server_command conf (config_server_config cid) =
     server_command conf [] @ [''--replSet'', CONFIG_SERVER_REPLICA_SET_NAME, ''--configsvr''] \<and>
   server_command conf (query_router_config cid) = server_command conf [] \<and>
   hd (server_command conf []) = ''mongod'' \<and>
   server_command conf (with_config_servers (h # hs) (query_router_config cid)) =
     [''mongos'', ''--configdb'', CONFIG_SERVER_REPLICA_SET_NAME @ ''/'' @ join '','' (h # hs),
      ''--bind_ip_all'', ''--port'', show_int (g_port conf)]"
proof -
  have hosts: "config_server_hosts (with_config_servers (h # hs) (query_router_config cid)) = h # hs"
    and mongos: "runs_mongos (with_config_servers (h # hs) (query_router_config cid))"
    and rs: "config_server_replica_set (with_config_servers (h # hs) (query_router_config cid)) =
        CONFIG_SERVER_REPLICA_SET_NAME"
    using configured_router [of "query_router_config cid" "h # hs"]
    by (simp_all add: is_router_def instance_type_def query_router_config_def vget_or_def
        config_server_replica_set_def)
  have "replica_set_name n \<noteq> []" "REPLICA_SET_NAME \<noteq> []" "CONFIG_SERVER_REPLICA_SET_NAME \<noteq> []"
    by (simp_all add: replica_set_name_def REPLICA_SET_NAME_def CONFIG_SERVER_REPLICA_SET_NAME_def)
  then show ?thesis
    unfolding server_command_def [of conf "with_config_servers (h # hs) (query_router_config cid)"] hosts rs
    using mongos
    by (simp add: server_command_def shard_member_config_def replica_config_def config_server_config_def
        query_router_config_def runs_mongos_def is_router_def instance_type_def vget_or_def
        get_replica_set_name_def config_server_hosts_def SHARDED_TOPOLOGY_def)
qed

section \<open>The capsules and their meter\<close>

text \<open>C32: The labels that the Senlin profile gives a capsule are those by which the pollster finds it: a capsule of a node
  whose usage can be read has one sample, with the cluster and the node of the profile in the name of its
  resource; and the patched Gnocchi mapping has the pollster's meter and stores that name.\<close>

theorem senlin_labels_reach_meter:
  assumes "make_metadata node metadata = Inr m" and "identity node = (cluster, member)"
    and "cluster \<noteq> []" and "member \<noteq> []"
    and "vget capsule ''meta_labels'' = vget m ''labels''" and "vget capsule ''uuid'' = PStr uuid" and "uuid \<noteq> []"
    and "cpu_at conf answer base_url (PStr uuid) \<noteq> PNone"
  shows "(\<exists>s. sample_of conf answer base_url (PDict capsule) = [s] \<and> s_resource_id s = PStr uuid \<and>
      s_volume s = cpu_at conf answer base_url (PStr uuid) \<and>
      s_senlin_resource_id s = RESOURCE_ID_PREFIX @ cluster @ ''_'' @ member) \<and>
    contains METER_NAME METER_DEFINITION \<and> contains ''resource_metadata.yggdrasil_senlin_resource_id'' METER_DEFINITION"
proof -
  from assms(1) obtain labels where labels: "vget m ''labels'' = PDict (dupdate labels (node_labels node))"
    by (auto simp: make_metadata_def vget_def Let_def dict_simps split: pyval.splits if_splits)
  let ?l = "dupdate labels (node_labels node)"
  have ids: "vget ?l ''yggdrasil_senlin_cluster_id'' = PStr cluster" "vget ?l ''yggdrasil_senlin_node_id'' = PStr member"
    using assms(2) by (simp_all add: vget_def dupdate_labels)
  then have "?l \<noteq> []" by auto
  with assms(5) labels have own: "capsule_labels capsule = PDict ?l" by (simp add: capsule_labels_def py_or_def)
  have mapping: "contains METER_NAME METER_DEFINITION" "contains ''resource_metadata.yggdrasil_senlin_resource_id'' METER_DEFINITION"
    unfolding METER_NAME_def by (rule contains_line [OF METER_DEFINITION_def], code_simp)+
  show ?thesis
    using assms(3,4,6-8) ids mapping by (simp add: sample_of_def own py_or_def Let_def capsule_sample_def)
qed

theorem senlin_labels_reach_meter_witness:
  "\<exists>s. sample_of demo_poll_conf demo_answer (base_of ''http://zun/v1/'')
      (PDict [(''uuid'', PStr ''a''), (''meta_labels'', PDict (node_labels (demo_capsule_node\<lparr>n_cluster_id := PStr ''c''\<rparr>)))]) = [s] \<and>
     s_resource_id s = PStr ''a''"
proof -
  let ?node = "demo_capsule_node\<lparr>n_cluster_id := PStr ''c''\<rparr>"
  have m: "make_metadata ?node [] = Inr [(''labels'', PDict (node_labels ?node)), (''name'', PStr ''node-1'')]"
    by code_simp
  obtain cluster member where id: "identity ?node = (cluster, member)" by fastforce
  have "fst (identity ?node) \<noteq> []" "snd (identity ?node) \<noteq> []" by code_simp+
  with id have ids: "cluster \<noteq> []" "member \<noteq> []" by simp_all
  have cpu: "cpu_at demo_poll_conf demo_answer (base_of ''http://zun/v1/'') (PStr ''a'') \<noteq> PNone" by code_simp
  show ?thesis
    using senlin_labels_reach_meter [OF m id ids, of "[(''uuid'', PStr ''a''), (''meta_labels'', PDict (node_labels ?node))]"
        "''a''", OF _ _ _ cpu] by auto
qed

end
